(* ===== verification/Prelude.thy ===== *)
theory Prelude
  imports Main "HOL-Library.Word" "HOL-Library.List_Lexorder"
begin

text \<open>
  What every component of the model shares: the byte and buffer types, the error monad in which
  a thrown JavaScript exception, a rejected promise or a Rust \<open>Err\<close> is a value, the array
  accesses of JavaScript with their out-of-range behaviour, and the list lemmas the components
  use.  The order on buffers is the lexicographic one of \<open>List_Lexorder\<close>, which is what
  \<open>Buffer.compare\<close> and the comparison of \<open>[u8; 32]\<close> compute.
\<close>

section \<open>Types\<close>

type_synonym byte = "8 word"
type_synonym buffer = "byte list"

text \<open>
  The exceptions the modelled code raises: \<open>Error m\<close> is \<open>throw new Error(m)\<close>,
  \<open>TypeError\<close> stands for the engine's own exception (a property read of \<open>undefined\<close>,
  an argument of the wrong type), \<open>External m\<close> for a failure reported by a service.
\<close>

datatype js_error = Error string | TypeError | External string

type_synonym 'a result = "js_error + 'a"

section \<open>Errors as values\<close>

named_theorems result_simps \<open>evaluation of the error monad\<close>

definition bindE :: "('e + 'a) \<Rightarrow> ('a \<Rightarrow> 'e + 'b) \<Rightarrow> 'e + 'b" where
  "bindE m f = (case m of Inl e \<Rightarrow> Inl e | Inr x \<Rightarrow> f x)"

fun mapE :: "('a \<Rightarrow> 'e + 'b) \<Rightarrow> 'a list \<Rightarrow> 'e + 'b list" where
  "mapE f [] = Inr []"
| "mapE f (x # xs) = bindE (f x) (\<lambda>y. bindE (mapE f xs) (\<lambda>ys. Inr (y # ys)))"

lemma bindE_Inl [simp, result_simps]: "bindE (Inl e) f = Inl e"
  by (simp add: bindE_def)

lemma bindE_Inr [simp, result_simps]: "bindE (Inr x) f = f x"
  by (simp add: bindE_def)

lemma bindE_eq_Inr_iff [result_simps]: "bindE m f = Inr y \<longleftrightarrow> (\<exists>x. m = Inr x \<and> f x = Inr y)"
  by (simp add: bindE_def split: sum.splits)

lemma bindE_eq_Inl_iff: "bindE m f = Inl e \<longleftrightarrow> m = Inl e \<or> (\<exists>x. m = Inr x \<and> f x = Inl e)"
  by (simp add: bindE_def split: sum.splits)

lemma bindE_cong [fundef_cong]:
  "m = m' \<Longrightarrow> (\<And>x. m' = Inr x \<Longrightarrow> f x = g x) \<Longrightarrow> bindE m f = bindE m' g"
  by (simp add: bindE_def split: sum.splits)

lemma mapE_Inr: "(\<And>x. x \<in> set xs \<Longrightarrow> f x = Inr (g x)) \<Longrightarrow> mapE f xs = Inr (map g xs)"
  by (induction xs) auto

lemma mapE_length: "mapE f xs = Inr ys \<Longrightarrow> length ys = length xs"
  by (induction xs arbitrary: ys) (auto simp: bindE_eq_Inr_iff)

section \<open>Arrays of JavaScript\<close>

text \<open>
  Reading past the end yields \<open>undefined\<close>; every use the modelled code makes of such a value
  (a method call, \<open>Array.from\<close>, an argument of the hasher) throws a \<open>TypeError\<close>.
\<close>

definition js_get :: "'a list \<Rightarrow> nat \<Rightarrow> 'a result" where
  "js_get xs i = (if i < length xs then Inr (xs ! i) else Inl TypeError)"

lemma js_get_in [simp]: "i < length xs \<Longrightarrow> js_get xs i = Inr (xs ! i)"
  by (simp add: js_get_def)

lemma js_get_out [simp]: "length xs \<le> i \<Longrightarrow> js_get xs i = Inl TypeError"
  by (simp add: js_get_def)

text \<open>The index search loops of the code: the first position that holds \<open>x\<close>, or \<open>-1\<close>.\<close>

fun index_from :: "int \<Rightarrow> 'a list \<Rightarrow> 'a \<Rightarrow> int" where
  "index_from i [] x = -1"
| "index_from i (y # ys) x = (if y = x then i else index_from (i + 1) ys x)"

definition index_of :: "'a list \<Rightarrow> 'a \<Rightarrow> int" where
  "index_of xs x = index_from 0 xs x"

lemma index_from_notin: "x \<notin> set xs \<Longrightarrow> index_from i xs x = -1"
  by (induction xs arbitrary: i) auto

lemma index_from_first:
  "k < length xs \<Longrightarrow> xs ! k = x \<Longrightarrow> x \<notin> set (take k xs) \<Longrightarrow> index_from i xs x = i + int k"
proof (induction xs arbitrary: i k)
  case Nil
  then show ?case by simp
next
  case (Cons y ys)
  then show ?case by (cases k) auto
qed

lemma first_occurrence:
  "x \<in> set xs \<Longrightarrow> \<exists>k < length xs. xs ! k = x \<and> x \<notin> set (take k xs)"
proof (induction xs)
  case Nil
  then show ?case by simp
next
  case (Cons y ys)
  show ?case
  proof (cases "y = x")
    case True
    then show ?thesis by (intro exI [of _ 0]) simp
  next
    case False
    with Cons obtain k where "k < length ys" "ys ! k = x" "x \<notin> set (take k ys)" by auto
    with False show ?thesis by (intro exI [of _ "Suc k"]) simp
  qed
qed

lemma index_of_notin [simp]: "x \<notin> set xs \<Longrightarrow> index_of xs x = -1"
  by (simp add: index_of_def index_from_notin)

lemma index_of_first:
  "k < length xs \<Longrightarrow> xs ! k = x \<Longrightarrow> x \<notin> set (take k xs) \<Longrightarrow> index_of xs x = int k"
  by (simp add: index_of_def index_from_first)

lemma index_of_in:
  assumes "x \<in> set xs"
  obtains k where "index_of xs x = int k" "k < length xs" "xs ! k = x" "x \<notin> set (take k xs)"
  using first_occurrence [OF assms] index_of_first by metis

lemma index_of_eq_minus1: "index_of xs x = -1 \<longleftrightarrow> x \<notin> set xs"
  by (metis index_of_in index_of_notin negative_eq_positive of_nat_1 zero_neq_one)

lemma index_of_nonneg: "x \<in> set xs \<Longrightarrow> 0 \<le> index_of xs x"
  by (metis index_of_in of_nat_0_le_iff)

lemma index_of_ge: "-1 \<le> index_of xs x"
  using index_of_nonneg [of x xs] by (cases "x \<in> set xs") auto

lemma index_of_distinct: "distinct xs \<Longrightarrow> k < length xs \<Longrightarrow> index_of xs (xs ! k) = int k"
  by (rule index_of_first) (auto simp: in_set_conv_nth nth_eq_iff_index_eq)

text \<open>\<open>splice(i, 0, x)\<close>, \<open>splice(i, 1)\<close> and \<open>pop()\<close>.\<close>

definition splice_insert :: "nat \<Rightarrow> 'a \<Rightarrow> 'a list \<Rightarrow> 'a list" where
  "splice_insert i x xs = take i xs @ x # drop i xs"

definition splice_remove :: "nat \<Rightarrow> 'a list \<Rightarrow> 'a list" where
  "splice_remove i xs = take i xs @ drop (Suc i) xs"

lemma length_splice_insert [simp]: "length (splice_insert i x xs) = Suc (length xs)"
  by (simp add: splice_insert_def)

lemma length_splice_remove [simp]:
  "i < length xs \<Longrightarrow> length (splice_remove i xs) = length xs - 1"
  by (simp add: splice_remove_def)

lemma map_splice_insert: "map f (splice_insert i x xs) = splice_insert i (f x) (map f xs)"
  by (simp add: splice_insert_def take_map drop_map)

lemma map_splice_remove: "map f (splice_remove i xs) = splice_remove i (map f xs)"
  by (simp add: splice_remove_def take_map drop_map)

lemma splice_remove_append:
  "i < length xs \<Longrightarrow> splice_remove i (xs @ ys) = splice_remove i xs @ ys"
  by (simp add: splice_remove_def)

lemma sorted_splice_remove: "sorted xs \<Longrightarrow> sorted (splice_remove i xs)"
proof -
  assume s: "sorted xs"
  have "sorted (take i xs @ drop i xs)" using s by simp
  then have "\<forall>x \<in> set (take i xs). \<forall>y \<in> set (drop i xs). x \<le> y"
    unfolding sorted_append by blast
  moreover have "set (drop (Suc i) xs) \<subseteq> set (drop i xs)" by (simp add: set_drop_subset_set_drop)
  ultimately show ?thesis
    using s by (auto simp: splice_remove_def sorted_append sorted_wrt_take sorted_wrt_drop)
qed

end
