(* ===== verification/JsRuntime.thy ===== *)
theory JsRuntime
  imports Prelude
begin

text \<open>
  What the TypeScript code uses of the language and of Node's standard library on bytes and
  numbers: the numeric reading of a buffer (\<open>BigInt('0x' + b.toString('hex'))\<close>), the
  UTF-8 decoding of \<open>Buffer.prototype.toString\<close> with its replacement characters, the
  relational operators applied to two buffers, and the rounding of a number to a double.
\<close>

section \<open>The numeric value of a buffer\<close>

fun be_nat :: "buffer \<Rightarrow> nat" where
  "be_nat [] = 0"
| "be_nat (b # bs) = unat b * 256 ^ length bs + be_nat bs"

lemma be_nat_bound: "be_nat bs < 256 ^ length bs"
proof (induction bs)
  case Nil
  then show ?case by simp
next
  case (Cons b bs)
  have "unat b < 256" using unsigned_less [of b] by simp
  then have "Suc (unat b) * 256 ^ length bs \<le> 256 * 256 ^ length bs"
    by (intro mult_le_mono1) simp
  then have "256 ^ length bs + unat b * 256 ^ length bs \<le> 256 * 256 ^ length bs"
    by (simp only: mult_Suc)
  with Cons.IH have "unat b * 256 ^ length bs + be_nat bs < 256 * 256 ^ length bs"
    by linarith
  then show ?case by simp
qed

lemma be_nat_less_iff:
  "length xs = length ys \<Longrightarrow> be_nat xs < be_nat ys \<longleftrightarrow> xs < ys"
proof (induction xs ys rule: list_induct2)
  case Nil
  then show ?case by simp
next
  case (Cons x xs y ys)
  have bx: "be_nat xs < 256 ^ length ys" and bY: "be_nat ys < 256 ^ length ys"
    using be_nat_bound [of xs] be_nat_bound [of ys] Cons.hyps by simp_all
  consider "x < y" | "x = y" | "y < x" by (rule linorder_cases)
  then show ?case
  proof cases
    case 1
    then have "Suc (unat x) \<le> unat y" by (simp add: word_less_nat_alt)
    then have "Suc (unat x) * 256 ^ length ys \<le> unat y * 256 ^ length ys"
      by (rule mult_le_mono1)
    with bx 1 Cons.hyps show ?thesis by (simp add: Cons_less_Cons)
  next
    case 2
    with Cons show ?thesis by (simp add: Cons_less_Cons)
  next
    case 3
    then have "Suc (unat y) \<le> unat x" by (simp add: word_less_nat_alt)
    then have "Suc (unat y) * 256 ^ length ys \<le> unat x * 256 ^ length ys"
      by (rule mult_le_mono1)
    with bY 3 Cons.hyps show ?thesis by (auto simp: Cons_less_Cons)
  qed
qed

lemma be_nat_le_iff:
  "length xs = length ys \<Longrightarrow> be_nat xs \<le> be_nat ys \<longleftrightarrow> xs \<le> ys"
  using be_nat_less_iff [of ys xs] by (simp add: not_less [symmetric])

lemma be_nat_inj: "length xs = length ys \<Longrightarrow> be_nat xs = be_nat ys \<Longrightarrow> xs = ys"
  by (metis be_nat_less_iff linorder_neq_iff order_less_irrefl)

section \<open>\<open>Buffer.prototype.toString()\<close>: UTF-8 with replacement\<close>

text \<open>
  The decoder of the Encoding standard, which Node follows: \<open>utf8_start b\<close> treats \<open>b\<close> as
  the first byte of a sequence and returns the code points it emits, with the decoder state
  \<open>(code point so far, bytes needed, lower bound, upper bound)\<close>.  A byte outside the bounds
  ends the pending sequence with one replacement character and is then read as a first byte.
\<close>

type_synonym utf8_state = "nat \<times> nat \<times> nat \<times> nat"

definition utf8_initial :: utf8_state where
  "utf8_initial = (0, 0, 128, 191)"

definition utf8_start :: "nat \<Rightarrow> nat list \<times> utf8_state" where
  "utf8_start b =
     (if b < 128 then ([b], utf8_initial)
      else if 194 \<le> b \<and> b \<le> 223 then ([], (b - 192, 1, 128, 191))
      else if 224 \<le> b \<and> b \<le> 239 then
        ([], (b - 224, 2, (if b = 224 then 160 else 128), (if b = 237 then 159 else 191)))
      else if 240 \<le> b \<and> b \<le> 244 then
        ([], (b - 240, 3, (if b = 240 then 144 else 128), (if b = 244 then 143 else 191)))
      else ([65533], utf8_initial))"

definition utf8_step :: "utf8_state \<Rightarrow> nat \<Rightarrow> nat list \<times> utf8_state" where
  "utf8_step s b =
     (case s of (cp, needed, lower, upper) \<Rightarrow>
       if needed = 0 then utf8_start b
       else if b < lower \<or> upper < b then
         (let (out, s') = utf8_start b in (65533 # out, s'))
       else if needed = 1 then ([cp * 64 + (b - 128)], utf8_initial)
       else ([], (cp * 64 + (b - 128), needed - 1, 128, 191)))"

fun utf8_run :: "utf8_state \<Rightarrow> nat list \<Rightarrow> nat list" where
  "utf8_run s [] = (if fst (snd s) = 0 then [] else [65533])"
| "utf8_run s (b # bs) = (let (out, s') = utf8_step s b in out @ utf8_run s' bs)"

text \<open>A string of JavaScript is its sequence of UTF-16 code units.\<close>

definition utf16_units :: "nat \<Rightarrow> nat list" where
  "utf16_units cp =
     (if cp < 65536 then [cp]
      else [55296 + (cp - 65536) div 1024, 56320 + (cp - 65536) mod 1024])"

definition buffer_toString :: "buffer \<Rightarrow> nat list" where
  "buffer_toString b = concat (map utf16_units (utf8_run utf8_initial (map unat b)))"

text \<open>
  \<open>a < b\<close> and \<open>a > b\<close> on two \<open>Buffer\<close> objects: the operator converts both operands to
  primitives, which for a buffer is \<open>toString()\<close>, and compares the two strings by code units.
  It is not \<open>Buffer.compare\<close>.
\<close>

definition buffer_lt_op :: "buffer \<Rightarrow> buffer \<Rightarrow> bool" where
  "buffer_lt_op a b \<longleftrightarrow> buffer_toString a < buffer_toString b"

definition buffer_gt_op :: "buffer \<Rightarrow> buffer \<Rightarrow> bool" where
  "buffer_gt_op a b \<longleftrightarrow> buffer_lt_op b a"

definition ascii :: "buffer \<Rightarrow> bool" where
  "ascii b \<longleftrightarrow> (\<forall>x \<in> set b. x < 128)"

lemma utf8_run_ascii:
  "(\<forall>b \<in> set bs. b < 128) \<Longrightarrow> utf8_run utf8_initial bs = bs"
  by (induction bs) (auto simp: utf8_initial_def utf8_step_def utf8_start_def)

lemma buffer_toString_ascii:
  assumes "ascii b"
  shows "buffer_toString b = map unat b"
proof -
  have lt: "\<forall>x \<in> set (map unat b). x < (128::nat)"
    using assms by (auto simp: ascii_def word_less_nat_alt)
  then have "utf8_run utf8_initial (map unat b) = map unat b" by (rule utf8_run_ascii)
  moreover have "concat (map utf16_units xs) = xs" if "\<forall>x \<in> set xs. x < 128" for xs
    using that by (induction xs) (auto simp: utf16_units_def)
  then have "concat (map utf16_units (map unat b)) = map unat b" using lt by blast
  ultimately show ?thesis by (simp only: buffer_toString_def)
qed

lemma map_unat_less_iff: "map unat (xs :: buffer) < map unat ys \<longleftrightarrow> xs < ys"
proof (induction xs arbitrary: ys)
  case Nil
  then show ?case by (cases ys) auto
next
  case (Cons x xs)
  show ?case
  proof (cases ys)
    case Nil
    then show ?thesis by simp
  next
    case ys: (Cons y ys')
    have "unat x = unat y \<longleftrightarrow> x = y" by (rule word_unat_eq_iff [symmetric])
    then show ?thesis
      unfolding ys list.map Cons_less_Cons Cons.IH [of ys'] word_less_nat_alt [of x y] by simp
  qed
qed

lemma buffer_lt_op_ascii: "ascii a \<Longrightarrow> ascii b \<Longrightarrow> buffer_lt_op a b \<longleftrightarrow> a < b"
  by (simp add: buffer_lt_op_def buffer_toString_ascii map_unat_less_iff)

lemma buffer_gt_op_ascii: "ascii a \<Longrightarrow> ascii b \<Longrightarrow> buffer_gt_op a b \<longleftrightarrow> b < a"
  by (simp add: buffer_gt_op_def buffer_lt_op_ascii)

end
