(* ===== verification/HashTree.thy ===== *)
theory HashTree
  imports Prelude
begin

text \<open>
  The interface between a tree of hashes and those who read it.  A provider computes each level
  from the one below by an operation \<open>step\<close>; what its clients (proof generation, proof
  verification, the on-chain verifier) rely on is only the shape of the result: the length of a
  level and which two nodes each parent combines, where the last node of an odd level is combined
  with itself.  The locale states that contract and derives the geometry of the tree: the number
  of levels, the position of a parent, and the positions a verifier's path bits can denote.
\<close>

section \<open>The contract\<close>

locale level_builder =
  fixes N :: "'a \<Rightarrow> 'a \<Rightarrow> 'a"
    and step :: "'a list \<Rightarrow> 'a list"
    and levels :: "'a list \<Rightarrow> 'a list list"
  assumes step_length: "length (step xs) = (length xs + 1) div 2"
    and step_nth: "j < length (step xs) \<Longrightarrow>
      step xs ! j = N (xs ! (2 * j)) (xs ! (min (2 * j + 1) (length xs - 1)))"
    and levels_unfold: "levels xs = (if 1 < length xs then step xs # levels (step xs) else [])"
begin

abbreviation tower :: "'a list \<Rightarrow> 'a list list" where
  "tower xs \<equiv> xs # levels xs"

lemma levels_short: "length xs \<le> 1 \<Longrightarrow> levels xs = []"
  by (subst levels_unfold) simp

lemma levels_long: "1 < length xs \<Longrightarrow> levels xs = step xs # levels (step xs)"
  by (subst levels_unfold) simp

lemma step_shorter: "1 < length xs \<Longrightarrow> length (step xs) < length xs"
  by (simp add: step_length)

lemma level_induct [case_names short long]:
  assumes "\<And>xs. length xs \<le> 1 \<Longrightarrow> P xs"
    and "\<And>xs. 1 < length xs \<Longrightarrow> P (step xs) \<Longrightarrow> P xs"
  shows "P xs"
proof (induction "length xs" arbitrary: xs rule: less_induct)
  case less
  show ?case
  proof (cases "length xs \<le> 1")
    case True
    then show ?thesis by (rule assms(1))
  next
    case False
    then show ?thesis using assms(2) less step_shorter by simp
  qed
qed

lemma tower_Suc:
  "i < length (levels xs) \<Longrightarrow> tower xs ! Suc i = step (tower xs ! i)"
proof (induction xs arbitrary: i rule: level_induct)
  case (short xs)
  then show ?case by (simp add: levels_short)
next
  case (long xs)
  then show ?case by (cases i) (simp_all add: levels_long)
qed

lemma tower_inner: "i < length (levels xs) \<Longrightarrow> 1 < length (tower xs ! i)"
proof (induction xs arbitrary: i rule: level_induct)
  case (short xs)
  then show ?case by (simp add: levels_short)
next
  case (long xs)
  then show ?case by (cases i) (simp_all add: levels_long)
qed

lemma tower_top: "xs \<noteq> [] \<Longrightarrow> length (tower xs ! length (levels xs)) = 1"
proof (induction xs rule: level_induct)
  case (short xs)
  then show ?case by (cases xs) (simp_all add: levels_short)
next
  case (long xs)
  then have "step xs \<noteq> []" using step_length [of xs] by auto
  with long show ?case by (simp add: levels_long)
qed

lemma tower_nonempty:
  "xs \<noteq> [] \<Longrightarrow> i \<le> length (levels xs) \<Longrightarrow> tower xs ! i \<noteq> []"
  using tower_inner [of i xs] tower_top [of xs] by (cases "i = length (levels xs)") fastforce+

lemma tower_length_Suc:
  "i < length (levels xs) \<Longrightarrow>
    length (tower xs ! Suc i) = (length (tower xs ! i) + 1) div 2"
  by (simp only: tower_Suc step_length)

lemma last_tower: "last (tower xs) = tower xs ! length (levels xs)"
  using last_conv_nth [of "tower xs"] by simp

text \<open>Every node above the leaves combines two nodes of the level below.\<close>

lemma tower_parent:
  assumes "i < length (levels xs)" and "j < length (tower xs ! Suc i)"
  shows "tower xs ! Suc i ! j =
    N (tower xs ! i ! (2 * j)) (tower xs ! i ! (min (2 * j + 1) (length (tower xs ! i) - 1)))"
  using assms step_nth [of j "tower xs ! i"] by (simp only: tower_Suc)

text \<open>The parent of position \<open>j\<close> is at position \<open>j div 2\<close>, whichever side \<open>j\<close> is on.\<close>

lemma tower_parent_even:
  assumes "i < length (levels xs)" and "j < length (tower xs ! i)" and "even j"
  shows "j div 2 < length (tower xs ! Suc i)"
    and "tower xs ! Suc i ! (j div 2) =
      N (tower xs ! i ! j) (tower xs ! i ! (if j = length (tower xs ! i) - 1 then j else j + 1))"
proof -
  show d: "j div 2 < length (tower xs ! Suc i)"
    unfolding tower_length_Suc [OF assms(1)] using assms(2) by linarith
  have e: "2 * (j div 2) = j" using assms(3) by simp
  have "min (j + 1) (length (tower xs ! i) - 1) =
      (if j = length (tower xs ! i) - 1 then j else j + 1)"
    using assms(2) by auto
  then show "tower xs ! Suc i ! (j div 2) =
      N (tower xs ! i ! j) (tower xs ! i ! (if j = length (tower xs ! i) - 1 then j else j + 1))"
    using tower_parent [OF assms(1) d] unfolding e by simp
qed

lemma tower_parent_odd:
  assumes "i < length (levels xs)" and "j < length (tower xs ! i)" and "odd j"
  shows "j div 2 < length (tower xs ! Suc i)"
    and "tower xs ! Suc i ! (j div 2) = N (tower xs ! i ! (j - 1)) (tower xs ! i ! j)"
proof -
  show d: "j div 2 < length (tower xs ! Suc i)"
    unfolding tower_length_Suc [OF assms(1)] using assms(2) by linarith
  have e: "2 * (j div 2) = j - 1" using assms(3) by presburger
  have m: "min (2 * (j div 2) + 1) (length (tower xs ! i) - 1) = j"
    using assms(2,3) by auto
  show "tower xs ! Suc i ! (j div 2) = N (tower xs ! i ! (j - 1)) (tower xs ! i ! j)"
    using tower_parent [OF assms(1) d] unfolding m unfolding e .
qed

text \<open>The height is the logarithm of the number of leaves, rounded up.\<close>

lemma levels_upper: "xs \<noteq> [] \<Longrightarrow> length xs \<le> 2 ^ length (levels xs)"
proof (induction xs rule: level_induct)
  case (short xs)
  then show ?case by (simp add: levels_short)
next
  case (long xs)
  have ne: "step xs \<noteq> []" using long.hyps step_length [of xs] by auto
  have "length (step xs) \<le> 2 ^ length (levels (step xs))" using long ne by blast
  then show ?case using long.hyps by (simp add: levels_long step_length)
qed

lemma levels_lower: "1 < length xs \<Longrightarrow> 2 ^ (length (levels xs) - 1) < length xs"
proof (induction xs rule: level_induct)
  case (short xs)
  then show ?case by simp
next
  case (long xs)
  show ?case
  proof (cases "1 < length (step xs)")
    case True
    with long have "2 ^ (length (levels (step xs)) - 1) < length (step xs)" by blast
    moreover obtain k where "length (levels (step xs)) = Suc k"
      using levels_long [OF True] by simp
    ultimately have "2 ^ Suc k < 2 * length (step xs)" "2 * length (step xs) \<le> length xs + 1"
      by (simp_all add: step_length)
    moreover have "even ((2::nat) ^ Suc k)" by simp
    moreover have "length (levels xs) = Suc (Suc k)"
      using long.hyps \<open>length (levels (step xs)) = Suc k\<close> by (simp add: levels_long)
    moreover have "2 ^ Suc k < length xs \<or> 2 ^ Suc k \<ge> length xs" by linarith
    ultimately show ?thesis by auto
  next
    case False
    with long.hyps show ?thesis by (simp add: levels_long levels_short)
  qed
qed

end

end
