(* ===== verification/Merkle.thy ===== *)
theory Merkle
  imports JsRuntime HashTree
begin

text \<open>
  \<open>sdk/src/merkle.ts\<close>: the class \<open>MerkleTree\<close>, one definition per method.  The fields of
  the record are the fields of the class; the hasher field carries no state between calls (every
  use ends in \<open>reset\<close>), so it is the parameter \<open>K\<close>, the digest of Keccak-256 on the
  concatenation of the bytes fed by \<open>update\<close>.  A \<open>PublicKey\<close> object has an identity as
  well as its 32 bytes, because the constructor removes duplicates with a \<open>Set\<close>, which
  compares objects by reference; elsewhere only the bytes matter.  \<open>mk\<close> is the constructor
  \<open>new PublicKey(bytes)\<close> of web3.js, which may throw.
\<close>

section \<open>Data\<close>

record ProofElement =
  node :: buffer
  onRight :: bool

record PublicKey =
  ref :: nat
  toBuffer :: buffer

definition zero_key :: buffer where
  "zero_key = replicate 32 0"

definition PublicKey_default :: PublicKey where
  "PublicKey_default = \<lparr>ref = 0, toBuffer = zero_key\<rparr>"

record MerkleTree =
  rawLeaves :: "buffer list"
  leaves :: "buffer list"
  tree :: "buffer list list"
  root :: "buffer option"
  depth :: nat

section \<open>Hashing and building\<close>

text \<open>\<open>bufferSort\<close> compares numeric values; \<open>Array.prototype.sort\<close> is stable.\<close>

definition bufferSort :: "buffer list \<Rightarrow> buffer list" where
  "bufferSort bs = sort_key be_nat bs"

definition hashLeaf :: "(buffer \<Rightarrow> buffer) \<Rightarrow> buffer \<Rightarrow> buffer" where
  "hashLeaf K leaf = K (0 # leaf)"

definition hashNode :: "(buffer \<Rightarrow> buffer) \<Rightarrow> buffer \<Rightarrow> buffer \<Rightarrow> buffer" where
  "hashNode K one two = K (1 # one @ two)"

text \<open>
  The body of the loop of \<open>_updateTree\<close>: \<open>nodes[i / 2]\<close> is filled for \<open>i = 0, 2, \<dots>\<close>
  below \<open>len - 1\<close>, and an odd level combines its last node with itself.
\<close>

definition hash_level :: "(buffer \<Rightarrow> buffer) \<Rightarrow> buffer list \<Rightarrow> buffer list" where
  "hash_level K lastNodes =
     (let len = length lastNodes;
          lastEven = (len mod 2 = 0);
          nodes = map (\<lambda>i. hashNode K (lastNodes ! i) (lastNodes ! (i + 1)))
                    (filter even [0..<len - 1])
      in if \<not> lastEven then nodes @ [hashNode K (lastNodes ! (len - 1)) (lastNodes ! (len - 1))]
         else nodes)"

lemma length_filter_even: "length (filter even [0..<n]) = (n + 1) div 2"
  by (induction n) auto

lemma filter_even_eq: "filter even [0..<n] = map (\<lambda>j. 2 * j) [0..<(n + 1) div 2]"
proof (induction n)
  case 0
  then show ?case by simp
next
  case (Suc n)
  then show ?case by (cases "even n") (auto elim!: evenE oddE)
qed

lemma length_hash_level: "length (hash_level K xs) = (length xs + 1) div 2"
  by (cases "even (length xs)")
    (auto simp: hash_level_def Let_def length_filter_even elim!: evenE oddE)

function build_levels :: "(buffer \<Rightarrow> buffer) \<Rightarrow> buffer list \<Rightarrow> buffer list list" where
  "build_levels K lastNodes =
     (if 1 < length lastNodes
      then (let nodes = hash_level K lastNodes in nodes # build_levels K nodes)
      else [])"
  by pat_completeness auto
termination
  by (relation "measure (\<lambda>(K, xs). length xs)") (auto simp: length_hash_level)

declare build_levels.simps [simp del]

definition updateTree :: "(buffer \<Rightarrow> buffer) \<Rightarrow> MerkleTree \<Rightarrow> MerkleTree" where
  "updateTree K t =
     (let len = length (leaves t) in
      if len = 0 then t\<lparr>tree := [], root := Some (hashLeaf K zero_key)\<rparr>
      else if len = 1 then t\<lparr>tree := [leaves t], root := Some (leaves t ! 0)\<rparr>
      else
        let ls = (if len mod 2 \<noteq> 0 then leaves t @ [leaves t ! (len - 1)] else leaves t);
            tr = ls # build_levels K ls;
            level = length tr - 1
        in t\<lparr>leaves := ls, tree := tr, depth := level, root := Some (tr ! level ! 0)\<rparr>)"

text \<open>
  The constructor.  An empty argument array first receives the default key (\<open>leaves.push\<close>
  changes the caller's array: \<open>default_leaves\<close> is that array after the call), then duplicates
  are removed by reference, in insertion order.
\<close>

definition default_leaves :: "PublicKey list \<Rightarrow> PublicKey list" where
  "default_leaves ls = (if length ls = 0 then ls @ [PublicKey_default] else ls)"

fun dedupe_refs :: "PublicKey list \<Rightarrow> PublicKey list \<Rightarrow> PublicKey list" where
  "dedupe_refs acc [] = acc"
| "dedupe_refs acc (l # ls) =
     dedupe_refs (if ref l \<in> ref ` set acc then acc else acc @ [l]) ls"

definition new_MerkleTree :: "(buffer \<Rightarrow> buffer) \<Rightarrow> PublicKey list \<Rightarrow> MerkleTree" where
  "new_MerkleTree K ls =
     (let raw = bufferSort (map toBuffer (dedupe_refs [] (default_leaves ls)))
      in updateTree K
           \<lparr>rawLeaves = raw, leaves = map (hashLeaf K) raw, tree = [], root = None, depth = 0\<rparr>)"

section \<open>Lookups and updates\<close>

definition getLeafIndex :: "MerkleTree \<Rightarrow> buffer \<Rightarrow> int" where
  "getLeafIndex t leaf = index_of (rawLeaves t) leaf"

definition getRawLeaves :: "(buffer \<Rightarrow> buffer result) \<Rightarrow> MerkleTree \<Rightarrow> buffer list result" where
  "getRawLeaves mk t = mapE mk (rawLeaves t)"

definition getRoot :: "MerkleTree \<Rightarrow> buffer" where
  "getRoot t = (case root t of Some r \<Rightarrow> r | None \<Rightarrow> [])"

definition addLeaf :: "(buffer \<Rightarrow> buffer) \<Rightarrow> MerkleTree \<Rightarrow> buffer \<Rightarrow> MerkleTree result" where
  "addLeaf K t leafBuffer =
     (if getLeafIndex t leafBuffer \<noteq> -1 then Inl (Error ''Leaf already exists in the tree'')
      else if leafBuffer = zero_key then Inl (Error ''Zero-valued leaf found'')
      else
        let raw = bufferSort (rawLeaves t @ [leafBuffer]);
            index = index_of raw leafBuffer;
            ls = splice_insert (nat index) (hashLeaf K leafBuffer) (leaves t);
            ls' = (if length raw mod 2 \<noteq> 0 then ls @ [ls ! (length ls - 1)] else ls)
        in Inr (updateTree K (t\<lparr>rawLeaves := raw, leaves := ls'\<rparr>)))"

definition removeLeaf :: "(buffer \<Rightarrow> buffer) \<Rightarrow> MerkleTree \<Rightarrow> buffer \<Rightarrow> MerkleTree result" where
  "removeLeaf K t leafBuffer =
     (let index = getLeafIndex t leafBuffer in
      if index = -1 then Inl (Error ''Leaf not found in the tree'')
      else
        let ls = (if length (rawLeaves t) mod 2 \<noteq> 0 then butlast (leaves t) else leaves t);
            ls' = splice_remove (nat index) ls;
            raw = splice_remove (nat index) (rawLeaves t)
        in Inr (updateTree K (t\<lparr>rawLeaves := raw, leaves := ls'\<rparr>)))"

section \<open>Proofs\<close>

text \<open>The loop of \<open>getInclusionProof\<close>: \<open>n\<close> rounds remain, the current level is \<open>i\<close>.\<close>

primrec proof_loop ::
  "(buffer \<Rightarrow> buffer) \<Rightarrow> buffer list list \<Rightarrow> nat \<Rightarrow> nat \<Rightarrow> nat \<Rightarrow> ProofElement list result" where
  "proof_loop K tr i 0 index = Inr []"
| "proof_loop K tr i (Suc n) index =
     bindE (js_get tr i) (\<lambda>level.
       let siblingOnRight = (index mod 2 = 0);
           siblingIndex = (if siblingOnRight
             then (if index = length level - 1 then index else index + 1)
             else index - 1)
       in bindE (js_get level siblingIndex) (\<lambda>sibling.
          bindE (js_get level index) (\<lambda>current.
            let parent = (if siblingOnRight then hashNode K current sibling
                          else hashNode K sibling current)
            in bindE (js_get tr (Suc i)) (\<lambda>next_level.
               let next_index = index_of next_level parent
               in if next_index = -1 then Inl (Error ''Parent not found in the tree'')
                  else bindE (proof_loop K tr (Suc i) n (nat next_index)) (\<lambda>rest.
                    Inr (\<lparr>node = sibling, onRight = siblingOnRight\<rparr> # rest))))))"

definition getInclusionProof ::
  "(buffer \<Rightarrow> buffer) \<Rightarrow> MerkleTree \<Rightarrow> buffer \<Rightarrow> bool \<Rightarrow> ProofElement list result" where
  "getInclusionProof K t leafBuffer useDuplicate =
     (let index = getLeafIndex t leafBuffer in
      if index = -1 then Inl (Error ''Leaf not found in the tree'')
      else if length (tree t) \<le> 1 then Inr []
      else
        let rawLen = length (rawLeaves t);
            index' = (if rawLen mod 2 \<noteq> 0 \<and> nat index = rawLen - 1 \<and> useDuplicate
                      then nat index + 1 else nat index)
        in proof_loop K (tree t) 0 (depth t) index')"

fun exclusion_index :: "buffer \<Rightarrow> nat \<Rightarrow> nat \<Rightarrow> buffer list \<Rightarrow> nat" where
  "exclusion_index leafBuffer len i [] = 0"
| "exclusion_index leafBuffer len i (raw # raws) =
     (if leafBuffer < raw then i
      else if i = len - 1 then (if len mod 2 = 0 then len else len + 1)
      else exclusion_index leafBuffer len (Suc i) raws)"

definition getExclusionProof ::
  "(buffer \<Rightarrow> buffer) \<Rightarrow> (buffer \<Rightarrow> buffer result) \<Rightarrow> MerkleTree \<Rightarrow> buffer \<Rightarrow>
     (ProofElement list list \<times> buffer list) result" where
  "getExclusionProof K mk t leafBuffer =
     (if getLeafIndex t leafBuffer \<noteq> -1 then Inl (Error ''Leaf found in the tree'')
      else
        let len = length (rawLeaves t);
            index = exclusion_index leafBuffer len 0 (rawLeaves t)
        in if index = 0 then
             (if len = 0 then Inr ([[]], [zero_key])
              else bindE (mk (rawLeaves t ! index)) (\<lambda>neighbor.
                   bindE (getInclusionProof K t neighbor False) (\<lambda>proof.
                     Inr ([proof], [rawLeaves t ! index]))))
           else if len \<le> index then
             bindE (mk (rawLeaves t ! (len - 1))) (\<lambda>neighbor.
             bindE (getInclusionProof K t neighbor True) (\<lambda>proof.
               Inr ([proof], [rawLeaves t ! (len - 1)])))
           else
             bindE (mk (rawLeaves t ! (index - 1))) (\<lambda>leftNeighbor.
             bindE (getInclusionProof K t leftNeighbor False) (\<lambda>leftProof.
             bindE (mk (rawLeaves t ! index)) (\<lambda>rightNeighbor.
             bindE (getInclusionProof K t rightNeighbor False) (\<lambda>rightProof.
               Inr ([leftProof, rightProof],
                    [rawLeaves t ! (index - 1), rawLeaves t ! index]))))))"

section \<open>Verification\<close>

definition climb_step :: "(buffer \<Rightarrow> buffer) \<Rightarrow> buffer \<Rightarrow> ProofElement \<Rightarrow> buffer" where
  "climb_step K currentHash e =
     (if onRight e then hashNode K currentHash (node e) else hashNode K (node e) currentHash)"

definition climb :: "(buffer \<Rightarrow> buffer) \<Rightarrow> buffer \<Rightarrow> ProofElement list \<Rightarrow> buffer" where
  "climb K h proof = foldl (climb_step K) h proof"

definition verifyInclusionProof ::
  "(buffer \<Rightarrow> buffer) \<Rightarrow> MerkleTree \<Rightarrow> buffer \<Rightarrow> ProofElement list \<Rightarrow> bool result" where
  "verifyInclusionProof K t leaf proof =
     (let currentHash = climb K (hashLeaf K leaf) proof
      in case root t of None \<Rightarrow> Inl TypeError | Some r \<Rightarrow> Inr (currentHash = r))"

definition verifyExclusionProof ::
  "(buffer \<Rightarrow> buffer) \<Rightarrow> (buffer \<Rightarrow> buffer result) \<Rightarrow> MerkleTree \<Rightarrow> buffer \<Rightarrow>
     ProofElement list list \<Rightarrow> buffer list \<Rightarrow> bool result" where
  "verifyExclusionProof K mk t leaf proofs neighbors =
     (if length proofs \<noteq> length neighbors then Inl (Error ''Proofs and neighbors length mismatch'')
      else if length proofs = 1 then
        bindE (js_get (rawLeaves t) 0) (\<lambda>firstLeaf.
        bindE (js_get (rawLeaves t) (length (rawLeaves t) - 1)) (\<lambda>lastLeaf.
          if neighbors ! 0 = firstLeaf then
            bindE (mk (neighbors ! 0)) (\<lambda>key.
            bindE (verifyInclusionProof K t key (proofs ! 0)) (\<lambda>proofValid.
              if \<not> proofValid then Inr False
              else bindE (js_get (tree t) 0) (\<lambda>level0.
                Inr (length level0 = 1 \<or> buffer_gt_op (neighbors ! 0) leaf))))
          else if neighbors ! 0 = lastLeaf then
            bindE (mk (neighbors ! 0)) (\<lambda>key.
            bindE (verifyInclusionProof K t key (proofs ! 0)) (\<lambda>proofValid.
              Inr (proofValid \<and> buffer_lt_op (neighbors ! 0) leaf)))
          else Inr False))
      else if length proofs = 2 then
        bindE (mk (neighbors ! 0)) (\<lambda>key1.
        bindE (verifyInclusionProof K t key1 (proofs ! 0)) (\<lambda>proofValid1.
        bindE (mk (neighbors ! 1)) (\<lambda>key2.
        bindE (verifyInclusionProof K t key2 (proofs ! 1)) (\<lambda>proofValid2.
          Inr (proofValid1 \<and> proofValid2 \<and>
               buffer_lt_op (neighbors ! 0) leaf \<and>
               buffer_gt_op (neighbors ! 1) leaf \<and>
               getLeafIndex t (neighbors ! 0) + 1 = getLeafIndex t (neighbors ! 1))))))
      else Inl (Error ''Invalid number of proofs''))"

end
