(* ===== verification/MerkleState.thy ===== *)
theory MerkleState
  imports Merkle "HOL-Library.Multiset"
begin

text \<open>
  The state of \<open>MerkleTree\<close> between calls.  \<open>consistent\<close> says that the derived fields
  (hashed leaves, levels, root, depth) are the ones the constructor computes from the raw leaves;
  it is established by the constructor, kept by \<open>removeLeaf\<close>, and kept by \<open>addLeaf\<close> from
  a tree with one leaf or an even number of them.  From an odd number of at least three leaves,
  or from the empty tree, \<open>addLeaf\<close> leaves stale duplicates among the hashed leaves.
\<close>

section \<open>The levels computed by \<open>_updateTree\<close> meet the contract\<close>

lemma hash_level_nth:
  assumes "j < length (hash_level K xs)"
  shows "hash_level K xs ! j =
    hashNode K (xs ! (2 * j)) (xs ! (min (2 * j + 1) (length xs - 1)))"
proof (cases "even (length xs)")
  case True
  then have d: "(length xs - Suc 0 + 1) div 2 = length xs div 2" by (auto elim!: evenE)
  have j: "j < length xs div 2" using assms True by (simp add: length_hash_level)
  then have "min (2 * j + 1) (length xs - 1) = 2 * j + 1" by auto
  then show ?thesis using True j d by (simp add: hash_level_def Let_def filter_even_eq)
next
  case False
  then obtain m where m: "length xs = Suc (2 * m)" by (auto elim!: oddE)
  have j: "j < Suc m" using assms m by (simp add: length_hash_level)
  show ?thesis
  proof (cases "j < m")
    case True
    then have "min (2 * j + 1) (length xs - 1) = 2 * j + 1" using m by auto
    then show ?thesis using True m by (simp add: hash_level_def Let_def filter_even_eq nth_append)
  next
    case False
    with j have "j = m" by simp
    then show ?thesis using m by (simp add: hash_level_def Let_def filter_even_eq nth_append)
  qed
qed

interpretation sdk: level_builder "hashNode K" "hash_level K" "build_levels K" for K
proof unfold_locales
  show "length (hash_level K xs) = (length xs + 1) div 2" for xs
    by (rule length_hash_level)
  show "j < length (hash_level K xs) \<Longrightarrow> hash_level K xs ! j =
      hashNode K (xs ! (2 * j)) (xs ! (min (2 * j + 1) (length xs - 1)))" for j xs
    by (rule hash_level_nth)
  show "build_levels K xs = (if 1 < length xs
      then hash_level K xs # build_levels K (hash_level K xs) else [])" for xs
    by (subst build_levels.simps) (simp add: Let_def)
qed

section \<open>Consistent trees\<close>

definition padded :: "'a list \<Rightarrow> 'a list" where
  "padded xs = (if 1 < length xs \<and> odd (length xs) then xs @ [last xs] else xs)"

lemma padded_Nil [simp]: "padded [] = []"
  by (simp add: padded_def)

lemma padded_eq_Nil [simp]: "padded xs = [] \<longleftrightarrow> xs = []"
  by (auto simp: padded_def)

lemma padded_map: "padded (map f xs) = map f (padded xs)"
  by (cases "xs = []") (auto simp: padded_def last_map)

lemma set_padded [simp]: "set (padded xs) = set xs"
  by (cases "xs = []") (auto simp: padded_def)

lemma length_padded: "length (padded xs) =
    (if 1 < length xs \<and> odd (length xs) then Suc (length xs) else length xs)"
  by (simp add: padded_def)

lemma padded_idem: "padded (padded xs) = padded xs"
  by (simp add: padded_def)

lemma padded_nth: "i < length xs \<Longrightarrow> padded xs ! i = xs ! i"
  by (simp add: padded_def nth_append)

lemma padded_nth_last: "length xs \<le> i \<Longrightarrow> i < length (padded xs) \<Longrightarrow> padded xs ! i = last xs"
  by (auto simp: padded_def nth_append split: if_splits)

lemma sorted_le_last: "sorted xs \<Longrightarrow> x \<in> set xs \<Longrightarrow> x \<le> last xs"
  by (induction xs) auto

lemma sorted_padded: "sorted xs \<Longrightarrow> sorted (padded xs)"
  by (simp add: padded_def sorted_append sorted_le_last)

definition key_list :: "buffer list \<Rightarrow> bool" where
  "key_list bs \<longleftrightarrow> (\<forall>b \<in> set bs. length b = 32)"

definition consistent :: "(buffer \<Rightarrow> buffer) \<Rightarrow> MerkleTree \<Rightarrow> bool" where
  "consistent K t \<longleftrightarrow>
     sorted (rawLeaves t) \<and> key_list (rawLeaves t) \<and>
     leaves t = padded (map (hashLeaf K) (rawLeaves t)) \<and>
     tree t = (if rawLeaves t = [] then [] else leaves t # build_levels K (leaves t)) \<and>
     root t = Some (if rawLeaves t = [] then hashLeaf K zero_key else last (tree t) ! 0) \<and>
     (1 < length (rawLeaves t) \<longrightarrow> depth t = length (build_levels K (leaves t)))"

lemma consistentD:
  assumes "consistent K t"
  shows consistent_sorted: "sorted (rawLeaves t)"
    and consistent_keys: "key_list (rawLeaves t)"
    and consistent_leaves: "leaves t = padded (map (hashLeaf K) (rawLeaves t))"
    and consistent_tree: "rawLeaves t \<noteq> [] \<Longrightarrow> tree t = sdk.tower K (leaves t)"
    and consistent_depth: "1 < length (rawLeaves t) \<Longrightarrow> depth t = length (build_levels K (leaves t))"
    and consistent_root: "rawLeaves t \<noteq> [] \<Longrightarrow> root t = Some (last (tree t) ! 0)"
  using assms by (simp_all add: consistent_def)

section \<open>Sorting keys\<close>

lemma sorted_be_nat_iff:
  "key_list bs \<Longrightarrow> sorted (map be_nat bs) \<longleftrightarrow> sorted bs"
  unfolding sorted_map
  by (induction bs) (auto simp: key_list_def be_nat_le_iff)

lemma mset_bufferSort [simp]: "mset (bufferSort bs) = mset bs"
  by (simp add: bufferSort_def)

lemma set_bufferSort [simp]: "set (bufferSort bs) = set bs"
  by (metis mset_bufferSort set_mset_mset)

lemma length_bufferSort [simp]: "length (bufferSort bs) = length bs"
  by (simp add: bufferSort_def)

lemma key_list_bufferSort [simp]: "key_list (bufferSort bs) = key_list bs"
  by (simp add: key_list_def)

lemma sorted_bufferSort: "key_list bs \<Longrightarrow> sorted (bufferSort bs)"
  using sorted_be_nat_iff [of "bufferSort bs"] by (simp add: bufferSort_def key_list_def)

lemma bufferSort_eq_sort: "key_list bs \<Longrightarrow> bufferSort bs = sort bs"
  by (metis mset_bufferSort properties_for_sort sorted_bufferSort)

text \<open>Appending a key and sorting again inserts it at the position where it is then found.\<close>

lemma bufferSort_insert:
  assumes "sorted bs" "key_list bs" "length b = 32" "b \<notin> set bs"
  shows "\<exists>k \<le> length bs. index_of (bufferSort (bs @ [b])) b = int k \<and>
    bufferSort (bs @ [b]) = splice_insert k b bs"
proof -
  define raw where "raw = bufferSort (bs @ [b])"
  have keys: "key_list (bs @ [b])" using assms(2,3) by (auto simp: key_list_def)
  have srt: "sorted raw" unfolding raw_def by (rule sorted_bufferSort [OF keys])
  have "b \<in> set raw" by (simp add: raw_def)
  then obtain k where k: "index_of raw b = int k" "k < length raw" "raw ! k = b"
    by (rule index_of_in)
  have split: "raw = take k raw @ b # drop (Suc k) raw"
    using k(2,3) id_take_nth_drop by blast
  have "mset raw = mset (splice_remove k raw) + {#b#}"
    by (subst split) (simp add: splice_remove_def)
  moreover have "mset raw = mset bs + {#b#}" by (simp add: raw_def)
  ultimately have "mset (splice_remove k raw) = mset bs" by simp
  moreover have "sorted (splice_remove k raw)" using srt by (rule sorted_splice_remove)
  ultimately have eq: "splice_remove k raw = bs"
    using assms(1) by (metis properties_for_sort)
  have len: "length raw = Suc (length bs)" by (simp add: raw_def)
  have "splice_insert k b bs = raw"
    unfolding eq [symmetric] using split k(2)
    by (simp add: splice_insert_def splice_remove_def)
  with k len show ?thesis unfolding raw_def by auto
qed

section \<open>\<open>_updateTree\<close>\<close>

lemma updateTree_rawLeaves [simp]: "rawLeaves (updateTree K t) = rawLeaves t"
  by (simp add: updateTree_def Let_def)

lemma updateTree_leaves: "leaves (updateTree K t) = padded (leaves t)"
  by (auto simp: updateTree_def Let_def padded_def last_conv_nth odd_iff_mod_2_eq_one)

lemma updateTree_consistent:
  assumes "sorted (rawLeaves t)" "key_list (rawLeaves t)"
    and "leaves t = map (hashLeaf K) (rawLeaves t) \<or>
         leaves t = padded (map (hashLeaf K) (rawLeaves t))"
  shows "consistent K (updateTree K t)"
proof -
  have lv: "leaves (updateTree K t) = padded (map (hashLeaf K) (rawLeaves t))"
    using assms(3) by (auto simp: updateTree_leaves padded_idem)
  have "length (leaves t) = length (rawLeaves t) \<or>
      length (leaves t) = length (padded (rawLeaves t))"
    using assms(3) by (auto simp: padded_map)
  then have len: "length (leaves t) = 0 \<longleftrightarrow> rawLeaves t = []"
    "length (leaves t) = 1 \<longleftrightarrow> length (rawLeaves t) = 1"
    by (auto simp: length_padded split: if_splits)
  consider "length (leaves t) = 0" | "length (leaves t) = 1" | "1 < length (leaves t)" by linarith
  then show ?thesis
  proof cases
    case 1
    then show ?thesis using assms(1,2) len by (simp add: consistent_def updateTree_def)
  next
    case 2
    then obtain h where h: "leaves t = [h]" by (cases "leaves t") auto
    from 2 len have l: "length (rawLeaves t) = 1" by simp
    have u: "updateTree K t = t\<lparr>tree := [[h]], root := Some h\<rparr>"
      by (simp add: updateTree_def Let_def h)
    then have "padded (map (hashLeaf K) (rawLeaves t)) = [h]" using lv h by simp
    moreover have "build_levels K [h] = []" by (simp add: sdk.levels_short)
    moreover have "rawLeaves t \<noteq> []" using l by auto
    ultimately show ?thesis using assms(1,2) h l unfolding consistent_def u by simp
  next
    case 3
    let ?ls = "padded (leaves t)"
    have e: "?ls = (if length (leaves t) mod 2 \<noteq> 0
        then leaves t @ [leaves t ! (length (leaves t) - 1)] else leaves t)"
      using 3 by (cases "leaves t = []") (auto simp: padded_def last_conv_nth odd_iff_mod_2_eq_one)
    have u: "updateTree K t = t\<lparr>leaves := ?ls, tree := sdk.tower K ?ls,
        depth := length (build_levels K ?ls), root := Some (last (sdk.tower K ?ls) ! 0)\<rparr>"
      unfolding updateTree_def Let_def e [symmetric] sdk.last_tower using 3 by auto
    have "rawLeaves t \<noteq> []" using 3 len(1) by auto
    then show ?thesis using assms(1,2) lv by (simp add: consistent_def u)
  qed
qed

section \<open>The constructor\<close>

lemma dedupe_refs_refs: "ref ` set (dedupe_refs acc ls) = ref ` set acc \<union> ref ` set ls"
  by (induction acc ls rule: dedupe_refs.induct) auto

lemma dedupe_refs_subset: "set (dedupe_refs acc ls) \<subseteq> set acc \<union> set ls"
  by (induction acc ls rule: dedupe_refs.induct) (auto split: if_splits)

lemma dedupe_refs_distinct: "distinct (map ref acc) \<Longrightarrow> distinct (map ref (dedupe_refs acc ls))"
  by (induction acc ls rule: dedupe_refs.induct) auto

text \<open>One object has one content: what a heap guarantees of references.\<close>

definition heap_ok :: "PublicKey list \<Rightarrow> bool" where
  "heap_ok ls \<longleftrightarrow> (\<forall>a \<in> set ls. \<forall>b \<in> set ls. ref a = ref b \<longrightarrow> a = b)"

lemma dedupe_refs_set:
  assumes "heap_ok ls"
  shows "set (dedupe_refs [] ls) = set ls"
proof
  show sub: "set (dedupe_refs [] ls) \<subseteq> set ls" using dedupe_refs_subset [of "[]" ls] by simp
  show "set ls \<subseteq> set (dedupe_refs [] ls)"
  proof
    fix a assume a: "a \<in> set ls"
    have "ref a \<in> ref ` set (dedupe_refs [] ls)" using dedupe_refs_refs [of "[]" ls] a by simp
    then obtain b where "b \<in> set (dedupe_refs [] ls)" "ref b = ref a" by auto
    with assms a sub show "a \<in> set (dedupe_refs [] ls)" by (auto simp: heap_ok_def)
  qed
qed

lemma new_MerkleTree_raw:
  "rawLeaves (new_MerkleTree K ls) =
     bufferSort (map toBuffer (dedupe_refs [] (default_leaves ls)))"
  by (simp add: new_MerkleTree_def Let_def)

lemma new_MerkleTree_consistent:
  assumes "key_list (map toBuffer ls)"
  shows "consistent K (new_MerkleTree K ls)"
proof -
  have "key_list (map toBuffer (default_leaves ls))"
    using assms by (auto simp: default_leaves_def key_list_def PublicKey_default_def zero_key_def)
  then have "key_list (map toBuffer (dedupe_refs [] (default_leaves ls)))"
    using dedupe_refs_subset [of "[]" "default_leaves ls"] by (auto simp: key_list_def)
  then show ?thesis
    unfolding new_MerkleTree_def Let_def
    by (intro updateTree_consistent) (simp_all add: sorted_bufferSort)
qed

lemma new_MerkleTree_nonempty: "rawLeaves (new_MerkleTree K ls) \<noteq> []"
proof -
  have "ref ` set (dedupe_refs [] (default_leaves ls)) \<noteq> {}"
    using dedupe_refs_refs [of "[]" "default_leaves ls"] by (simp add: default_leaves_def)
  then have "set (rawLeaves (new_MerkleTree K ls)) \<noteq> {}" by (simp add: new_MerkleTree_raw)
  then show ?thesis by auto
qed

lemma new_MerkleTree_set:
  assumes "heap_ok ls" "ls \<noteq> []"
  shows "set (rawLeaves (new_MerkleTree K ls)) = toBuffer ` set ls"
  using assms by (simp add: new_MerkleTree_raw default_leaves_def dedupe_refs_set)

section \<open>\<open>removeLeaf\<close> and \<open>addLeaf\<close>\<close>

lemma removeLeaf_consistent:
  assumes "consistent K t" and "removeLeaf K t leaf = Inr t'"
  shows "consistent K t'"
    and "\<exists>k < length (rawLeaves t). rawLeaves t ! k = leaf \<and> leaf \<notin> set (take k (rawLeaves t)) \<and>
           rawLeaves t' = splice_remove k (rawLeaves t)"
proof -
  let ?raw = "rawLeaves t" and ?h = "hashLeaf K"
  have "getLeafIndex t leaf \<noteq> -1" using assms(2) by (auto simp: removeLeaf_def Let_def split: if_splits)
  then have "leaf \<in> set ?raw" by (simp add: getLeafIndex_def index_of_eq_minus1)
  then obtain k where k: "index_of ?raw leaf = int k" "k < length ?raw" "?raw ! k = leaf"
      "leaf \<notin> set (take k ?raw)" by (rule index_of_in)
  let ?ls = "if length ?raw mod 2 \<noteq> 0 then butlast (leaves t) else leaves t"
  have t': "t' = updateTree K (t\<lparr>rawLeaves := splice_remove k ?raw, leaves := splice_remove k ?ls\<rparr>)"
    using assms(2) k(1) by (auto simp: removeLeaf_def Let_def getLeafIndex_def)
  have "splice_remove k ?ls = map ?h (splice_remove k ?raw)"
  proof (cases "length ?raw = 1")
    case True
    with k(2) consistent_leaves [OF assms(1)] show ?thesis
      by (auto simp: padded_def splice_remove_def)
  next
    case False
    then have "?ls = map ?h ?raw"
      using k(2) consistent_leaves [OF assms(1)] by (auto simp: padded_def odd_iff_mod_2_eq_one)
    then show ?thesis by (simp add: map_splice_remove)
  qed
  moreover have "sorted (splice_remove k ?raw)"
    using consistent_sorted [OF assms(1)] by (rule sorted_splice_remove)
  moreover have "key_list (splice_remove k ?raw)"
    using consistent_keys [OF assms(1)]
    by (auto simp: key_list_def splice_remove_def dest: in_set_takeD in_set_dropD)
  ultimately show "consistent K t'" unfolding t' by (intro updateTree_consistent) simp_all
  show "\<exists>k < length ?raw. ?raw ! k = leaf \<and> leaf \<notin> set (take k ?raw) \<and>
      rawLeaves t' = splice_remove k ?raw"
    using k(2-4) by (auto simp: t')
qed

text \<open>What \<open>addLeaf\<close> computes on a consistent tree, before \<open>_updateTree\<close>.\<close>

lemma addLeaf_eq:
  assumes "consistent K t" "length leaf = 32" "leaf \<notin> set (rawLeaves t)" "leaf \<noteq> zero_key"
  shows "\<exists>k \<le> length (rawLeaves t).
    addLeaf K t leaf = Inr (updateTree K (t\<lparr>
      rawLeaves := splice_insert k leaf (rawLeaves t),
      leaves := (let ls = splice_insert k (hashLeaf K leaf) (leaves t)
                 in if even (length (rawLeaves t)) then ls @ [last ls] else ls)\<rparr>)) \<and>
    bufferSort (rawLeaves t @ [leaf]) = splice_insert k leaf (rawLeaves t)"
proof -
  obtain k where k: "k \<le> length (rawLeaves t)"
      "index_of (bufferSort (rawLeaves t @ [leaf])) leaf = int k"
      "bufferSort (rawLeaves t @ [leaf]) = splice_insert k leaf (rawLeaves t)"
    using bufferSort_insert [OF consistent_sorted [OF assms(1)] consistent_keys [OF assms(1)]
        assms(2,3)] by blast
  have "last (splice_insert k h ls) = splice_insert k h ls ! (length (splice_insert k h ls) - 1)"
    for h and ls :: "buffer list"
    by (rule last_conv_nth) (simp add: splice_insert_def)
  with k assms(3,4) show ?thesis
    by (intro exI [of _ k])
      (auto simp: addLeaf_def Let_def getLeafIndex_def odd_iff_mod_2_eq_one)
qed

lemma splice_insert_append:
  "k \<le> length xs \<Longrightarrow> splice_insert k x (xs @ ys) = splice_insert k x xs @ ys"
  by (simp add: splice_insert_def)

lemma key_list_splice_insert:
  "key_list bs \<Longrightarrow> length b = 32 \<Longrightarrow> key_list (splice_insert k b bs)"
  by (auto simp: key_list_def splice_insert_def dest: in_set_takeD in_set_dropD)

lemma addLeaf_consistent:
  assumes "consistent K t" "length leaf = 32" "leaf \<notin> set (rawLeaves t)" "leaf \<noteq> zero_key"
    and "length (rawLeaves t) = 1 \<or> (even (length (rawLeaves t)) \<and> rawLeaves t \<noteq> [])"
  shows "\<exists>t'. addLeaf K t leaf = Inr t' \<and> consistent K t' \<and>
    rawLeaves t' = bufferSort (rawLeaves t @ [leaf])"
proof -
  let ?raw = "rawLeaves t" and ?h = "hashLeaf K"
  obtain k where k: "k \<le> length ?raw"
    "addLeaf K t leaf = Inr (updateTree K (t\<lparr>rawLeaves := splice_insert k leaf ?raw,
      leaves := (let ls = splice_insert k (?h leaf) (leaves t)
                 in if even (length ?raw) then ls @ [last ls] else ls)\<rparr>))"
    "bufferSort (?raw @ [leaf]) = splice_insert k leaf ?raw"
    using addLeaf_eq [OF assms(1-4)] by blast
  have lv: "leaves t = map ?h ?raw"
    using assms(5) consistent_leaves [OF assms(1)] by (auto simp: padded_def)
  have keys: "key_list (splice_insert k leaf ?raw)"
    using consistent_keys [OF assms(1)] assms(2) by (rule key_list_splice_insert)
  have srt: "sorted (splice_insert k leaf ?raw)"
    unfolding k(3) [symmetric] by (rule sorted_bufferSort) (use keys k(3) in \<open>metis key_list_bufferSort\<close>)
  have ins: "splice_insert k (?h leaf) (leaves t) = map ?h (splice_insert k leaf ?raw)"
    by (simp add: lv map_splice_insert)
  have "consistent K (updateTree K (t\<lparr>rawLeaves := splice_insert k leaf ?raw,
      leaves := (let ls = splice_insert k (?h leaf) (leaves t)
                 in if even (length ?raw) then ls @ [last ls] else ls)\<rparr>))"
    using keys srt assms(5) unfolding ins
    by (intro updateTree_consistent) (auto simp: padded_def Let_def)
  with k show ?thesis by simp
qed

text \<open>
  From an odd number of at least three leaves the duplicate of the old last leaf stays among the
  hashed leaves, and \<open>_updateTree\<close> then duplicates it once more.
\<close>

lemma addLeaf_odd_leaves:
  assumes "consistent K t" "length leaf = 32" "leaf \<notin> set (rawLeaves t)" "leaf \<noteq> zero_key"
    and "odd (length (rawLeaves t))" "3 \<le> length (rawLeaves t)"
  shows "\<exists>t'. addLeaf K t leaf = Inr t' \<and> rawLeaves t' = bufferSort (rawLeaves t @ [leaf]) \<and>
    leaves t' = map (hashLeaf K) (rawLeaves t') @
      [hashLeaf K (last (rawLeaves t)), hashLeaf K (last (rawLeaves t))]"
proof -
  let ?raw = "rawLeaves t" and ?h = "hashLeaf K"
  obtain k where k: "k \<le> length ?raw"
    "addLeaf K t leaf = Inr (updateTree K (t\<lparr>rawLeaves := splice_insert k leaf ?raw,
      leaves := (let ls = splice_insert k (?h leaf) (leaves t)
                 in if even (length ?raw) then ls @ [last ls] else ls)\<rparr>))"
    "bufferSort (?raw @ [leaf]) = splice_insert k leaf ?raw"
    using addLeaf_eq [OF assms(1-4)] by blast
  have ne: "?raw \<noteq> []" using assms(6) by auto
  then have lv: "leaves t = map ?h ?raw @ [?h (last ?raw)]"
    using assms(5,6) consistent_leaves [OF assms(1)] by (auto simp: padded_def last_map)
  have ins: "splice_insert k (?h leaf) (leaves t) =
      map ?h (splice_insert k leaf ?raw) @ [?h (last ?raw)]"
    using k(1) by (simp add: lv splice_insert_append map_splice_insert)
  have "padded (map ?h (splice_insert k leaf ?raw) @ [?h (last ?raw)]) =
      map ?h (splice_insert k leaf ?raw) @ [?h (last ?raw), ?h (last ?raw)]"
    using assms(5) by (simp add: padded_def)
  with k assms(5) show ?thesis by (simp add: ins Let_def updateTree_leaves)
qed

lemma addLeaf_empty_leaves:
  assumes "consistent K t" "length leaf = 32" "leaf \<noteq> zero_key" "rawLeaves t = []"
  shows "\<exists>t'. addLeaf K t leaf = Inr t' \<and> rawLeaves t' = [leaf] \<and>
    leaves t' = [hashLeaf K leaf, hashLeaf K leaf]"
proof -
  have lv: "leaves t = []" using consistent_leaves [OF assms(1)] assms(4) by simp
  show ?thesis
    using addLeaf_eq [OF assms(1,2) _ assms(3)] assms(4) lv
    by (auto simp: splice_insert_def updateTree_leaves padded_def)
qed

end
