(* ===== verification/MerkleInclusion.thy ===== *)
theory MerkleInclusion
  imports MerkleState
begin

text \<open>
  Inclusion proofs of \<open>MerkleTree\<close>.  Completeness holds for every hash function: the proof
  generated for a leaf of a consistent tree climbs to the root.  Soundness needs that the hash
  does not collide on the finitely many inputs the tree and the verification hash
  (\<open>tree_inputs\<close>, \<open>climb_inputs\<close>); the \<open>0x00\<close> and \<open>0x01\<close> prefixes then exclude that an
  inner node passes for a leaf.  The bits of a proof (which side each neighbour is on) denote a
  position in the complete binary tree over the levels, \<open>virt\<close>.
\<close>

section \<open>Positions denoted by the bits of a proof\<close>

fun path_index :: "ProofElement list \<Rightarrow> nat" where
  "path_index [] = 0"
| "path_index (e # p) = (if onRight e then 0 else 1) + 2 * path_index p"

lemma path_index_append:
  "path_index (p @ [e]) = path_index p + (if onRight e then 0 else 2 ^ length p)"
  by (induction p) auto

lemma path_index_bound: "path_index p < 2 ^ length p"
  by (induction p) auto

text \<open>
  \<open>virt n k x\<close> lists the positions of level \<open>0\<close> below position \<open>x\<close> of level \<open>k\<close>, in the
  order of the path bits, when level \<open>i\<close> has \<open>n i\<close> nodes: the last node of an odd level stands
  for both children of its parent.
\<close>

fun virt :: "(nat \<Rightarrow> nat) \<Rightarrow> nat \<Rightarrow> nat \<Rightarrow> nat list" where
  "virt n 0 x = [x]"
| "virt n (Suc k) x = virt n k (2 * x) @ virt n k (min (2 * x + 1) (n k - 1))"

lemma length_virt [simp]: "length (virt n k x) = 2 ^ k"
  by (induction k arbitrary: x) auto

lemma virt_nonempty [simp]: "virt n k x \<noteq> []"
  using length_virt [of n k x] by (metis length_0_conv power_not_zero zero_neq_numeral)

lemma hd_virt: "hd (virt n k x) = 2 ^ k * x"
  by (induction k arbitrary: x) auto

definition halving :: "(nat \<Rightarrow> nat) \<Rightarrow> nat \<Rightarrow> bool" where
  "halving n h \<longleftrightarrow> (\<forall>i < h. n (Suc i) = (n i + 1) div 2)"

lemma halving_mono: "halving n h \<Longrightarrow> k \<le> h \<Longrightarrow> halving n k"
  by (simp add: halving_def)

lemma halving_upper: "halving n k \<Longrightarrow> n 0 \<le> 2 ^ k * n k"
proof (induction k)
  case 0
  then show ?case by simp
next
  case (Suc k)
  have "n 0 \<le> 2 ^ k * n k" using Suc halving_mono [of n "Suc k" k] by simp
  also have "\<dots> \<le> 2 ^ k * (2 * n (Suc k))"
    using Suc.prems by (intro mult_left_mono) (auto simp: halving_def)
  finally show ?case by simp
qed

lemma last_virt:
  "halving n k \<Longrightarrow> x < n k \<Longrightarrow> last (virt n k x) = min (2 ^ k * (x + 1)) (n 0) - 1"
proof (induction k arbitrary: x)
  case 0
  then show ?case by (simp add: min_absorb1)
next
  case (Suc k)
  have h: "halving n k" using Suc.prems(1) halving_mono by auto
  have half: "n (Suc k) = (n k + 1) div 2" using Suc.prems(1) by (simp add: halving_def)
  have up: "n 0 \<le> 2 ^ k * n k" using h by (rule halving_upper)
  let ?y = "min (2 * x + 1) (n k - 1)"
  have y: "?y < n k" using Suc.prems(2) half by auto
  have "min (2 ^ k * (?y + 1)) (n 0) = min (2 ^ Suc k * (x + 1)) (n 0)"
  proof (cases "2 * x + 1 < n k")
    case True
    then have "?y + 1 = 2 * (x + 1)" by auto
    then show ?thesis by (simp add: algebra_simps)
  next
    case False
    then have e: "n k = 2 * x + 1" using Suc.prems(2) half by linarith
    have "2 ^ k * n k \<le> 2 ^ k * (2 * (x + 1))" by (intro mult_left_mono) (simp_all add: e)
    then have "n 0 \<le> 2 ^ Suc k * (x + 1)" using up by (simp add: mult.assoc mult.left_commute)
    moreover have "?y + 1 = n k" using e by auto
    ultimately show ?thesis using up by (simp add: min_absorb2)
  qed
  then show ?case using Suc.IH [OF h y] by simp
qed

lemma virt_in_range: "halving n k \<Longrightarrow> x < n k \<Longrightarrow> \<forall>p \<in> set (virt n k x). p < n 0"
proof (induction k arbitrary: x)
  case 0
  then show ?case by simp
next
  case (Suc k)
  have h: "halving n k" using Suc.prems(1) halving_mono by auto
  have "n (Suc k) = (n k + 1) div 2" using Suc.prems(1) by (simp add: halving_def)
  with Suc.prems(2) have "2 * x < n k" "min (2 * x + 1) (n k - 1) < n k" by auto
  with Suc.IH [OF h] show ?case by (auto simp: ball_Un simp del: min_less_iff_conj)
qed

text \<open>
  Two neighbouring positions are neighbouring leaves, or the second is not to the right of the
  first: what makes the two-neighbour check of the on-chain verifier sound.
\<close>

lemma virt_adjacent:
  "halving n k \<Longrightarrow> x < n k \<Longrightarrow> Suc i < 2 ^ k \<Longrightarrow>
    virt n k x ! Suc i = Suc (virt n k x ! i) \<or> virt n k x ! Suc i \<le> virt n k x ! i"
proof (induction k arbitrary: x i)
  case 0
  then show ?case by simp
next
  case (Suc k)
  have h: "halving n k" using Suc.prems(1) halving_mono by auto
  have "n (Suc k) = (n k + 1) div 2" using Suc.prems(1) by (simp add: halving_def)
  with Suc.prems(2) have l: "2 * x < n k" and r: "min (2 * x + 1) (n k - 1) < n k" by auto
  let ?y = "min (2 * x + 1) (n k - 1)"
  let ?L = "virt n k (2 * x)" and ?R = "virt n k ?y"
  consider "Suc i < 2 ^ k" | "Suc i = 2 ^ k" | "2 ^ k \<le> i" by linarith
  then show ?case
  proof cases
    case 1
    then show ?thesis using Suc.IH [OF h l 1] by (simp add: nth_append)
  next
    case 2
    have "virt n (Suc k) x ! i = last ?L"
      using 2 by (simp add: nth_append last_conv_nth flip: 2)
    moreover have "virt n (Suc k) x ! Suc i = hd ?R"
      using 2 by (simp add: nth_append hd_conv_nth)
    ultimately have a: "virt n (Suc k) x ! i = min (2 ^ k * (2 * x + 1)) (n 0) - 1"
      and b: "virt n (Suc k) x ! Suc i = 2 ^ k * ?y"
      by (simp_all add: last_virt [OF h l] hd_virt)
    have up: "n 0 \<le> 2 ^ k * n k" using h by (rule halving_upper)
    have "last ?R < n 0" using virt_in_range [OF h r] by simp
    moreover have "hd ?R < n 0" using virt_in_range [OF h r] by simp
    ultimately have y0: "2 ^ k * ?y < n 0" by (simp add: hd_virt)
    show ?thesis
    proof (cases "2 * x + 1 < n k")
      case True
      then have "?y = 2 * x + 1" by auto
      then show ?thesis using y0 unfolding a b by (simp add: min_absorb1)
    next
      case False
      then have y: "?y = 2 * x" using l by auto
      have "(0::nat) < 2 ^ k" by simp
      then have "2 ^ k * (2 * x) < 2 ^ k * (2 * x + 1)" by simp
      then show ?thesis using y0 unfolding a b y by (simp add: le_diff_conv2 Suc_le_eq)
    qed
  next
    case 3
    then obtain j where j: "i = 2 ^ k + j" using le_Suc_ex by blast
    have "Suc j < 2 ^ k" using Suc.prems(3) j by simp
    then show ?thesis using Suc.IH [OF h r] j by (simp add: nth_append)
  qed
qed

section \<open>The levels of a tree\<close>

definition level_size :: "buffer list list \<Rightarrow> nat \<Rightarrow> nat" where
  "level_size tr i = length (tr ! i)"

lemma tower_halving: "halving (level_size (sdk.tower K xs)) (length (build_levels K xs))"
  unfolding halving_def level_size_def using sdk.tower_length_Suc by blast

section \<open>Completeness\<close>

lemma climb_Nil [simp]: "climb K h [] = h"
  by (simp add: climb_def)

lemma climb_Cons [simp]: "climb K h (e # p) = climb K (climb_step K h e) p"
  by (simp add: climb_def)

lemma climb_append: "climb K h (p @ q) = climb K (climb K h p) q"
  by (simp add: climb_def)

text \<open>
  One round of the loop, at a position inside the level: the sibling and the side are those of
  the parent at position \<open>index div 2\<close>, which the search then finds (or an equal node).
\<close>

lemma proof_loop_round:
  fixes K :: "buffer \<Rightarrow> buffer" and xs :: "buffer list"
  defines "tr \<equiv> sdk.tower K xs"
  assumes "i < length (build_levels K xs)" "index < length (tr ! i)"
  obtains sibling k where
    "k < length (tr ! Suc i)" "tr ! Suc i ! k = tr ! Suc i ! (index div 2)"
    "tr ! Suc i ! k \<notin> set (take k (tr ! Suc i))" "index div 2 < length (tr ! Suc i)"
    "tr ! Suc i ! (index div 2) =
       climb_step K (tr ! i ! index) \<lparr>node = sibling, onRight = even index\<rparr>"
    "\<And>n. proof_loop K tr i (Suc n) index = bindE (proof_loop K tr (Suc i) n k)
       (\<lambda>rest. Inr (\<lparr>node = sibling, onRight = even index\<rparr> # rest))"
proof -
  let ?lv = "tr ! i" and ?nx = "tr ! Suc i"
  define si where "si = (if even index then (if index = length ?lv - 1 then index else index + 1)
    else index - 1)"
  have si: "si < length ?lv" using assms(3) by (auto simp: si_def)
  have par: "index div 2 < length ?nx \<and>
    ?nx ! (index div 2) = climb_step K (?lv ! index) \<lparr>node = ?lv ! si, onRight = even index\<rparr>"
  proof (cases "even index")
    case True
    then show ?thesis
      using sdk.tower_parent_even [of i K xs index, folded tr_def, OF assms(2,3) True]
      by (simp add: si_def climb_step_def del: One_nat_def)
  next
    case False
    then show ?thesis
      using sdk.tower_parent_odd [of i K xs index, folded tr_def, OF assms(2,3) False]
      by (simp add: si_def climb_step_def del: One_nat_def)
  qed
  obtain k where k: "index_of ?nx (?nx ! (index div 2)) = int k" "k < length ?nx"
    "?nx ! k = ?nx ! (index div 2)" "?nx ! (index div 2) \<notin> set (take k ?nx)"
    using index_of_in [OF nth_mem [OF conjunct1 [OF par]]] by blast
  have len: "i < length tr" "Suc i < length tr" using assms(2) by (auto simp: tr_def)
  have pn: "(if even index then hashNode K (?lv ! index) (?lv ! si)
      else hashNode K (?lv ! si) (?lv ! index)) = ?nx ! (index div 2)"
    using par by (simp add: climb_step_def)
  have "proof_loop K tr i (Suc n) index = bindE (proof_loop K tr (Suc i) n k)
       (\<lambda>rest. Inr (\<lparr>node = ?lv ! si, onRight = even index\<rparr> # rest))" for n
    unfolding proof_loop.simps Let_def even_iff_mod_2_eq_zero [symmetric] si_def [symmetric]
    using len si assms(3) k(1) pn
    by (simp add: si_def [symmetric] del: One_nat_def split del: if_split)
  then show ?thesis using that [of k "?lv ! si"] par k by auto
qed

declare proof_loop.simps(2) [simp del]

lemma proof_loop_complete:
  fixes K :: "buffer \<Rightarrow> buffer" and xs :: "buffer list"
  defines "tr \<equiv> sdk.tower K xs"
  assumes "xs \<noteq> []" "i + n = length (build_levels K xs)" "index < length (tr ! i)"
  shows "\<exists>p. proof_loop K tr i n index = Inr p \<and> length p = n \<and>
    climb K (tr ! i ! index) p = tr ! (i + n) ! 0"
  using assms(3,4)
proof (induction n arbitrary: i index)
  case 0
  then have "length (tr ! i) = 1" using sdk.tower_top [OF assms(2), of K] by (simp add: tr_def)
  with 0 show ?case by simp
next
  case (Suc n)
  have il: "i < length (build_levels K xs)" using Suc.prems(1) by simp
  obtain sibling k where r:
    "k < length (tr ! Suc i)" "tr ! Suc i ! k = tr ! Suc i ! (index div 2)"
    "tr ! Suc i ! (index div 2) = climb_step K (tr ! i ! index) \<lparr>node = sibling, onRight = even index\<rparr>"
    "proof_loop K tr i (Suc n) index = bindE (proof_loop K tr (Suc i) n k)
       (\<lambda>rest. Inr (\<lparr>node = sibling, onRight = even index\<rparr> # rest))"
    using proof_loop_round [of i K xs index, folded tr_def, OF il Suc.prems(2)] by metis
  obtain p where "proof_loop K tr (Suc i) n k = Inr p" "length p = n"
    "climb K (tr ! Suc i ! k) p = tr ! (Suc i + n) ! 0"
    using Suc.IH [of "Suc i" k] Suc.prems(1) r(1) by auto
  then show ?case using r by simp
qed

text \<open>With no repeated node above the leaves, the bits of the proof spell the position.\<close>

lemma proof_loop_path:
  fixes K :: "buffer \<Rightarrow> buffer" and xs :: "buffer list"
  defines "tr \<equiv> sdk.tower K xs"
  assumes "xs \<noteq> []" "i + n = length (build_levels K xs)" "index < length (tr ! i)"
    and "\<And>j. j < length (build_levels K xs) \<Longrightarrow> distinct (tr ! Suc j)"
    and "proof_loop K tr i n index = Inr p"
  shows "path_index p = index"
  using assms(3,4,6)
proof (induction n arbitrary: i index p)
  case 0
  then have "length (tr ! i) = 1" using sdk.tower_top [OF assms(2), of K] by (simp add: tr_def)
  with 0 show ?case by simp
next
  case (Suc n)
  have il: "i < length (build_levels K xs)" using Suc.prems(1) by simp
  obtain sibling k where r:
    "k < length (tr ! Suc i)" "tr ! Suc i ! k = tr ! Suc i ! (index div 2)"
    "index div 2 < length (tr ! Suc i)"
    "proof_loop K tr i (Suc n) index = bindE (proof_loop K tr (Suc i) n k)
       (\<lambda>rest. Inr (\<lparr>node = sibling, onRight = even index\<rparr> # rest))"
    using proof_loop_round [of i K xs index, folded tr_def, OF il Suc.prems(2)] by metis
  have "distinct (tr ! Suc i)" using assms(5) Suc.prems(1) by simp
  with r(1-3) have k: "k = index div 2" by (simp add: nth_eq_iff_index_eq)
  obtain rest where "proof_loop K tr (Suc i) n k = Inr rest"
    "p = \<lparr>node = sibling, onRight = even index\<rparr> # rest"
    using r(4) Suc.prems(3) by (cases "proof_loop K tr (Suc i) n k") auto
  moreover have "path_index rest = k"
    using Suc.IH [of "Suc i" k rest] Suc.prems(1) r(1) calculation(1) by simp
  ultimately show ?case by (simp add: k)
qed

lemma consistent_single:
  assumes "consistent K t" "length (rawLeaves t) = 1"
  shows "length (tree t) \<le> 1" "root t = Some (hashLeaf K (rawLeaves t ! 0))"
proof -
  obtain l where l: "rawLeaves t = [l]" using assms(2) by (cases "rawLeaves t") auto
  then have "leaves t = [hashLeaf K l]" using consistent_leaves [OF assms(1)] by (simp add: padded_def)
  then have "tree t = [[hashLeaf K l]]"
    using consistent_tree [OF assms(1)] l by (simp add: sdk.levels_short)
  then show "length (tree t) \<le> 1" "root t = Some (hashLeaf K (rawLeaves t ! 0))"
    using consistent_root [OF assms(1)] l by simp_all
qed

lemma consistent_tower:
  assumes "consistent K t" "1 < length (rawLeaves t)"
  defines "base \<equiv> map (hashLeaf K) (padded (rawLeaves t))"
  shows "leaves t = base" "tree t = sdk.tower K base" "depth t = length (build_levels K base)"
    "root t = Some (sdk.tower K base ! length (build_levels K base) ! 0)" "1 < length (tree t)"
    "base \<noteq> []"
proof -
  have ne: "rawLeaves t \<noteq> []" using assms(2) by auto
  show lv: "leaves t = base"
    using consistent_leaves [OF assms(1)] by (simp add: base_def padded_map)
  show tr: "tree t = sdk.tower K base" using consistent_tree [OF assms(1) ne] lv by simp
  show "depth t = length (build_levels K base)" using consistent_depth [OF assms(1,2)] lv by simp
  show "root t = Some (sdk.tower K base ! length (build_levels K base) ! 0)"
    using consistent_root [OF assms(1) ne] by (simp only: tr sdk.last_tower)
  have "1 < length base" using assms(2) ne by (simp add: base_def length_padded)
  then show "1 < length (tree t)" by (simp add: tr sdk.levels_long)
  show "base \<noteq> []" using ne by (simp add: base_def)
qed

lemma inclusion_start:
  assumes "consistent K t" "leaf \<in> set (rawLeaves t)" "1 < length (rawLeaves t)"
  obtains k start where
    "k < length (rawLeaves t)" "rawLeaves t ! k = leaf" "leaf \<notin> set (take k (rawLeaves t))"
    "start = (if odd (length (rawLeaves t)) \<and> k = length (rawLeaves t) - 1 \<and> dup then k + 1 else k)"
    "start < length (leaves t)" "leaves t ! start = hashLeaf K leaf"
    "getInclusionProof K t leaf dup = proof_loop K (tree t) 0 (depth t) start"
proof -
  note ct = consistent_tower [OF assms(1,3)]
  obtain k where k: "index_of (rawLeaves t) leaf = int k" "k < length (rawLeaves t)"
    "rawLeaves t ! k = leaf" "leaf \<notin> set (take k (rawLeaves t))"
    using assms(2) by (rule index_of_in)
  define start where
    "start = (if odd (length (rawLeaves t)) \<and> k = length (rawLeaves t) - 1 \<and> dup then k + 1 else k)"
  have ne: "rawLeaves t \<noteq> []" using assms(3) by auto
  have s: "start < length (leaves t)"
    using k(2) assms(3) by (auto simp: start_def ct(1) length_padded)
  have "padded (rawLeaves t) ! start = leaf"
  proof (cases "start < length (rawLeaves t)")
    case True
    then have "start = k" using k(2) by (auto simp: start_def split: if_splits)
    then show ?thesis using k by (simp add: padded_nth)
  next
    case False
    then have "k = length (rawLeaves t) - 1" using k(2) by (auto simp: start_def split: if_splits)
    then have "last (rawLeaves t) = leaf" using k(3) ne by (simp add: last_conv_nth)
    then show ?thesis using False s by (simp add: padded_nth_last ct(1))
  qed
  then have "leaves t ! start = hashLeaf K leaf" using s by (simp add: ct(1))
  moreover have "getInclusionProof K t leaf dup = proof_loop K (tree t) 0 (depth t) start"
    using k(1) ct(5) by (auto simp: getInclusionProof_def getLeafIndex_def Let_def start_def
        odd_iff_mod_2_eq_one)
  ultimately show ?thesis using that k s start_def by blast
qed

lemma getInclusionProof_complete:
  assumes "consistent K t" "leaf \<in> set (rawLeaves t)"
  shows "\<exists>p. getInclusionProof K t leaf dup = Inr p \<and> length p = length (tree t) - 1 \<and>
    verifyInclusionProof K t leaf p = Inr True"
proof (cases "1 < length (rawLeaves t)")
  case True
  note ct = consistent_tower [OF assms(1) True]
  obtain start where s: "start < length (leaves t)" "leaves t ! start = hashLeaf K leaf"
    "getInclusionProof K t leaf dup = proof_loop K (tree t) 0 (depth t) start"
    using inclusion_start [OF assms True, of dup] by metis
  obtain p where "proof_loop K (tree t) 0 (depth t) start = Inr p" "length p = depth t"
    "climb K (tree t ! 0 ! start) p = tree t ! depth t ! 0"
    using proof_loop_complete [OF ct(6), of 0 "depth t" K start] s(1) ct(1,2,3) by auto
  then show ?thesis using s ct by (simp add: verifyInclusionProof_def Let_def)
next
  case False
  with assms(2) have one: "length (rawLeaves t) = 1" by (cases "rawLeaves t") auto
  then have "rawLeaves t = [leaf]" using assms(2) by (cases "rawLeaves t") auto
  with consistent_single [OF assms(1) one] show ?thesis
    by (simp add: getInclusionProof_def getLeafIndex_def Let_def verifyInclusionProof_def
        index_of_def)
qed

lemma getInclusionProof_absent:
  "leaf \<notin> set (rawLeaves t) \<Longrightarrow>
    getInclusionProof K t leaf dup = Inl (Error ''Leaf not found in the tree'')"
  by (simp add: getInclusionProof_def getLeafIndex_def Let_def)

end
