(* ===== verification/MerkleSound.thy ===== *)
theory MerkleSound
  imports MerkleInclusion
begin

text \<open>
  Soundness of a climb to the root, shared by the SDK's verifier and the on-chain one: if the
  hash has digests of 32 bytes and does not collide on the inputs hashed by the tree and by the
  verification, then a value whose climb ends in the root is a leaf, the proof has the height of
  the tree, and the bits of the proof denote a position of that leaf.
\<close>

section \<open>The inputs of the hash\<close>

definition node_inputs :: "buffer list \<Rightarrow> buffer list" where
  "node_inputs lv = map (\<lambda>j. 1 # lv ! (2 * j) @ lv ! (min (2 * j + 1) (length lv - 1)))
     [0..<(length lv + 1) div 2]"

definition tree_inputs :: "MerkleTree \<Rightarrow> buffer list" where
  "tree_inputs t = map ((#) 0) (rawLeaves t) @ concat (map node_inputs (butlast (tree t)))"

fun climb_inputs :: "(buffer \<Rightarrow> buffer) \<Rightarrow> buffer \<Rightarrow> ProofElement list \<Rightarrow> buffer list" where
  "climb_inputs K h [] = []"
| "climb_inputs K h (e # p) =
     (1 # (if onRight e then h @ node e else node e @ h)) # climb_inputs K (climb_step K h e) p"

definition verify_inputs :: "(buffer \<Rightarrow> buffer) \<Rightarrow> buffer \<Rightarrow> ProofElement list \<Rightarrow> buffer list" where
  "verify_inputs K leaf p = (0 # leaf) # climb_inputs K (hashLeaf K leaf) p"

definition digests_32 :: "(buffer \<Rightarrow> buffer) \<Rightarrow> buffer list \<Rightarrow> bool" where
  "digests_32 K xs \<longleftrightarrow> (\<forall>x \<in> set xs. length (K x) = 32)"

text \<open>
  The hypothesis on the hash, about finitely many named inputs: no two of them collide and their
  digests have 32 bytes.
\<close>

definition no_collision :: "(buffer \<Rightarrow> buffer) \<Rightarrow> buffer list \<Rightarrow> bool" where
  "no_collision K xs \<longleftrightarrow>
     digests_32 K xs \<and> (\<forall>x \<in> set xs. \<forall>y \<in> set xs. K x = K y \<longrightarrow> x = y)"

lemma no_collisionD:
  "no_collision K xs \<Longrightarrow> x \<in> set xs \<Longrightarrow> y \<in> set xs \<Longrightarrow> K x = K y \<Longrightarrow> x = y"
  by (simp add: no_collision_def)

lemma no_collision_length:
  "no_collision K xs \<Longrightarrow> x \<in> set xs \<Longrightarrow> length (K x) = 32"
  by (simp add: no_collision_def digests_32_def)

lemma no_collision_mono: "no_collision K ys \<Longrightarrow> set xs \<subseteq> set ys \<Longrightarrow> no_collision K xs"
  unfolding no_collision_def digests_32_def by blast

lemma climb_step_K:
  "climb_step K h e = K (1 # (if onRight e then h @ node e else node e @ h))"
  by (simp add: climb_step_def hashNode_def)

lemma climb_inputs_append:
  "climb_inputs K h (p @ q) = climb_inputs K h p @ climb_inputs K (climb K h p) q"
  by (induction p arbitrary: h) auto

lemma verify_inputs_snoc:
  "verify_inputs K leaf (p @ [e]) = verify_inputs K leaf p @
     [1 # (if onRight e then climb K (hashLeaf K leaf) p @ node e
           else node e @ climb K (hashLeaf K leaf) p)]"
  by (simp add: verify_inputs_def climb_inputs_append)

lemma climb_is_digest:
  "\<exists>x \<in> set (verify_inputs K leaf p). climb K (hashLeaf K leaf) p = K x"
proof (induction p rule: rev_induct)
  case Nil
  then show ?case by (simp add: verify_inputs_def hashLeaf_def)
next
  case (snoc e p)
  then show ?case by (simp add: climb_append verify_inputs_snoc climb_step_K)
qed

section \<open>The nodes of a tower over hashed leaves\<close>

definition tower_inputs :: "(buffer \<Rightarrow> buffer) \<Rightarrow> buffer list \<Rightarrow> buffer list" where
  "tower_inputs K base = map ((#) 0) base @
     concat (map node_inputs (butlast (sdk.tower K (map (hashLeaf K) base))))"

lemma tower_node_input:
  fixes K :: "buffer \<Rightarrow> buffer" and base :: "buffer list"
  defines "tr \<equiv> sdk.tower K (map (hashLeaf K) base)"
  assumes "k < length (build_levels K (map (hashLeaf K) base))" "x < length (tr ! Suc k)"
  shows "1 # tr ! k ! (2 * x) @ tr ! k ! (min (2 * x + 1) (length (tr ! k) - 1))
           \<in> set (tower_inputs K base)"
    and "tr ! Suc k ! x = K (1 # tr ! k ! (2 * x) @ tr ! k ! (min (2 * x + 1) (length (tr ! k) - 1)))"
proof -
  have nx: "length (tr ! Suc k) = (length (tr ! k) + 1) div 2"
    using sdk.tower_length_Suc [OF assms(2)] unfolding tr_def .
  have "tr ! k \<in> set (butlast tr)"
    using assms(2) unfolding tr_def by (metis (no_types, lifting) One_nat_def add_diff_cancel_right'
        length_butlast list.size(4) nth_butlast nth_mem)
  moreover have "1 # tr ! k ! (2 * x) @ tr ! k ! (min (2 * x + 1) (length (tr ! k) - 1))
      \<in> set (node_inputs (tr ! k))"
    using assms(3) nx by (auto simp: node_inputs_def)
  ultimately show "1 # tr ! k ! (2 * x) @ tr ! k ! (min (2 * x + 1) (length (tr ! k) - 1))
           \<in> set (tower_inputs K base)"
    unfolding tower_inputs_def tr_def [symmetric] by auto
  show "tr ! Suc k ! x = K (1 # tr ! k ! (2 * x) @ tr ! k ! (min (2 * x + 1) (length (tr ! k) - 1)))"
    using sdk.tower_parent [OF assms(2) assms(3) [unfolded tr_def]]
    unfolding tr_def hashNode_def .
qed

lemma tower_node_length:
  fixes K :: "buffer \<Rightarrow> buffer" and base :: "buffer list"
  defines "tr \<equiv> sdk.tower K (map (hashLeaf K) base)"
  assumes "no_collision K (tower_inputs K base)"
    and "k \<le> length (build_levels K (map (hashLeaf K) base))" "x < length (tr ! k)"
  shows "length (tr ! k ! x) = 32"
proof (cases k)
  case 0
  then have "tr ! k ! x = K (0 # base ! x)" "x < length base"
    using assms(4) by (auto simp: tr_def hashLeaf_def)
  moreover have "0 # base ! x \<in> set (tower_inputs K base)"
    using calculation(2) by (simp add: tower_inputs_def)
  ultimately show ?thesis using no_collision_length [OF assms(2)] by simp
next
  case (Suc j)
  then have "j < length (build_levels K (map (hashLeaf K) base))" using assms(3) by simp
  from tower_node_input [OF this, of x] assms(4) show ?thesis
    unfolding tr_def Suc using no_collision_length [OF assms(2)] by metis
qed

section \<open>Soundness of a climb\<close>

lemma climb_sound:
  fixes K :: "buffer \<Rightarrow> buffer" and base :: "buffer list"
  defines "tr \<equiv> sdk.tower K (map (hashLeaf K) base)"
  assumes nc: "no_collision K (tower_inputs K base @ verify_inputs K leaf p)"
    and "climb K (hashLeaf K leaf) p = tr ! k ! x"
    and "k \<le> length (build_levels K (map (hashLeaf K) base))" "x < length (tr ! k)"
  shows "length p = k \<and> base ! (virt (level_size tr) k x ! path_index p) = leaf \<and>
    virt (level_size tr) k x ! path_index p < length base"
  using assms(2-5)
proof (induction p arbitrary: k x rule: rev_induct)
  case Nil
  have lf: "0 # leaf \<in> set (tower_inputs K base @ verify_inputs K leaf [])"
    by (simp add: verify_inputs_def)
  show ?case
  proof (cases k)
    case 0
    then have x: "x < length base" using Nil.prems(4) by (simp add: tr_def)
    then have "K (0 # leaf) = K (0 # base ! x)" using Nil.prems(2) 0 by (simp add: tr_def hashLeaf_def)
    moreover have "0 # base ! x \<in> set (tower_inputs K base @ verify_inputs K leaf [])"
      using x by (simp add: tower_inputs_def)
    ultimately have "0 # leaf = 0 # base ! x" using no_collisionD [OF Nil.prems(1) lf] by blast
    with 0 x show ?thesis by simp
  next
    case (Suc j)
    then have j: "j < length (build_levels K (map (hashLeaf K) base))" using Nil.prems(3) by simp
    note ti = tower_node_input [OF j, folded tr_def, OF Nil.prems(4) [unfolded Suc]]
    have "K (0 # leaf) = K (1 # tr ! j ! (2 * x) @ tr ! j ! (min (2 * x + 1) (length (tr ! j) - 1)))"
      using Nil.prems(2) ti(2) Suc by (simp add: hashLeaf_def)
    then show ?thesis using no_collisionD [OF Nil.prems(1) lf, of "1 # _"] ti(1) by fastforce
  qed
next
  case (snoc e p)
  let ?h = "climb K (hashLeaf K leaf) p"
  let ?in = "1 # (if onRight e then ?h @ node e else node e @ ?h)"
  have vin: "?in \<in> set (tower_inputs K base @ verify_inputs K leaf (p @ [e]))"
    unfolding verify_inputs_snoc by simp
  have nc': "no_collision K (tower_inputs K base @ verify_inputs K leaf p)"
    using snoc.prems(1) by (rule no_collision_mono) (auto simp: verify_inputs_snoc)
  have top: "K ?in = tr ! k ! x" using snoc.prems(2) by (simp add: climb_append climb_step_K)
  show ?case
  proof (cases k)
    case 0
    then have x: "x < length base" using snoc.prems(4) by (simp add: tr_def)
    then have "K ?in = K (0 # base ! x)" using top 0 by (simp add: tr_def hashLeaf_def)
    moreover have "0 # base ! x \<in> set (tower_inputs K base @ verify_inputs K leaf (p @ [e]))"
      using x by (simp add: tower_inputs_def)
    ultimately show ?thesis using no_collisionD [OF snoc.prems(1) vin] by fastforce
  next
    case (Suc j)
    then have j: "j < length (build_levels K (map (hashLeaf K) base))" using snoc.prems(3) by simp
    let ?y = "min (2 * x + 1) (length (tr ! j) - 1)"
    let ?a = "tr ! j ! (2 * x)" and ?b = "tr ! j ! ?y"
    note ti = tower_node_input [OF j, folded tr_def, OF snoc.prems(4) [unfolded Suc]]
    have "length (tr ! Suc j) = (length (tr ! j) + 1) div 2"
      using sdk.tower_length_Suc [OF j] unfolding tr_def .
    then have l: "2 * x < length (tr ! j)" and r: "?y < length (tr ! j)"
      using snoc.prems(4) Suc by auto
    have ncT: "no_collision K (tower_inputs K base)" using nc' by (rule no_collision_mono) simp
    have len: "length ?a = 32" "length ?b = 32"
      using tower_node_length [OF ncT, folded tr_def] j l r by simp_all
    have lenh: "length ?h = 32"
      using climb_is_digest [of K leaf p] no_collision_length [OF nc'] by auto
    have tin: "1 # ?a @ ?b \<in> set (tower_inputs K base @ verify_inputs K leaf (p @ [e]))"
      using ti(1) by simp
    have "K ?in = K (1 # ?a @ ?b)" using top ti(2) Suc by metis
    then have "?in = 1 # ?a @ ?b" by (rule no_collisionD [OF snoc.prems(1) vin tin])
    then have "?h = (if onRight e then ?a else ?b)"
      using len lenh by (auto split: if_splits)
    moreover have "j \<le> length (build_levels K (map (hashLeaf K) base))" using j by simp
    ultimately have "length p = j \<and>
      base ! (virt (level_size tr) j (if onRight e then 2 * x else ?y) ! path_index p) = leaf \<and>
      virt (level_size tr) j (if onRight e then 2 * x else ?y) ! path_index p < length base"
      using snoc.IH [OF nc', of j "if onRight e then 2 * x else ?y"] l r by auto
    moreover have "path_index p < 2 ^ length p" by (rule path_index_bound)
    moreover have "level_size tr j = length (tr ! j)" by (simp add: level_size_def)
    ultimately show ?thesis
      using Suc by (auto simp: path_index_append nth_append)
  qed
qed

section \<open>The verifier of the SDK\<close>

lemma tree_inputs_tower:
  assumes "consistent K t" "rawLeaves t \<noteq> []"
  shows "set (tower_inputs K (padded (rawLeaves t))) = set (tree_inputs t)"
    and "root t = Some (sdk.tower K (map (hashLeaf K) (padded (rawLeaves t))) !
           length (build_levels K (map (hashLeaf K) (padded (rawLeaves t)))) ! 0)"
proof -
  have tr: "tree t = sdk.tower K (map (hashLeaf K) (padded (rawLeaves t)))"
    using consistent_tree [OF assms] consistent_leaves [OF assms(1)] by (simp add: padded_map)
  show "set (tower_inputs K (padded (rawLeaves t))) = set (tree_inputs t)"
    unfolding tower_inputs_def tree_inputs_def tr by simp
  show "root t = Some (sdk.tower K (map (hashLeaf K) (padded (rawLeaves t))) !
           length (build_levels K (map (hashLeaf K) (padded (rawLeaves t)))) ! 0)"
    using consistent_root [OF assms] by (simp only: tr sdk.last_tower)
qed

text \<open>What any climb to the root of a consistent tree establishes.\<close>

lemma climb_to_root:
  fixes K :: "buffer \<Rightarrow> buffer"
  assumes "consistent K t" "rawLeaves t \<noteq> []"
    and "root t = Some (climb K (hashLeaf K leaf) p)"
    and "no_collision K (tree_inputs t @ verify_inputs K leaf p)"
  defines "base \<equiv> padded (rawLeaves t)"
  defines "tr \<equiv> sdk.tower K (map (hashLeaf K) base)"
  defines "h \<equiv> length (build_levels K (map (hashLeaf K) base))"
  shows "length p = h" and "base ! (virt (level_size tr) h 0 ! path_index p) = leaf"
    and "virt (level_size tr) h 0 ! path_index p < length base" and "leaf \<in> set (rawLeaves t)"
proof -
  have ne: "map (hashLeaf K) base \<noteq> []" using assms(2) by (simp add: base_def)
  note ti = tree_inputs_tower [OF assms(1,2), folded base_def]
  have nc: "no_collision K (tower_inputs K base @ verify_inputs K leaf p)"
    using assms(4) by (rule no_collision_mono) (use ti(1) in auto)
  have "climb K (hashLeaf K leaf) p = tr ! h ! 0"
    using ti(2) assms(3) by (simp add: tr_def h_def)
  moreover have "0 < length (tr ! h)"
    using sdk.tower_top [OF ne, of K] by (simp add: tr_def h_def)
  ultimately have s: "length p = h \<and> base ! (virt (level_size tr) h 0 ! path_index p) = leaf \<and>
    virt (level_size tr) h 0 ! path_index p < length base"
    using climb_sound [OF nc, of h 0, folded tr_def] by (simp add: h_def)
  then show "length p = h" "base ! (virt (level_size tr) h 0 ! path_index p) = leaf"
    "virt (level_size tr) h 0 ! path_index p < length base" by simp_all
  with nth_mem [of _ base] show "leaf \<in> set (rawLeaves t)" unfolding base_def by fastforce
qed

end
