(* ===== verification/MerkleExclusion.thy ===== *)
theory MerkleExclusion
  imports MerkleSound
begin

text \<open>
  Exclusion proofs of \<open>MerkleTree\<close>: what \<open>getExclusionProof\<close> returns in each position of
  the absent key, and what \<open>verifyExclusionProof\<close> decides.  The verifier compares buffers with
  the operators \<open><\<close> and \<open>>\<close>, that is, by their UTF-8 decodings, so the positive results are
  for keys whose bytes are below 128, and the closed examples show what happens beyond.
\<close>

section \<open>The constructor of keys\<close>

text \<open>Web3.js documents that 32 bytes are a key as they stand.\<close>

definition keys_accepted :: "(buffer \<Rightarrow> buffer result) \<Rightarrow> bool" where
  "keys_accepted mk \<longleftrightarrow> (\<forall>b. length b = 32 \<longrightarrow> mk b = Inr b)"

lemma keys_acceptedD: "keys_accepted mk \<Longrightarrow> length b = 32 \<Longrightarrow> mk b = Inr b"
  by (simp add: keys_accepted_def)

section \<open>The position of an absent key\<close>

lemma exclusion_index_loop:
  "xs \<noteq> [] \<Longrightarrow> i + length xs = len \<Longrightarrow>
   exclusion_index leaf len i xs =
     (let k = length (takeWhile (\<lambda>r. \<not> leaf < r) xs)
      in if k < length xs then i + k else if even len then len else len + 1)"
proof (induction xs arbitrary: i)
  case Nil
  then show ?case by simp
next
  case (Cons x xs)
  show ?case
  proof (cases "xs = []")
    case True
    with Cons.prems show ?thesis by (auto simp: Let_def even_iff_mod_2_eq_zero)
  next
    case False
    then have "i \<noteq> len - 1" using Cons.prems(2) by (cases xs) auto
    then show ?thesis using Cons.IH [of "Suc i"] Cons.prems False by (auto simp: Let_def)
  qed
qed

text \<open>
  The three outcomes of the search in a sorted list without the key: before the first leaf,
  strictly between two neighbours, after the last leaf.
\<close>

lemma exclusion_index_cases [consumes 3, case_names before between after]:
  assumes "sorted xs" "leaf \<notin> set xs" "xs \<noteq> []"
  obtains "exclusion_index leaf (length xs) 0 xs = 0" "leaf < xs ! 0"
  | k where "exclusion_index leaf (length xs) 0 xs = Suc k" "Suc k < length xs"
      "xs ! k < leaf" "leaf < xs ! Suc k"
  | "exclusion_index leaf (length xs) 0 xs = (if even (length xs) then length xs else length xs + 1)"
      "\<forall>x \<in> set xs. x < leaf" "xs ! (length xs - 1) < leaf"
proof -
  let ?k = "length (takeWhile (\<lambda>r. \<not> leaf < r) xs)"
  have idx: "exclusion_index leaf (length xs) 0 xs =
      (if ?k < length xs then ?k else if even (length xs) then length xs else length xs + 1)"
    using exclusion_index_loop [OF assms(3), of 0 "length xs" leaf] by (simp add: Let_def)
  have small: "x < leaf" if "x \<in> set (takeWhile (\<lambda>r. \<not> leaf < r) xs)" for x
    using that assms(2) by (metis linorder_neqE set_takeWhileD)
  show ?thesis
  proof (cases "?k < length xs")
    case False
    then have all: "takeWhile (\<lambda>r. \<not> leaf < r) xs = xs"
      by (metis linorder_neqE_nat length_takeWhile_le less_irrefl_nat order_less_le_trans
          takeWhile_eq_take take_all_iff not_less)
    then have "\<forall>x \<in> set xs. x < leaf" using small by metis
    then show ?thesis using that(3) idx False assms(3) by simp
  next
    case True
    then have gt: "leaf < xs ! ?k" using nth_length_takeWhile by blast
    show ?thesis
    proof (cases ?k)
      case 0
      then show ?thesis using that(1) idx True gt by simp
    next
      case (Suc j)
      have "xs ! j = takeWhile (\<lambda>r. \<not> leaf < r) xs ! j" using Suc by (simp add: takeWhile_nth)
      then have "xs ! j < leaf" using small Suc nth_mem by (metis lessI)
      then show ?thesis using that(2) [of j] idx True gt Suc by simp
    qed
  qed
qed

section \<open>What \<open>getExclusionProof\<close> returns\<close>

text \<open>
  In each case the neighbours are leaves next to the absent key, with their inclusion proofs.
\<close>

lemma getExclusionProof_cases [consumes 5, case_names before between after]:
  assumes "consistent K t" "keys_accepted mk" "rawLeaves t \<noteq> []"
    and "leaf \<notin> set (rawLeaves t)" "raw = rawLeaves t"
  obtains p where "leaf < raw ! 0" "getInclusionProof K t (raw ! 0) False = Inr p"
      "getExclusionProof K mk t leaf = Inr ([p], [raw ! 0])"
  | k p q where "Suc k < length raw" "raw ! k < leaf" "leaf < raw ! Suc k"
      "getInclusionProof K t (raw ! k) False = Inr p"
      "getInclusionProof K t (raw ! Suc k) False = Inr q"
      "getExclusionProof K mk t leaf = Inr ([p, q], [raw ! k, raw ! Suc k])"
  | p where "\<forall>x \<in> set raw. x < leaf"
      "getInclusionProof K t (raw ! (length raw - 1)) True = Inr p"
      "getExclusionProof K mk t leaf = Inr ([p], [raw ! (length raw - 1)])"
proof -
  have ne: "raw \<noteq> []" using assms(3,5) by simp
  have mem: "k < length raw \<Longrightarrow> raw ! k \<in> set (rawLeaves t)" for k
    using assms(5) by simp
  have mkk: "k < length raw \<Longrightarrow> mk (raw ! k) = Inr (raw ! k)" for k
    using consistent_keys [OF assms(1)] mem
    by (intro keys_acceptedD [OF assms(2)]) (auto simp: key_list_def)
  have inc: "k < length raw \<Longrightarrow> \<exists>p. getInclusionProof K t (raw ! k) d = Inr p" for k d
    using getInclusionProof_complete [OF assms(1) mem] by blast
  have srt: "sorted raw" using consistent_sorted [OF assms(1)] assms(5) by simp
  have absent: "getLeafIndex t leaf = -1" using assms(4) by (simp add: getLeafIndex_def)
  have nin: "leaf \<notin> set raw" using assms(4,5) by simp
  from srt nin ne show ?thesis
  proof (cases rule: exclusion_index_cases)
    case before
    obtain p where "getInclusionProof K t (raw ! 0) False = Inr p" using inc ne by blast
    then show ?thesis
      using that(1) before mkk [of 0] ne absent assms(5)
      by (simp add: getExclusionProof_def Let_def)
  next
    case (between k)
    obtain p q where "getInclusionProof K t (raw ! k) False = Inr p"
      "getInclusionProof K t (raw ! Suc k) False = Inr q"
      using inc [of k] inc [of "Suc k"] between(2) by fastforce
    then show ?thesis
      using that(2) between mkk [of k] mkk [of "Suc k"] absent assms(5)
      by (simp add: getExclusionProof_def Let_def)
  next
    case after
    obtain p where "getInclusionProof K t (raw ! (length raw - 1)) True = Inr p"
      using inc [of "length raw - 1" True] ne by auto
    then show ?thesis
      using that(3) after mkk [of "length raw - 1"] ne absent assms(5)
      by (simp add: getExclusionProof_def Let_def)
  qed
qed

lemma getExclusionProof_present:
  "leaf \<in> set (rawLeaves t) \<Longrightarrow>
    getExclusionProof K mk t leaf = Inl (Error ''Leaf found in the tree'')"
  by (simp add: getExclusionProof_def getLeafIndex_def index_of_eq_minus1)

section \<open>What \<open>verifyExclusionProof\<close> decides\<close>

lemma inclusion_valid:
  assumes "consistent K t" "b \<in> set (rawLeaves t)" "getInclusionProof K t b d = Inr p"
  shows "verifyInclusionProof K t b p = Inr True"
  using getInclusionProof_complete [OF assms(1,2), of d] assms(3) by auto

lemma level0_length_one:
  assumes "consistent K t" "rawLeaves t \<noteq> []"
  shows "js_get (tree t) 0 = Inr (leaves t)"
    and "length (leaves t) = 1 \<longleftrightarrow> length (rawLeaves t) = 1"
  using consistent_tree [OF assms] consistent_leaves [OF assms(1)]
  by (auto simp: length_padded split: if_splits)

text \<open>Round trip: on ASCII keys an exclusion proof of the SDK verifies.\<close>

lemma exclusion_roundtrip:
  assumes "consistent K t" "keys_accepted mk" "rawLeaves t \<noteq> []" "leaf \<notin> set (rawLeaves t)"
    and "distinct (rawLeaves t)" "ascii leaf" "\<forall>b \<in> set (rawLeaves t). ascii b"
  shows "\<exists>proofs neighbors. getExclusionProof K mk t leaf = Inr (proofs, neighbors) \<and>
    verifyExclusionProof K mk t leaf proofs neighbors = Inr True"
proof -
  define raw where "raw = rawLeaves t"
  have ne: "raw \<noteq> []" using assms(3) raw_def by simp
  have mem: "k < length raw \<Longrightarrow> raw ! k \<in> set (rawLeaves t)" for k by (simp add: raw_def)
  have mkk: "k < length raw \<Longrightarrow> mk (raw ! k) = Inr (raw ! k)" for k
    using consistent_keys [OF assms(1)] mem
    by (intro keys_acceptedD [OF assms(2)]) (auto simp: key_list_def)
  have asc: "k < length raw \<Longrightarrow> ascii (raw ! k)" for k using assms(7) mem by blast
  have gli: "k < length raw \<Longrightarrow> getLeafIndex t (raw ! k) = int k" for k
    using assms(5) by (simp add: getLeafIndex_def raw_def index_of_distinct)
  note l0 = level0_length_one [OF assms(1,3)]
  from assms(1-4) raw_def show ?thesis
  proof (cases rule: getExclusionProof_cases)
    case (before p)
    note v = inclusion_valid [OF assms(1) mem before(2)]
    show ?thesis using before(1,3) v mkk [of 0] ne l0(1) asc [of 0] assms(6)
      by (auto simp: verifyExclusionProof_def raw_def [symmetric] buffer_gt_op_ascii)
  next
    case (between k p q)
    note v = inclusion_valid [OF assms(1) mem between(4)]
      inclusion_valid [OF assms(1) mem between(5)]
    show ?thesis using between v mkk [of k] mkk [of "Suc k"] gli [of k] gli [of "Suc k"]
        asc [of k] asc [of "Suc k"] assms(6)
      by (simp add: verifyExclusionProof_def buffer_gt_op_ascii buffer_lt_op_ascii)
  next
    case (after p)
    have last: "length raw - 1 < length raw" using ne by simp
    note v = inclusion_valid [OF assms(1) mem after(2)]
    have lt: "raw ! (length raw - 1) < leaf" using after(1) last nth_mem by blast
    have "verifyExclusionProof K mk t leaf [p] [raw ! (length raw - 1)] = Inr True"
    proof (cases "length raw = 1")
      case True
      then show ?thesis using v mkk [of 0] ne l0
        by (auto simp: verifyExclusionProof_def raw_def [symmetric])
    next
      case False
      then have "length raw - 1 \<noteq> 0" using last by linarith
      then have "raw ! (length raw - 1) \<noteq> raw ! 0"
        using assms(5) ne last nth_eq_iff_index_eq [of raw "length raw - 1" 0] by (simp add: raw_def)
      then show ?thesis using v mkk [OF last] ne lt asc [OF last] assms(6)
        by (auto simp: verifyExclusionProof_def raw_def [symmetric] buffer_lt_op_ascii)
    qed
    then show ?thesis using after(3) by blast
  qed
qed

text \<open>Soundness on ASCII keys, for trees of at least two leaves and any hash.\<close>

lemma sorted_gap:
  assumes "sorted xs" "Suc k < length xs" "xs ! k < x" "x < xs ! Suc k"
  shows "x \<notin> set xs"
proof
  assume "x \<in> set xs"
  then obtain i where i: "i < length xs" "xs ! i = x" by (auto simp: in_set_conv_nth)
  consider "i \<le> k" | "Suc k \<le> i" by linarith
  then show False
  proof cases
    case 1
    then have "xs ! i \<le> xs ! k" using assms(1,2) by (intro sorted_nth_mono) simp_all
    with i assms(3) show False by simp
  next
    case 2
    then have "xs ! Suc k \<le> xs ! i" using assms(1) i(1) by (intro sorted_nth_mono) simp_all
    with i assms(4) show False by simp
  qed
qed

lemma sorted_hd_le: "sorted xs \<Longrightarrow> x \<in> set xs \<Longrightarrow> xs ! 0 \<le> x"
  by (cases xs) auto

lemma adjacent_indices:
  assumes "index_of xs a + 1 = index_of xs b" "a \<in> set xs" "b \<in> set xs"
  obtains k where "Suc k < length xs" "xs ! k = a" "xs ! Suc k = b"
proof -
  obtain k where k: "index_of xs a = int k" "k < length xs" "xs ! k = a"
    using assms(2) by (auto elim: index_of_in)
  obtain m where m: "index_of xs b = int m" "m < length xs" "xs ! m = b"
    using assms(3) by (auto elim: index_of_in)
  have "m = Suc k" using assms(1) k(1) m(1) by simp
  with k m that show ?thesis by blast
qed

lemma verifyExclusionProof_sound:
  assumes "consistent K t" "2 \<le> length (rawLeaves t)"
    and "ascii leaf" "\<forall>b \<in> set (rawLeaves t). ascii b"
    and ok: "verifyExclusionProof K mk t leaf proofs neighbors = Inr True"
  shows "leaf \<notin> set (rawLeaves t)"
proof -
  define raw where "raw = rawLeaves t"
  have ne: "rawLeaves t \<noteq> []" using assms(2) by auto
  have srt: "sorted raw" using consistent_sorted [OF assms(1)] raw_def by simp
  have last: "length raw - 1 < length raw" using ne raw_def by simp
  have asc: "ascii b" if "b \<in> set raw" for b using assms(4) that raw_def by blast
  have ends: "raw ! 0 \<in> set raw" "raw ! (length raw - 1) \<in> set raw" using last by (auto intro: nth_mem)
  note l0 = level0_length_one [OF assms(1) ne]
  have len: "length proofs = length neighbors" "length proofs = 1 \<or> length proofs = 2"
    using ok by (auto simp: verifyExclusionProof_def split: if_splits)
  from len(2) show ?thesis
  proof
    assume one: "length proofs = 1"
    then have "(neighbors ! 0 = raw ! 0 \<and> leaf < raw ! 0) \<or>
        (neighbors ! 0 = raw ! (length raw - 1) \<and> raw ! (length raw - 1) < leaf)"
      using assms(2,3) ok len l0 last ne asc [OF ends(1)] asc [OF ends(2)]
      by (auto simp: verifyExclusionProof_def raw_def [symmetric] bindE_eq_Inr_iff
          buffer_gt_op_ascii buffer_lt_op_ascii split: if_splits)
    then show ?thesis
    proof (elim disjE conjE)
      assume "leaf < raw ! 0"
      then show ?thesis using sorted_hd_le [OF srt, of leaf] by (auto simp: raw_def)
    next
      assume "raw ! (length raw - 1) < leaf"
      then have "last raw < leaf" using ne by (simp add: raw_def last_conv_nth)
      then show ?thesis using sorted_le_last [OF srt, of leaf] by (auto simp: raw_def)
    qed
  next
    assume two: "length proofs = 2"
    then have g: "buffer_lt_op (neighbors ! 0) leaf" "buffer_gt_op (neighbors ! 1) leaf"
      "index_of raw (neighbors ! 0) + 1 = index_of raw (neighbors ! 1)"
      using ok len by (auto simp: verifyExclusionProof_def raw_def bindE_eq_Inr_iff getLeafIndex_def)
    have n1: "neighbors ! 1 \<in> set raw"
      using g(3) index_of_ge [of raw "neighbors ! 0"] index_of_eq_minus1 [of raw "neighbors ! 1"]
      by linarith
    then have gt: "leaf < neighbors ! 1" using g(2) assms(3) asc by (simp add: buffer_gt_op_ascii)
    show ?thesis
    proof (cases "neighbors ! 0 \<in> set raw")
      case True
      then have lt: "neighbors ! 0 < leaf" using g(1) assms(3) asc by (simp add: buffer_lt_op_ascii)
      from g(3) True n1 obtain k where
        "Suc k < length raw" "raw ! k = neighbors ! 0" "raw ! Suc k = neighbors ! 1"
        by (rule adjacent_indices)
      then show ?thesis using sorted_gap [OF srt] lt gt by (simp add: raw_def)
    next
      case False
      then have "index_of raw (neighbors ! 1) = 0" using g(3) by simp
      with n1 have "neighbors ! 1 = raw ! 0" by (auto elim: index_of_in)
      then show ?thesis using gt sorted_hd_le [OF srt, of leaf] by (auto simp: raw_def)
    qed
  qed
qed

section \<open>Where the comparison by decoded strings goes wrong\<close>

text \<open>A key above all leaves that decodes like the last leaf: its proof is refused.\<close>

lemma exclusion_refused:
  assumes "consistent K t" "keys_accepted mk" "2 \<le> length (rawLeaves t)" "distinct (rawLeaves t)"
    and "\<forall>b \<in> set (rawLeaves t). b < leaf"
    and "buffer_toString leaf = buffer_toString (last (rawLeaves t))"
  shows "\<exists>proofs neighbors. getExclusionProof K mk t leaf = Inr (proofs, neighbors) \<and>
    verifyExclusionProof K mk t leaf proofs neighbors = Inr False"
proof -
  define raw where "raw = rawLeaves t"
  have ne: "rawLeaves t \<noteq> []" using assms(3) by auto
  have nin: "leaf \<notin> set (rawLeaves t)" using assms(5) by auto
  have last: "length raw - 1 < length raw" using ne raw_def by simp
  have mem: "raw ! (length raw - 1) \<in> set (rawLeaves t)" using last by (simp add: raw_def)
  have mkk: "mk (raw ! (length raw - 1)) = Inr (raw ! (length raw - 1))"
    using consistent_keys [OF assms(1)] mem
    by (intro keys_acceptedD [OF assms(2)]) (auto simp: key_list_def)
  have "length raw - 1 \<noteq> 0" using assms(3) by (simp add: raw_def)
  then have neq: "raw ! (length raw - 1) \<noteq> raw ! 0"
    using assms(4) ne last nth_eq_iff_index_eq [of raw "length raw - 1" 0] by (simp add: raw_def)
  have above: "b < leaf" if "b \<in> set raw" for b using assms(5) that raw_def by blast
  from assms(1,2) ne nin raw_def show ?thesis
  proof (cases rule: getExclusionProof_cases)
    case (before p)
    have "raw ! 0 \<in> set raw" using ne by (simp add: raw_def)
    then show ?thesis using before(1) above by (meson order_less_asym)
  next
    case (between k p q)
    then show ?thesis using above by (meson nth_mem order_less_asym)
  next
    case (after p)
    have "\<not> buffer_lt_op (raw ! (length raw - 1)) leaf"
      using assms(6) ne by (simp add: buffer_lt_op_def raw_def last_conv_nth)
    then show ?thesis using after(3) mkk neq ne last inclusion_valid [OF assms(1) mem after(2)]
      by (auto simp: verifyExclusionProof_def raw_def [symmetric])
  qed
qed

text \<open>
  A key whose decoding is below that of the first leaf is accepted as absent, whether it is in
  the tree or not; and a tree with a single leaf accepts every key, its own leaf included.
\<close>

lemma exclusion_accepted_by_decoding:
  assumes "consistent K t" "keys_accepted mk" "rawLeaves t \<noteq> []"
    and "getInclusionProof K t (rawLeaves t ! 0) False = Inr p"
    and "length (rawLeaves t) = 1 \<or> buffer_gt_op (rawLeaves t ! 0) leaf"
  shows "verifyExclusionProof K mk t leaf [p] [rawLeaves t ! 0] = Inr True"
proof -
  have mem: "rawLeaves t ! 0 \<in> set (rawLeaves t)" using assms(3) by simp
  have "mk (rawLeaves t ! 0) = Inr (rawLeaves t ! 0)"
    using consistent_keys [OF assms(1)] mem
    by (intro keys_acceptedD [OF assms(2)]) (auto simp: key_list_def)
  then show ?thesis
    using assms(3,5) level0_length_one [OF assms(1,3)] inclusion_valid [OF assms(1) mem assms(4)]
    by (auto simp: verifyExclusionProof_def)
qed

end
