(* ===== verification/EarnMerkle.thy ===== *)
theory EarnMerkle
  imports MerkleExclusion
begin

text \<open>
  The on-chain verifier, \<open>programs/earn/src/utils/merkle_proof.rs\<close>, with the error codes of
  \<open>errors.rs\<close>.  Index arithmetic is on \<open>u64\<close>; the release profile sets
  \<open>overflow-checks\<close>, so an overflowing power or sum aborts the instruction (\<open>Panic\<close>).
  The main results: the verifier agrees with the SDK's climb and computes the position denoted by
  the path bits; an accepted exclusion proof against the root of a consistent tree shows absence;
  and the proofs the SDK generates are accepted, except above the last leaf, where they are
  accepted exactly when the bottom level is full.
\<close>

section \<open>Errors\<close>

datatype EarnError =
    AlreadyClaimed | ExceedsMaxYield | NotAuthorized | InvalidParam | AlreadyEarns
  | NoActiveClaim | NotEarning | RequiredAccountMissing | InvalidAccount | NotActive
  | InvalidProof | MutableOwner | InvalidMint | MathOverflow | MathUnderflow | TypeConversionError

datatype program_error = Err EarnError | Panic

section \<open>The two verification functions\<close>

definition pow2_u64 :: "nat \<Rightarrow> program_error + 64 word" where
  "pow2_u64 i = (if i < 64 then Inr (2 ^ i) else Inl Panic)"

definition add_u64 :: "64 word \<Rightarrow> 64 word \<Rightarrow> program_error + 64 word" where
  "add_u64 a b = (if unat a + unat b < 2 ^ 64 then Inr (a + b) else Inl Panic)"

fun verify_loop ::
  "(buffer \<Rightarrow> buffer) \<Rightarrow> buffer \<Rightarrow> 64 word \<Rightarrow> nat \<Rightarrow> ProofElement list \<Rightarrow>
     program_error + (buffer \<times> 64 word)" where
  "verify_loop K computed_hash index i [] = Inr (computed_hash, index)"
| "verify_loop K computed_hash index i (e # proof) =
     (if onRight e then
        verify_loop K (K (1 # computed_hash @ node e)) index (Suc i) proof
      else
        bindE (pow2_u64 i) (\<lambda>p. bindE (add_u64 index p) (\<lambda>index'.
          verify_loop K (K (1 # node e @ computed_hash)) index' (Suc i) proof)))"

definition verify_in_tree ::
  "(buffer \<Rightarrow> buffer) \<Rightarrow> buffer \<Rightarrow> buffer \<Rightarrow> ProofElement list \<Rightarrow> program_error + 64 word" where
  "verify_in_tree K root_hash value proof =
     bindE (verify_loop K (K (0 # value)) 0 0 proof) (\<lambda>(computed_hash, index).
       if computed_hash \<noteq> root_hash then Inl (Err InvalidProof) else Inr index)"

definition verify_not_in_tree ::
  "(buffer \<Rightarrow> buffer) \<Rightarrow> buffer \<Rightarrow> buffer \<Rightarrow> ProofElement list list \<Rightarrow> buffer list \<Rightarrow>
     program_error + unit" where
  "verify_not_in_tree K root_hash value proofs neighbors =
     (let len = length proofs in
      if length neighbors \<noteq> len then Inl (Err InvalidProof)
      else if len < 1 \<or> 2 < len then Inl (Err InvalidProof)
      else if len = 1 then
        (let neighbor = neighbors ! 0; proof = proofs ! 0 in
         if value < neighbor then
           bindE (verify_in_tree K root_hash neighbor proof) (\<lambda>neighbor_index.
             if neighbor_index = 0 then Inr () else Inl (Err InvalidProof))
         else if neighbor < value then
           bindE (pow2_u64 (length proof)) (\<lambda>p.
           bindE (verify_in_tree K root_hash neighbor proof) (\<lambda>neighbor_index.
             if neighbor_index = p - 1 then Inr () else Inl (Err InvalidProof)))
         else Inl (Err InvalidProof))
      else
        (let left_neighbor = neighbors ! 0; right_neighbor = neighbors ! 1 in
         if right_neighbor \<le> left_neighbor \<or> value \<le> left_neighbor \<or> right_neighbor \<le> value
         then Inl (Err InvalidProof)
         else
           bindE (verify_in_tree K root_hash left_neighbor (proofs ! 0)) (\<lambda>left_index.
           bindE (verify_in_tree K root_hash right_neighbor (proofs ! 1)) (\<lambda>right_index.
           bindE (add_u64 left_index 1) (\<lambda>next_index.
             if next_index \<noteq> right_index then Inl (Err InvalidProof) else Inr ())))))"

section \<open>The loop computes the climb and the position\<close>

lemma pow2_u64_Inr: "pow2_u64 i = Inr p \<longleftrightarrow> i < 64 \<and> p = 2 ^ i"
  by (auto simp: pow2_u64_def)

lemma add_u64_Inr: "add_u64 a b = Inr c \<longleftrightarrow> unat a + unat b < 2 ^ 64 \<and> c = a + b"
  by (auto simp: add_u64_def)

lemma unat_pow2: "i < 64 \<Longrightarrow> unat ((2::64 word) ^ i) = 2 ^ i"
proof -
  assume i: "i < 64"
  have "(2::nat) ^ i < 2 ^ 64" using i by (intro power_strict_increasing) auto
  then have "unat (of_nat (2 ^ i) :: 64 word) = 2 ^ i" by (simp add: unat_of_nat del: of_nat_power)
  then show ?thesis by simp
qed

lemma unat_add_u64: "add_u64 a b = Inr c \<Longrightarrow> unat c = unat a + unat b"
  by (auto simp: add_u64_Inr unat_word_ariths)

lemma climb_step_node:
  "onRight e \<Longrightarrow> climb_step K h e = K (1 # h @ node e)"
  "\<not> onRight e \<Longrightarrow> climb_step K h e = K (1 # node e @ h)"
  by (simp_all add: climb_step_def hashNode_def)

lemma verify_loop_result:
  "verify_loop K h idx i p = Inr (h', idx') \<Longrightarrow>
     h' = climb K h p \<and> unat idx' = unat idx + 2 ^ i * path_index p"
proof (induction p arbitrary: h idx i)
  case Nil
  then show ?case by simp
next
  case (Cons e p)
  show ?case
  proof (cases "onRight e")
    case True
    then have "verify_loop K (climb_step K h e) idx (Suc i) p = Inr (h', idx')"
      using Cons.prems by (simp add: climb_step_node)
    from Cons.IH [OF this] True show ?thesis by simp
  next
    case False
    with Cons.prems obtain j where j: "i < 64" "add_u64 idx (2 ^ i) = Inr j"
      "verify_loop K (climb_step K h e) j (Suc i) p = Inr (h', idx')"
      by (auto simp: bindE_eq_Inr_iff pow2_u64_Inr climb_step_node)
    have "unat j = unat idx + 2 ^ i" using unat_add_u64 [OF j(2)] unat_pow2 [OF j(1)] by simp
    with Cons.IH [OF j(3)] False show ?thesis by (simp add: algebra_simps)
  qed
qed

lemma verify_loop_returns:
  "i + length p \<le> 64 \<Longrightarrow> unat idx < 2 ^ i \<Longrightarrow> \<exists>r. verify_loop K h idx i p = Inr r"
proof (induction p arbitrary: h idx i)
  case Nil
  then show ?case by simp
next
  case (Cons e p)
  have i: "i < 64" using Cons.prems(1) by simp
  show ?case
  proof (cases "onRight e")
    case True
    moreover have "unat idx < 2 ^ Suc i" using Cons.prems(2) by simp
    ultimately show ?thesis using Cons.IH [of "Suc i" idx] Cons.prems(1) by simp
  next
    case False
    have "(2::nat) ^ Suc i \<le> 2 ^ 64" using i by (intro power_increasing) auto
    then have sum: "unat idx + 2 ^ i < 2 ^ 64" using Cons.prems(2) by simp
    then have add: "add_u64 idx (2 ^ i) = Inr (idx + 2 ^ i)"
      using i by (simp add: add_u64_def unat_pow2)
    have "unat (idx + 2 ^ i) < 2 ^ Suc i"
      using unat_add_u64 [OF add] unat_pow2 [OF i] Cons.prems(2) by simp
    then have "\<exists>r. verify_loop K h' (idx + 2 ^ i) (Suc i) p = Inr r" for h'
      using Cons.IH [of "Suc i"] Cons.prems(1) by simp
    then show ?thesis using False add i by (simp add: pow2_u64_def)
  qed
qed

lemma verify_in_tree_Inr:
  assumes "verify_in_tree K r v p = Inr idx"
  shows "climb K (hashLeaf K v) p = r" "unat idx = path_index p"
  using assms verify_loop_result [of K "K (0 # v)" 0 0 p]
  by (auto simp: verify_in_tree_def bindE_eq_Inr_iff hashLeaf_def split: if_splits)

text \<open>Up to the height of 64 levels nothing overflows: the result is decided by the climb.\<close>

lemma verify_in_tree_decides:
  assumes "length p \<le> 64"
  shows "verify_in_tree K r v p =
    (if climb K (hashLeaf K v) p = r then Inr (of_nat (path_index p)) else Inl (Err InvalidProof))"
proof -
  obtain h idx where l: "verify_loop K (K (0 # v)) 0 0 p = Inr (h, idx)"
    using verify_loop_returns [of 0 p 0 K "K (0 # v)"] assms by auto
  from verify_loop_result [OF l] have "h = climb K (hashLeaf K v) p" "unat idx = path_index p"
    by (simp_all add: hashLeaf_def)
  moreover from this(2) have "idx = of_nat (path_index p)"
    by (metis of_nat_unat ucast_id)
  ultimately show ?thesis using l by (simp add: verify_in_tree_def)
qed

lemma unat_path_index: "length p \<le> 64 \<Longrightarrow> unat (of_nat (path_index p) :: 64 word) = path_index p"
proof -
  assume "length p \<le> 64"
  then have "(2::nat) ^ length p \<le> 2 ^ 64" by (intro power_increasing) auto
  then have "path_index p < 2 ^ 64" using path_index_bound [of p] by linarith
  then show ?thesis by (simp add: unat_of_nat)
qed

section \<open>An accepted exclusion proof shows absence\<close>

definition exclusion_inputs ::
  "(buffer \<Rightarrow> buffer) \<Rightarrow> ProofElement list list \<Rightarrow> buffer list \<Rightarrow> buffer list" where
  "exclusion_inputs K proofs neighbors =
     concat (map (\<lambda>(n, p). verify_inputs K n p) (zip neighbors proofs))"

text \<open>
  What an accepted inclusion proof says against the root of a consistent tree, in terms of the
  padded leaves and the positions of the complete tree over its levels.
\<close>

definition positions :: "(buffer \<Rightarrow> buffer) \<Rightarrow> MerkleTree \<Rightarrow> nat list" where
  "positions K t =
     (let hs = map (hashLeaf K) (padded (rawLeaves t));
          h = length (build_levels K hs)
      in virt (level_size (sdk.tower K hs)) h 0)"

definition height :: "(buffer \<Rightarrow> buffer) \<Rightarrow> MerkleTree \<Rightarrow> nat" where
  "height K t = length (build_levels K (map (hashLeaf K) (padded (rawLeaves t))))"

lemma length_positions [simp]: "length (positions K t) = 2 ^ height K t"
  by (simp add: positions_def height_def Let_def)

lemma padded_le_height:
  assumes "rawLeaves t \<noteq> []"
  shows "length (padded (rawLeaves t)) \<le> 2 ^ height K t"
proof -
  let ?hs = "map (hashLeaf K) (padded (rawLeaves t))"
  have "level_size (sdk.tower K ?hs) (height K t) = 1"
    using sdk.tower_top [of ?hs K] assms by (simp add: level_size_def height_def)
  moreover have "halving (level_size (sdk.tower K ?hs)) (height K t)"
    unfolding height_def by (rule tower_halving)
  ultimately have "level_size (sdk.tower K ?hs) 0 \<le> 2 ^ height K t"
    using halving_upper by fastforce
  then show ?thesis by (simp add: level_size_def)
qed

lemma positions_facts:
  assumes "rawLeaves t \<noteq> []"
  shows "hd (positions K t) = 0"
    and "last (positions K t) = length (padded (rawLeaves t)) - 1"
    and "Suc i < 2 ^ height K t \<Longrightarrow>
      positions K t ! Suc i = Suc (positions K t ! i) \<or> positions K t ! Suc i \<le> positions K t ! i"
    and "positions K t \<noteq> []"
proof -
  let ?hs = "map (hashLeaf K) (padded (rawLeaves t))"
  let ?h = "height K t" and ?n = "level_size (sdk.tower K ?hs)"
  have ne: "?hs \<noteq> []" using assms by simp
  have hv: "halving ?n ?h" unfolding height_def by (rule tower_halving)
  have top: "?n ?h = 1"
    using sdk.tower_top [OF ne, of K] by (simp add: level_size_def height_def)
  have n0: "?n 0 = length (padded (rawLeaves t))" by (simp add: level_size_def)
  have pos: "positions K t = virt ?n ?h 0" by (simp add: positions_def height_def Let_def)
  show "hd (positions K t) = 0" unfolding pos by (simp add: hd_virt)
  have "?n 0 \<le> 2 ^ ?h" using halving_upper [OF hv] top by simp
  then show "last (positions K t) = length (padded (rawLeaves t)) - 1"
    unfolding pos using last_virt [OF hv, of 0] top n0 by (simp add: min_absorb2)
  show "Suc i < 2 ^ ?h \<Longrightarrow>
      positions K t ! Suc i = Suc (positions K t ! i) \<or> positions K t ! Suc i \<le> positions K t ! i"
    unfolding pos using virt_adjacent [OF hv, of 0 i] top by simp
  show "positions K t \<noteq> []" unfolding pos by simp
qed

lemma verify_in_tree_position:
  assumes "consistent K t" "rawLeaves t \<noteq> []" "root t = Some r"
    and "verify_in_tree K r v p = Inr idx"
    and "no_collision K (tree_inputs t @ verify_inputs K v p)"
  shows "length p = height K t" "padded (rawLeaves t) ! (positions K t ! unat idx) = v"
    "positions K t ! unat idx < length (padded (rawLeaves t))" "v \<in> set (rawLeaves t)"
proof -
  note vi = verify_in_tree_Inr [OF assms(4)]
  have "root t = Some (climb K (hashLeaf K v) p)" using vi(1) assms(3) by simp
  note c = climb_to_root [OF assms(1,2) this assms(5)]
  show "length p = height K t" using c(1) by (simp add: height_def)
  show "padded (rawLeaves t) ! (positions K t ! unat idx) = v"
    using c(2) by (simp add: positions_def Let_def vi(2))
  show "positions K t ! unat idx < length (padded (rawLeaves t))"
    using c(3) by (simp add: positions_def Let_def vi(2))
  show "v \<in> set (rawLeaves t)" by (rule c(4))
qed

lemma verify_not_in_tree_sound:
  assumes "consistent K t" "rawLeaves t \<noteq> []" "root t = Some r"
    and "no_collision K (tree_inputs t @ exclusion_inputs K proofs neighbors)"
    and ok: "verify_not_in_tree K r v proofs neighbors = Inr ()"
  shows "v \<notin> set (rawLeaves t)"
proof -
  let ?P = "padded (rawLeaves t)"
  have srt: "sorted ?P" using consistent_sorted [OF assms(1)] by (rule sorted_padded)
  note pf = positions_facts [OF assms(2), where K = K]
  have ne: "?P \<noteq> []" using assms(2) by simp
  have len: "length neighbors = length proofs" "length proofs = 1 \<or> length proofs = 2"
    using ok by (cases proofs; cases "tl proofs"; cases "tl (tl proofs)";
        auto simp: verify_not_in_tree_def Let_def split: if_splits)+
  have nc: "no_collision K (tree_inputs t @ verify_inputs K (neighbors ! i) (proofs ! i))"
    if "i < length proofs" for i
  proof (rule no_collision_mono [OF assms(4)])
    have "(neighbors ! i, proofs ! i) \<in> set (zip neighbors proofs)"
      using that len(1) by (auto simp: set_zip)
    then show "set (tree_inputs t @ verify_inputs K (neighbors ! i) (proofs ! i)) \<subseteq>
        set (tree_inputs t @ exclusion_inputs K proofs neighbors)"
      unfolding exclusion_inputs_def by fastforce
  qed
  note vp = verify_in_tree_position [OF assms(1-3)]
  from len(2) show ?thesis
  proof
    assume one: "length proofs = 1"
    then have nc0: "no_collision K (tree_inputs t @ verify_inputs K (neighbors ! 0) (proofs ! 0))"
      using nc [of 0] by simp
    consider idx where "v < neighbors ! 0" "verify_in_tree K r (neighbors ! 0) (proofs ! 0) = Inr idx"
        "idx = 0"
      | idx where "neighbors ! 0 < v" "verify_in_tree K r (neighbors ! 0) (proofs ! 0) = Inr idx"
        "length (proofs ! 0) < 64" "idx = 2 ^ length (proofs ! 0) - 1"
      using ok one len(1)
      by (auto simp: verify_not_in_tree_def Let_def bindE_eq_Inr_iff pow2_u64_Inr split: if_splits)
    then show ?thesis
    proof cases
      case 1
      have "neighbors ! 0 = ?P ! 0" using vp(2) [OF 1(2) nc0] 1(3) pf(1,4) by (simp add: hd_conv_nth)
      then show ?thesis using sorted_hd_le [OF srt, of v] 1(1) by auto
    next
      case 2
      have lp: "length (proofs ! 0) = height K t" using vp(1) [OF 2(2) nc0] .
      have "unat idx = 2 ^ height K t - 1"
        using 2(3,4) lp by (simp add: unat_minus_one unat_pow2)
      then have "neighbors ! 0 = ?P ! (last (positions K t))"
        using vp(2) [OF 2(2) nc0] pf(4) by (simp add: last_conv_nth)
      then have "neighbors ! 0 = last ?P" using pf(2) ne by (simp add: last_conv_nth)
      then show ?thesis using sorted_le_last [OF srt, of v] 2(1) by auto
    qed
  next
    assume two: "length proofs = 2"
    let ?a = "neighbors ! 0" and ?b = "neighbors ! 1"
    obtain i j where lt: "?a < v" "v < ?b"
      and vi: "verify_in_tree K r ?a (proofs ! 0) = Inr i"
      and vj: "verify_in_tree K r ?b (proofs ! 1) = Inr j" and "add_u64 i 1 = Inr j"
      using ok two len(1)
      by (auto simp: verify_not_in_tree_def Let_def bindE_eq_Inr_iff not_le split: if_splits)
    then have ij: "unat j = Suc (unat i)" using unat_add_u64 by fastforce
    have nc0: "no_collision K (tree_inputs t @ verify_inputs K ?a (proofs ! 0))"
      and nc1: "no_collision K (tree_inputs t @ verify_inputs K ?b (proofs ! 1))"
      using nc [of 0] nc [of 1] two by simp_all
    let ?x = "positions K t ! unat i" and ?y = "positions K t ! unat j"
    have "unat j < 2 ^ height K t"
      using verify_in_tree_Inr(2) [OF vj] vp(1) [OF vj nc1] path_index_bound [of "proofs ! 1"] by simp
    then have "?y = Suc ?x \<or> ?y \<le> ?x" using pf(3) [of "unat i"] ij by simp
    moreover have px: "?P ! ?x = ?a" "?P ! ?y = ?b" and ry: "?x < length ?P" "?y < length ?P"
      using vp(2,3) [OF vi nc0] vp(2,3) [OF vj nc1] by simp_all
    moreover have "\<not> ?y \<le> ?x"
      using sorted_nth_mono [OF srt _ ry(1), of ?y] px lt by auto
    ultimately have "Suc ?x < length ?P" "?P ! ?x < v" "v < ?P ! Suc ?x" using lt by auto
    from sorted_gap [OF srt this] show ?thesis by simp
  qed
qed

section \<open>The SDK's proofs are accepted on chain\<close>

text \<open>Above the leaves no node is repeated.\<close>

lemma tower_distinct:
  fixes K :: "buffer \<Rightarrow> buffer" and raw :: "buffer list"
  defines "tr \<equiv> sdk.tower K (map (hashLeaf K) (padded raw))"
  assumes "no_collision K (tower_inputs K (padded raw))" "distinct raw"
    and "k < length (build_levels K (map (hashLeaf K) (padded raw)))"
  shows "distinct (tr ! Suc k)"
  using assms(4)
proof (induction k)
  case 0
  note base = assms(2)
  have inj: "b = c" if "b \<in> set raw" "c \<in> set raw" "hashLeaf K b = hashLeaf K c" for b c
    using no_collisionD [OF base, of "0 # b" "0 # c"] that by (simp add: tower_inputs_def hashLeaf_def)
  have even_raw: "2 * x < length raw" if "2 * x < length (padded raw)" for x
    using that by (auto simp: length_padded split: if_splits) presburger
  show ?case
    unfolding distinct_conv_nth
  proof (intro allI impI)
    fix x y assume xy: "x < length (tr ! Suc 0)" "y < length (tr ! Suc 0)" "x \<noteq> y"
    note tx = tower_node_input [OF 0, folded tr_def, OF xy(1)]
      and ty = tower_node_input [OF 0, folded tr_def, OF xy(2)]
    have half: "length (tr ! Suc 0) = (length (tr ! 0) + 1) div 2"
      using sdk.tower_length_Suc [OF 0] unfolding tr_def .
    have rx: "2 * x < length (padded raw)" "2 * y < length (padded raw)"
      using xy(1,2) half by (auto simp: tr_def)
    show "tr ! Suc 0 ! x \<noteq> tr ! Suc 0 ! y"
    proof
      assume "tr ! Suc 0 ! x = tr ! Suc 0 ! y"
      then have "1 # tr ! 0 ! (2 * x) @ tr ! 0 ! min (2 * x + 1) (length (tr ! 0) - 1) =
          1 # tr ! 0 ! (2 * y) @ tr ! 0 ! min (2 * y + 1) (length (tr ! 0) - 1)"
        using no_collisionD [OF base tx(1) ty(1)] tx(2) ty(2) by metis
      moreover have "length (tr ! 0 ! (2 * x)) = 32" "length (tr ! 0 ! (2 * y)) = 32"
        using tower_node_length [OF base, folded tr_def, of 0] rx by (simp_all add: tr_def)
      ultimately have "tr ! 0 ! (2 * x) = tr ! 0 ! (2 * y)" by simp
      then have "hashLeaf K (raw ! (2 * x)) = hashLeaf K (raw ! (2 * y))"
        using rx even_raw by (simp add: tr_def padded_nth)
      then have "raw ! (2 * x) = raw ! (2 * y)" using inj even_raw rx by simp
      then show False using xy(3) assms(3) even_raw rx by (simp add: nth_eq_iff_index_eq)
    qed
  qed
next
  case (Suc k)
  note base = assms(2)
  have k: "k < length (build_levels K (map (hashLeaf K) (padded raw)))" using Suc.prems by simp
  have IH: "distinct (tr ! Suc k)" using Suc.IH [OF k] .
  show ?case
    unfolding distinct_conv_nth
  proof (intro allI impI)
    fix x y assume xy: "x < length (tr ! Suc (Suc k))" "y < length (tr ! Suc (Suc k))" "x \<noteq> y"
    note tx = tower_node_input [OF Suc.prems, folded tr_def, OF xy(1)]
      and ty = tower_node_input [OF Suc.prems, folded tr_def, OF xy(2)]
    have half: "length (tr ! Suc (Suc k)) = (length (tr ! Suc k) + 1) div 2"
      using sdk.tower_length_Suc [OF Suc.prems] unfolding tr_def .
    have rx: "2 * x < length (tr ! Suc k)" "2 * y < length (tr ! Suc k)"
      using xy(1,2) half by auto
    show "tr ! Suc (Suc k) ! x \<noteq> tr ! Suc (Suc k) ! y"
    proof
      assume "tr ! Suc (Suc k) ! x = tr ! Suc (Suc k) ! y"
      then have "1 # tr ! Suc k ! (2 * x) @ tr ! Suc k ! min (2 * x + 1) (length (tr ! Suc k) - 1) =
          1 # tr ! Suc k ! (2 * y) @ tr ! Suc k ! min (2 * y + 1) (length (tr ! Suc k) - 1)"
        using no_collisionD [OF base tx(1) ty(1)] tx(2) ty(2) by metis
      moreover have "length (tr ! Suc k ! (2 * x)) = 32" "length (tr ! Suc k ! (2 * y)) = 32"
        using tower_node_length [OF base, folded tr_def, of "Suc k"] rx Suc.prems by simp_all
      ultimately have "tr ! Suc k ! (2 * x) = tr ! Suc k ! (2 * y)" by simp
      then show False using xy(3) IH rx by (simp add: nth_eq_iff_index_eq)
    qed
  qed
qed

text \<open>
  The proof of leaf number \<open>k\<close> denotes position \<open>k\<close> on chain; with \<open>useDuplicate\<close> the last
  leaf of an odd tree denotes the position of its duplicate.
\<close>

lemma sdk_proof_position:
  assumes "consistent K t" "distinct (rawLeaves t)" "no_collision K (tree_inputs t)"
    and "k < length (rawLeaves t)" "height K t \<le> 64" "root t = Some r"
    and "getInclusionProof K t (rawLeaves t ! k) dup = Inr p"
  defines "pos \<equiv> (if odd (length (rawLeaves t)) \<and> k = length (rawLeaves t) - 1 \<and> dup \<and>
      1 < length (rawLeaves t) then k + 1 else k)"
  shows "verify_in_tree K r (rawLeaves t ! k) p = Inr (of_nat pos)" "path_index p = pos"
    and "length p = height K t"
proof -
  have mem: "rawLeaves t ! k \<in> set (rawLeaves t)" using assms(4) by simp
  have ne: "rawLeaves t \<noteq> []" using assms(4) by auto
  obtain p' where "getInclusionProof K t (rawLeaves t ! k) dup = Inr p'"
    "length p' = length (tree t) - 1" "verifyInclusionProof K t (rawLeaves t ! k) p' = Inr True"
    using getInclusionProof_complete [OF assms(1) mem] by blast
  then have lp: "length p = length (tree t) - 1"
    and cl: "climb K (hashLeaf K (rawLeaves t ! k)) p = r"
    using assms(6,7) by (auto simp: verifyInclusionProof_def Let_def)
  have "tree t = sdk.tower K (map (hashLeaf K) (padded (rawLeaves t)))"
    using consistent_tree [OF assms(1) ne] consistent_leaves [OF assms(1)] by (simp add: padded_map)
  then show h: "length p = height K t" using lp by (simp add: height_def)
  show pi: "path_index p = pos"
  proof (cases "1 < length (rawLeaves t)")
    case False
    then have "height K t = 0" using assms(4)
      by (simp add: height_def sdk.levels_short length_padded)
    then show ?thesis using h False assms(4) by (simp add: pos_def)
  next
    case True
    note ct = consistent_tower [OF assms(1) True]
    have dist: "distinct (sdk.tower K (map (hashLeaf K) (padded (rawLeaves t))) ! Suc j)"
      if "j < length (build_levels K (map (hashLeaf K) (padded (rawLeaves t))))" for j
      using tower_distinct [OF _ assms(2) that] assms(3) tree_inputs_tower(1) [OF assms(1) ne]
        no_collision_mono by blast
    obtain k' start where s: "k' < length (rawLeaves t)" "rawLeaves t ! k' = rawLeaves t ! k"
      "start = (if odd (length (rawLeaves t)) \<and> k' = length (rawLeaves t) - 1 \<and> dup then k' + 1 else k')"
      "start < length (leaves t)"
      "getInclusionProof K t (rawLeaves t ! k) dup = proof_loop K (tree t) 0 (depth t) start"
      using inclusion_start [OF assms(1) mem True, of dup] by metis
    have "k' = k" using s(1,2) assms(2,4) by (simp add: nth_eq_iff_index_eq)
    then have "start = pos" using s(3) True by (simp add: pos_def)
    moreover have "path_index p = start"
      using proof_loop_path [OF ct(6), of 0 "depth t" K start p] dist s(4,5) assms(7) ct(1,2,3) by simp
    ultimately show ?thesis by simp
  qed
  show "verify_in_tree K r (rawLeaves t ! k) p = Inr (of_nat pos)"
    using verify_in_tree_decides [of p K r] h assms(5) cl pi by simp
qed

text \<open>
  The exclusion proofs of the SDK on chain: below the last leaf they are accepted; above it the
  verifier asks for the highest position of the complete tree, which the SDK's proof denotes
  only if the bottom level is full.
\<close>

lemma sdk_exclusion_on_chain:
  assumes "consistent K t" "keys_accepted mk" "distinct (rawLeaves t)"
    and "no_collision K (tree_inputs t)" "height K t < 64" "root t = Some r"
    and "rawLeaves t \<noteq> []" "leaf \<notin> set (rawLeaves t)"
  shows "\<exists>proofs neighbors. getExclusionProof K mk t leaf = Inr (proofs, neighbors) \<and>
    (verify_not_in_tree K r leaf proofs neighbors = Inr () \<longleftrightarrow>
       (\<exists>b \<in> set (rawLeaves t). leaf < b) \<or> length (padded (rawLeaves t)) = 2 ^ height K t)"
proof -
  define raw where "raw = rawLeaves t"
  have ne: "raw \<noteq> []" using assms(7) raw_def by simp
  have h64: "height K t \<le> 64" using assms(5) by simp
  note pos = sdk_proof_position [OF assms(1,3,4) _ h64 assms(6), folded raw_def]
  have le: "length raw \<le> 2 ^ height K t"
    using padded_le_height [OF assms(7), of K] by (auto simp: length_padded raw_def split: if_splits)
  have small: "k < length raw \<Longrightarrow> unat (of_nat k :: 64 word) = k" for k
  proof -
    assume "k < length raw"
    moreover have "(2::nat) ^ height K t \<le> 2 ^ 64" using h64 by (intro power_increasing) auto
    ultimately show ?thesis using le by (simp add: unat_of_nat)
  qed
  show ?thesis
    using assms(1,2,7,8) raw_def
  proof (cases rule: getExclusionProof_cases)
    case (before p)
    have "verify_in_tree K r (raw ! 0) p = Inr 0"
      using pos(1) [OF _ before(2)] ne by simp
    then have "verify_not_in_tree K r leaf [p] [raw ! 0] = Inr ()"
      using before(1) by (simp add: verify_not_in_tree_def)
    moreover have "\<exists>b \<in> set (rawLeaves t). leaf < b"
      using before(1) ne by (auto simp: raw_def [symmetric] intro!: bexI [of _ "raw ! 0"])
    ultimately show ?thesis using before(3) by blast
  next
    case (between k p q)
    have "verify_in_tree K r (raw ! k) p = Inr (of_nat k)"
      "verify_in_tree K r (raw ! Suc k) q = Inr (of_nat (Suc k))"
      using pos(1) [OF _ between(4)] pos(1) [OF _ between(5)] between(1) by simp_all
    moreover have "add_u64 (of_nat k) 1 = Inr (of_nat (Suc k))"
    proof -
      have "unat (of_nat k :: 64 word) = k" using small between(1) by simp
      moreover have "(2::nat) ^ height K t \<le> 2 ^ 64" using h64 by (intro power_increasing) auto
      ultimately show ?thesis using between(1) le by (simp add: add_u64_def add.commute)
    qed
    ultimately have "verify_not_in_tree K r leaf [p, q] [raw ! k, raw ! Suc k] = Inr ()"
      using between(2,3) order_less_trans [OF between(2,3)]
      by (auto simp: verify_not_in_tree_def Let_def not_le)
    moreover have "\<exists>b \<in> set (rawLeaves t). leaf < b"
      using between(1,3) by (auto simp: raw_def [symmetric] intro!: bexI [of _ "raw ! Suc k"])
    ultimately show ?thesis using between(6) by blast
  next
    case (after p)
    have last: "length raw - 1 < length raw" using ne by simp
    let ?n = "length (padded raw)"
    have v: "verify_in_tree K r (raw ! (length raw - 1)) p = Inr (of_nat (?n - 1))"
      and lp: "length p = height K t" and pi: "path_index p = ?n - 1"
      using pos [OF last after(2)] ne by (auto simp: length_padded split: if_splits)
    have u: "unat (of_nat (?n - 1) :: 64 word) = ?n - 1"
      using unat_path_index [of p] lp h64 pi by simp
    have u2: "unat ((2::64 word) ^ length p - 1) = 2 ^ length p - 1"
      using assms(5) lp by (simp add: unat_minus_one unat_pow2)
    have "(of_nat (?n - 1) = (2::64 word) ^ length p - 1) \<longleftrightarrow> ?n - 1 = 2 ^ length p - 1"
      using u u2 by (metis word_unat_eq_iff)
    moreover have "0 < ?n" using ne by simp
    ultimately have "(of_nat (?n - 1) = (2::64 word) ^ length p - 1) \<longleftrightarrow> ?n = 2 ^ height K t"
      using lp by (metis Suc_pred' One_nat_def zero_less_numeral zero_less_power)
    moreover have "raw ! (length raw - 1) < leaf" using after(1) last by simp
    ultimately have "verify_not_in_tree K r leaf [p] [raw ! (length raw - 1)] = Inr () \<longleftrightarrow>
        ?n = 2 ^ height K t"
      using v lp assms(5) order_less_not_sym [of "raw ! (length raw - 1)" leaf]
      by (auto simp: verify_not_in_tree_def pow2_u64_def Let_def)
    moreover have "\<not> (\<exists>b \<in> set raw. leaf < b)" using after(1) by (meson order_less_asym)
    ultimately show ?thesis using after(3) unfolding raw_def by blast
  qed
qed

end
