(* ===== verification/MerkleProperties.thy ===== *)
theory MerkleProperties
  imports EarnMerkle
begin

text \<open>
  The properties of the SDK's Merkle tree and of the on-chain verifier, with their witnesses.
  The witnesses use a small tree under a toy hash with digests of 32 bytes that is injective on
  the few inputs hashed there.
\<close>

section \<open>Safely built trees\<close>

text \<open>
  The trees the properties below are about: those reached from the constructor by removals and by
  the safe additions, to a tree of one leaf or of an even number of at least two leaves.  They are not
  all the trees a client can hold: \<open>addLeaf\<close> also accepts an emptied tree, whose result has the hash
  of the one leaf twice, and a tree of an odd number of at least three leaves, whose result keeps the
  stale duplicate of the old last leaf (\<open>addLeaf_keeps_stale_duplicate\<close> below).  Nothing is claimed
  of proofs over those trees.
\<close>

inductive client_tree :: "(buffer \<Rightarrow> buffer) \<Rightarrow> MerkleTree \<Rightarrow> bool" for K where
  build: "key_list (map toBuffer ls) \<Longrightarrow> client_tree K (new_MerkleTree K ls)"
| remove: "client_tree K t \<Longrightarrow> removeLeaf K t leaf = Inr t' \<Longrightarrow> client_tree K t'"
| add: "client_tree K t \<Longrightarrow> length leaf = 32 \<Longrightarrow>
    length (rawLeaves t) = 1 \<or> (even (length (rawLeaves t)) \<and> rawLeaves t \<noteq> []) \<Longrightarrow>
    addLeaf K t leaf = Inr t' \<Longrightarrow> client_tree K t'"

lemma addLeaf_guards:
  "addLeaf K t leaf = Inr t' \<Longrightarrow> leaf \<notin> set (rawLeaves t) \<and> leaf \<noteq> zero_key"
  by (auto simp: addLeaf_def getLeafIndex_def index_of_eq_minus1 split: if_splits)

lemma client_tree_consistent: "client_tree K t \<Longrightarrow> consistent K t"
proof (induction rule: client_tree.induct)
  case (build ls)
  then show ?case by (rule new_MerkleTree_consistent)
next
  case (remove t leaf t')
  from remove.IH remove.hyps(2) show ?case by (rule removeLeaf_consistent(1))
next
  case (add t leaf t')
  then show ?case using addLeaf_consistent [of K t leaf] addLeaf_guards [of K t leaf t'] by auto
qed

lemma consistent_unique:
  assumes "consistent K t" "consistent K t'" "rawLeaves t = rawLeaves t'"
  shows "leaves t = leaves t'" "tree t = tree t'" "root t = root t'"
  using assms by (simp_all add: consistent_def)

section \<open>A toy instance\<close>

definition toyK :: "buffer \<Rightarrow> buffer" where
  "toyK x = replicate 32 (hd x * 16 + last x)"

definition toy_bytes :: "byte \<Rightarrow> buffer" where
  "toy_bytes b = replicate 32 b"

definition toy_key :: "nat \<Rightarrow> PublicKey" where
  "toy_key i = \<lparr>ref = i, toBuffer = toy_bytes (of_nat i)\<rparr>"

definition toy_tree :: "nat list \<Rightarrow> MerkleTree" where
  "toy_tree is = new_MerkleTree toyK (map toy_key is)"

lemma length_toy_bytes [simp]: "length (toy_bytes b) = 32"
  by (simp add: toy_bytes_def)

lemma toy_tree_client: "client_tree toyK (toy_tree is)"
  unfolding toy_tree_def
  by (rule client_tree.build) (auto simp: key_list_def toy_key_def)

lemma toy_tree_consistent: "consistent toyK (toy_tree is)"
  by (rule client_tree_consistent [OF toy_tree_client])

lemma toy_bytes_eq [simp]: "toy_bytes a = toy_bytes b \<longleftrightarrow> a = b"
  by (simp add: toy_bytes_def)

lemma toy_bytes_le [simp]: "toy_bytes a \<le> toy_bytes b \<longleftrightarrow> a \<le> b"
  by (auto simp: toy_bytes_def numeral_eq_Suc)

lemma toy_bytes_less [simp]: "toy_bytes a < toy_bytes b \<longleftrightarrow> a < b"
  by (simp add: less_le)

lemma toy_tree_raw:
  "rawLeaves (toy_tree is) = sort (map toBuffer (dedupe_refs [] (default_leaves (map toy_key is))))"
proof -
  have "key_list (map toBuffer (dedupe_refs [] (default_leaves (map toy_key is))))"
    using consistent_keys [OF toy_tree_consistent [of "is"]]
    by (simp add: toy_tree_def new_MerkleTree_raw)
  then show ?thesis by (simp add: toy_tree_def new_MerkleTree_raw bufferSort_eq_sort)
qed

lemma toy_two [simp]: "rawLeaves (toy_tree [2, 3]) = [toy_bytes 2, toy_bytes 3]"
  by (simp add: toy_tree_raw default_leaves_def toy_key_def)

lemma toy_three [simp]: "rawLeaves (toy_tree [2, 3, 5]) = [toy_bytes 2, toy_bytes 3, toy_bytes 5]"
  by (simp add: toy_tree_raw default_leaves_def toy_key_def)

lemma toy_two_hashes:
  "leaves (toy_tree [2, 3]) = [toyK (0 # toy_bytes 2), toyK (0 # toy_bytes 3)]"
  using consistent_leaves [OF toy_tree_consistent [of "[2, 3]"]]
  by (simp add: padded_def hashLeaf_def)

lemma toy_two_tree:
  "tree (toy_tree [2, 3]) = [[toyK (0 # toy_bytes 2), toyK (0 # toy_bytes 3)],
     [toyK (1 # toyK (0 # toy_bytes 2) @ toyK (0 # toy_bytes 3))]]"
proof -
  let ?a = "toyK (0 # toy_bytes 2)" and ?b = "toyK (0 # toy_bytes 3)"
  have l: "hash_level toyK [?a, ?b] = [toyK (1 # ?a @ ?b)]"
    by (simp add: hash_level_def hashNode_def)
  have "build_levels toyK [?a, ?b] = [hash_level toyK [?a, ?b]]"
    by (subst build_levels.simps) (simp add: l sdk.levels_short)
  then show ?thesis
    using consistent_tree [OF toy_tree_consistent [of "[2, 3]"]] by (simp add: toy_two_hashes l)
qed

lemma toy_two_root:
  "root (toy_tree [2, 3]) = Some (toyK (1 # toyK (0 # toy_bytes 2) @ toyK (0 # toy_bytes 3)))"
  using consistent_root [OF toy_tree_consistent [of "[2, 3]"]] by (simp add: toy_two_tree)

lemma toy_two_inputs:
  "tree_inputs (toy_tree [2, 3]) = [0 # toy_bytes 2, 0 # toy_bytes 3,
     1 # toyK (0 # toy_bytes 2) @ toyK (0 # toy_bytes 3)]"
  by (simp add: tree_inputs_def toy_two_tree node_inputs_def)

lemma toyK_values:
  "toyK (0 # toy_bytes b) = toy_bytes b"
  "toyK (1 # toy_bytes a @ toy_bytes b) = toy_bytes (16 + b)"
  by (simp_all add: toyK_def toy_bytes_def)

lemma toy_two_no_collision: "no_collision toyK (tree_inputs (toy_tree [2, 3]))"
  by (simp add: toy_two_inputs toyK_values no_collision_def digests_32_def)

definition toy_proof :: "byte \<Rightarrow> bool \<Rightarrow> ProofElement list" where
  "toy_proof b right = [\<lparr>node = toy_bytes b, onRight = right\<rparr>]"

section \<open>Inclusion\<close>

text \<open>
  C8. In a tree built by the constructor, removals and safe additions (\<open>client_tree\<close>), every leaf has
  an inclusion proof of the height of the tree, with and without \<open>useDuplicate\<close>, and
  \<open>verifyInclusionProof\<close> accepts it.
\<close>

theorem inclusion_proof_complete:
  assumes "client_tree K t" "leaf \<in> set (rawLeaves t)"
  shows "\<exists>p. getInclusionProof K t leaf dup = Inr p \<and> length p = length (tree t) - 1 \<and>
    verifyInclusionProof K t leaf p = Inr True"
  using client_tree_consistent [OF assms(1)] assms(2) by (rule getInclusionProof_complete)

theorem inclusion_proof_complete_witness:
  "\<exists>p. getInclusionProof toyK (toy_tree [2, 3, 5]) (toy_bytes 5) True = Inr p \<and>
     length p = length (tree (toy_tree [2, 3, 5])) - 1 \<and>
     verifyInclusionProof toyK (toy_tree [2, 3, 5]) (toy_bytes 5) p = Inr True"
  by (rule inclusion_proof_complete [OF toy_tree_client]) simp

text \<open>
  C17. Soundness of \<open>verifyInclusionProof\<close> on a tree with at least one leaf that was built by the
  constructor, removals and safe additions (\<open>client_tree\<close>): if the hash does not collide on the inputs
  hashed by the tree and by the verification, an accepted value is a leaf of the tree and its proof
  has the height of the tree.  (An emptied tree hashes the zero key and accepts it; a tree after an
  addition to an odd number of leaves may keep a hashed leaf that is no leaf any more.)
\<close>

theorem inclusion_proof_sound:
  assumes "client_tree K t" "rawLeaves t \<noteq> []"
    and "no_collision K (tree_inputs t @ verify_inputs K leaf p)"
    and "verifyInclusionProof K t leaf p = Inr True"
  shows "leaf \<in> set (rawLeaves t) \<and> length p = height K t"
proof -
  note c = client_tree_consistent [OF assms(1)]
  have "root t = Some (climb K (hashLeaf K leaf) p)"
    using assms(4) by (simp add: verifyInclusionProof_def Let_def split: option.splits)
  from climb_to_root [OF c assms(2) this assms(3)] show ?thesis by (simp add: height_def)
qed

lemma toy_verify_inputs:
  "verify_inputs toyK (toy_bytes 2) (toy_proof 3 True) =
     [0 # toy_bytes 2, 1 # toy_bytes 2 @ toy_bytes 3]"
  "verify_inputs toyK (toy_bytes 3) (toy_proof 2 False) =
     [0 # toy_bytes 3, 1 # toy_bytes 2 @ toy_bytes 3]"
  by (simp_all add: verify_inputs_def toy_proof_def hashLeaf_def toyK_values)

theorem inclusion_proof_sound_witness:
  "toy_bytes 2 \<in> set (rawLeaves (toy_tree [2, 3])) \<and>
   length (toy_proof 3 True) = height toyK (toy_tree [2, 3])"
proof (rule inclusion_proof_sound [OF toy_tree_client])
  show "rawLeaves (toy_tree [2, 3]) \<noteq> []" by simp
  show "no_collision toyK (tree_inputs (toy_tree [2, 3]) @
      verify_inputs toyK (toy_bytes 2) (toy_proof 3 True))"
    by (simp add: toy_verify_inputs toy_two_inputs toyK_values no_collision_def digests_32_def)
  show "verifyInclusionProof toyK (toy_tree [2, 3]) (toy_bytes 2) (toy_proof 3 True) = Inr True"
    by (simp add: verifyInclusionProof_def climb_def climb_step_def toy_proof_def toy_two_root
        hashLeaf_def hashNode_def toyK_values)
qed

section \<open>Updates\<close>

text \<open>
  C9. The incremental updates agree with a rebuild: a tree reached by the constructor, by any
  removals, and by additions to a tree with one leaf or an even number of leaves has the hashed
  leaves, the levels and the root of a fresh tree over the same raw leaves.
\<close>

theorem updates_equal_rebuild:
  assumes "client_tree K t" "rawLeaves t = rawLeaves (new_MerkleTree K ls)"
  shows "leaves t = leaves (new_MerkleTree K ls) \<and> tree t = tree (new_MerkleTree K ls) \<and>
    root t = root (new_MerkleTree K ls)"
proof -
  note c = client_tree_consistent [OF assms(1)]
  have raw: "bufferSort (map toBuffer (dedupe_refs [] (default_leaves ls))) = rawLeaves t"
    using assms(2) by (simp add: new_MerkleTree_raw)
  have "consistent K (new_MerkleTree K ls)"
    unfolding new_MerkleTree_def Let_def raw
    by (intro updateTree_consistent) (simp_all add: consistent_sorted [OF c] consistent_keys [OF c])
  with c show ?thesis using consistent_unique assms(2) by blast
qed

definition toy_after_remove :: MerkleTree where
  "toy_after_remove = (case removeLeaf toyK (toy_tree [2, 3, 5]) (toy_bytes 5) of
     Inr t \<Rightarrow> t | Inl e \<Rightarrow> toy_tree [])"

lemma toy_remove:
  "removeLeaf toyK (toy_tree [2, 3, 5]) (toy_bytes 5) = Inr toy_after_remove"
  "rawLeaves toy_after_remove = [toy_bytes 2, toy_bytes 3]"
  by (simp_all add: toy_after_remove_def removeLeaf_def Let_def getLeafIndex_def index_of_def
      splice_remove_def)

theorem updates_equal_rebuild_witness:
  "root toy_after_remove = root (new_MerkleTree toyK (map toy_key [2, 3]))"
  using updates_equal_rebuild [OF client_tree.remove [OF toy_tree_client toy_remove(1)],
      of "map toy_key [2, 3]"] toy_remove(2) toy_two
  by (simp add: toy_tree_def)

text \<open>
  C30. \<open>addLeaf\<close> on a tree with an odd number (at least three) of leaves keeps the stale
  duplicate of the old last leaf: the result has \<open>n + 1\<close> raw leaves but \<open>n + 3\<close> hashed
  leaves, the last two being copies of the old last leaf, so it is not the rebuilt tree.
\<close>

theorem addLeaf_keeps_stale_duplicate:
  assumes "client_tree K t" "length leaf = 32" "leaf \<notin> set (rawLeaves t)" "leaf \<noteq> zero_key"
    and "odd (length (rawLeaves t))" "3 \<le> length (rawLeaves t)"
  shows "\<exists>t'. addLeaf K t leaf = Inr t' \<and> length (rawLeaves t') = length (rawLeaves t) + 1 \<and>
    leaves t' = map (hashLeaf K) (rawLeaves t') @
      [hashLeaf K (last (rawLeaves t)), hashLeaf K (last (rawLeaves t))] \<and>
    (\<forall>ls. rawLeaves (new_MerkleTree K ls) = rawLeaves t' \<longrightarrow> leaves (new_MerkleTree K ls) \<noteq> leaves t')"
proof -
  obtain t' where t': "addLeaf K t leaf = Inr t'" "rawLeaves t' = bufferSort (rawLeaves t @ [leaf])"
    "leaves t' = map (hashLeaf K) (rawLeaves t') @
      [hashLeaf K (last (rawLeaves t)), hashLeaf K (last (rawLeaves t))]"
    using addLeaf_odd_leaves [OF client_tree_consistent [OF assms(1)] assms(2-6)] by blast
  have "length (leaves (new_MerkleTree K ls)) \<le> Suc (length (rawLeaves (new_MerkleTree K ls)))" for ls
    by (simp add: new_MerkleTree_def Let_def updateTree_leaves length_padded)
  then have "leaves (new_MerkleTree K ls) \<noteq> leaves t'"
    if "rawLeaves (new_MerkleTree K ls) = rawLeaves t'" for ls
    using that t'(3) by (metis add_2_eq_Suc' length_append length_map list.size(3,4) not_less_eq_eq
        One_nat_def Suc_1 add_Suc_right add_0_right le_refl lessI)
  with t' show ?thesis by simp
qed

theorem addLeaf_keeps_stale_duplicate_witness:
  "\<exists>t'. addLeaf toyK (toy_tree [2, 3, 5]) (toy_bytes 4) = Inr t' \<and>
     leaves t' = map (hashLeaf toyK) (rawLeaves t') @
       [hashLeaf toyK (toy_bytes 5), hashLeaf toyK (toy_bytes 5)]"
  using addLeaf_keeps_stale_duplicate [OF toy_tree_client, of "toy_bytes 4" "[2, 3, 5]"]
  by (auto simp: zero_key_def toy_bytes_def)

section \<open>Exclusion in the SDK\<close>

lemma keys_accepted_Inr: "keys_accepted Inr"
  by (simp add: keys_accepted_def)

text \<open>
  C31. Exclusion round trip: on a tree with at least one leaf that was built by the constructor,
  removals and safe additions (\<open>client_tree\<close>), whose keys are ASCII bytes without repetition, the proof
  \<open>getExclusionProof\<close> builds for an absent ASCII key is accepted by \<open>verifyExclusionProof\<close>.
\<close>

theorem exclusion_proof_roundtrip:
  assumes "client_tree K t" "keys_accepted mk" "rawLeaves t \<noteq> []" "leaf \<notin> set (rawLeaves t)"
    and "distinct (rawLeaves t)" "ascii leaf" "\<forall>b \<in> set (rawLeaves t). ascii b"
  shows "\<exists>proofs neighbors. getExclusionProof K mk t leaf = Inr (proofs, neighbors) \<and>
    verifyExclusionProof K mk t leaf proofs neighbors = Inr True"
  using client_tree_consistent [OF assms(1)] assms(2-7) by (rule exclusion_roundtrip)

lemma ascii_toy_bytes: "b < 128 \<Longrightarrow> ascii (toy_bytes b)"
  by (simp add: ascii_def toy_bytes_def)

theorem exclusion_proof_roundtrip_witness:
  "\<exists>proofs neighbors.
     getExclusionProof toyK Inr (toy_tree [2, 3, 5]) (toy_bytes 4) = Inr (proofs, neighbors) \<and>
     verifyExclusionProof toyK Inr (toy_tree [2, 3, 5]) (toy_bytes 4) proofs neighbors = Inr True"
  by (rule exclusion_proof_roundtrip [OF toy_tree_client keys_accepted_Inr])
    (simp_all add: ascii_toy_bytes)

text \<open>
  C32. Soundness of \<open>verifyExclusionProof\<close> for ASCII keys and trees of at least two leaves:
  whatever the proofs and neighbours, an accepted key is not a leaf.  It needs no hypothesis on
  the hash, since the method looks the neighbours up in its own leaves.
\<close>

theorem exclusion_proof_sound:
  assumes "client_tree K t" "2 \<le> length (rawLeaves t)"
    and "ascii leaf" "\<forall>b \<in> set (rawLeaves t). ascii b"
    and "verifyExclusionProof K mk t leaf proofs neighbors = Inr True"
  shows "leaf \<notin> set (rawLeaves t)"
  using client_tree_consistent [OF assms(1)] assms(2-5) by (rule verifyExclusionProof_sound)

lemma toy_exclusion_accepted:
  "verifyExclusionProof toyK Inr (toy_tree [2, 3]) (toy_bytes 4) [toy_proof 2 False] [toy_bytes 3] =
     Inr True"
proof -
  have "buffer_lt_op (toy_bytes 3) (toy_bytes 4)"
    by (simp add: buffer_lt_op_ascii ascii_toy_bytes)
  then show ?thesis
    by (simp add: verifyExclusionProof_def verifyInclusionProof_def climb_def climb_step_def
        toy_proof_def toy_two_root hashLeaf_def hashNode_def toyK_values)
qed

theorem exclusion_proof_sound_witness: "toy_bytes 4 \<notin> set (rawLeaves (toy_tree [2, 3]))"
  using exclusion_proof_sound [OF toy_tree_client _ _ _ toy_exclusion_accepted]
  by (simp add: ascii_toy_bytes)

text \<open>
  C33. The comparison by decoded strings accepts members: the honest inclusion proof of the first
  leaf shows the exclusion of every key that decodes below it, leaves included; and in a tree of
  one leaf it shows the exclusion of every key, that leaf included.
\<close>

theorem exclusion_of_member_accepted:
  assumes "client_tree K t" "keys_accepted mk" "leaf \<in> set (rawLeaves t)"
    and "length (rawLeaves t) = 1 \<or> buffer_gt_op (rawLeaves t ! 0) leaf"
  shows "\<exists>p. getInclusionProof K t (rawLeaves t ! 0) False = Inr p \<and>
    verifyExclusionProof K mk t leaf [p] [rawLeaves t ! 0] = Inr True"
proof -
  note c = client_tree_consistent [OF assms(1)]
  have ne: "rawLeaves t \<noteq> []" using assms(3) by auto
  then obtain p where p: "getInclusionProof K t (rawLeaves t ! 0) False = Inr p"
    using getInclusionProof_complete [OF c, of "rawLeaves t ! 0" False] by auto
  from exclusion_accepted_by_decoding [OF c assms(2) ne p assms(4)] p show ?thesis by blast
qed

definition two_byte_key :: buffer where
  "two_byte_key = concat (replicate 16 [195, 169])"

definition toy_high_tree :: MerkleTree where
  "toy_high_tree = new_MerkleTree toyK
     [\<lparr>ref = 1, toBuffer = toy_bytes 128\<rparr>, \<lparr>ref = 2, toBuffer = two_byte_key\<rparr>]"

lemma toString_lone_continuation:
  "128 \<le> b \<Longrightarrow> b < 192 \<Longrightarrow> buffer_toString (b # bs) = 65533 # buffer_toString bs"
  by (simp add: buffer_toString_def utf8_initial_def utf8_step_def utf8_start_def utf16_units_def
      word_le_nat_alt word_less_nat_alt)

lemma toString_195_169: "buffer_toString (195 # 169 # bs) = 233 # buffer_toString bs"
  by (simp add: buffer_toString_def utf8_initial_def utf8_step_def utf8_start_def utf16_units_def)

lemma toString_replicate:
  "128 \<le> b \<Longrightarrow> b < 192 \<Longrightarrow> buffer_toString (replicate n b) = replicate n 65533"
  by (induction n) (simp_all add: toString_lone_continuation,
      simp add: buffer_toString_def utf8_initial_def)

lemma toy_high:
  "client_tree toyK toy_high_tree" "rawLeaves toy_high_tree = [toy_bytes 128, two_byte_key]"
  "buffer_gt_op (toy_bytes 128) two_byte_key"
proof -
  have s: "16 = Suc 15" "32 = Suc 31" by simp_all
  have e: "two_byte_key = 195 # 169 # concat (replicate 15 [195, 169])"
    "toy_bytes 128 = 128 # replicate 31 128"
    unfolding two_byte_key_def toy_bytes_def s replicate_Suc by simp_all
  have k: "key_list [toy_bytes 128, two_byte_key]"
    by (simp add: key_list_def two_byte_key_def length_concat sum_list_replicate)
  then show "client_tree toyK toy_high_tree"
    unfolding toy_high_tree_def by (intro client_tree.build) (simp add: key_list_def)
  have "toy_bytes 128 \<le> two_byte_key" by (simp add: e)
  then show "rawLeaves toy_high_tree = [toy_bytes 128, two_byte_key]"
    using k by (simp add: toy_high_tree_def new_MerkleTree_raw default_leaves_def bufferSort_eq_sort)
  show "buffer_gt_op (toy_bytes 128) two_byte_key"
    by (simp add: e buffer_gt_op_def buffer_lt_op_def toString_195_169 toString_lone_continuation)
qed

theorem exclusion_of_member_accepted_witness:
  "two_byte_key \<in> set (rawLeaves toy_high_tree) \<and>
   (\<exists>p. getInclusionProof toyK toy_high_tree (rawLeaves toy_high_tree ! 0) False = Inr p \<and>
     verifyExclusionProof toyK Inr toy_high_tree two_byte_key [p] [rawLeaves toy_high_tree ! 0] =
       Inr True)"
  using exclusion_of_member_accepted [OF toy_high(1) keys_accepted_Inr, of two_byte_key]
  by (simp add: toy_high(2,3))

text \<open>
  The same comparison refuses honest proofs: for a key above all leaves that decodes like
  the last leaf, \<open>verifyExclusionProof\<close> returns false on what \<open>getExclusionProof\<close> returned.
\<close>

theorem honest_exclusion_refused:
  assumes "client_tree K t" "keys_accepted mk" "2 \<le> length (rawLeaves t)" "distinct (rawLeaves t)"
    and "\<forall>b \<in> set (rawLeaves t). b < leaf"
    and "buffer_toString leaf = buffer_toString (last (rawLeaves t))"
  shows "\<exists>proofs neighbors. getExclusionProof K mk t leaf = Inr (proofs, neighbors) \<and>
    verifyExclusionProof K mk t leaf proofs neighbors = Inr False"
  using client_tree_consistent [OF assms(1)] assms(2-6) by (rule exclusion_refused)

theorem honest_exclusion_refused_witness:
  "\<exists>proofs neighbors.
     getExclusionProof toyK Inr (toy_tree [2, 128]) (toy_bytes 129) = Inr (proofs, neighbors) \<and>
     verifyExclusionProof toyK Inr (toy_tree [2, 128]) (toy_bytes 129) proofs neighbors = Inr False"
proof -
  have raw: "rawLeaves (toy_tree [2, 128]) = [toy_bytes 2, toy_bytes 128]"
    by (simp add: toy_tree_raw default_leaves_def toy_key_def)
  have "toy_bytes 2 < toy_bytes 129" "toy_bytes 128 < toy_bytes 129"
    by simp_all
  moreover have "buffer_toString (toy_bytes 129) = buffer_toString (toy_bytes 128)"
    by (simp add: toy_bytes_def toString_replicate)
  ultimately show ?thesis
    by (intro honest_exclusion_refused [OF toy_tree_client keys_accepted_Inr]) (simp_all add: raw)
qed

section \<open>The program on chain\<close>

text \<open>
  C6. The two verifiers agree: on proofs of at most 64 elements the on-chain \<open>verify_in_tree\<close>
  accepts exactly what \<open>verifyInclusionProof\<close> accepts, without overflow, and returns the
  position denoted by the sides of the proof.
\<close>

theorem onchain_agrees_with_sdk:
  assumes "length p \<le> 64" "root t = Some r"
  shows "verify_in_tree K r leaf p =
    (if verifyInclusionProof K t leaf p = Inr True then Inr (of_nat (path_index p))
     else Inl (Err InvalidProof))"
  using verify_in_tree_decides [OF assms(1), of K r leaf] assms(2)
  by (simp add: verifyInclusionProof_def Let_def)

theorem onchain_agrees_with_sdk_witness:
  "verify_in_tree toyK (toy_bytes 19) (toy_bytes 3) (toy_proof 2 False) = Inr 1"
  using onchain_agrees_with_sdk [of "toy_proof 2 False" "toy_tree [2, 3]" "toy_bytes 19" toyK
      "toy_bytes 3"]
  by (simp add: verifyInclusionProof_def climb_def climb_step_def toy_proof_def toy_two_root
      hashLeaf_def hashNode_def toyK_values)

text \<open>
  C7. Soundness of \<open>verify_not_in_tree\<close>: if the hash does not collide on the inputs of the
  tree and of the proofs, an exclusion proof accepted against the root of a tree shows that the
  value is not one of its leaves, whatever the bytes of the keys.
\<close>

theorem onchain_exclusion_sound:
  assumes "client_tree K t" "rawLeaves t \<noteq> []" "root t = Some r"
    and "no_collision K (tree_inputs t @ exclusion_inputs K proofs neighbors)"
    and "verify_not_in_tree K r value proofs neighbors = Inr ()"
  shows "value \<notin> set (rawLeaves t)"
  using client_tree_consistent [OF assms(1)] assms(2-5) by (rule verify_not_in_tree_sound)

theorem onchain_exclusion_sound_witness:
  "toy_bytes 4 \<notin> set (rawLeaves (toy_tree [2, 3]))"
proof (rule onchain_exclusion_sound [OF toy_tree_client, of "[2, 3]" "toy_bytes 19"
      "[toy_proof 2 False]" "[toy_bytes 3]"])
  show "rawLeaves (toy_tree [2, 3]) \<noteq> []" by simp
  show "root (toy_tree [2, 3]) = Some (toy_bytes 19)" by (simp add: toy_two_root toyK_values)
  show "no_collision toyK (tree_inputs (toy_tree [2, 3]) @
      exclusion_inputs toyK [toy_proof 2 False] [toy_bytes 3])"
    by (simp add: exclusion_inputs_def toy_verify_inputs toy_two_inputs toyK_values
        no_collision_def digests_32_def)
  show "verify_not_in_tree toyK (toy_bytes 19) (toy_bytes 4) [toy_proof 2 False] [toy_bytes 3] =
      Inr ()"
    by (simp add: verify_not_in_tree_def Let_def pow2_u64_def add_u64_def verify_in_tree_def
        toy_proof_def toyK_values)
qed

text \<open>
  C18. The SDK's exclusion proofs on chain, for a tree built by the constructor, removals and safe
  additions (\<open>client_tree\<close>) with at least one leaf, no repeated leaf, a height below 64 and no collision
  of the hash on the inputs of the tree: \<open>getExclusionProof\<close> builds a proof for every absent key; for a
  key below the last leaf it is accepted on chain; above it, it is accepted exactly when the padded
  leaves fill the bottom level of the tree, because the verifier expects index \<open>2 ^ len - 1\<close>.
\<close>

theorem sdk_exclusion_accepted_iff:
  assumes "client_tree K t" "keys_accepted mk" "distinct (rawLeaves t)"
    and "no_collision K (tree_inputs t)" "height K t < 64" "root t = Some r"
    and "rawLeaves t \<noteq> []" "leaf \<notin> set (rawLeaves t)"
  shows "\<exists>proofs neighbors. getExclusionProof K mk t leaf = Inr (proofs, neighbors) \<and>
    (verify_not_in_tree K r leaf proofs neighbors = Inr () \<longleftrightarrow>
       (\<exists>b \<in> set (rawLeaves t). leaf < b) \<or> length (padded (rawLeaves t)) = 2 ^ height K t)"
  using client_tree_consistent [OF assms(1)] assms(2-8) by (rule sdk_exclusion_on_chain)

lemma toy_two_height: "height toyK (toy_tree [2, 3]) = 1"
  using toy_two_tree consistent_tree [OF toy_tree_consistent [of "[2, 3]"]]
  by (simp add: height_def padded_def hashLeaf_def toy_two_hashes)

theorem sdk_exclusion_accepted_iff_witness:
  "\<exists>proofs neighbors.
     getExclusionProof toyK Inr (toy_tree [2, 3]) (toy_bytes 4) = Inr (proofs, neighbors) \<and>
     verify_not_in_tree toyK (toy_bytes 19) (toy_bytes 4) proofs neighbors = Inr ()"
  using sdk_exclusion_accepted_iff [OF toy_tree_client keys_accepted_Inr _ toy_two_no_collision,
      of "toy_bytes 19" "toy_bytes 4"]
  by (simp add: toy_two_height toy_two_root toyK_values padded_def)

end
