(* ===== verification/Idl.thy ===== *)
theory Idl
  imports Prelude
begin

text \<open>
  Anchor IDLs as data, and the Borsh encoding they describe: \<open>encode n T ty v\<close> is the byte
  string of the value \<open>v\<close> of type \<open>ty\<close> under the type definitions \<open>T\<close>, and
  \<open>decode\<close> reads it back.  The number \<open>n\<close> bounds the nesting of types; the types of the
  programs modelled here nest at most four deep, so that 5 is enough for them.
\<close>

section \<open>The IDL format\<close>

datatype idl_type = Prim string | TOption idl_type | TVec idl_type | TArray idl_type nat | Defined string

datatype idl_body = Struct "(string \<times> idl_type) list" | Enum "string list"

type_synonym typedefs = "(string \<times> idl_body) list"

datatype seed = SeedConst buffer | SeedAccount string "string option" | SeedArg string

record idl_pda =
  pda_seeds :: "seed list"
  pda_program :: "buffer option"

record idl_account_item =
  ia_name :: string
  ia_writable :: bool
  ia_signer :: bool
  ia_optional :: bool
  ia_address :: "string option"
  ia_relations :: "string list"
  ia_pda :: "idl_pda option"

record idl_instruction =
  ii_name :: string
  ii_discriminator :: buffer
  ii_accounts :: "idl_account_item list"
  ii_args :: "(string \<times> idl_type) list"

record idl =
  idl_address :: string
  idl_instructions :: "idl_instruction list"
  idl_accounts :: "(string \<times> buffer) list"
  idl_events :: "(string \<times> buffer) list"
  idl_types :: typedefs

section \<open>Little-endian numbers\<close>

fun le_nat :: "buffer \<Rightarrow> nat" where
  "le_nat [] = 0"
| "le_nat (b # bs) = unat b + 256 * le_nat bs"

fun nat_le :: "nat \<Rightarrow> nat \<Rightarrow> buffer" where
  "nat_le 0 n = []"
| "nat_le (Suc k) n = of_nat (n mod 256) # nat_le k (n div 256)"

lemma length_nat_le [simp]: "length (nat_le k n) = k"
  by (induction k arbitrary: n) auto

lemma unat_byte: "n < 256 \<Longrightarrow> unat (of_nat n :: byte) = n"
  by (simp add: unat_of_nat)

lemma le_nat_nat_le: "n < 256 ^ k \<Longrightarrow> le_nat (nat_le k n) = n"
proof (induction k arbitrary: n)
  case 0
  then show ?case by simp
next
  case (Suc k)
  then have "n div 256 < 256 ^ k" by (simp add: div_less_iff_less_mult mult.commute)
  with Suc.IH show ?case by (simp add: unat_of_nat)
qed

lemma nat_le_le_nat: "nat_le (length bs) (le_nat bs) = bs"
proof (induction bs)
  case Nil
  then show ?case by simp
next
  case (Cons b bs)
  have "unat b < 256" using unsigned_less [of b] by simp
  then have "(unat b + 256 * le_nat bs) mod 256 = unat b" "(unat b + 256 * le_nat bs) div 256 = le_nat bs"
    by simp_all
  then show ?case using Cons by simp
qed

lemma le_nat_bound: "le_nat bs < 256 ^ length bs"
proof (induction bs)
  case Nil
  then show ?case by simp
next
  case (Cons b bs)
  have "unat b < 256" using unsigned_less [of b] by simp
  with Cons.IH show ?case by simp
qed

definition u64_le :: "64 word \<Rightarrow> buffer" where
  "u64_le w = nat_le 8 (unat w)"

lemma length_u64_le [simp]: "length (u64_le w) = 8"
  by (simp add: u64_le_def)

lemma le_nat_u64_le [simp]: "le_nat (u64_le w) = unat w"
proof -
  have "unat w < 256 ^ 8" using unsigned_less [of w] by simp
  then show ?thesis by (simp add: u64_le_def le_nat_nat_le)
qed

lemma u64_le_le_nat: "length bs = 8 \<Longrightarrow> u64_le (of_nat (le_nat bs)) = bs"
  using le_nat_bound [of bs] nat_le_le_nat [of bs] by (simp add: u64_le_def unat_of_nat)

section \<open>Borsh\<close>

datatype bval = VKey buffer | VU8 byte | VU64 "64 word" | VBool bool
  | VOption "bval option" | VVec "bval list" | VStruct "(string \<times> bval) list" | VEnum string

fun encode_prim :: "string \<Rightarrow> bval \<Rightarrow> buffer option" where
  "encode_prim p (VKey b) = (if p = ''pubkey'' \<and> length b = 32 then Some b else None)"
| "encode_prim p (VU8 x) = (if p = ''u8'' then Some [x] else None)"
| "encode_prim p (VU64 w) = (if p = ''u64'' then Some (u64_le w) else None)"
| "encode_prim p (VBool b) = (if p = ''bool'' then Some [if b then 1 else 0] else None)"
| "encode_prim p _ = None"

definition decode_prim :: "string \<Rightarrow> buffer \<Rightarrow> (bval \<times> buffer) option" where
  "decode_prim p bs =
     (if p = ''pubkey'' then (if 32 \<le> length bs then Some (VKey (take 32 bs), drop 32 bs) else None)
      else if p = ''u8'' then (case bs of [] \<Rightarrow> None | x # rest \<Rightarrow> Some (VU8 x, rest))
      else if p = ''u64'' then
        (if 8 \<le> length bs then Some (VU64 (of_nat (le_nat (take 8 bs))), drop 8 bs) else None)
      else if p = ''bool'' then (case bs of [] \<Rightarrow> None | x # rest \<Rightarrow> 
        if x = 0 then Some (VBool False, rest) else if x = 1 then Some (VBool True, rest) else None)
      else None)"

fun concat_opt :: "buffer option list \<Rightarrow> buffer option" where
  "concat_opt [] = Some []"
| "concat_opt (x # xs) =
     (case x of None \<Rightarrow> None | Some b \<Rightarrow> map_option ((@) b) (concat_opt xs))"

fun decode_fields ::
  "(idl_type \<Rightarrow> buffer \<Rightarrow> (bval \<times> buffer) option) \<Rightarrow> (string \<times> idl_type) list \<Rightarrow> buffer \<Rightarrow>
     ((string \<times> bval) list \<times> buffer) option" where
  "decode_fields f [] bs = Some ([], bs)"
| "decode_fields f ((k, t) # fs) bs = (case f t bs of None \<Rightarrow> None | Some (v, bs') \<Rightarrow>
     map_option (\<lambda>(vs, rest). ((k, v) # vs, rest)) (decode_fields f fs bs'))"

fun decode_many :: "(buffer \<Rightarrow> (bval \<times> buffer) option) \<Rightarrow> nat \<Rightarrow> buffer \<Rightarrow> (bval list \<times> buffer) option" where
  "decode_many f 0 bs = Some ([], bs)"
| "decode_many f (Suc k) bs = (case f bs of None \<Rightarrow> None | Some (v, bs') \<Rightarrow>
     map_option (\<lambda>(vs, rest). (v # vs, rest)) (decode_many f k bs'))"

primrec encode :: "nat \<Rightarrow> typedefs \<Rightarrow> idl_type \<Rightarrow> bval \<Rightarrow> buffer option" where
  "encode 0 T ty v = None"
| "encode (Suc n) T ty v =
     (case ty of
        Prim p \<Rightarrow> encode_prim p v
      | TOption t \<Rightarrow>
          (case v of VOption None \<Rightarrow> Some [0]
           | VOption (Some x) \<Rightarrow> map_option ((#) 1) (encode n T t x) | _ \<Rightarrow> None)
      | TVec t \<Rightarrow>
          (case v of VVec vs \<Rightarrow>
             if length vs < 256 ^ 4
             then map_option ((@) (nat_le 4 (length vs))) (concat_opt (map (encode n T t) vs))
             else None
           | _ \<Rightarrow> None)
      | TArray t k \<Rightarrow>
          (case v of VVec vs \<Rightarrow>
             if length vs = k then concat_opt (map (encode n T t) vs) else None
           | _ \<Rightarrow> None)
      | Defined nm \<Rightarrow>
          (case map_of T nm of
             None \<Rightarrow> None
           | Some (Struct fs) \<Rightarrow>
               (case v of VStruct vs \<Rightarrow>
                  if map fst vs = map fst fs
                  then concat_opt (map (\<lambda>((_, t), (_, x)). encode n T t x) (zip fs vs))
                  else None
                | _ \<Rightarrow> None)
           | Some (Enum names) \<Rightarrow>
               (case v of VEnum c \<Rightarrow>
                  if c \<in> set names \<and> length names \<le> 256
                  then Some [of_int (index_of names c)] else None
                | _ \<Rightarrow> None)))"

primrec decode :: "nat \<Rightarrow> typedefs \<Rightarrow> idl_type \<Rightarrow> buffer \<Rightarrow> (bval \<times> buffer) option" where
  "decode 0 T ty bs = None"
| "decode (Suc n) T ty bs =
     (case ty of
        Prim p \<Rightarrow> decode_prim p bs
      | TOption t \<Rightarrow>
          (case bs of [] \<Rightarrow> None | x # rest \<Rightarrow>
             if x = 0 then Some (VOption None, rest)
             else if x = 1 then map_option (\<lambda>(v, r). (VOption (Some v), r)) (decode n T t rest)
             else None)
      | TVec t \<Rightarrow>
          (if length bs < 4 then None
           else map_option (\<lambda>(vs, r). (VVec vs, r))
                  (decode_many (decode n T t) (le_nat (take 4 bs)) (drop 4 bs)))
      | TArray t k \<Rightarrow>
          map_option (\<lambda>(vs, r). (VVec vs, r)) (decode_many (decode n T t) k bs)
      | Defined nm \<Rightarrow>
          (case map_of T nm of
             None \<Rightarrow> None
           | Some (Struct fs) \<Rightarrow> map_option (\<lambda>(vs, r). (VStruct vs, r)) (decode_fields (decode n T) fs bs)
           | Some (Enum names) \<Rightarrow>
               (case bs of [] \<Rightarrow> None | x # rest \<Rightarrow>
                  if unat x < length names then Some (VEnum (names ! unat x), rest) else None)))"

section \<open>Round trip\<close>

lemma decode_prim_encode:
  "encode_prim p v = Some bs \<Longrightarrow> decode_prim p (bs @ rest) = Some (v, rest)"
  by (cases v) (auto simp: decode_prim_def split: if_splits)

lemma decode_many_encode:
  assumes "\<And>x bs rest. f x = Some bs \<Longrightarrow> g (bs @ rest) = Some (x, rest)"
  shows "concat_opt (map f vs) = Some bs \<Longrightarrow> decode_many g (length vs) (bs @ rest) = Some (vs, rest)"
  by (induction vs arbitrary: bs) (auto simp: assms split: option.splits)

lemma decode_fields_encode:
  assumes "\<And>t x bs rest. f t x = Some bs \<Longrightarrow> g t (bs @ rest) = Some (x, rest)"
  shows "map fst vs = map fst fs \<Longrightarrow>
    concat_opt (map (\<lambda>((_, t), (_, x)). f t x) (zip fs vs)) = Some bs \<Longrightarrow>
    decode_fields g fs (bs @ rest) = Some (vs, rest)"
proof (induction fs arbitrary: vs bs)
  case Nil
  then show ?case by simp
next
  case (Cons f' fs)
  then show ?case by (cases vs; cases f'; cases "hd vs") (auto simp: assms split: option.splits)
qed

lemma decode_encode:
  "encode n T ty v = Some bs \<Longrightarrow> decode n T ty (bs @ rest) = Some (v, rest)"
proof (induction n arbitrary: ty v bs rest)
  case 0
  then show ?case by simp
next
  case (Suc n)
  show ?case
  proof (cases ty)
    case (Prim p)
    then show ?thesis using Suc.prems by (simp add: decode_prim_encode)
  next
    case (TOption t)
    then show ?thesis using Suc.prems by (auto simp: Suc.IH split: bval.splits option.splits)
  next
    case (TVec t)
    then obtain vs cs where v: "v = VVec vs" "length vs < 256 ^ 4" "bs = nat_le 4 (length vs) @ cs"
      "concat_opt (map (encode n T t) vs) = Some cs"
      using Suc.prems by (auto split: bval.splits if_splits)
    then show ?thesis using TVec decode_many_encode [OF Suc.IH v(4)] by (simp add: le_nat_nat_le)
  next
    case (TArray t k)
    then show ?thesis using Suc.prems decode_many_encode [OF Suc.IH]
      by (fastforce split: bval.splits if_splits)
  next
    case (Defined nm)
    then obtain body where b: "map_of T nm = Some body" using Suc.prems by (auto split: option.splits)
    show ?thesis
    proof (cases body)
      case (Struct fs)
      then show ?thesis using Suc.prems Defined b decode_fields_encode [OF Suc.IH]
        by (fastforce split: bval.splits if_splits)
    next
      case (Enum names)
      then obtain c where c: "v = VEnum c" "c \<in> set names" "length names \<le> 256"
        "bs = [of_int (index_of names c)]"
        using Suc.prems Defined b by (auto split: bval.splits if_splits)
      obtain k where k: "index_of names c = int k" "k < length names" "names ! k = c"
        using c(2) by (rule index_of_in)
      then show ?thesis using Defined b Enum c by (simp add: unat_byte)
    qed
  qed
qed

section \<open>Canonical encodings\<close>

text \<open>
  Borsh has one encoding for each value: what is decoded is the encoding of the value.  The names of
  an enum have to be distinct for that, and few enough for one byte.
\<close>

definition enums_ok :: "typedefs \<Rightarrow> bool" where
  "enums_ok T \<longleftrightarrow> list_all (\<lambda>(nm, body). case body of
     Enum names \<Rightarrow> distinct names \<and> length names \<le> 256 | Struct fs \<Rightarrow> True) T"

lemma enums_okD: "enums_ok T \<Longrightarrow> map_of T nm = Some (Enum names) \<Longrightarrow> distinct names \<and> length names \<le> 256"
  by (auto simp: enums_ok_def list_all_iff dest!: map_of_SomeD)

lemma decode_prim_exact:
  assumes "decode_prim p bs = Some (v, rest)"
  shows "\<exists>used. bs = used @ rest \<and> encode_prim p v = Some used"
proof -
  have "\<exists>used. bs = used @ drop k bs \<and> used = take k bs" for k by simp
  then show ?thesis
    using assms by (auto simp: decode_prim_def u64_le_le_nat split: if_splits list.splits)
qed

lemma decode_many_exact:
  assumes "\<And>bs v rest. g bs = Some (v, rest) \<Longrightarrow> \<exists>used. bs = used @ rest \<and> f v = Some used"
  shows "decode_many g k bs = Some (vs, rest) \<Longrightarrow>
    \<exists>used. bs = used @ rest \<and> length vs = k \<and> concat_opt (map f vs) = Some used"
proof (induction k arbitrary: bs vs)
  case 0
  then show ?case by simp
next
  case (Suc k)
  then obtain v bs' ws where d: "g bs = Some (v, bs')" "decode_many g k bs' = Some (ws, rest)" "vs = v # ws"
    by (auto split: option.splits)
  show ?case using assms [OF d(1)] Suc.IH [OF d(2)] d(3) by auto
qed

lemma decode_fields_exact:
  assumes "\<And>t bs v rest. g t bs = Some (v, rest) \<Longrightarrow> \<exists>used. bs = used @ rest \<and> f t v = Some used"
  shows "decode_fields g fs bs = Some (vs, rest) \<Longrightarrow>
    \<exists>used. bs = used @ rest \<and> map fst vs = map fst fs \<and>
      concat_opt (map (\<lambda>((_, t), (_, x)). f t x) (zip fs vs)) = Some used"
proof (induction fs arbitrary: bs vs)
  case Nil
  then show ?case by simp
next
  case (Cons kt fs)
  obtain k t where kt: "kt = (k, t)" by (cases kt)
  obtain v bs' ws where d: "g t bs = Some (v, bs')" "decode_fields g fs bs' = Some (ws, rest)" "vs = (k, v) # ws"
    using Cons.prems kt by (auto split: option.splits)
  show ?case using assms [OF d(1)] Cons.IH [OF d(2)] kt d(3) by auto
qed

lemma decode_exact:
  assumes "enums_ok T"
  shows "decode n T ty bs = Some (v, rest) \<Longrightarrow> \<exists>used. bs = used @ rest \<and> encode n T ty v = Some used"
proof (induction n arbitrary: ty bs v rest)
  case 0
  then show ?case by simp
next
  case (Suc n)
  note many = decode_many_exact [where g = "decode n T t" and f = "encode n T t" for t, OF Suc.IH]
  show ?case
  proof (cases ty)
    case (Prim p)
    then show ?thesis using Suc.prems decode_prim_exact by simp
  next
    case (TOption t)
    then show ?thesis using Suc.prems Suc.IH [of t] by (fastforce split: list.splits if_splits)
  next
    case (TVec t)
    then obtain vs where v: "v = VVec vs" "4 \<le> length bs"
      "decode_many (decode n T t) (le_nat (take 4 bs)) (drop 4 bs) = Some (vs, rest)"
      using Suc.prems by (auto split: if_splits)
    then obtain used where u: "drop 4 bs = used @ rest" "length vs = le_nat (take 4 bs)"
      "concat_opt (map (encode n T t) vs) = Some used"
      using many by blast
    have "bs = take 4 bs @ used @ rest" using u(1) by (metis append_take_drop_id)
    moreover have "nat_le 4 (length vs) = take 4 bs"
      using nat_le_le_nat [of "take 4 bs"] v(2) u(2) by (simp add: min_absorb2)
    moreover have "length vs < 256 ^ 4" using le_nat_bound [of "take 4 bs"] v(2) u(2) by (simp add: min_absorb2)
    ultimately show ?thesis using TVec v(1) u(3) by (intro exI [of _ "take 4 bs @ used"]) simp
  next
    case (TArray t k)
    then show ?thesis using Suc.prems many by fastforce
  next
    case (Defined nm)
    then obtain body where b: "map_of T nm = Some body" using Suc.prems by (auto split: option.splits)
    show ?thesis
    proof (cases body)
      case (Struct fs)
      then obtain vs where v: "v = VStruct vs" "decode_fields (decode n T) fs bs = Some (vs, rest)"
        using Suc.prems Defined b by auto
      then obtain used where "bs = used @ rest" "map fst vs = map fst fs"
        "concat_opt (map (\<lambda>((_, t), (_, x)). encode n T t x) (zip fs vs)) = Some used"
        using decode_fields_exact [where f = "encode n T", OF Suc.IH v(2)] by blast
      then show ?thesis using Defined b Struct v(1) by simp
    next
      case (Enum names)
      then obtain x where x: "bs = x # rest" "unat x < length names" "v = VEnum (names ! unat x)"
        using Suc.prems Defined b by (auto split: list.splits if_splits)
      have d: "distinct names" "length names \<le> 256" using enums_okD [OF assms, of nm names] b Enum by blast+
      have m: "names ! unat x \<in> set names" using x(2) by simp
      then obtain k where k: "index_of names (names ! unat x) = int k" "k < length names" "names ! k = names ! unat x"
        by (rule index_of_in)
      then have "k = unat x" using nth_eq_iff_index_eq [OF d(1)] x(2) by blast
      then show ?thesis using Defined b Enum x d(2) k(1) m by simp
    qed
  qed
qed

section \<open>Field offsets\<close>

text \<open>The bytes of a struct are those of its fields, one after the other.\<close>

lemma encode_struct_fields:
  assumes "encode (Suc n) T (Defined nm) v = Some bs" "map_of T nm = Some (Struct fs)"
  obtains vs where "v = VStruct vs" "map fst vs = map fst fs"
    "concat_opt (map (\<lambda>((_, t), (_, x)). encode n T t x) (zip fs vs)) = Some bs"
  using assms by (auto split: bval.splits if_splits)

lemma concat_opt_Cons_eq:
  "concat_opt (x # xs) = Some bs \<longleftrightarrow> (\<exists>b cs. x = Some b \<and> concat_opt xs = Some cs \<and> bs = b @ cs)"
  by (auto split: option.splits)

lemma Suc_steps: "Suc 4 = 5" "Suc 3 = 4" "Suc 2 = 3" "Suc 1 = 2"
  by simp_all

lemmas encode_5 = encode.simps(2) [of 4, unfolded Suc_steps]
lemmas encode_4 = encode.simps(2) [of 3, unfolded Suc_steps]
lemmas encode_3 = encode.simps(2) [of 2, unfolded Suc_steps]
lemmas encode_2 = encode.simps(2) [of 1, unfolded Suc_steps]

lemma encode_key: "encode (Suc n) T (Prim ''pubkey'') v = Some b \<longleftrightarrow> v = VKey b \<and> length b = 32"
  by (cases v) auto

lemma encode_u8: "encode (Suc n) T (Prim ''u8'') v = Some b \<longleftrightarrow> (\<exists>x. v = VU8 x \<and> b = [x])"
  by (cases v) auto

lemma encode_u64: "encode (Suc n) T (Prim ''u64'') v = Some b \<longleftrightarrow> (\<exists>w. v = VU64 w \<and> b = u64_le w)"
  by (cases v) auto

lemma encode_bool:
  "encode (Suc n) T (Prim ''bool'') v = Some b \<longleftrightarrow> (\<exists>c. v = VBool c \<and> b = [if c then 1 else 0])"
  by (cases v) auto

lemmas encode_prims = encode_key encode_u8 encode_u64 encode_bool

end
