(* ===== verification/MExtIdl.thy ===== *)
theory MExtIdl
  imports Idl
begin

text \<open>
  \<open>sdk/src/idl/m_ext.ts\<close>: the IDL of the extension program (Crank variant) as the type
  \<open>MExt\<close> records it: instructions with their accounts, seeds and arguments, the account and
  event discriminators, the errors, the types and the constants.  The \<open>docs\<close> comments are left out.
\<close>

section \<open>Instructions\<close>

definition ix_acceptAdmin :: idl_instruction where
  "ix_acceptAdmin = \<lparr>ii_name = ''acceptAdmin'',
     ii_discriminator = [112, 42, 45, 90, 116, 181, 13, 170],
     ii_accounts =
       [\<lparr>ia_name = ''pendingAdmin'', ia_writable = False, ia_signer = True, ia_optional =
        False, ia_address = None, ia_relations = [], ia_pda = None\<rparr>,
        \<lparr>ia_name = ''globalAccount'', ia_writable = True, ia_signer = False, ia_optional =
        False, ia_address = None, ia_relations = [], ia_pda = (Some \<lparr>pda_seeds = [SeedConst
        [103, 108, 111, 98, 97, 108]], pda_program = None\<rparr>)\<rparr>],
     ii_args = []\<rparr>"

definition ix_addEarnManager :: idl_instruction where
  "ix_addEarnManager = \<lparr>ii_name = ''addEarnManager'',
     ii_discriminator = [237, 29, 254, 71, 117, 177, 159, 25],
     ii_accounts =
       [\<lparr>ia_name = ''admin'', ia_writable = True, ia_signer = True, ia_optional = False,
        ia_address = None, ia_relations = [''globalAccount''], ia_pda = None\<rparr>,
        \<lparr>ia_name = ''globalAccount'', ia_writable = False, ia_signer = False, ia_optional =
        False, ia_address = None, ia_relations = [], ia_pda = (Some \<lparr>pda_seeds = [SeedConst
        [103, 108, 111, 98, 97, 108]], pda_program = None\<rparr>)\<rparr>,
        \<lparr>ia_name = ''earnManagerAccount'', ia_writable = True, ia_signer = False,
        ia_optional = False, ia_address = None, ia_relations = [], ia_pda = (Some
        \<lparr>pda_seeds = [SeedConst [101, 97, 114, 110, 95, 109, 97, 110, 97, 103, 101, 114],
        SeedArg ''earnManager''], pda_program = None\<rparr>)\<rparr>,
        \<lparr>ia_name = ''feeTokenAccount'', ia_writable = False, ia_signer = False, ia_optional
        = False, ia_address = None, ia_relations = [], ia_pda = None\<rparr>,
        \<lparr>ia_name = ''systemProgram'', ia_writable = False, ia_signer = False, ia_optional =
        False, ia_address = (Some ''11111111111111111111111111111111''), ia_relations = [], ia_pda
        = None\<rparr>],
     ii_args = [(''earnManager'', Prim ''pubkey''), (''feeBps'', Prim ''u64'')]\<rparr>"

definition ix_addEarner :: idl_instruction where
  "ix_addEarner = \<lparr>ii_name = ''addEarner'',
     ii_discriminator = [191, 90, 193, 126, 226, 158, 64, 168],
     ii_accounts =
       [\<lparr>ia_name = ''signer'', ia_writable = True, ia_signer = True, ia_optional = False,
        ia_address = None, ia_relations = [], ia_pda = None\<rparr>,
        \<lparr>ia_name = ''earnManagerAccount'', ia_writable = False, ia_signer = False,
        ia_optional = False, ia_address = None, ia_relations = [], ia_pda = (Some
        \<lparr>pda_seeds = [SeedConst [101, 97, 114, 110, 95, 109, 97, 110, 97, 103, 101, 114],
        SeedAccount ''signer'' None], pda_program = None\<rparr>)\<rparr>,
        \<lparr>ia_name = ''globalAccount'', ia_writable = False, ia_signer = False, ia_optional =
        False, ia_address = None, ia_relations = [], ia_pda = (Some \<lparr>pda_seeds = [SeedConst
        [103, 108, 111, 98, 97, 108]], pda_program = None\<rparr>)\<rparr>,
        \<lparr>ia_name = ''userTokenAccount'', ia_writable = False, ia_signer = False,
        ia_optional = False, ia_address = None, ia_relations = [], ia_pda = None\<rparr>,
        \<lparr>ia_name = ''earnerAccount'', ia_writable = True, ia_signer = False, ia_optional =
        False, ia_address = None, ia_relations = [], ia_pda = (Some \<lparr>pda_seeds = [SeedConst
        [101, 97, 114, 110, 101, 114], SeedAccount ''userTokenAccount'' None], pda_program =
        None\<rparr>)\<rparr>,
        \<lparr>ia_name = ''systemProgram'', ia_writable = False, ia_signer = False, ia_optional =
        False, ia_address = (Some ''11111111111111111111111111111111''), ia_relations = [], ia_pda
        = None\<rparr>],
     ii_args = [(''user'', Prim ''pubkey'')]\<rparr>"

definition ix_addWrapAuthority :: idl_instruction where
  "ix_addWrapAuthority = \<lparr>ii_name = ''addWrapAuthority'',
     ii_discriminator = [234, 104, 99, 10, 191, 202, 68, 43],
     ii_accounts =
       [\<lparr>ia_name = ''admin'', ia_writable = True, ia_signer = True, ia_optional = False,
        ia_address = None, ia_relations = [''globalAccount''], ia_pda = None\<rparr>,
        \<lparr>ia_name = ''globalAccount'', ia_writable = True, ia_signer = False, ia_optional =
        False, ia_address = None, ia_relations = [], ia_pda = (Some \<lparr>pda_seeds = [SeedConst
        [103, 108, 111, 98, 97, 108]], pda_program = None\<rparr>)\<rparr>,
        \<lparr>ia_name = ''systemProgram'', ia_writable = False, ia_signer = False, ia_optional =
        False, ia_address = (Some ''11111111111111111111111111111111''), ia_relations = [], ia_pda
        = None\<rparr>],
     ii_args = [(''newWrapAuthority'', Prim ''pubkey'')]\<rparr>"

definition claimFor_accounts1 :: "idl_account_item list" where
  "claimFor_accounts1 =
     [\<lparr>ia_name = ''earnAuthority'', ia_writable = False, ia_signer = True, ia_optional =
        False, ia_address = None, ia_relations = [], ia_pda = None\<rparr>,
      \<lparr>ia_name = ''globalAccount'', ia_writable = True, ia_signer = False, ia_optional =
        False, ia_address = None, ia_relations = [], ia_pda = (Some \<lparr>pda_seeds = [SeedConst
        [103, 108, 111, 98, 97, 108]], pda_program = None\<rparr>)\<rparr>,
      \<lparr>ia_name = ''mMint'', ia_writable = False, ia_signer = False, ia_optional = False,
        ia_address = None, ia_relations = [''globalAccount''], ia_pda = None\<rparr>,
      \<lparr>ia_name = ''extMint'', ia_writable = True, ia_signer = False, ia_optional = False,
        ia_address = None, ia_relations = [''globalAccount''], ia_pda = None\<rparr>,
      \<lparr>ia_name = ''extMintAuthority'', ia_writable = False, ia_signer = False,
        ia_optional = False, ia_address = None, ia_relations = [], ia_pda = (Some
        \<lparr>pda_seeds = [SeedConst [109, 105, 110, 116, 95, 97, 117, 116, 104, 111, 114, 105,
        116, 121]], pda_program = None\<rparr>)\<rparr>,
      \<lparr>ia_name = ''mVaultAccount'', ia_writable = False, ia_signer = False, ia_optional =
        False, ia_address = None, ia_relations = [], ia_pda = (Some \<lparr>pda_seeds = [SeedConst
        [109, 95, 118, 97, 117, 108, 116]], pda_program = None\<rparr>)\<rparr>,
      \<lparr>ia_name = ''vaultMTokenAccount'', ia_writable = False, ia_signer = False,
        ia_optional = False, ia_address = None, ia_relations = [], ia_pda = (Some
        \<lparr>pda_seeds = [SeedAccount ''mVaultAccount'' None, SeedAccount ''mTokenProgram''
        None, SeedAccount ''global_account.m_mint'' (Some ''extGlobalV2'')], pda_program = Some
        [140, 151, 37, 143, 78, 36, 137, 241, 187, 61, 16, 41, 20, 142, 13, 131, 11, 90, 19, 153,
        218, 255, 16, 132, 4, 142, 123, 216, 219, 233, 248, 89]\<rparr>)\<rparr>]"

definition claimFor_accounts2 :: "idl_account_item list" where
  "claimFor_accounts2 =
     [\<lparr>ia_name = ''userTokenAccount'', ia_writable = True, ia_signer = False, ia_optional
        = False, ia_address = None, ia_relations = [], ia_pda = None\<rparr>,
      \<lparr>ia_name = ''earnerAccount'', ia_writable = True, ia_signer = False, ia_optional =
        False, ia_address = None, ia_relations = [], ia_pda = (Some \<lparr>pda_seeds = [SeedConst
        [101, 97, 114, 110, 101, 114], SeedAccount ''earner_account.user_token_account'' (Some
        ''earner'')], pda_program = None\<rparr>)\<rparr>,
      \<lparr>ia_name = ''earnManagerAccount'', ia_writable = False, ia_signer = False,
        ia_optional = False, ia_address = None, ia_relations = [], ia_pda = (Some
        \<lparr>pda_seeds = [SeedConst [101, 97, 114, 110, 95, 109, 97, 110, 97, 103, 101, 114],
        SeedAccount ''earner_account.earn_manager'' (Some ''earner'')], pda_program =
        None\<rparr>)\<rparr>,
      \<lparr>ia_name = ''earnManagerTokenAccount'', ia_writable = True, ia_signer = False,
        ia_optional = False, ia_address = None, ia_relations = [], ia_pda = None\<rparr>,
      \<lparr>ia_name = ''mTokenProgram'', ia_writable = False, ia_signer = False, ia_optional =
        False, ia_address = (Some ''TokenzQdBNbLqP5VEhdkAS6EPFLC1PHnBqCXEpPxuEb''), ia_relations =
        [], ia_pda = None\<rparr>,
      \<lparr>ia_name = ''extTokenProgram'', ia_writable = False, ia_signer = False, ia_optional
        = False, ia_address = None, ia_relations = [], ia_pda = None\<rparr>]"

definition ix_claimFor :: idl_instruction where
  "ix_claimFor = \<lparr>ii_name = ''claimFor'',
     ii_discriminator = [245, 67, 97, 44, 59, 223, 144, 1],
     ii_accounts =
       claimFor_accounts1 @ claimFor_accounts2,
     ii_args = [(''snapshotBalance'', Prim ''u64'')]\<rparr>"

definition ix_configureEarnManager :: idl_instruction where
  "ix_configureEarnManager = \<lparr>ii_name = ''configureEarnManager'',
     ii_discriminator = [116, 96, 19, 92, 147, 244, 108, 216],
     ii_accounts =
       [\<lparr>ia_name = ''signer'', ia_writable = True, ia_signer = True, ia_optional = False,
        ia_address = None, ia_relations = [], ia_pda = None\<rparr>,
        \<lparr>ia_name = ''globalAccount'', ia_writable = False, ia_signer = False, ia_optional =
        False, ia_address = None, ia_relations = [], ia_pda = (Some \<lparr>pda_seeds = [SeedConst
        [103, 108, 111, 98, 97, 108]], pda_program = None\<rparr>)\<rparr>,
        \<lparr>ia_name = ''earnManagerAccount'', ia_writable = True, ia_signer = False,
        ia_optional = False, ia_address = None, ia_relations = [], ia_pda = (Some
        \<lparr>pda_seeds = [SeedConst [101, 97, 114, 110, 95, 109, 97, 110, 97, 103, 101, 114],
        SeedAccount ''signer'' None], pda_program = None\<rparr>)\<rparr>,
        \<lparr>ia_name = ''feeTokenAccount'', ia_writable = False, ia_signer = False, ia_optional
        = True, ia_address = None, ia_relations = [], ia_pda = None\<rparr>],
     ii_args = [(''feeBps'', TOption (Prim ''u64''))]\<rparr>"

definition initialize_accounts1 :: "idl_account_item list" where
  "initialize_accounts1 =
     [\<lparr>ia_name = ''admin'', ia_writable = True, ia_signer = True, ia_optional = False,
        ia_address = None, ia_relations = [], ia_pda = None\<rparr>,
      \<lparr>ia_name = ''globalAccount'', ia_writable = True, ia_signer = False, ia_optional =
        False, ia_address = None, ia_relations = [], ia_pda = (Some \<lparr>pda_seeds = [SeedConst
        [103, 108, 111, 98, 97, 108]], pda_program = None\<rparr>)\<rparr>,
      \<lparr>ia_name = ''mMint'', ia_writable = False, ia_signer = False, ia_optional = False,
        ia_address = None, ia_relations = [], ia_pda = None\<rparr>,
      \<lparr>ia_name = ''extMint'', ia_writable = True, ia_signer = False, ia_optional = False,
        ia_address = None, ia_relations = [], ia_pda = None\<rparr>,
      \<lparr>ia_name = ''extMintAuthority'', ia_writable = False, ia_signer = False,
        ia_optional = False, ia_address = None, ia_relations = [], ia_pda = (Some
        \<lparr>pda_seeds = [SeedConst [109, 105, 110, 116, 95, 97, 117, 116, 104, 111, 114, 105,
        116, 121]], pda_program = None\<rparr>)\<rparr>,
      \<lparr>ia_name = ''mVault'', ia_writable = False, ia_signer = False, ia_optional = False,
        ia_address = None, ia_relations = [], ia_pda = (Some \<lparr>pda_seeds = [SeedConst [109,
        95, 118, 97, 117, 108, 116]], pda_program = None\<rparr>)\<rparr>,
      \<lparr>ia_name = ''vaultMTokenAccount'', ia_writable = False, ia_signer = False,
        ia_optional = False, ia_address = None, ia_relations = [], ia_pda = (Some
        \<lparr>pda_seeds = [SeedAccount ''mVault'' None, SeedAccount ''mTokenProgram'' None,
        SeedAccount ''mMint'' None], pda_program = Some [140, 151, 37, 143, 78, 36, 137, 241, 187,
        61, 16, 41, 20, 142, 13, 131, 11, 90, 19, 153, 218, 255, 16, 132, 4, 142, 123, 216, 219,
        233, 248, 89]\<rparr>)\<rparr>]"

definition initialize_accounts2 :: "idl_account_item list" where
  "initialize_accounts2 =
     [\<lparr>ia_name = ''mEarnGlobalAccount'', ia_writable = False, ia_signer = False,
        ia_optional = False, ia_address = None, ia_relations = [], ia_pda = (Some
        \<lparr>pda_seeds = [SeedConst [103, 108, 111, 98, 97, 108]], pda_program = Some [11, 134,
        11, 7, 229, 245, 33, 49, 225, 170, 183, 171, 210, 177, 147, 110, 166, 55, 182, 49, 97,
        242, 35, 170, 152, 135, 152, 108, 102, 78, 112, 208]\<rparr>)\<rparr>,
      \<lparr>ia_name = ''mTokenProgram'', ia_writable = False, ia_signer = False, ia_optional =
        False, ia_address = (Some ''TokenzQdBNbLqP5VEhdkAS6EPFLC1PHnBqCXEpPxuEb''), ia_relations =
        [], ia_pda = None\<rparr>,
      \<lparr>ia_name = ''extTokenProgram'', ia_writable = False, ia_signer = False, ia_optional
        = False, ia_address = None, ia_relations = [], ia_pda = None\<rparr>,
      \<lparr>ia_name = ''systemProgram'', ia_writable = False, ia_signer = False, ia_optional =
        False, ia_address = (Some ''11111111111111111111111111111111''), ia_relations = [], ia_pda
        = None\<rparr>]"

definition ix_initialize :: idl_instruction where
  "ix_initialize = \<lparr>ii_name = ''initialize'',
     ii_discriminator = [175, 175, 109, 31, 13, 152, 155, 237],
     ii_accounts =
       initialize_accounts1 @ initialize_accounts2,
     ii_args = [(''wrapAuthorities'', TVec (Prim ''pubkey'')), (''earnAuthority'', Prim ''pubkey'')]\<rparr>"

definition ix_removeEarnManager :: idl_instruction where
  "ix_removeEarnManager = \<lparr>ii_name = ''removeEarnManager'',
     ii_discriminator = [121, 207, 141, 182, 239, 154, 85, 152],
     ii_accounts =
       [\<lparr>ia_name = ''admin'', ia_writable = False, ia_signer = True, ia_optional = False,
        ia_address = None, ia_relations = [''globalAccount''], ia_pda = None\<rparr>,
        \<lparr>ia_name = ''globalAccount'', ia_writable = False, ia_signer = False, ia_optional =
        False, ia_address = None, ia_relations = [], ia_pda = (Some \<lparr>pda_seeds = [SeedConst
        [103, 108, 111, 98, 97, 108]], pda_program = None\<rparr>)\<rparr>,
        \<lparr>ia_name = ''earnManagerAccount'', ia_writable = True, ia_signer = False,
        ia_optional = False, ia_address = None, ia_relations = [], ia_pda = (Some
        \<lparr>pda_seeds = [SeedConst [101, 97, 114, 110, 95, 109, 97, 110, 97, 103, 101, 114],
        SeedAccount ''earn_manager_account.earn_manager'' (Some ''earnManager'')], pda_program =
        None\<rparr>)\<rparr>],
     ii_args = []\<rparr>"

definition ix_removeEarner :: idl_instruction where
  "ix_removeEarner = \<lparr>ii_name = ''removeEarner'',
     ii_discriminator = [195, 235, 44, 204, 195, 134, 98, 113],
     ii_accounts =
       [\<lparr>ia_name = ''signer'', ia_writable = True, ia_signer = True, ia_optional = False,
        ia_address = None, ia_relations = [], ia_pda = None\<rparr>,
        \<lparr>ia_name = ''earnerAccount'', ia_writable = True, ia_signer = False, ia_optional =
        False, ia_address = None, ia_relations = [], ia_pda = (Some \<lparr>pda_seeds = [SeedConst
        [101, 97, 114, 110, 101, 114], SeedAccount ''earner_account.user_token_account'' (Some
        ''earner'')], pda_program = None\<rparr>)\<rparr>,
        \<lparr>ia_name = ''earnManagerAccount'', ia_writable = False, ia_signer = False,
        ia_optional = False, ia_address = None, ia_relations = [], ia_pda = (Some
        \<lparr>pda_seeds = [SeedConst [101, 97, 114, 110, 95, 109, 97, 110, 97, 103, 101, 114],
        SeedAccount ''signer'' None], pda_program = None\<rparr>)\<rparr>,
        \<lparr>ia_name = ''systemProgram'', ia_writable = False, ia_signer = False, ia_optional =
        False, ia_address = (Some ''11111111111111111111111111111111''), ia_relations = [], ia_pda
        = None\<rparr>],
     ii_args = []\<rparr>"

definition ix_removeOrphanedEarner :: idl_instruction where
  "ix_removeOrphanedEarner = \<lparr>ii_name = ''removeOrphanedEarner'',
     ii_discriminator = [39, 184, 151, 237, 10, 244, 132, 6],
     ii_accounts =
       [\<lparr>ia_name = ''signer'', ia_writable = True, ia_signer = True, ia_optional = False,
        ia_address = None, ia_relations = [], ia_pda = None\<rparr>,
        \<lparr>ia_name = ''earnerAccount'', ia_writable = True, ia_signer = False, ia_optional =
        False, ia_address = None, ia_relations = [], ia_pda = (Some \<lparr>pda_seeds = [SeedConst
        [101, 97, 114, 110, 101, 114], SeedAccount ''earner_account.user_token_account'' (Some
        ''earner'')], pda_program = None\<rparr>)\<rparr>,
        \<lparr>ia_name = ''earnManagerAccount'', ia_writable = False, ia_signer = False,
        ia_optional = False, ia_address = None, ia_relations = [], ia_pda = (Some
        \<lparr>pda_seeds = [SeedConst [101, 97, 114, 110, 95, 109, 97, 110, 97, 103, 101, 114],
        SeedAccount ''earner_account.earn_manager'' (Some ''earner'')], pda_program =
        None\<rparr>)\<rparr>,
        \<lparr>ia_name = ''systemProgram'', ia_writable = False, ia_signer = False, ia_optional =
        False, ia_address = (Some ''11111111111111111111111111111111''), ia_relations = [], ia_pda
        = None\<rparr>],
     ii_args = []\<rparr>"

definition ix_removeWrapAuthority :: idl_instruction where
  "ix_removeWrapAuthority = \<lparr>ii_name = ''removeWrapAuthority'',
     ii_discriminator = [218, 60, 185, 181, 112, 63, 60, 152],
     ii_accounts =
       [\<lparr>ia_name = ''admin'', ia_writable = True, ia_signer = True, ia_optional = False,
        ia_address = None, ia_relations = [''globalAccount''], ia_pda = None\<rparr>,
        \<lparr>ia_name = ''globalAccount'', ia_writable = True, ia_signer = False, ia_optional =
        False, ia_address = None, ia_relations = [], ia_pda = (Some \<lparr>pda_seeds = [SeedConst
        [103, 108, 111, 98, 97, 108]], pda_program = None\<rparr>)\<rparr>,
        \<lparr>ia_name = ''systemProgram'', ia_writable = False, ia_signer = False, ia_optional =
        False, ia_address = (Some ''11111111111111111111111111111111''), ia_relations = [], ia_pda
        = None\<rparr>],
     ii_args = [(''wrapAuthority'', Prim ''pubkey'')]\<rparr>"

definition ix_revokeAdminTransfer :: idl_instruction where
  "ix_revokeAdminTransfer = \<lparr>ii_name = ''revokeAdminTransfer'',
     ii_discriminator = [98, 62, 163, 107, 196, 212, 46, 102],
     ii_accounts =
       [\<lparr>ia_name = ''admin'', ia_writable = False, ia_signer = True, ia_optional = False,
        ia_address = None, ia_relations = [''globalAccount''], ia_pda = None\<rparr>,
        \<lparr>ia_name = ''globalAccount'', ia_writable = True, ia_signer = False, ia_optional =
        False, ia_address = None, ia_relations = [], ia_pda = (Some \<lparr>pda_seeds = [SeedConst
        [103, 108, 111, 98, 97, 108]], pda_program = None\<rparr>)\<rparr>],
     ii_args = []\<rparr>"

definition ix_setEarnAuthority :: idl_instruction where
  "ix_setEarnAuthority = \<lparr>ii_name = ''setEarnAuthority'',
     ii_discriminator = [241, 163, 124, 135, 107, 230, 22, 157],
     ii_accounts =
       [\<lparr>ia_name = ''admin'', ia_writable = False, ia_signer = True, ia_optional = False,
        ia_address = None, ia_relations = [''globalAccount''], ia_pda = None\<rparr>,
        \<lparr>ia_name = ''globalAccount'', ia_writable = True, ia_signer = False, ia_optional =
        False, ia_address = None, ia_relations = [], ia_pda = (Some \<lparr>pda_seeds = [SeedConst
        [103, 108, 111, 98, 97, 108]], pda_program = None\<rparr>)\<rparr>],
     ii_args = [(''earnAuthority'', Prim ''pubkey'')]\<rparr>"

definition ix_setRecipient :: idl_instruction where
  "ix_setRecipient = \<lparr>ii_name = ''setRecipient'',
     ii_discriminator = [133, 1, 115, 69, 206, 190, 17, 18],
     ii_accounts =
       [\<lparr>ia_name = ''signer'', ia_writable = False, ia_signer = True, ia_optional = False,
        ia_address = None, ia_relations = [], ia_pda = None\<rparr>,
        \<lparr>ia_name = ''globalAccount'', ia_writable = False, ia_signer = False, ia_optional =
        False, ia_address = None, ia_relations = [], ia_pda = (Some \<lparr>pda_seeds = [SeedConst
        [103, 108, 111, 98, 97, 108]], pda_program = None\<rparr>)\<rparr>,
        \<lparr>ia_name = ''earnerAccount'', ia_writable = True, ia_signer = False, ia_optional =
        False, ia_address = None, ia_relations = [], ia_pda = (Some \<lparr>pda_seeds = [SeedConst
        [101, 97, 114, 110, 101, 114], SeedAccount ''earner_account.user_token_account'' (Some
        ''earner'')], pda_program = None\<rparr>)\<rparr>,
        \<lparr>ia_name = ''earnManagerAccount'', ia_writable = False, ia_signer = False,
        ia_optional = False, ia_address = None, ia_relations = [], ia_pda = (Some
        \<lparr>pda_seeds = [SeedConst [101, 97, 114, 110, 95, 109, 97, 110, 97, 103, 101, 114],
        SeedAccount ''earner_account.earn_manager'' (Some ''earner'')], pda_program =
        None\<rparr>)\<rparr>,
        \<lparr>ia_name = ''recipientTokenAccount'', ia_writable = False, ia_signer = False,
        ia_optional = True, ia_address = None, ia_relations = [], ia_pda = None\<rparr>],
     ii_args = []\<rparr>"

definition sync_accounts :: "idl_account_item list" where
  "sync_accounts =
     [\<lparr>ia_name = ''earnAuthority'', ia_writable = False, ia_signer = True, ia_optional =
        False, ia_address = None, ia_relations = [], ia_pda = None\<rparr>,
      \<lparr>ia_name = ''mMint'', ia_writable = False, ia_signer = False, ia_optional = False,
        ia_address = None, ia_relations = [''globalAccount''], ia_pda = None\<rparr>,
      \<lparr>ia_name = ''globalAccount'', ia_writable = True, ia_signer = False, ia_optional =
        False, ia_address = None, ia_relations = [], ia_pda = (Some \<lparr>pda_seeds = [SeedConst
        [103, 108, 111, 98, 97, 108]], pda_program = None\<rparr>)\<rparr>,
      \<lparr>ia_name = ''mVault'', ia_writable = False, ia_signer = False, ia_optional = False,
        ia_address = None, ia_relations = [], ia_pda = (Some \<lparr>pda_seeds = [SeedConst [109,
        95, 118, 97, 117, 108, 116]], pda_program = None\<rparr>)\<rparr>,
      \<lparr>ia_name = ''vaultMTokenAccount'', ia_writable = False, ia_signer = False,
        ia_optional = False, ia_address = None, ia_relations = [], ia_pda = (Some
        \<lparr>pda_seeds = [SeedAccount ''mVault'' None, SeedConst [6, 221, 246, 225, 238, 117,
        143, 222, 24, 66, 93, 188, 228, 108, 205, 218, 182, 26, 252, 77, 131, 185, 13, 39, 254,
        189, 249, 40, 216, 161, 139, 252], SeedAccount ''mMint'' None], pda_program = Some [140,
        151, 37, 143, 78, 36, 137, 241, 187, 61, 16, 41, 20, 142, 13, 131, 11, 90, 19, 153, 218,
        255, 16, 132, 4, 142, 123, 216, 219, 233, 248, 89]\<rparr>)\<rparr>]"

definition ix_sync :: idl_instruction where
  "ix_sync = \<lparr>ii_name = ''sync'',
     ii_discriminator = [4, 219, 40, 164, 21, 157, 189, 88],
     ii_accounts =
       sync_accounts,
     ii_args = []\<rparr>"

definition ix_transferAdmin :: idl_instruction where
  "ix_transferAdmin = \<lparr>ii_name = ''transferAdmin'',
     ii_discriminator = [42, 242, 66, 106, 228, 10, 111, 156],
     ii_accounts =
       [\<lparr>ia_name = ''admin'', ia_writable = False, ia_signer = True, ia_optional = False,
        ia_address = None, ia_relations = [''globalAccount''], ia_pda = None\<rparr>,
        \<lparr>ia_name = ''globalAccount'', ia_writable = True, ia_signer = False, ia_optional =
        False, ia_address = None, ia_relations = [], ia_pda = (Some \<lparr>pda_seeds = [SeedConst
        [103, 108, 111, 98, 97, 108]], pda_program = None\<rparr>)\<rparr>],
     ii_args = [(''newAdmin'', Prim ''pubkey'')]\<rparr>"

definition ix_transferEarner :: idl_instruction where
  "ix_transferEarner = \<lparr>ii_name = ''transferEarner'',
     ii_discriminator = [100, 120, 80, 44, 163, 34, 79, 91],
     ii_accounts =
       [\<lparr>ia_name = ''signer'', ia_writable = False, ia_signer = True, ia_optional = False,
        ia_address = None, ia_relations = [], ia_pda = None\<rparr>,
        \<lparr>ia_name = ''earnerAccount'', ia_writable = True, ia_signer = False, ia_optional =
        False, ia_address = None, ia_relations = [], ia_pda = (Some \<lparr>pda_seeds = [SeedConst
        [101, 97, 114, 110, 101, 114], SeedAccount ''earner_account.user_token_account'' (Some
        ''earner'')], pda_program = None\<rparr>)\<rparr>,
        \<lparr>ia_name = ''fromEarnManagerAccount'', ia_writable = False, ia_signer = False,
        ia_optional = False, ia_address = None, ia_relations = [], ia_pda = (Some
        \<lparr>pda_seeds = [SeedConst [101, 97, 114, 110, 95, 109, 97, 110, 97, 103, 101, 114],
        SeedAccount ''signer'' None], pda_program = None\<rparr>)\<rparr>,
        \<lparr>ia_name = ''toEarnManagerAccount'', ia_writable = False, ia_signer = False,
        ia_optional = False, ia_address = None, ia_relations = [], ia_pda = (Some
        \<lparr>pda_seeds = [SeedConst [101, 97, 114, 110, 95, 109, 97, 110, 97, 103, 101, 114],
        SeedArg ''toEarnManager''], pda_program = None\<rparr>)\<rparr>],
     ii_args = [(''toEarnManager'', Prim ''pubkey'')]\<rparr>"

definition unwrap_accounts1 :: "idl_account_item list" where
  "unwrap_accounts1 =
     [\<lparr>ia_name = ''tokenAuthority'', ia_writable = False, ia_signer = True, ia_optional =
        False, ia_address = None, ia_relations = [], ia_pda = None\<rparr>,
      \<lparr>ia_name = ''unwrapAuthority'', ia_writable = False, ia_signer = True, ia_optional
        = True, ia_address = None, ia_relations = [], ia_pda = None\<rparr>,
      \<lparr>ia_name = ''mMint'', ia_writable = False, ia_signer = False, ia_optional = False,
        ia_address = None, ia_relations = [''globalAccount''], ia_pda = None\<rparr>,
      \<lparr>ia_name = ''extMint'', ia_writable = True, ia_signer = False, ia_optional = False,
        ia_address = None, ia_relations = [''globalAccount''], ia_pda = None\<rparr>,
      \<lparr>ia_name = ''globalAccount'', ia_writable = True, ia_signer = False, ia_optional =
        False, ia_address = None, ia_relations = [], ia_pda = (Some \<lparr>pda_seeds = [SeedConst
        [103, 108, 111, 98, 97, 108]], pda_program = None\<rparr>)\<rparr>,
      \<lparr>ia_name = ''mVault'', ia_writable = False, ia_signer = False, ia_optional = False,
        ia_address = None, ia_relations = [], ia_pda = (Some \<lparr>pda_seeds = [SeedConst [109,
        95, 118, 97, 117, 108, 116]], pda_program = None\<rparr>)\<rparr>,
      \<lparr>ia_name = ''extMintAuthority'', ia_writable = False, ia_signer = False,
        ia_optional = False, ia_address = None, ia_relations = [], ia_pda = (Some
        \<lparr>pda_seeds = [SeedConst [109, 105, 110, 116, 95, 97, 117, 116, 104, 111, 114, 105,
        116, 121]], pda_program = None\<rparr>)\<rparr>,
      \<lparr>ia_name = ''toMTokenAccount'', ia_writable = True, ia_signer = False, ia_optional
        = False, ia_address = None, ia_relations = [], ia_pda = None\<rparr>]"

definition unwrap_accounts2 :: "idl_account_item list" where
  "unwrap_accounts2 =
     [\<lparr>ia_name = ''vaultMTokenAccount'', ia_writable = True, ia_signer = False,
        ia_optional = False, ia_address = None, ia_relations = [], ia_pda = (Some
        \<lparr>pda_seeds = [SeedAccount ''mVault'' None, SeedAccount ''mTokenProgram'' None,
        SeedAccount ''mMint'' None], pda_program = Some [140, 151, 37, 143, 78, 36, 137, 241, 187,
        61, 16, 41, 20, 142, 13, 131, 11, 90, 19, 153, 218, 255, 16, 132, 4, 142, 123, 216, 219,
        233, 248, 89]\<rparr>)\<rparr>,
      \<lparr>ia_name = ''fromExtTokenAccount'', ia_writable = True, ia_signer = False,
        ia_optional = False, ia_address = None, ia_relations = [], ia_pda = None\<rparr>,
      \<lparr>ia_name = ''mTokenProgram'', ia_writable = False, ia_signer = False, ia_optional =
        False, ia_address = (Some ''TokenzQdBNbLqP5VEhdkAS6EPFLC1PHnBqCXEpPxuEb''), ia_relations =
        [], ia_pda = None\<rparr>,
      \<lparr>ia_name = ''extTokenProgram'', ia_writable = False, ia_signer = False, ia_optional
        = False, ia_address = None, ia_relations = [], ia_pda = None\<rparr>]"

definition ix_unwrap :: idl_instruction where
  "ix_unwrap = \<lparr>ii_name = ''unwrap'',
     ii_discriminator = [126, 175, 198, 14, 212, 69, 50, 44],
     ii_accounts =
       unwrap_accounts1 @ unwrap_accounts2,
     ii_args = [(''amount'', Prim ''u64'')]\<rparr>"

definition wrap_accounts1 :: "idl_account_item list" where
  "wrap_accounts1 =
     [\<lparr>ia_name = ''tokenAuthority'', ia_writable = False, ia_signer = True, ia_optional =
        False, ia_address = None, ia_relations = [], ia_pda = None\<rparr>,
      \<lparr>ia_name = ''wrapAuthority'', ia_writable = False, ia_signer = True, ia_optional =
        True, ia_address = None, ia_relations = [], ia_pda = None\<rparr>,
      \<lparr>ia_name = ''mMint'', ia_writable = False, ia_signer = False, ia_optional = False,
        ia_address = None, ia_relations = [''globalAccount''], ia_pda = None\<rparr>,
      \<lparr>ia_name = ''extMint'', ia_writable = True, ia_signer = False, ia_optional = False,
        ia_address = None, ia_relations = [''globalAccount''], ia_pda = None\<rparr>,
      \<lparr>ia_name = ''globalAccount'', ia_writable = True, ia_signer = False, ia_optional =
        False, ia_address = None, ia_relations = [], ia_pda = (Some \<lparr>pda_seeds = [SeedConst
        [103, 108, 111, 98, 97, 108]], pda_program = None\<rparr>)\<rparr>,
      \<lparr>ia_name = ''mVault'', ia_writable = False, ia_signer = False, ia_optional = False,
        ia_address = None, ia_relations = [], ia_pda = (Some \<lparr>pda_seeds = [SeedConst [109,
        95, 118, 97, 117, 108, 116]], pda_program = None\<rparr>)\<rparr>,
      \<lparr>ia_name = ''extMintAuthority'', ia_writable = False, ia_signer = False,
        ia_optional = False, ia_address = None, ia_relations = [], ia_pda = (Some
        \<lparr>pda_seeds = [SeedConst [109, 105, 110, 116, 95, 97, 117, 116, 104, 111, 114, 105,
        116, 121]], pda_program = None\<rparr>)\<rparr>,
      \<lparr>ia_name = ''fromMTokenAccount'', ia_writable = True, ia_signer = False,
        ia_optional = False, ia_address = None, ia_relations = [], ia_pda = None\<rparr>]"

definition wrap_accounts2 :: "idl_account_item list" where
  "wrap_accounts2 =
     [\<lparr>ia_name = ''vaultMTokenAccount'', ia_writable = True, ia_signer = False,
        ia_optional = False, ia_address = None, ia_relations = [], ia_pda = (Some
        \<lparr>pda_seeds = [SeedAccount ''mVault'' None, SeedAccount ''mTokenProgram'' None,
        SeedAccount ''mMint'' None], pda_program = Some [140, 151, 37, 143, 78, 36, 137, 241, 187,
        61, 16, 41, 20, 142, 13, 131, 11, 90, 19, 153, 218, 255, 16, 132, 4, 142, 123, 216, 219,
        233, 248, 89]\<rparr>)\<rparr>,
      \<lparr>ia_name = ''toExtTokenAccount'', ia_writable = True, ia_signer = False,
        ia_optional = False, ia_address = None, ia_relations = [], ia_pda = None\<rparr>,
      \<lparr>ia_name = ''mTokenProgram'', ia_writable = False, ia_signer = False, ia_optional =
        False, ia_address = (Some ''TokenzQdBNbLqP5VEhdkAS6EPFLC1PHnBqCXEpPxuEb''), ia_relations =
        [], ia_pda = None\<rparr>,
      \<lparr>ia_name = ''extTokenProgram'', ia_writable = False, ia_signer = False, ia_optional
        = False, ia_address = None, ia_relations = [], ia_pda = None\<rparr>]"

definition ix_wrap :: idl_instruction where
  "ix_wrap = \<lparr>ii_name = ''wrap'',
     ii_discriminator = [178, 40, 10, 189, 228, 129, 186, 140],
     ii_accounts =
       wrap_accounts1 @ wrap_accounts2,
     ii_args = [(''amount'', Prim ''u64'')]\<rparr>"

definition MExt_accounts :: "(string \<times> buffer) list" where
  "MExt_accounts =
     [(''earnGlobal'', [229, 50, 25, 132, 207, 93, 185, 23]),
      (''earnManager'', [60, 115, 54, 201, 127, 74, 217, 18]),
      (''earner'', [236, 126, 51, 96, 46, 225, 103, 207]),
      (''extGlobalV2'', [116, 209, 219, 83, 70, 143, 55, 127])]"

definition MExt_events :: "(string \<times> buffer) list" where
  "MExt_events =
     [(''feesClaimed'', [22, 104, 110, 222, 38, 157, 14, 62]),
      (''rewardsClaim'', [84, 168, 212, 108, 203, 10, 250, 107]),
      (''syncIndexUpdate'', [170, 178, 107, 120, 158, 139, 32, 113])]"

definition MExt_errors :: "(nat \<times> string \<times> string) list" where
  "MExt_errors =
     [(6000, ''notAuthorized'', ''Invalid signer.''),
      (6001, ''invalidParam'', ''Invalid parameter.''),
      (6002, ''invalidAccount'', ''Account does not match the expected key.''),
      (6003, ''active'', ''Account is currently active.''),
      (6004, ''notActive'', ''Account is not currently active.''),
      (6005, ''insufficientCollateral'', ''Not enough M.''),
      (6006, ''invalidMint'', ''Invalid Mint.''),
      (6007, ''mathOverflow'', ''Math overflow error.''),
      (6008, ''mathUnderflow'', ''Math underflow error.''),
      (6009, ''typeConversionError'', ''Type conversion error.''),
      (6010, ''invalidInput'', ''Invalid value provided for calculation''),
      (6011, ''invalidAmount'', ''Invalid amount''),
      (6012, ''alreadyClaimed'', ''Already claimed for user.''),
      (6013, ''serializationError'', ''Failed to serialize account data.''),
      (6014, ''invalidTokenProgram'', ''Invalid token program provided.''),
      (6015, ''vaultFrozen'', ''Vault token account frozen.'')]"

definition ty_earnGlobal :: idl_body where
  "ty_earnGlobal = Struct [(''admin'', Prim ''pubkey''),
      (''mMint'', Prim ''pubkey''),
      (''portalAuthority'', Prim ''pubkey''),
      (''extSwapGlobalAccount'', Prim ''pubkey''),
      (''earnerMerkleRoot'', TArray (Prim ''u8'') 32),
      (''bump'', Prim ''u8'')]"

definition ty_earnManager :: idl_body where
  "ty_earnManager = Struct [(''earnManager'', Prim ''pubkey''),
      (''isActive'', Prim ''bool''),
      (''feeBps'', Prim ''u64''),
      (''feeTokenAccount'', Prim ''pubkey''),
      (''bump'', Prim ''u8'')]"

definition ty_earner :: idl_body where
  "ty_earner = Struct [(''lastClaimIndex'', Prim ''u64''),
      (''lastClaimTimestamp'', Prim ''u64''),
      (''bump'', Prim ''u8''),
      (''user'', Prim ''pubkey''),
      (''userTokenAccount'', Prim ''pubkey''),
      (''earnManager'', Prim ''pubkey''),
      (''recipientTokenAccount'', TOption (Prim ''pubkey''))]"

definition ty_extGlobalV2 :: idl_body where
  "ty_extGlobalV2 = Struct [(''admin'', Prim ''pubkey''),
      (''pendingAdmin'', TOption (Prim ''pubkey'')),
      (''extMint'', Prim ''pubkey''),
      (''mMint'', Prim ''pubkey''),
      (''mEarnGlobalAccount'', Prim ''pubkey''),
      (''bump'', Prim ''u8''),
      (''mVaultBump'', Prim ''u8''),
      (''extMintAuthorityBump'', Prim ''u8''),
      (''yieldConfig'', Defined ''yieldConfig''),
      (''wrapAuthorities'', TVec (Prim ''pubkey''))]"

definition ty_feesClaimed :: idl_body where
  "ty_feesClaimed = Struct [(''recipientTokenAccount'', Prim ''pubkey''),
      (''amount'', Prim ''u64''),
      (''principal'', Prim ''u64'')]"

definition ty_rewardsClaim :: idl_body where
  "ty_rewardsClaim = Struct [(''tokenAccount'', Prim ''pubkey''),
      (''recipientTokenAccount'', Prim ''pubkey''),
      (''amount'', Prim ''u64''),
      (''ts'', Prim ''u64''),
      (''index'', Prim ''u64''),
      (''fee'', Prim ''u64'')]"

definition ty_syncIndexUpdate :: idl_body where
  "ty_syncIndexUpdate = Struct [(''mIndex'', Prim ''u64''),
      (''extIndex'', Prim ''u64''),
      (''ts'', Prim ''u64'')]"

definition ty_yieldConfig :: idl_body where
  "ty_yieldConfig = Struct [(''yieldVariant'', Defined ''yieldVariant''),
      (''earnAuthority'', Prim ''pubkey''),
      (''lastMIndex'', Prim ''u64''),
      (''lastExtIndex'', Prim ''u64''),
      (''timestamp'', Prim ''u64'')]"

definition ty_yieldVariant :: idl_body where
  "ty_yieldVariant = Enum [''noYield'', ''scaledUi'', ''crank'']"

definition MExt_types :: typedefs where
  "MExt_types =
     [(''earnGlobal'', ty_earnGlobal), (''earnManager'', ty_earnManager), (''earner'', ty_earner),
      (''extGlobalV2'', ty_extGlobalV2), (''feesClaimed'', ty_feesClaimed), (''rewardsClaim'',
      ty_rewardsClaim), (''syncIndexUpdate'', ty_syncIndexUpdate), (''yieldConfig'',
      ty_yieldConfig), (''yieldVariant'', ty_yieldVariant)]"

definition MExt_constants :: "(string \<times> buffer) list" where
  "MExt_constants =
     [(''earnerSeed'', [101, 97, 114, 110, 101, 114]),
      (''earnManagerSeed'', [101, 97, 114, 110, 95, 109, 97, 110, 97, 103, 101, 114]),
      (''extGlobalSeed'', [103, 108, 111, 98, 97, 108]),
      (''mintAuthoritySeed'', [109, 105, 110, 116, 95, 97, 117, 116, 104, 111, 114, 105, 116, 121]),
      (''mVaultSeed'', [109, 95, 118, 97, 117, 108, 116])]"

definition MExt :: idl where
  "MExt = \<lparr>idl_address = ''3C865D264L4NkAm78zfnDzQJJvXuU3fMjRUvRxyPi5da'',
     idl_instructions =
    [ix_acceptAdmin, ix_addEarnManager, ix_addEarner, ix_addWrapAuthority, ix_claimFor,
     ix_configureEarnManager, ix_initialize, ix_removeEarnManager, ix_removeEarner,
     ix_removeOrphanedEarner, ix_removeWrapAuthority, ix_revokeAdminTransfer, ix_setEarnAuthority,
     ix_setRecipient, ix_sync, ix_transferAdmin, ix_transferEarner, ix_unwrap, ix_wrap],
     idl_accounts = MExt_accounts, idl_events = MExt_events, idl_types = MExt_types\<rparr>"

end
