(* ===== verification/Action.thy ===== *)
theory Action
  imports Prelude
begin

text \<open>
  Asynchronous methods that read and change state: an action takes the state and returns a
  result (a value, or the exception the promise rejects with) and the state left behind, which
  an exception does not roll back.
\<close>

type_synonym ('s, 'a) action = "'s \<Rightarrow> 'a result \<times> 's"

named_theorems action_simps \<open>evaluation of actions\<close>

definition returnA :: "'a \<Rightarrow> ('s, 'a) action" where
  "returnA x s = (Inr x, s)"

definition throwA :: "js_error \<Rightarrow> ('s, 'a) action" where
  "throwA e s = (Inl e, s)"

definition liftA :: "'a result \<Rightarrow> ('s, 'a) action" where
  "liftA r s = (r, s)"

definition bindA :: "('s, 'a) action \<Rightarrow> ('a \<Rightarrow> ('s, 'b) action) \<Rightarrow> ('s, 'b) action" where
  "bindA m f s = (case m s of (Inl e, s') \<Rightarrow> (Inl e, s') | (Inr x, s') \<Rightarrow> f x s')"

definition stateA :: "('s \<Rightarrow> 'a) \<Rightarrow> ('s, 'a) action" where
  "stateA f s = (Inr (f s), s)"

definition updateA :: "('s \<Rightarrow> 's) \<Rightarrow> ('s, unit) action" where
  "updateA f s = (Inr (), f s)"

fun mapA :: "('a \<Rightarrow> ('s, 'b) action) \<Rightarrow> 'a list \<Rightarrow> ('s, 'b list) action" where
  "mapA f [] = returnA []"
| "mapA f (x # xs) = bindA (f x) (\<lambda>y. bindA (mapA f xs) (\<lambda>ys. returnA (y # ys)))"

lemma returnA_eq [simp, action_simps]: "returnA x s = (Inr x, s)"
  by (simp add: returnA_def)

lemma throwA_eq [simp, action_simps]: "throwA e s = (Inl e, s)"
  by (simp add: throwA_def)

lemma liftA_eq [simp, action_simps]: "liftA r s = (r, s)"
  by (simp add: liftA_def)

lemma stateA_eq [simp, action_simps]: "stateA f s = (Inr (f s), s)"
  by (simp add: stateA_def)

lemma updateA_eq [simp, action_simps]: "updateA f s = (Inr (), f s)"
  by (simp add: updateA_def)

lemma bindA_Inr [action_simps]: "m s = (Inr x, s') \<Longrightarrow> bindA m f s = f x s'"
  by (simp add: bindA_def)

lemma bindA_Inl [action_simps]: "m s = (Inl e, s') \<Longrightarrow> bindA m f s = (Inl e, s')"
  by (simp add: bindA_def)

lemma bindA_eq_Inr_iff:
  "bindA m f s = (Inr y, s'') \<longleftrightarrow> (\<exists>x s'. m s = (Inr x, s') \<and> f x s' = (Inr y, s''))"
  by (cases "m s") (simp add: bindA_def split: sum.splits)

lemma bindA_eq_Inl_iff:
  "bindA m f s = (Inl e, s'') \<longleftrightarrow>
     m s = (Inl e, s'') \<or> (\<exists>x s'. m s = (Inr x, s') \<and> f x s' = (Inl e, s''))"
  by (cases "m s") (simp add: bindA_def split: sum.splits)

lemma bindA_cong [fundef_cong]:
  "m s = m' s' \<Longrightarrow> (\<And>x t. m' s' = (Inr x, t) \<Longrightarrow> f x t = g x t) \<Longrightarrow> bindA m f s = bindA m' g s'"
  by (simp add: bindA_def split: sum.splits prod.splits)

lemma bindA_returnA [simp]: "bindA (returnA x) f = f x"
  by (rule ext) (simp add: bindA_def)

lemma bindA_throwA [simp]: "bindA (throwA e) f = throwA e"
  by (rule ext) (simp add: bindA_def)

lemma bindA_liftA: "bindA (liftA r) f s = (case r of Inl e \<Rightarrow> (Inl e, s) | Inr x \<Rightarrow> f x s)"
  by (simp add: bindA_def split: sum.splits)

text \<open>An action on a part of the state.\<close>

definition zoomA :: "('s \<Rightarrow> 't) \<Rightarrow> ('t \<Rightarrow> 's \<Rightarrow> 's) \<Rightarrow> ('t, 'a) action \<Rightarrow> ('s, 'a) action" where
  "zoomA get put m s = (case m (get s) of (r, x) \<Rightarrow> (r, put x s))"

lemma zoomA_Inr: "zoomA get put m s = (Inr y, s') \<longleftrightarrow> (\<exists>x. m (get s) = (Inr y, x) \<and> s' = put x s)"
  by (auto simp: zoomA_def split: prod.splits)

text \<open>A promise whose rejection is caught and replaced by a value.\<close>

definition catchA :: "('s, 'a) action \<Rightarrow> (js_error \<Rightarrow> ('s, 'a) action) \<Rightarrow> ('s, 'a) action" where
  "catchA m h s = (case m s of (Inl e, s') \<Rightarrow> h e s' | (Inr x, s') \<Rightarrow> (Inr x, s'))"

text \<open>A state invariant kept by the parts of an action is kept by the action.\<close>

definition keeps :: "('s \<Rightarrow> bool) \<Rightarrow> ('s, 'a) action \<Rightarrow> bool" where
  "keeps I m \<longleftrightarrow> (\<forall>s. I s \<longrightarrow> I (snd (m s)))"

lemma keeps_basic [intro]:
  "keeps I (returnA x)" "keeps I (throwA e)" "keeps I (liftA r)" "keeps I (stateA g)"
  by (simp_all add: keeps_def)

lemma keeps_updateA [intro]: "(\<And>s. I s \<Longrightarrow> I (f s)) \<Longrightarrow> keeps I (updateA f)"
  by (simp add: keeps_def)

lemma keeps_bindA [intro]: "keeps I m \<Longrightarrow> (\<And>x. keeps I (f x)) \<Longrightarrow> keeps I (bindA m f)"
  unfolding keeps_def bindA_def
  by (fastforce split: sum.splits prod.splits)

lemma keeps_mapA: "(\<And>x. keeps I (f x)) \<Longrightarrow> keeps I (mapA f xs)"
  by (induction xs) auto

text \<open>The results of a sequence of calls, each from the state its predecessor left.\<close>

lemma mapA_results:
  "mapA f xs s = (Inr ys, s') \<Longrightarrow> list_all2 (\<lambda>x y. \<exists>s1 s2. f x s1 = (Inr y, s2)) xs ys"
  by (induction xs arbitrary: ys s) (auto simp: bindA_eq_Inr_iff)

end
