(* ===== verification/Bignum.thy ===== *)
theory Bignum
  imports Prelude "HOL-Library.Signed_Division"
begin

text \<open>
  The numbers of the TypeScript code.  A \<open>number\<close> that holds an integer is an \<open>int\<close>;
  \<open>bn.js\<close> is not part of the repository, so its operations are the record \<open>bn_ops\<close>, an
  argument of every definition that uses them, and the locale \<open>bignum\<close> states what its
  documentation promises through the value \<open>val\<close> of a number: exact sums, differences and
  products, division truncated toward zero, exceptions on a zero divisor and on a conversion from
  or to a \<open>number\<close> beyond 53 bits.
\<close>

section \<open>The operations\<close>

record 'n bn_ops =
  bn_of_number :: "int \<Rightarrow> 'n result"
  bn_of_string :: "int \<Rightarrow> 'n"
  bn_add :: "'n \<Rightarrow> 'n \<Rightarrow> 'n"
  bn_sub :: "'n \<Rightarrow> 'n \<Rightarrow> 'n"
  bn_mul :: "'n \<Rightarrow> 'n \<Rightarrow> 'n"
  bn_div :: "'n \<Rightarrow> 'n \<Rightarrow> 'n result"
  bn_toNumber :: "'n \<Rightarrow> int result"
  bn_gte :: "'n \<Rightarrow> 'n \<Rightarrow> bool"
  bn_lte :: "'n \<Rightarrow> 'n \<Rightarrow> bool"
  bn_gt :: "'n \<Rightarrow> 'n \<Rightarrow> bool"

definition safe_number :: "int \<Rightarrow> bool" where
  "safe_number n \<longleftrightarrow> \<bar>n\<bar> < 2 ^ 53"

section \<open>The documented behaviour\<close>

locale bignum =
  fixes B :: "'n bn_ops" and val :: "'n \<Rightarrow> int"
  assumes of_number_safe: "safe_number n \<Longrightarrow> \<exists>x. bn_of_number B n = Inr x \<and> val x = n"
    and of_number_unsafe: "\<not> safe_number n \<Longrightarrow> \<exists>e. bn_of_number B n = Inl e"
    and val_of_string: "val (bn_of_string B n) = n"
    and val_add: "val (bn_add B x y) = val x + val y"
    and val_sub: "val (bn_sub B x y) = val x - val y"
    and val_mul: "val (bn_mul B x y) = val x * val y"
    and div_nonzero: "val y \<noteq> 0 \<Longrightarrow> \<exists>q. bn_div B x y = Inr q \<and> val q = val x sdiv val y"
    and div_zero: "val y = 0 \<Longrightarrow> \<exists>e. bn_div B x y = Inl e"
    and toNumber_safe: "safe_number (val x) \<Longrightarrow> bn_toNumber B x = Inr (val x)"
    and toNumber_unsafe: "\<not> safe_number (val x) \<Longrightarrow> \<exists>e. bn_toNumber B x = Inl e"
    and gte_val: "bn_gte B x y \<longleftrightarrow> val y \<le> val x"
    and lte_val: "bn_lte B x y \<longleftrightarrow> val x \<le> val y"
    and gt_val: "bn_gt B x y \<longleftrightarrow> val y < val x"
begin

lemmas val_simps = val_of_string val_add val_sub val_mul gte_val lte_val gt_val

lemma of_number_val: "bn_of_number B n = Inr x \<Longrightarrow> val x = n \<and> safe_number n"
  using of_number_safe [of n] of_number_unsafe [of n] by (cases "safe_number n") auto

lemma div_val: "bn_div B x y = Inr q \<Longrightarrow> val q = val x sdiv val y \<and> val y \<noteq> 0"
  using div_nonzero [of y x] div_zero [of y x] by (cases "val y = 0") auto

lemma toNumber_val: "bn_toNumber B x = Inr n \<Longrightarrow> n = val x \<and> safe_number n"
  using toNumber_safe [of x] toNumber_unsafe [of x] by (cases "safe_number (val x)") auto

end

section \<open>A reference instance\<close>

definition int_bn :: "int bn_ops" where
  "int_bn = \<lparr>
     bn_of_number = (\<lambda>n. if safe_number n then Inr n else Inl (External ''Assertion failed'')),
     bn_of_string = (\<lambda>n. n),
     bn_add = (+), bn_sub = (-), bn_mul = (*),
     bn_div = (\<lambda>x y. if y = 0 then Inl (External ''Assertion failed'') else Inr (x sdiv y)),
     bn_toNumber = (\<lambda>n. if safe_number n then Inr n else Inl (External ''53 bits'')),
     bn_gte = (\<lambda>x y. y \<le> x), bn_lte = (\<le>), bn_gt = (\<lambda>x y. y < x)\<rparr>"

interpretation int_bn: bignum int_bn "\<lambda>n. n"
  by unfold_locales (auto simp: int_bn_def)

lemma int_bn_simps:
  "bn_of_number int_bn n = (if safe_number n then Inr n else Inl (External ''Assertion failed''))"
  "bn_of_string int_bn n = n" "bn_add int_bn x y = x + y" "bn_sub int_bn x y = x - y"
  "bn_mul int_bn x y = x * y"
  "bn_div int_bn x y = (if y = 0 then Inl (External ''Assertion failed'') else Inr (x sdiv y))"
  "bn_toNumber int_bn n = (if safe_number n then Inr n else Inl (External ''53 bits''))"
  "bn_gte int_bn x y = (y \<le> x)" "bn_lte int_bn x y = (x \<le> y)" "bn_gt int_bn x y = (y < x)"
  by (simp_all add: int_bn_def)

section \<open>Truncated division\<close>

lemma sdiv_nonneg: "0 \<le> a \<Longrightarrow> 0 < b \<Longrightarrow> a sdiv b = a div (b :: int)"
  by (cases "a = 0") (simp_all add: signed_divide_int_def)

lemma sdiv_mult_le: "0 \<le> a \<Longrightarrow> 0 < b \<Longrightarrow> (a sdiv b) * b \<le> (a :: int)"
  by (simp add: sdiv_nonneg mult.commute minus_mod_eq_mult_div [symmetric])

lemma sdiv_mult_ge: "0 \<le> a \<Longrightarrow> 0 < b \<Longrightarrow> a - b < (a sdiv b) * (b :: int)"
  using pos_mod_bound [of b a] by (simp add: sdiv_nonneg mult.commute minus_mod_eq_mult_div [symmetric])

lemma sdiv_lower: "0 \<le> a \<Longrightarrow> 0 < b \<Longrightarrow> c * b \<le> a \<Longrightarrow> c \<le> a sdiv (b :: int)"
  using zdiv_mono1 [of "c * b" a b] by (simp add: sdiv_nonneg)

lemma sdiv_upper: "0 \<le> a \<Longrightarrow> 0 < b \<Longrightarrow> a \<le> c * b \<Longrightarrow> a sdiv b \<le> (c :: int)"
  by (metis sdiv_mult_le order_trans mult_le_cancel_right_pos)

lemma sdiv_pos_bounds: "0 \<le> a \<Longrightarrow> 0 < b \<Longrightarrow> 0 \<le> a sdiv (b :: int)"
  by (simp add: sdiv_nonneg pos_imp_zdiv_nonneg_iff)

end
