(* ===== verification/Web3.thy ===== *)
theory Web3
  imports Action Bignum
begin

text \<open>
  What the TypeScript code calls of \<open>@solana/web3.js\<close>, \<open>@solana/spl-token\<close> and Anchor.
  None of it is part of the repository: the functions are the fields of the record \<open>web3\<close>,
  an argument of the definitions that use them.  An instruction is the plain data the libraries
  exchange; an Anchor call (method, arguments, named accounts) is data too, and the instruction
  Anchor builds for it is the value of the argument \<open>anchor\<close>.
\<close>

section \<open>Data\<close>

text \<open>\<open>Buffer.from(text)\<close> for ASCII text.\<close>

definition bytes_of :: "string \<Rightarrow> buffer" where
  "bytes_of cs = map (\<lambda>c. of_nat (of_char c)) cs"

record AccountMeta =
  am_pubkey :: buffer
  am_isSigner :: bool
  am_isWritable :: bool

record TransactionInstruction =
  txi_keys :: "AccountMeta list"
  txi_programId :: buffer
  txi_data :: buffer

datatype 'n call_arg = ArgBN 'n | ArgKey buffer | ArgProof "(buffer \<times> bool) list"

record 'n anchor_call =
  call_method :: string
  call_args :: "'n call_arg list"
  call_accounts :: "(string \<times> buffer option) list"

section \<open>Functions\<close>

record 'n web3 =
  toBase58 :: "buffer \<Rightarrow> string"
  new_PublicKey :: "buffer \<Rightarrow> buffer result"
  findProgramAddress :: "buffer list \<Rightarrow> buffer \<Rightarrow> buffer"
  associatedTokenAddress :: "buffer \<Rightarrow> buffer \<Rightarrow> bool \<Rightarrow> buffer \<Rightarrow> buffer"
  TOKEN_2022_PROGRAM_ID :: buffer
  createAssociatedTokenAccount ::
    "buffer \<Rightarrow> buffer \<Rightarrow> buffer \<Rightarrow> buffer \<Rightarrow> buffer \<Rightarrow> TransactionInstruction"
  setComputeUnitPrice :: "int \<Rightarrow> TransactionInstruction"
  setComputeUnitLimit :: "int \<Rightarrow> TransactionInstruction"
  anchor :: "buffer \<Rightarrow> 'n anchor_call \<Rightarrow> TransactionInstruction result"

section \<open>A reference instance\<close>

text \<open>
  Concrete functions for the witnesses: addresses are tagged concatenations, an Anchor call
  becomes an instruction that carries the bytes of its method's name.
\<close>

definition toy_web3 :: "'n web3" where
  "toy_web3 = \<lparr>toBase58 = (\<lambda>b. if b = [] then ''acct'' else ''mint''), new_PublicKey = Inr,
     findProgramAddress = (\<lambda>seeds p. concat seeds @ p),
     associatedTokenAddress = (\<lambda>m ow off p. m @ ow), TOKEN_2022_PROGRAM_ID = [],
     createAssociatedTokenAccount = (\<lambda>payer ata ow m p. \<lparr>txi_keys = [], txi_programId = p, txi_data = ata\<rparr>),
     setComputeUnitPrice = (\<lambda>n. \<lparr>txi_keys = [], txi_programId = [3], txi_data = [of_int n]\<rparr>),
     setComputeUnitLimit = (\<lambda>n. \<lparr>txi_keys = [], txi_programId = [2], txi_data = [of_int n]\<rparr>),
     anchor = (\<lambda>p c. Inr \<lparr>txi_keys = [], txi_programId = p, txi_data = bytes_of (call_method c)\<rparr>)\<rparr>"

lemma toy_web3_simps:
  "toBase58 toy_web3 b = (if b = [] then ''acct'' else ''mint'')" "new_PublicKey toy_web3 = Inr"
  "findProgramAddress toy_web3 seeds p = concat seeds @ p"
  "associatedTokenAddress toy_web3 m ow off p = m @ ow" "TOKEN_2022_PROGRAM_ID toy_web3 = []"
  "anchor toy_web3 p c = Inr \<lparr>txi_keys = [], txi_programId = p, txi_data = bytes_of (call_method c)\<rparr>"
  by (simp_all add: toy_web3_def)

end
