(* ===== verification/Accounts.thy ===== *)
theory Accounts
  imports MExtIdl Web3
begin

text \<open>
  \<open>sdk/src/accounts.ts\<close>: the account data the SDK works with, and \<open>loadGlobal\<close>, which
  picks the layout of the global account by the byte of the yield variant.  Anchor's
  \<open>BorshAccountsCoder\<close> is the argument \<open>decode_account\<close>; \<open>borsh_coder\<close> states that it
  inverts the Borsh encoding and ignores bytes after the value.
\<close>

section \<open>Account data\<close>

record EarnManagerData =
  isActive :: bool
  feeBps :: "64 word"
  feeTokenAccount :: buffer
  em_bump :: byte
  em_earnManager :: buffer

record 'n GlobalAccountData =
  admin :: buffer
  extMint :: buffer
  mMint :: buffer
  variant :: string
  wrapAuthorities :: "buffer list"
  index :: "'n option"
  timestamp :: "'n option"
  earnAuthority :: "buffer option"

section \<open>The layouts\<close>

definition yieldVariants :: "(string \<times> idl_type) list list" where
  "yieldVariants =
     [[(''yield_variant'', Defined ''YieldVariant'')],
      [(''yield_variant'', Defined ''YieldVariant''), (''fee_bps'', Prim ''u64''),
       (''last_m_index'', Prim ''u64''), (''last_ext_index'', Prim ''u64'')],
      [(''yield_variant'', Defined ''YieldVariant''), (''earn_authority'', Prim ''pubkey''),
       (''last_m_index'', Prim ''u64''), (''last_ext_index'', Prim ''u64''),
       (''timestamp'', Prim ''u64'')]]"

definition ext_global_fields :: "(string \<times> idl_type) list" where
  "ext_global_fields =
     [(''admin'', Prim ''pubkey''), (''pending_admin'', TOption (Prim ''pubkey'')),
      (''ext_mint'', Prim ''pubkey''), (''m_mint'', Prim ''pubkey''),
      (''m_earn_global_account'', Prim ''pubkey''), (''bump'', Prim ''u8''),
      (''m_vault_bump'', Prim ''u8''), (''ext_mint_authority_bump'', Prim ''u8''),
      (''yield_config'', Defined ''YieldConfig''), (''wrap_authorities'', TVec (Prim ''pubkey''))]"

text \<open>
  The argument is the byte read from the account, \<open>None\<close> when the account is shorter: an
  undefined variant is not \<open>>= 3\<close>, and indexing with it leaves the struct without fields.
\<close>

definition extensionIDL :: "byte option \<Rightarrow> idl result" where
  "extensionIDL v =
     (case v of
        Some w \<Rightarrow> if 3 \<le> w then Inl (Error ''Invalid yield variant, must be 0, 1, or 2'')
          else Inr \<lparr>idl_address = [], idl_instructions = [],
             idl_accounts = [(''ExtGlobalV2'', [116, 209, 219, 83, 70, 143, 55, 127])],
             idl_events = [],
             idl_types = [(''ExtGlobalV2'', Struct ext_global_fields),
               (''YieldConfig'', Struct (yieldVariants ! unat w)),
               (''YieldVariant'', Enum [''NoYield'', ''ScaledUi'', ''Crank''])]\<rparr>
      | None \<Rightarrow> Inr \<lparr>idl_address = [], idl_instructions = [],
             idl_accounts = [(''ExtGlobalV2'', [116, 209, 219, 83, 70, 143, 55, 127])],
             idl_events = [],
             idl_types = [(''ExtGlobalV2'', Struct ext_global_fields), (''YieldConfig'', Struct []),
               (''YieldVariant'', Enum [''NoYield'', ''ScaledUi'', ''Crank''])]\<rparr>)"

section \<open>Reading decoded values\<close>

text \<open>A property of \<open>undefined\<close> throws; a missing property is \<open>undefined\<close>.\<close>

definition js_prop :: "string \<Rightarrow> bval option \<Rightarrow> bval option result" where
  "js_prop k v = (case v of None \<Rightarrow> Inl TypeError
     | Some (VStruct fs) \<Rightarrow> Inr (map_of fs k) | Some _ \<Rightarrow> Inr None)"

fun as_key :: "bval option \<Rightarrow> buffer result" where
  "as_key (Some (VKey b)) = Inr b"
| "as_key _ = Inl TypeError"

fun as_keys :: "bval option \<Rightarrow> buffer list result" where
  "as_keys (Some (VVec vs)) = mapE (\<lambda>v. as_key (Some v)) vs"
| "as_keys _ = Inl TypeError"

text \<open>\<open>Object.keys(v)[0]\<close> of a decoded enum is the name of its variant.\<close>

fun as_variant :: "bval option \<Rightarrow> string result" where
  "as_variant (Some (VEnum c)) = Inr c"
| "as_variant _ = Inl TypeError"

fun as_key_opt :: "bval option \<Rightarrow> buffer option result" where
  "as_key_opt None = Inr None"
| "as_key_opt (Some (VKey b)) = Inr (Some b)"
| "as_key_opt _ = Inl TypeError"

fun as_bn_opt :: "'n bn_ops \<Rightarrow> bval option \<Rightarrow> 'n option result" where
  "as_bn_opt B None = Inr None"
| "as_bn_opt B (Some (VU64 w)) = Inr (Some (bn_of_string B (uint w)))"
| "as_bn_opt B _ = Inl TypeError"

section \<open>\<open>loadGlobal\<close>\<close>

record account_rpc =
  getAccountInfo :: "buffer \<Rightarrow> buffer option result"

type_synonym account_decoder = "idl \<Rightarrow> string \<Rightarrow> buffer \<Rightarrow> bval result"

definition yield_type_offset :: "buffer \<Rightarrow> nat" where
  "yield_type_offset globalData =
     (if 40 < length globalData \<and> globalData ! 40 = 1 then 172 else 140)"

definition byte_at :: "buffer \<Rightarrow> nat \<Rightarrow> byte option" where
  "byte_at b i = (if i < length b then Some (b ! i) else None)"

definition read_global :: "'n bn_ops \<Rightarrow> bval \<Rightarrow> 'n GlobalAccountData result" where
  "read_global B g =
     bindE (bindE (js_prop ''admin'' (Some g)) as_key) (\<lambda>a.
     bindE (bindE (js_prop ''ext_mint'' (Some g)) as_key) (\<lambda>em.
     bindE (bindE (js_prop ''m_mint'' (Some g)) as_key) (\<lambda>mm.
     bindE (js_prop ''yield_config'' (Some g)) (\<lambda>yc.
     bindE (bindE (js_prop ''yield_variant'' yc) as_variant) (\<lambda>var.
     bindE (bindE (js_prop ''wrap_authorities'' (Some g)) as_keys) (\<lambda>wa.
     bindE (bindE (js_prop ''last_ext_index'' yc) (as_bn_opt B)) (\<lambda>ix.
     bindE (bindE (js_prop ''timestamp'' yc) (as_bn_opt B)) (\<lambda>t.
     bindE (bindE (js_prop ''earn_authority'' yc) as_key_opt) (\<lambda>ea.
       Inr \<lparr>admin = a, extMint = em, mMint = mm, variant = var, wrapAuthorities = wa,
            index = ix, timestamp = t, earnAuthority = ea\<rparr>)))))))))"

definition loadGlobal ::
  "'n bn_ops \<Rightarrow> 'n web3 \<Rightarrow> account_decoder \<Rightarrow> 'r account_rpc_scheme \<Rightarrow> buffer \<Rightarrow>
     'n GlobalAccountData result" where
  "loadGlobal B W decode_account rpc program =
     (let globalAccount = findProgramAddress W [bytes_of ''global''] program in
      bindE (getAccountInfo rpc globalAccount) (\<lambda>info.
      bindE (case info of None \<Rightarrow> Inl TypeError | Some d \<Rightarrow> Inr d) (\<lambda>globalData.
      let yieldType = byte_at globalData (yield_type_offset globalData) in
      bindE (extensionIDL yieldType) (\<lambda>idl.
      bindE (decode_account idl ''ExtGlobalV2'' globalData) (read_global B)))))"

section \<open>The accounts coder\<close>

text \<open>
  The coder checks the discriminator of the named account and decodes the value after it.
\<close>

locale borsh_coder =
  fixes decode_account :: account_decoder
  assumes decode_account_ok:
    "map_of (idl_accounts I) nm = Some disc \<Longrightarrow> encode 5 (idl_types I) (Defined nm) v = Some bs \<Longrightarrow>
       decode_account I nm (disc @ bs @ rest) = Inr v"

definition ref_decoder :: account_decoder where
  "ref_decoder I nm bs =
     (case map_of (idl_accounts I) nm of
        None \<Rightarrow> Inl (External ''Unknown account'')
      | Some disc \<Rightarrow>
          if take (length disc) bs \<noteq> disc then Inl (External ''Invalid account discriminator'')
          else (case decode 5 (idl_types I) (Defined nm) (drop (length disc) bs) of
             None \<Rightarrow> Inl (External ''RangeError'') | Some (v, rest) \<Rightarrow> Inr v))"

interpretation ref_coder: borsh_coder ref_decoder
  by unfold_locales (simp add: ref_decoder_def decode_encode)

section \<open>The global account on chain\<close>

datatype yield_config =
    NoYield
  | ScaledUi "64 word" "64 word" "64 word"
  | Crank buffer "64 word" "64 word" "64 word"

record ExtGlobalV2 =
  g_admin :: buffer
  g_pending_admin :: "buffer option"
  g_ext_mint :: buffer
  g_m_mint :: buffer
  g_m_earn_global :: buffer
  g_bump :: byte
  g_m_vault_bump :: byte
  g_ext_mint_authority_bump :: byte
  g_yield_config :: yield_config
  g_wrap_authorities :: "buffer list"

fun yield_config_fields :: "yield_config \<Rightarrow> (string \<times> bval) list" where
  "yield_config_fields NoYield = [(''yield_variant'', VEnum ''NoYield'')]"
| "yield_config_fields (ScaledUi fee m e) =
     [(''yield_variant'', VEnum ''ScaledUi''), (''fee_bps'', VU64 fee),
      (''last_m_index'', VU64 m), (''last_ext_index'', VU64 e)]"
| "yield_config_fields (Crank auth m e t) =
     [(''yield_variant'', VEnum ''Crank''), (''earn_authority'', VKey auth),
      (''last_m_index'', VU64 m), (''last_ext_index'', VU64 e), (''timestamp'', VU64 t)]"

definition ext_global_value :: "ExtGlobalV2 \<Rightarrow> bval" where
  "ext_global_value g = VStruct
     [(''admin'', VKey (g_admin g)), (''pending_admin'', VOption (map_option VKey (g_pending_admin g))),
      (''ext_mint'', VKey (g_ext_mint g)), (''m_mint'', VKey (g_m_mint g)),
      (''m_earn_global_account'', VKey (g_m_earn_global g)), (''bump'', VU8 (g_bump g)),
      (''m_vault_bump'', VU8 (g_m_vault_bump g)),
      (''ext_mint_authority_bump'', VU8 (g_ext_mint_authority_bump g)),
      (''yield_config'', VStruct (yield_config_fields (g_yield_config g))),
      (''wrap_authorities'', VVec (map VKey (g_wrap_authorities g)))]"

fun variant_byte :: "yield_config \<Rightarrow> byte" where
  "variant_byte NoYield = 0"
| "variant_byte (ScaledUi fee m e) = 1"
| "variant_byte (Crank auth m e t) = 2"

fun yield_config_bytes :: "yield_config \<Rightarrow> buffer" where
  "yield_config_bytes NoYield = [0]"
| "yield_config_bytes (ScaledUi fee m e) = 1 # u64_le fee @ u64_le m @ u64_le e"
| "yield_config_bytes (Crank auth m e t) = 2 # auth @ u64_le m @ u64_le e @ u64_le t"

definition option_key_bytes :: "buffer option \<Rightarrow> buffer" where
  "option_key_bytes k = (case k of None \<Rightarrow> [0] | Some b \<Rightarrow> 1 # b)"

definition ext_global_bytes :: "ExtGlobalV2 \<Rightarrow> buffer" where
  "ext_global_bytes g =
     g_admin g @ option_key_bytes (g_pending_admin g) @ g_ext_mint g @ g_m_mint g @
     g_m_earn_global g @ [g_bump g, g_m_vault_bump g, g_ext_mint_authority_bump g] @
     yield_config_bytes (g_yield_config g) @
     nat_le 4 (length (g_wrap_authorities g)) @ concat (g_wrap_authorities g)"

definition valid_global :: "ExtGlobalV2 \<Rightarrow> bool" where
  "valid_global g \<longleftrightarrow>
     length (g_admin g) = 32 \<and> pred_option (\<lambda>b. length b = 32) (g_pending_admin g) \<and>
     length (g_ext_mint g) = 32 \<and> length (g_m_mint g) = 32 \<and> length (g_m_earn_global g) = 32 \<and>
     (case g_yield_config g of Crank auth m e t \<Rightarrow> length auth = 32 | _ \<Rightarrow> True) \<and>
     list_all (\<lambda>b. length b = 32) (g_wrap_authorities g) \<and> length (g_wrap_authorities g) < 256 ^ 4"

lemma concat_opt_keys:
  "list_all (\<lambda>b. length b = 32) bs \<Longrightarrow>
     concat_opt (map (encode (Suc n) T (Prim ''pubkey'')) (map VKey bs)) = Some (concat bs)"
  by (induction bs) simp_all

definition variant_idl :: "byte \<Rightarrow> idl" where
  "variant_idl w = (case extensionIDL (Some w) of Inr I \<Rightarrow> I | Inl e \<Rightarrow> MExt)"

lemma variant_idl_types:
  assumes "w < 3"
  shows "extensionIDL (Some w) = Inr (variant_idl w)"
    and "idl_types (variant_idl w) = [(''ExtGlobalV2'', Struct ext_global_fields),
      (''YieldConfig'', Struct (yieldVariants ! unat w)),
      (''YieldVariant'', Enum [''NoYield'', ''ScaledUi'', ''Crank''])]"
    and "idl_accounts (variant_idl w) = [(''ExtGlobalV2'', [116, 209, 219, 83, 70, 143, 55, 127])]"
proof -
  have "\<not> 3 \<le> w" using assms by (simp add: not_le)
  then show "extensionIDL (Some w) = Inr (variant_idl w)"
    "idl_types (variant_idl w) = [(''ExtGlobalV2'', Struct ext_global_fields),
      (''YieldConfig'', Struct (yieldVariants ! unat w)),
      (''YieldVariant'', Enum [''NoYield'', ''ScaledUi'', ''Crank''])]"
    "idl_accounts (variant_idl w) = [(''ExtGlobalV2'', [116, 209, 219, 83, 70, 143, 55, 127])]"
    by (simp_all add: variant_idl_def extensionIDL_def)
qed

lemma variant_byte_less: "variant_byte y < 3"
  by (cases y) simp_all

lemma encode_yield_config:
  assumes "case y of Crank auth m e t \<Rightarrow> length auth = 32 | _ \<Rightarrow> True"
  shows "encode 4 (idl_types (variant_idl (variant_byte y))) (Defined ''YieldConfig'')
     (VStruct (yield_config_fields y)) = Some (yield_config_bytes y)"
  using assms
  by (cases y) (simp_all add: variant_idl_types yieldVariants_def index_of_def encode_4 encode_3)

lemma encode_option_key:
  "pred_option (\<lambda>b. length b = 32) k \<Longrightarrow>
     encode 4 T (TOption (Prim ''pubkey'')) (VOption (map_option VKey k)) = Some (option_key_bytes k)"
  by (cases k) (simp_all add: encode_4 encode_3 option_key_bytes_def)

lemma encode_key_list:
  "list_all (\<lambda>b. length b = 32) bs \<Longrightarrow> length bs < 256 ^ 4 \<Longrightarrow>
     encode 4 T (TVec (Prim ''pubkey'')) (VVec (map VKey bs)) =
       Some (nat_le 4 (length bs) @ concat bs)"
  using concat_opt_keys [of bs 2 T] by (simp add: encode_4 Suc_steps)

lemma encode_prim_4:
  "length b = 32 \<Longrightarrow> encode 4 T (Prim ''pubkey'') (VKey b) = Some b"
  "encode 4 T (Prim ''u8'') (VU8 x) = Some [x]"
  by (simp_all add: encode_4)

lemma encode_ext_global:
  assumes "valid_global g"
  shows "encode 5 (idl_types (variant_idl (variant_byte (g_yield_config g)))) (Defined ''ExtGlobalV2'')
     (ext_global_value g) = Some (ext_global_bytes g)"
proof -
  let ?w = "variant_byte (g_yield_config g)"
  let ?T = "idl_types (variant_idl ?w)"
  have m: "map_of ?T ''ExtGlobalV2'' = Some (Struct ext_global_fields)"
    by (simp add: variant_idl_types [OF variant_byte_less])
  have y: "encode 4 ?T (Defined ''YieldConfig'') (VStruct (yield_config_fields (g_yield_config g))) =
      Some (yield_config_bytes (g_yield_config g))"
    using assms by (intro encode_yield_config) (simp add: valid_global_def)
  show ?thesis
    using assms unfolding encode_5 valid_global_def
    by (simp add: m ext_global_value_def ext_global_fields_def ext_global_bytes_def y
        encode_prim_4 encode_option_key encode_key_list)
qed

lemma yield_type_byte:
  assumes "valid_global g" "length disc = 8" "data = disc @ ext_global_bytes g @ rest"
  shows "byte_at data (yield_type_offset data) = Some (variant_byte (g_yield_config g))"
proof -
  obtain y ys where y: "yield_config_bytes (g_yield_config g) = y # ys" "y = variant_byte (g_yield_config g)"
    by (cases "g_yield_config g") auto
  define tl where "tl = ys @ nat_le 4 (length (g_wrap_authorities g)) @ concat (g_wrap_authorities g) @ rest"
  have l: "length (g_admin g) = 32" "length (g_ext_mint g) = 32" "length (g_m_mint g) = 32"
    "length (g_m_earn_global g) = 32" using assms(1) by (simp_all add: valid_global_def)
  have d: "data = (disc @ g_admin g) @ option_key_bytes (g_pending_admin g) @ g_ext_mint g @
      g_m_mint g @ g_m_earn_global g @
      [g_bump g, g_m_vault_bump g, g_ext_mint_authority_bump g] @ y # tl"
    by (simp add: assms(3) ext_global_bytes_def y(1) tl_def)
  show ?thesis
  proof (cases "g_pending_admin g")
    case None
    have "data ! 40 = 0" unfolding d by (simp add: nth_append None option_key_bytes_def l assms(2))
    moreover have "data ! 140 = y" "140 < length data"
      unfolding d by (simp_all add: nth_append None option_key_bytes_def l assms(2))
    ultimately show ?thesis by (simp add: yield_type_offset_def byte_at_def y(2))
  next
    case (Some p)
    then have "length p = 32" using assms(1) by (simp add: valid_global_def)
    then have "data ! 40 = 1" "data ! 172 = y" "172 < length data"
      unfolding d by (simp_all add: nth_append Some option_key_bytes_def l assms(2))
    then show ?thesis by (simp add: yield_type_offset_def byte_at_def y(2))
  qed
qed

section \<open>What \<open>loadGlobal\<close> returns\<close>

fun variant_name :: "yield_config \<Rightarrow> string" where
  "variant_name NoYield = ''NoYield''"
| "variant_name (ScaledUi fee m e) = ''ScaledUi''"
| "variant_name (Crank auth m e t) = ''Crank''"

fun config_index :: "yield_config \<Rightarrow> 64 word option" where
  "config_index NoYield = None"
| "config_index (ScaledUi fee m e) = Some e"
| "config_index (Crank auth m e t) = Some e"

fun config_timestamp :: "yield_config \<Rightarrow> 64 word option" where
  "config_timestamp (Crank auth m e t) = Some t"
| "config_timestamp y = None"

fun config_authority :: "yield_config \<Rightarrow> buffer option" where
  "config_authority (Crank auth m e t) = Some auth"
| "config_authority y = None"

definition global_of :: "'n bn_ops \<Rightarrow> ExtGlobalV2 \<Rightarrow> 'n GlobalAccountData" where
  "global_of B g =
     \<lparr>admin = g_admin g, extMint = g_ext_mint g, mMint = g_m_mint g,
      variant = variant_name (g_yield_config g), wrapAuthorities = g_wrap_authorities g,
      index = map_option (\<lambda>w. bn_of_string B (uint w)) (config_index (g_yield_config g)),
      timestamp = map_option (\<lambda>w. bn_of_string B (uint w)) (config_timestamp (g_yield_config g)),
      earnAuthority = config_authority (g_yield_config g)\<rparr>"

lemma mapE_keys: "mapE (\<lambda>v. as_key (Some v)) (map VKey bs) = Inr bs"
  by (induction bs) simp_all

lemma read_global_value: "read_global B (ext_global_value g) = Inr (global_of B g)"
  by (cases "g_yield_config g")
    (simp_all add: read_global_def ext_global_value_def js_prop_def global_of_def mapE_keys)

lemma loadGlobal_decodes:
  assumes "borsh_coder decode_account" "valid_global g"
    and "getAccountInfo rpc (findProgramAddress W [bytes_of ''global''] program) =
      Inr (Some ([116, 209, 219, 83, 70, 143, 55, 127] @ ext_global_bytes g @ rest))"
  shows "loadGlobal B W decode_account rpc program = Inr (global_of B g)"
proof -
  let ?disc = "[116, 209, 219, 83, 70, 143, 55, 127] :: buffer"
  let ?data = "?disc @ ext_global_bytes g @ rest" and ?I = "variant_idl (variant_byte (g_yield_config g))"
  have b: "byte_at ?data (yield_type_offset ?data) = Some (variant_byte (g_yield_config g))"
    by (rule yield_type_byte [OF assms(2), of ?disc ?data rest]) simp_all
  have i: "extensionIDL (Some (variant_byte (g_yield_config g))) = Inr ?I"
    by (rule variant_idl_types(1) [OF variant_byte_less])
  have "decode_account ?I ''ExtGlobalV2'' ?data = Inr (ext_global_value g)"
    by (rule borsh_coder.decode_account_ok [OF assms(1) _ encode_ext_global [OF assms(2)]])
      (simp add: variant_idl_types(3) [OF variant_byte_less])
  then show ?thesis
    unfolding loadGlobal_def Let_def assms(3) bindE_Inr option.case b i by (simp add: read_global_value)
qed

lemma loadGlobal_bad_variant:
  assumes "getAccountInfo rpc (findProgramAddress W [bytes_of ''global''] program) = Inr (Some d)"
    and "byte_at d (yield_type_offset d) = Some w" "3 \<le> w"
  shows "loadGlobal B W decode_account rpc program =
    Inl (Error ''Invalid yield variant, must be 0, 1, or 2'')"
  using assms by (simp add: loadGlobal_def extensionIDL_def)

end
