(* ===== verification/Managers.thy ===== *)
theory Managers
  imports Accounts Merkle
begin

text \<open>
  \<open>sdk/src/earn_manager.ts\<close>, \<open>sdk/src/earner.ts\<close> and \<open>sdk/src/idl/index.ts\<close>: the earn
  managers and the earners of an extension program.  Anchor's account namespace (\<open>fetch\<close>,
  \<open>all\<close>) and the token program's \<open>getAccount\<close> are the record \<open>program_api\<close>.  A
  \<open>Program\<close> object is its program id: \<open>getProgram\<close> writes the id into the shared IDL object
  and the constructor reads it back from there at once.
\<close>

section \<open>Earners\<close>

record 'n EarnerData =
  lastClaimIndex :: 'n
  lastClaimTimestamp :: 'n
  er_bump :: byte
  user :: buffer
  userTokenAccount :: buffer
  er_earnManager :: PublicKey
  recipientTokenAccount :: "buffer option"

record 'n Earner =
  er_program :: buffer
  er_pubkey :: buffer
  er_data :: "'n EarnerData"

text \<open>A \<open>memcmp\<close> filter has an offset and a base-58 text.\<close>

record 'n program_api =
  fetch_earnManager :: "buffer \<Rightarrow> buffer \<Rightarrow> EarnManagerData result"
  fetch_earner :: "buffer \<Rightarrow> buffer \<Rightarrow> 'n EarnerData result"
  all_earners :: "buffer \<Rightarrow> (nat \<times> string) option \<Rightarrow> (buffer \<times> 'n EarnerData) list result"
  spl_getAccount :: "buffer \<Rightarrow> unit result"

definition getProgram :: "'n web3 \<Rightarrow> idl \<Rightarrow> buffer \<Rightarrow> idl" where
  "getProgram W ext_idl programID = ext_idl\<lparr>idl_address := toBase58 W programID\<rparr>"

definition new_Earner :: "buffer \<Rightarrow> 'n EarnerData \<Rightarrow> buffer \<Rightarrow> 'n Earner" where
  "new_Earner pubkey d program = \<lparr>er_program = program, er_pubkey = pubkey, er_data = d\<rparr>"

definition Earner_fromTokenAccount ::
  "'n web3 \<Rightarrow> 'n program_api \<Rightarrow> buffer \<Rightarrow> buffer \<Rightarrow> 'n Earner result" where
  "Earner_fromTokenAccount W api tokenAccount program =
     (let earnerAccount = findProgramAddress W [bytes_of ''earner'', tokenAccount] program in
      bindE (fetch_earner api program earnerAccount) (\<lambda>d.
        Inr (new_Earner earnerAccount d program)))"

definition Earner_fromUserAddress ::
  "'n web3 \<Rightarrow> 'n program_api \<Rightarrow> buffer \<Rightarrow> buffer \<Rightarrow> 'n Earner list result" where
  "Earner_fromUserAddress W api usr program =
     bindE (all_earners api program (Some (25, toBase58 W usr))) (\<lambda>accounts.
       Inr (map (\<lambda>(pk, d). new_Earner pk d program) accounts))"

section \<open>Earn managers\<close>

record EarnManager =
  mgr_program :: buffer
  manager :: buffer
  mgr_pubkey :: buffer
  mgr_data :: EarnManagerData

definition EarnManager_fromManagerAddress ::
  "'n web3 \<Rightarrow> 'n program_api \<Rightarrow> buffer \<Rightarrow> buffer \<Rightarrow> EarnManager result" where
  "EarnManager_fromManagerAddress W api program mgr =
     (let earnManagerAccount = findProgramAddress W [bytes_of ''earn_manager'', mgr] program in
      bindE (fetch_earnManager api program earnManagerAccount) (\<lambda>d.
        Inr \<lparr>mgr_program = program, manager = mgr, mgr_pubkey = earnManagerAccount, mgr_data = d\<rparr>))"

definition EarnManager_refresh :: "'n web3 \<Rightarrow> 'n program_api \<Rightarrow> EarnManager \<Rightarrow> EarnManager result" where
  "EarnManager_refresh W api m = EarnManager_fromManagerAddress W api (mgr_program m) (manager m)"

definition buildConfigureInstruction ::
  "'n bn_ops \<Rightarrow> 'n web3 \<Rightarrow> EarnManager \<Rightarrow> int \<Rightarrow> buffer \<Rightarrow> TransactionInstruction result" where
  "buildConfigureInstruction B W m feeBPS feeAccount =
     bindE (bn_of_number B feeBPS) (\<lambda>fee.
       anchor W (mgr_program m)
         \<lparr>call_method = ''configureEarnManager'', call_args = [ArgBN fee],
          call_accounts = [(''signer'', Some (manager m)), (''feeTokenAccount'', Some feeAccount)]\<rparr>)"

text \<open>
  Without a token account the associated one is used, and created first if the token program
  cannot read it (any exception of \<open>getAccount\<close> counts).
\<close>

definition buildAddEarnerInstruction ::
  "'n bn_ops \<Rightarrow> 'n web3 \<Rightarrow> account_decoder \<Rightarrow> 'r account_rpc_scheme \<Rightarrow> 'n program_api \<Rightarrow>
     EarnManager \<Rightarrow> buffer \<Rightarrow> buffer option \<Rightarrow> TransactionInstruction list result" where
  "buildAddEarnerInstruction B W decode_account rpc api m usr tokenAccount =
     bindE (loadGlobal B W decode_account rpc (mgr_program m)) (\<lambda>global.
       let ata = associatedTokenAddress W (extMint global) usr True (TOKEN_2022_PROGRAM_ID W);
           (acct, ixs) = (case tokenAccount of
              Some a \<Rightarrow> (a, [])
            | None \<Rightarrow> (ata, (case spl_getAccount api ata of
                Inr _ \<Rightarrow> []
              | Inl _ \<Rightarrow> [createAssociatedTokenAccount W (manager m) ata usr (extMint global)
                           (TOKEN_2022_PROGRAM_ID W)])))
       in bindE (anchor W (mgr_program m)
            \<lparr>call_method = ''addEarner'', call_args = [ArgKey usr],
             call_accounts = [(''signer'', Some (manager m)), (''userTokenAccount'', Some acct)]\<rparr>)
          (\<lambda>ix. Inr (ixs @ [ix])))"

definition buildRemoveEarnerInstruction ::
  "'n web3 \<Rightarrow> EarnManager \<Rightarrow> buffer \<Rightarrow> TransactionInstruction list result" where
  "buildRemoveEarnerInstruction W m earner =
     bindE (anchor W (mgr_program m)
       \<lparr>call_method = ''removeEarner'', call_args = [],
        call_accounts = [(''signer'', Some (manager m)), (''earnerAccount'', Some earner)]\<rparr>)
     (\<lambda>ix. Inr [ix])"

definition EarnManager_getEarners :: "'n program_api \<Rightarrow> EarnManager \<Rightarrow> 'n Earner list result" where
  "EarnManager_getEarners api m =
     bindE (all_earners api (mgr_program m) None) (\<lambda>accounts.
       Inr (map (\<lambda>(pk, d). new_Earner pk d (mgr_program m)) accounts))"

section \<open>Earner accounts on chain\<close>

text \<open>
  The bytes of an earner account under the IDL, and the service that lists them: \<open>all\<close> with a
  \<open>memcmp\<close> filter returns the earner accounts of the program whose data hold the decoded text
  at the offset.
\<close>

definition earner_value :: "64 word \<Rightarrow> 64 word \<Rightarrow> byte \<Rightarrow> buffer \<Rightarrow> buffer \<Rightarrow> buffer \<Rightarrow> buffer option \<Rightarrow> bval" where
  "earner_value i t b usr acct mgr recipient = VStruct
     [(''lastClaimIndex'', VU64 i), (''lastClaimTimestamp'', VU64 t), (''bump'', VU8 b),
      (''user'', VKey usr), (''userTokenAccount'', VKey acct), (''earnManager'', VKey mgr),
      (''recipientTokenAccount'', VOption (map_option VKey recipient))]"

definition earner_disc :: buffer where
  "earner_disc = (case map_of MExt_accounts ''earner'' of Some d \<Rightarrow> d | None \<Rightarrow> [])"

definition memcmp :: "nat \<Rightarrow> buffer \<Rightarrow> buffer \<Rightarrow> bool" where
  "memcmp off b d \<longleftrightarrow> take (length b) (drop off d) = b"

text \<open>
  \<open>chain p\<close> are the accounts of the program \<open>p\<close>: address, data and decoded earner.
\<close>

locale earner_accounts =
  fixes W :: "'n web3" and api :: "'n program_api"
    and chain :: "buffer \<Rightarrow> (buffer \<times> buffer \<times> 'n EarnerData) list" and b58 :: "string \<Rightarrow> buffer"
  assumes b58_toBase58: "b58 (toBase58 W k) = k"
    and all_earners_memcmp: "all_earners api p (Some (off, s)) = Inr rows \<Longrightarrow>
      rows = map (\<lambda>(pk, d, e). (pk, e)) (filter (\<lambda>(pk, d, e). memcmp off (b58 s) d) (chain p))"
    and chain_layout: "(pk, d, e) \<in> set (chain p) \<Longrightarrow> \<exists>i t b mgr bs rest.
      encode 5 MExt_types (Defined ''earner'')
        (earner_value i t b (user e) (userTokenAccount e) mgr (recipientTokenAccount e)) = Some bs \<and>
      d = earner_disc @ bs @ rest"
begin

lemma user_at_25:
  assumes "(pk, d, e) \<in> set (chain p)" "length usr = 32"
  shows "memcmp 25 usr d \<longleftrightarrow> user e = usr"
proof -
  obtain i t b mgr bs rest where bs: "encode 5 MExt_types (Defined ''earner'')
        (earner_value i t b (user e) (userTokenAccount e) mgr (recipientTokenAccount e)) = Some bs"
      "d = earner_disc @ bs @ rest"
    using chain_layout [OF assms(1)] by blast
  obtain tl where tl: "bs = u64_le i @ u64_le t @ [b] @ user e @ tl" "length (user e) = 32"
    using bs(1) unfolding encode_5
    by (auto simp: MExt_types_def ty_earner_def earner_value_def encode_4
        split: if_splits option.splits)
  have "length earner_disc = 8" by (simp add: earner_disc_def MExt_accounts_def)
  then have "drop 25 d = user e @ tl @ rest" using bs(2) tl by simp
  then show ?thesis using tl(2) assms(2) by (auto simp: memcmp_def)
qed

lemma fromUserAddress_exact:
  assumes "Earner_fromUserAddress W api usr p = Inr es" "length usr = 32"
  shows "es = map (\<lambda>(pk, d, e). new_Earner pk e p) (filter (\<lambda>(pk, d, e). user e = usr) (chain p))"
proof -
  have "filter (\<lambda>(pk, d, e). memcmp 25 usr d) (chain p) = filter (\<lambda>(pk, d, e). user e = usr) (chain p)"
    using user_at_25 [OF _ assms(2), of _ _ _ p] by (intro filter_cong) auto
  then show ?thesis
    using assms(1) all_earners_memcmp [of p 25 "toBase58 W usr"]
    by (auto simp: Earner_fromUserAddress_def bindE_eq_Inr_iff b58_toBase58)
qed

end
section \<open>A reference instance\<close>

definition text_of :: "buffer \<Rightarrow> string" where
  "text_of b = map (\<lambda>x. char_of (unat x)) b"

definition text_web3 :: "'n web3" where
  "text_web3 = toy_web3\<lparr>toBase58 := text_of\<rparr>"

definition ref_chain :: "(buffer \<Rightarrow> (buffer \<times> 'n EarnerData) list) \<Rightarrow> buffer \<Rightarrow>
    (buffer \<times> buffer \<times> 'n EarnerData) list" where
  "ref_chain accts p = concat (map (\<lambda>(pk, e).
     case encode 5 MExt_types (Defined ''earner'') (earner_value 0 0 (er_bump e) (user e)
         (userTokenAccount e) (toBuffer (er_earnManager e)) (recipientTokenAccount e)) of
       Some bs \<Rightarrow> [(pk, earner_disc @ bs, e)] | None \<Rightarrow> []) (accts p))"

definition ref_api :: "(buffer \<Rightarrow> (buffer \<times> 'n EarnerData) list) \<Rightarrow> 'n program_api" where
  "ref_api accts = \<lparr>fetch_earnManager = (\<lambda>p a. Inr \<lparr>isActive = True, feeBps = 0,
       feeTokenAccount = a, em_bump = 0, em_earnManager = p\<rparr>),
     fetch_earner = (\<lambda>p a. case map_of (accts p) a of Some e \<Rightarrow> Inr e | None \<Rightarrow> Inl (External ''no account'')),
     all_earners = (\<lambda>p f. Inr (map (\<lambda>(pk, d, e). (pk, e)) (case f of None \<Rightarrow> ref_chain accts p
       | Some (off, s) \<Rightarrow> filter (\<lambda>(pk, d, e). memcmp off (bytes_of s) d) (ref_chain accts p)))),
     spl_getAccount = (\<lambda>_. Inl (External ''TokenAccountNotFoundError''))\<rparr>"

lemma bytes_of_text_of: "bytes_of (text_of b) = b"
proof -
  have "of_nat (of_char (char_of (unat x) :: char)) = x" for x :: byte
  proof -
    have "unat x < 256" using unsigned_less [of x] by simp
    then show ?thesis by (simp add: of_char_of)
  qed
  then show ?thesis by (simp add: bytes_of_def text_of_def map_idI)
qed

interpretation ref_earners: earner_accounts text_web3 "ref_api accts" "ref_chain accts" bytes_of for accts
proof unfold_locales
  show "bytes_of (toBase58 text_web3 k) = k" for k by (simp add: text_web3_def bytes_of_text_of)
  show "all_earners (ref_api accts) p (Some (off, s)) = Inr rows \<Longrightarrow>
      rows = map (\<lambda>(pk, d, e). (pk, e))
        (filter (\<lambda>(pk, d, e). memcmp off (bytes_of s) d) (ref_chain accts p))" for p off s rows
    by (simp add: ref_api_def)
  show "\<exists>i t b mgr bs rest. encode 5 MExt_types (Defined ''earner'')
        (earner_value i t b (user e) (userTokenAccount e) mgr (recipientTokenAccount e)) = Some bs \<and>
      d = earner_disc @ bs @ rest" if m: "(pk, d, e) \<in> set (ref_chain accts p)" for pk d e p
  proof -
    obtain bs where "encode 5 MExt_types (Defined ''earner'') (earner_value 0 0 (er_bump e) (user e)
         (userTokenAccount e) (toBuffer (er_earnManager e)) (recipientTokenAccount e)) = Some bs"
      "d = earner_disc @ bs @ []"
      using m by (fastforce simp: ref_chain_def dest: sym split: option.splits)
    then show ?thesis by blast
  qed
qed

end
