(* ===== verification/Mongo.thy ===== *)
theory Mongo
  imports Action "HOL-Library.Multiset"
begin

text \<open>
  The aggregation service of MongoDB, which the queries of \<open>sdk/src/db.ts\<close> call.  The
  pipelines the code sends are data (\<open>stage\<close>); the service itself is an argument.  What its
  documentation promises about the stages used here is \<open>pipeline_ok\<close>: \<open>$match\<close> filters,
  \<open>$lookup\<close> joins, \<open>$unwind\<close> flattens, \<open>$sort\<close> orders without promising an order
  among equals, \<open>$limit\<close> truncates.
\<close>

section \<open>Documents and stages\<close>

datatype bson = BString string | BNumber int | BDate int
  | BDoc "(string \<times> bson) list" | BArray "bson list"

datatype stage =
    MatchEq "(string \<times> bson) list"
  | MatchGte string int
  | MatchLt string int
  | Lookup string string string string
  | Unwind string
  | SortDesc string
  | LimitTo nat

fun doc_get :: "string \<Rightarrow> bson \<Rightarrow> bson option" where
  "doc_get k (BDoc fs) = map_of fs k"
| "doc_get k _ = None"

fun doc_set :: "string \<Rightarrow> bson \<Rightarrow> bson \<Rightarrow> bson" where
  "doc_set k v (BDoc fs) = BDoc ((k, v) # filter (\<lambda>(k', _). k' \<noteq> k) fs)"
| "doc_set k v d = d"

text \<open>Dotted paths.\<close>

fun split_dots :: "string \<Rightarrow> string \<Rightarrow> string list" where
  "split_dots acc [] = [rev acc]"
| "split_dots acc (c # cs) =
     (if c = CHR ''.'' then rev acc # split_dots [] cs else split_dots (c # acc) cs)"

fun path_get :: "string list \<Rightarrow> bson \<Rightarrow> bson option" where
  "path_get [] d = Some d"
| "path_get (k # ks) d = (case doc_get k d of None \<Rightarrow> None | Some d' \<Rightarrow> path_get ks d')"

definition field :: "string \<Rightarrow> bson \<Rightarrow> bson option" where
  "field p d = path_get (split_dots [] p) d"

definition date_field :: "string \<Rightarrow> bson \<Rightarrow> int option" where
  "date_field p d = (case field p d of Some (BDate t) \<Rightarrow> Some t | _ \<Rightarrow> None)"

definition number_field :: "string \<Rightarrow> bson \<Rightarrow> int option" where
  "number_field p d = (case field p d of Some (BNumber n) \<Rightarrow> Some n | _ \<Rightarrow> None)"

section \<open>What the stages promise\<close>

definition match_eq :: "(string \<times> bson) list \<Rightarrow> bson \<Rightarrow> bool" where
  "match_eq eqs d \<longleftrightarrow> list_all (\<lambda>(p, v). field p d = Some v) eqs"

definition match_gte :: "string \<Rightarrow> int \<Rightarrow> bson \<Rightarrow> bool" where
  "match_gte p t d \<longleftrightarrow> (case date_field p d of Some u \<Rightarrow> t \<le> u | None \<Rightarrow> False)"

definition match_lt :: "string \<Rightarrow> int \<Rightarrow> bson \<Rightarrow> bool" where
  "match_lt p t d \<longleftrightarrow> (case date_field p d of Some u \<Rightarrow> u < t | None \<Rightarrow> False)"

definition lookup_doc :: "(string \<Rightarrow> bson list) \<Rightarrow> string \<Rightarrow> string \<Rightarrow> string \<Rightarrow> string \<Rightarrow> bson \<Rightarrow> bson" where
  "lookup_doc db from loc foreign as d =
     doc_set as (BArray (filter (\<lambda>e. field foreign e = field loc d) (db from))) d"

definition unwind_doc :: "string \<Rightarrow> bson \<Rightarrow> bson list" where
  "unwind_doc k d = (case doc_get k d of
     None \<Rightarrow> [] | Some (BArray vs) \<Rightarrow> map (\<lambda>v. doc_set k v d) vs | Some _ \<Rightarrow> [d])"

definition descending :: "string \<Rightarrow> bson list \<Rightarrow> bool" where
  "descending p ds \<longleftrightarrow> sorted_wrt (\<lambda>a b. case (number_field p a, number_field p b) of
     (Some x, Some y) \<Rightarrow> y \<le> x | _ \<Rightarrow> True) ds"

fun stage_ok :: "(string \<Rightarrow> bson list) \<Rightarrow> stage \<Rightarrow> bson list \<Rightarrow> bson list \<Rightarrow> bool" where
  "stage_ok db (MatchEq eqs) ins outs \<longleftrightarrow> outs = filter (match_eq eqs) ins"
| "stage_ok db (MatchGte p t) ins outs \<longleftrightarrow> outs = filter (match_gte p t) ins"
| "stage_ok db (MatchLt p t) ins outs \<longleftrightarrow> outs = filter (match_lt p t) ins"
| "stage_ok db (Lookup from loc foreign as) ins outs \<longleftrightarrow>
     outs = map (lookup_doc db from loc foreign as) ins"
| "stage_ok db (Unwind k) ins outs \<longleftrightarrow> outs = concat (map (unwind_doc k) ins)"
| "stage_ok db (SortDesc p) ins outs \<longleftrightarrow> mset outs = mset ins \<and> descending p outs"
| "stage_ok db (LimitTo n) ins outs \<longleftrightarrow> outs = take n ins"

inductive pipeline_ok :: "(string \<Rightarrow> bson list) \<Rightarrow> stage list \<Rightarrow> bson list \<Rightarrow> bson list \<Rightarrow> bool"
  for db where
  done_ok: "pipeline_ok db [] ins ins"
| step_ok: "stage_ok db s ins mid \<Longrightarrow> pipeline_ok db ss mid outs \<Longrightarrow> pipeline_ok db (s # ss) ins outs"

inductive_simps pipeline_ok_Nil [simp]: "pipeline_ok db [] ins outs"
inductive_simps pipeline_ok_Cons [simp]: "pipeline_ok db (s # ss) ins outs"

section \<open>The service\<close>

locale mongo_service =
  fixes aggregate :: "string \<Rightarrow> stage list \<Rightarrow> bson list result" and db :: "string \<Rightarrow> bson list"
  assumes aggregate_ok: "aggregate coll stages = Inr outs \<Longrightarrow> pipeline_ok db stages (db coll) outs"

text \<open>A reference instance: the stages run one after the other, sorting stably.\<close>

fun run_stage :: "(string \<Rightarrow> bson list) \<Rightarrow> stage \<Rightarrow> bson list \<Rightarrow> bson list" where
  "run_stage db (MatchEq eqs) ins = filter (match_eq eqs) ins"
| "run_stage db (MatchGte p t) ins = filter (match_gte p t) ins"
| "run_stage db (MatchLt p t) ins = filter (match_lt p t) ins"
| "run_stage db (Lookup from loc foreign as) ins = map (lookup_doc db from loc foreign as) ins"
| "run_stage db (Unwind k) ins = concat (map (unwind_doc k) ins)"
| "run_stage db (SortDesc p) ins =
     sort_key (\<lambda>d. case number_field p d of Some n \<Rightarrow> - n | None \<Rightarrow> 0) ins"
| "run_stage db (LimitTo n) ins = take n ins"

definition ref_aggregate :: "(string \<Rightarrow> bson list) \<Rightarrow> string \<Rightarrow> stage list \<Rightarrow> bson list result" where
  "ref_aggregate db coll stages = Inr (fold (run_stage db) stages (db coll))"

lemma descending_sort_key:
  "descending p (sort_key (\<lambda>d. case number_field p d of Some n \<Rightarrow> - n | None \<Rightarrow> 0) ds)"
proof -
  let ?f = "\<lambda>d. case number_field p d of Some n \<Rightarrow> - n | None \<Rightarrow> 0"
  have "sorted_wrt (\<lambda>a b. ?f a \<le> ?f b) (sort_key ?f ds)"
    using sorted_sort_key [of ?f ds] by (simp add: sorted_wrt_map)
  then show ?thesis
    unfolding descending_def by (rule sorted_wrt_mono_rel [rotated]) (auto split: option.splits)
qed

lemma stage_ok_run: "stage_ok db s ins (run_stage db s ins)"
  by (cases s) (simp_all add: descending_sort_key)

lemma pipeline_ok_run: "pipeline_ok db ss ins (fold (run_stage db) ss ins)"
  by (induction ss arbitrary: ins) (auto intro: stage_ok_run)

interpretation ref_mongo: mongo_service "ref_aggregate db" db for db
  by unfold_locales (auto simp: ref_aggregate_def pipeline_ok_run)

section \<open>Joins\<close>

text \<open>\<open>$lookup\<close> followed by \<open>$unwind\<close> of the same field is a join.\<close>

definition joins :: "(string \<Rightarrow> bson list) \<Rightarrow> string \<Rightarrow> string \<Rightarrow> string \<Rightarrow> string \<Rightarrow> bson list \<Rightarrow> bson list" where
  "joins db from loc foreign as ds = concat (map (\<lambda>d.
     map (\<lambda>e. doc_set as e d) (filter (\<lambda>e. field foreign e = field loc d) (db from))) ds)"

fun is_doc :: "bson \<Rightarrow> bool" where
  "is_doc (BDoc fs) = True"
| "is_doc _ = False"

lemma doc_set_twice: "doc_set k v (doc_set k w d) = doc_set k v d"
  by (cases d) auto

lemma doc_get_set: "is_doc d \<Longrightarrow> doc_get k (doc_set k v d) = Some v"
  by (cases d) auto

lemma doc_get_set_other: "k \<noteq> k' \<Longrightarrow> doc_get k' (doc_set k v d) = doc_get k' d"
proof (cases d)
  case (BDoc fs)
  assume "k \<noteq> k'"
  then have "map_of (filter (\<lambda>(k'', _). k'' \<noteq> k) fs) k' = map_of fs k'"
    by (induction fs) auto
  with BDoc \<open>k \<noteq> k'\<close> show ?thesis by simp
qed simp_all

lemma unwind_lookup:
  "is_doc d \<Longrightarrow> unwind_doc as (lookup_doc db from loc foreign as d) =
     map (\<lambda>e. doc_set as e d) (filter (\<lambda>e. field foreign e = field loc d) (db from))"
  by (simp add: unwind_doc_def lookup_doc_def doc_get_set doc_set_twice)

lemma lookup_unwind_joins:
  "list_all is_doc ds \<Longrightarrow>
     concat (map (unwind_doc as) (map (lookup_doc db from loc foreign as) ds)) =
     joins db from loc foreign as ds"
  by (induction ds) (simp_all add: joins_def unwind_lookup)

end
