(* ===== verification/Db.thy ===== *)
theory Db
  imports Mongo Web3
begin

text \<open>
  \<open>sdk/src/db.ts\<close>: the three queries on the substream's database.  The module's variable
  \<open>database\<close> is a flag of the state; a query connects first.  A field of a document that is
  missing or has another type than the cast in the source says is a \<open>TypeError\<close> here.  Dates
  are milliseconds since the epoch.
\<close>

section \<open>Connection\<close>

record db_state =
  database :: bool

record mongo =
  connection_string :: string
  mongo_connect :: "string \<Rightarrow> unit result"
  mongo_aggregate :: "string \<Rightarrow> stage list \<Rightarrow> bson list result"

definition connect :: "mongo \<Rightarrow> ('s db_state_scheme, unit) action" where
  "connect M s =
     (if database s then returnA () s
      else if connection_string M = [] then throwA (Error ''connection string not set'') s
      else bindA (liftA (mongo_connect M (connection_string M)))
             (\<lambda>_. updateA (\<lambda>s. s\<lparr>database := True\<rparr>)) s)"

section \<open>Queries\<close>

definition with_transactions :: "stage list" where
  "with_transactions =
     [Lookup ''transactions'' ''signature'' ''signature'' ''transaction'', Unwind ''transaction'']"

definition get_number :: "string \<Rightarrow> bson \<Rightarrow> int result" where
  "get_number p d = (case number_field p d of Some n \<Rightarrow> Inr n | None \<Rightarrow> Inl TypeError)"

definition get_date :: "string \<Rightarrow> bson \<Rightarrow> int result" where
  "get_date p d = (case date_field p d of Some t \<Rightarrow> Inr t | None \<Rightarrow> Inl TypeError)"

definition get_string :: "string \<Rightarrow> bson \<Rightarrow> string result" where
  "get_string p d = (case field p d of Some (BString s) \<Rightarrow> Inr s | _ \<Rightarrow> Inl TypeError)"

record IndexUpdate =
  index :: int
  program_id :: string
  signature :: string
  tokenSupply :: int
  ts :: int

definition index_update_row :: "bson \<Rightarrow> IndexUpdate result" where
  "index_update_row d =
     bindE (get_number ''index'' d) (\<lambda>i.
     bindE (get_string ''program_id'' d) (\<lambda>p.
     bindE (get_string ''signature'' d) (\<lambda>s.
     bindE (get_number ''token_supply'' d) (\<lambda>n.
     bindE (get_date ''transaction.block_time'' d) (\<lambda>t.
       Inr \<lparr>index = i, program_id = p, signature = s, tokenSupply = n, ts = t\<rparr>)))))"

text \<open>An absent \<open>toTime\<close> and \<open>toTime = 0\<close> are both false.\<close>

definition index_updates_stages :: "int \<Rightarrow> int option \<Rightarrow> stage list" where
  "index_updates_stages fromTime toTime =
     [MatchEq [(''event'', BString ''index_update_v2'')]] @ with_transactions @
     [MatchGte ''transaction.block_time'' (fromTime * 1000),
      SortDesc ''transaction.block_height''] @
     (case toTime of
        Some t \<Rightarrow> (if t \<noteq> 0 then [MatchLt ''transaction.block_time'' (t * 1000)] else [])
      | None \<Rightarrow> [])"

definition indexUpdates ::
  "mongo \<Rightarrow> int \<Rightarrow> int option \<Rightarrow> ('s db_state_scheme, IndexUpdate list) action" where
  "indexUpdates M fromTime toTime =
     bindA (connect M) (\<lambda>_.
     bindA (liftA (mongo_aggregate M ''events'' (index_updates_stages fromTime toTime))) (\<lambda>docs.
       liftA (mapE index_update_row docs)))"

definition current_index_stages :: "stage list" where
  "current_index_stages =
     [MatchEq [(''event'', BString ''index_update_v2'')]] @ with_transactions @
     [SortDesc ''transaction.block_height'', LimitTo 1]"

definition currentIndex :: "mongo \<Rightarrow> ('s db_state_scheme, int \<times> int) action" where
  "currentIndex M =
     bindA (connect M) (\<lambda>_.
     bindA (liftA (mongo_aggregate M ''events'' current_index_stages)) (\<lambda>docs.
       liftA (bindE (js_get docs 0) (\<lambda>d.
         bindE (get_number ''index'' d) (\<lambda>i.
         bindE (get_date ''transaction.block_time'' d) (\<lambda>t. Inr (i, t)))))))"

definition balance_stages :: "'n web3 \<Rightarrow> buffer \<Rightarrow> buffer \<Rightarrow> int \<Rightarrow> stage list" where
  "balance_stages W tokenAccount mint t =
     [MatchEq [(''pubkey'', BString (toBase58 W tokenAccount)), (''mint'', BString (toBase58 W mint))]]
     @ with_transactions @
     [MatchLt ''transaction.block_time'' t, SortDesc ''transaction.block_height'', LimitTo 1]"

definition getBalanceAt ::
  "'n bn_ops \<Rightarrow> 'n web3 \<Rightarrow> mongo \<Rightarrow> buffer \<Rightarrow> buffer \<Rightarrow> int \<Rightarrow> ('s db_state_scheme, 'n) action" where
  "getBalanceAt B W M tokenAccount mint t =
     bindA (connect M) (\<lambda>_.
     bindA (liftA (mongo_aggregate M ''balance_updates'' (balance_stages W tokenAccount mint t)))
       (\<lambda>transfers.
         if length transfers = 0 then liftA (bn_of_number B 0)
         else liftA (bindE (get_number ''post_balance'' (transfers ! 0)) (bn_of_number B))))"

section \<open>The connection is made once\<close>

lemma connect_connected: "connect M s = (Inr (), s') \<Longrightarrow> database s' \<and> s' = s\<lparr>database := True\<rparr>"
  by (auto simp: connect_def bindA_def split: if_splits sum.splits)

lemma connect_cases:
  "connect M s = (r, s') \<Longrightarrow> s' = s \<or> s' = s\<lparr>database := True\<rparr>"
  by (auto simp: connect_def bindA_def split: if_splits sum.splits)

lemma keeps_connect: "keeps database (connect M)"
  by (auto simp: keeps_def connect_def)

lemma query_state:
  "bindA (connect M) (\<lambda>_. bindA (liftA r) (\<lambda>docs. liftA (f docs))) s = (q, s') \<Longrightarrow>
     s' = s \<or> s' = s\<lparr>database := True\<rparr>"
  using connect_cases [of M s] by (auto simp: bindA_def split: sum.splits prod.splits)

lemma currentIndex_state: "currentIndex M s = (r, s') \<Longrightarrow> s' = s \<or> s' = s\<lparr>database := True\<rparr>"
  unfolding currentIndex_def by (rule query_state)

text \<open>Two reads of one run agree.\<close>

lemma currentIndex_unique:
  assumes "currentIndex M s = (Inr x, s1)" "currentIndex M t = (Inr y, t1)"
  shows "x = y"
proof -
  define f where "f docs = bindE (js_get docs 0) (\<lambda>d. bindE (get_number ''index'' d) (\<lambda>i.
    bindE (get_date ''transaction.block_time'' d) (\<lambda>t. Inr (i, t))))" for docs
  have c: "currentIndex M = bindA (connect M) (\<lambda>_. bindA (liftA (mongo_aggregate M ''events'' current_index_stages))
      (\<lambda>docs. liftA (f docs)))" for M :: mongo
    by (simp add: currentIndex_def f_def)
  obtain ds es where "mongo_aggregate M ''events'' current_index_stages = Inr ds" "f ds = Inr x"
    "mongo_aggregate M ''events'' current_index_stages = Inr es" "f es = Inr y"
    using assms unfolding c bindA_eq_Inr_iff by auto
  then show ?thesis by simp
qed

lemma indexUpdates_state: "indexUpdates M f t s = (r, s') \<Longrightarrow> s' = s \<or> s' = s\<lparr>database := True\<rparr>"
  unfolding indexUpdates_def by (rule query_state)

section \<open>What the pipelines return\<close>

text \<open>The events of the database joined with their transactions.\<close>

definition all_docs :: "(string \<Rightarrow> bson list) \<Rightarrow> bool" where
  "all_docs db \<longleftrightarrow> (\<forall>coll. list_all is_doc (db coll))"

definition joined :: "(string \<Rightarrow> bson list) \<Rightarrow> string \<Rightarrow> (string \<times> bson) list \<Rightarrow> bson list" where
  "joined db coll eqs = joins db ''transactions'' ''signature'' ''signature'' ''transaction''
     (filter (match_eq eqs) (db coll))"

definition index_events :: "(string \<Rightarrow> bson list) \<Rightarrow> bson list" where
  "index_events db = joined db ''events'' [(''event'', BString ''index_update_v2'')]"

lemma joined_prefix:
  assumes "all_docs db"
  shows "pipeline_ok db ([MatchEq eqs] @ with_transactions @ ss) (db coll) outs \<longleftrightarrow>
    pipeline_ok db ss (joined db coll eqs) outs"
proof -
  have "list_all is_doc (filter (match_eq eqs) (db coll))"
    using assms by (auto simp: all_docs_def list_all_iff)
  from lookup_unwind_joins [OF this] show ?thesis by (simp add: with_transactions_def joined_def)
qed

definition in_window :: "int \<Rightarrow> int option \<Rightarrow> bson \<Rightarrow> bool" where
  "in_window fromTime toTime d \<longleftrightarrow> match_gte ''transaction.block_time'' (fromTime * 1000) d \<and>
     (case toTime of Some t \<Rightarrow> t \<noteq> 0 \<longrightarrow> match_lt ''transaction.block_time'' (t * 1000) d | None \<Rightarrow> True)"

lemma descending_filter: "descending p ds \<Longrightarrow> descending p (filter P ds)"
  unfolding descending_def by (rule sorted_wrt_filter)

lemma index_updates_pipeline:
  assumes "all_docs db" "pipeline_ok db (index_updates_stages fromTime toTime) (db ''events'') outs"
  shows "mset outs = mset (filter (in_window fromTime toTime) (index_events db))"
    and "descending ''transaction.block_height'' outs"
proof -
  let ?g = "match_gte ''transaction.block_time'' (fromTime * 1000)"
  let ?l = "\<lambda>d. case toTime of Some t \<Rightarrow> t \<noteq> 0 \<longrightarrow> match_lt ''transaction.block_time'' (t * 1000) d
    | None \<Rightarrow> True"
  obtain mid where mid: "mset mid = mset (filter ?g (index_events db))"
      "descending ''transaction.block_height'' mid" and out: "outs = filter ?l mid"
    using assms(2) unfolding index_updates_stages_def joined_prefix [OF assms(1)]
    by (fastforce simp: index_events_def split: option.splits if_splits)
  have "mset outs = filter_mset ?l (mset mid)" using out by simp
  also have "\<dots> = mset (filter (in_window fromTime toTime) (index_events db))"
    unfolding mid(1)
    by (simp add: in_window_def [abs_def] flip: mset_filter)
  finally show "mset outs = mset (filter (in_window fromTime toTime) (index_events db))" .
  show "descending ''transaction.block_height'' outs" unfolding out using mid(2) by (rule descending_filter)
qed

text \<open>The first of a descending list is a greatest one.\<close>

lemma descending_head:
  assumes "descending p (d # ds)" "e \<in> set (d # ds)" "number_field p d = Some x" "number_field p e = Some y"
  shows "y \<le> x"
  using assms by (auto simp: descending_def)

lemma limited_head:
  assumes "mset mid = mset xs" "descending p mid" "take 1 mid = outs"
  shows "outs = [] \<longleftrightarrow> xs = []"
    and "outs = d # rest \<Longrightarrow> d \<in> set xs \<and> (\<forall>e \<in> set xs. \<forall>x y.
      number_field p d = Some x \<longrightarrow> number_field p e = Some y \<longrightarrow> y \<le> x)"
proof -
  have s: "set mid = set xs" using assms(1) by (metis set_mset_mset)
  show "outs = [] \<longleftrightarrow> xs = []" using assms(1,3) by (cases mid) auto
  assume o: "outs = d # rest"
  then obtain ms where m: "mid = d # ms" using assms(3) by (cases mid) auto
  show "d \<in> set xs \<and> (\<forall>e \<in> set xs. \<forall>x y.
      number_field p d = Some x \<longrightarrow> number_field p e = Some y \<longrightarrow> y \<le> x)"
    using descending_head [OF assms(2) [unfolded m]] s m by auto
qed

end
