(* ===== verification/Transactions.thy ===== *)
theory Transactions
  imports Web3
begin

text \<open>
  \<open>sdk/src/transaction.ts\<close>: the transaction builder.  Its state is the list of address lookup
  tables found so far; a transaction is its message and its tables (signing and serialization
  belong to web3.js).  \<open>Math.floor(u * 1.1)\<close> is computed in double precision, as the language
  does.
\<close>

section \<open>Products in double precision\<close>

text \<open>
  The double nearest to 1.1 is \<open>4953959590107546 / 2 ^ 52\<close>.  A product is rounded to 53
  significant bits, ties to even.
\<close>

definition m11 :: nat where
  "m11 = 4953959590107546"

definition round_even :: "nat \<Rightarrow> nat \<Rightarrow> nat" where
  "round_even k p =
     (let q = p div 2 ^ k; r = p mod 2 ^ k
      in (if 2 * r < 2 ^ k \<or> (2 * r = 2 ^ k \<and> even q) then q else q + 1) * 2 ^ k)"

function excess_bits :: "nat \<Rightarrow> nat" where
  "excess_bits p = (if p < 2 ^ 53 then 0 else Suc (excess_bits (p div 2)))"
  by pat_completeness auto
termination by (relation "measure id") (auto intro: div_less_dividend)

declare excess_bits.simps [simp del]

definition floor_times_1_1 :: "nat \<Rightarrow> nat" where
  "floor_times_1_1 u = (let p = u * m11 in round_even (excess_bits p) p div 2 ^ 52)"

lemma round_even_lower: "2 ^ k dvd m \<Longrightarrow> m \<le> p \<Longrightarrow> m \<le> round_even k p"
proof -
  assume d: "2 ^ k dvd m" and le: "m \<le> p"
  then obtain c where c: "m = c * 2 ^ k" by (auto simp: dvd_def mult.commute)
  then have "c \<le> p div 2 ^ k" using le by (simp add: less_eq_div_iff_mult_less_eq)
  moreover have "p div 2 ^ k * 2 ^ k \<le> round_even k p" by (simp add: round_even_def Let_def)
  ultimately show ?thesis using c by (meson mult_le_mono1 order_trans)
qed

lemma round_even_upper: "round_even k p \<le> p + 2 ^ k"
proof -
  have "p div 2 ^ k * 2 ^ k \<le> p" by (rule div_times_less_eq_dividend)
  then have "p div 2 ^ k * 2 ^ k \<le> p + 2 ^ k" "(p div 2 ^ k + 1) * 2 ^ k \<le> p + 2 ^ k"
    by (linarith, simp add: algebra_simps)
  then show ?thesis unfolding round_even_def Let_def by presburger
qed

lemma excess_bits_bound: "p < 2 ^ (53 + k) \<Longrightarrow> excess_bits p \<le> k"
proof (induction k arbitrary: p)
  case 0
  then show ?case by (simp add: excess_bits.simps)
next
  case (Suc k)
  show ?case
  proof (cases "p < 2 ^ 53")
    case True
    then show ?thesis by (simp add: excess_bits.simps)
  next
    case False
    have "p < 2 ^ (53 + k) * 2" using Suc.prems by (simp only: add_Suc_right power_Suc2)
    then have "p div 2 < 2 ^ (53 + k)" by (simp only: div_less_iff_less_mult zero_less_numeral)
    then have "excess_bits (p div 2) \<le> k" by (rule Suc.IH)
    then show ?thesis using False by (subst excess_bits.simps) simp
  qed
qed

text \<open>Up to \<open>2 ^ 46\<close> units the rounding does not show: the result is the exact floor.\<close>

lemma floor_times_1_1_exact:
  assumes "u < 2 ^ 46"
  shows "floor_times_1_1 u = 11 * u div 10"
proof -
  define p q r where "p = u * m11" and "q = 11 * u div 10" and "r = 11 * u mod 10"
  have ten: "10 * m11 = 11 * 2 ^ 52 + 4" by (simp add: m11_def)
  have "10 * p = u * (10 * m11)" by (simp add: p_def)
  also have "\<dots> = 11 * u * 2 ^ 52 + 4 * u" unfolding ten by (simp add: algebra_simps)
  also have "11 * u = 10 * q + r" by (simp add: q_def r_def)
  finally have tp: "10 * p = 10 * q * 2 ^ 52 + r * 2 ^ 52 + 4 * u" by (simp add: algebra_simps)
  have r9: "r \<le> 9" by (simp add: r_def)
  have "p < 2 ^ 46 * 2 ^ 53"
    unfolding p_def by (rule mult_strict_mono) (use assms in \<open>simp_all add: m11_def\<close>)
  then have k: "excess_bits p \<le> 46" by (intro excess_bits_bound) (simp add: power_add [symmetric])
  have "(2::nat) ^ excess_bits p dvd 2 ^ 52" by (rule le_imp_power_dvd) (use k in simp)
  then have "2 ^ excess_bits p dvd q * 2 ^ 52" by (rule dvd_mult)
  moreover have "q * 2 ^ 52 \<le> p" using tp by simp
  ultimately have lo: "q * 2 ^ 52 \<le> round_even (excess_bits p) p" by (rule round_even_lower)
  have "(2::nat) ^ excess_bits p \<le> 2 ^ 46" by (rule power_increasing) (use k in simp_all)
  then have "round_even (excess_bits p) p \<le> p + 2 ^ 46"
    using round_even_upper [of "excess_bits p" p] by linarith
  moreover have "10 * p \<le> 10 * q * 2 ^ 52 + 9 * 2 ^ 52 + 4 * 2 ^ 46"
    using tp r9 assms mult_le_mono1 [OF r9, of "2 ^ 52"] by linarith
  ultimately have "round_even (excess_bits p) p < (q + 1) * 2 ^ 52" by simp
  with lo have "round_even (excess_bits p) p div 2 ^ 52 = q"
    by (metis Suc_eq_plus1 div_nat_eqI mult.commute)
  then show ?thesis by (simp add: floor_times_1_1_def p_def q_def Let_def)
qed

section \<open>The builder\<close>

record message =
  payerKey :: buffer
  recentBlockhash :: string
  instructions :: "TransactionInstruction list"

record VersionedTransaction =
  tx_message :: message
  tx_tables :: "buffer list"

record tx_rpc =
  getLatestBlockhash :: "string result"
  getAddressLookupTable :: "buffer \<Rightarrow> buffer option result"
  simulate_units :: "VersionedTransaction \<Rightarrow> nat option result"

definition DEFAULT_COMPUTE_BUDGET :: nat where
  "DEFAULT_COMPUTE_BUDGET = 500000"

text \<open>The addresses of \<open>sdk/src/index.ts\<close>, given as the bytes their base-58 texts stand for.\<close>

record lut_addresses =
  EARN_ADDRESS_TABLE :: buffer
  EARN_ADDRESS_TABLE_DEVNET :: buffer

fun fetch_tables :: "'r tx_rpc_scheme \<Rightarrow> buffer list \<Rightarrow> (buffer list, unit) action" where
  "fetch_tables rpc [] = returnA ()"
| "fetch_tables rpc (a # as) =
     bindA (liftA (getAddressLookupTable rpc a)) (\<lambda>acct.
     bindA (updateA (\<lambda>luts. case acct of Some t \<Rightarrow> luts @ [t] | None \<Rightarrow> luts)) (\<lambda>_.
       fetch_tables rpc as))"

definition getAddressLookupTables ::
  "'r tx_rpc_scheme \<Rightarrow> lut_addresses \<Rightarrow> (buffer list, buffer list) action" where
  "getAddressLookupTables rpc addrs luts =
     (if length luts = 0
      then bindA (fetch_tables rpc [EARN_ADDRESS_TABLE_DEVNET addrs, EARN_ADDRESS_TABLE addrs])
             (\<lambda>_. stateA id) luts
      else returnA luts luts)"

text \<open>A failing simulation is logged and the default stands; zero units are false.\<close>

definition compute_units :: "'r tx_rpc_scheme \<Rightarrow> bool \<Rightarrow> VersionedTransaction \<Rightarrow> nat" where
  "compute_units rpc simulate tx =
     (if simulate then
        (case simulate_units rpc tx of
           Inr (Some u) \<Rightarrow> if u \<noteq> 0 then floor_times_1_1 u else DEFAULT_COMPUTE_BUDGET
         | _ \<Rightarrow> DEFAULT_COMPUTE_BUDGET)
      else DEFAULT_COMPUTE_BUDGET)"

definition buildTransaction ::
  "'n web3 \<Rightarrow> 'r tx_rpc_scheme \<Rightarrow> lut_addresses \<Rightarrow> TransactionInstruction list \<Rightarrow> buffer \<Rightarrow> int \<Rightarrow>
     bool \<Rightarrow> (buffer list, VersionedTransaction) action" where
  "buildTransaction W rpc addrs ixs payer priorityFee simulate =
     bindA (getAddressLookupTables rpc addrs) (\<lambda>tables.
     bindA (liftA (getLatestBlockhash rpc)) (\<lambda>blockhash.
       let msg = \<lparr>payerKey = payer, recentBlockhash = blockhash, instructions = ixs\<rparr>;
           unitsConsumed = compute_units rpc simulate \<lparr>tx_message = msg, tx_tables = tables\<rparr>;
           msg' = msg\<lparr>instructions := [setComputeUnitPrice W priorityFee,
             setComputeUnitLimit W (int unitsConsumed)] @ ixs\<rparr>
       in returnA \<lparr>tx_message = msg', tx_tables = tables\<rparr>))"

section \<open>What a built transaction contains\<close>

lemma buildTransaction_contents:
  assumes "buildTransaction W rpc addrs ixs payer fee sim luts = (Inr tx, luts')"
  shows "payerKey (tx_message tx) = payer \<and> tx_tables tx = luts' \<and>
    (\<exists>u. instructions (tx_message tx) = setComputeUnitPrice W fee # setComputeUnitLimit W (int u) # ixs \<and>
      (u = DEFAULT_COMPUTE_BUDGET \<or> (\<exists>v tx'. sim \<and> simulate_units rpc tx' = Inr (Some v) \<and> v \<noteq> 0 \<and>
         instructions (tx_message tx') = ixs \<and> u = floor_times_1_1 v)))"
proof -
  obtain hash where tx: "tx_tables tx = luts'"
    "tx_message tx = \<lparr>payerKey = payer, recentBlockhash = hash, instructions =
       [setComputeUnitPrice W fee, setComputeUnitLimit W (int (compute_units rpc sim
          \<lparr>tx_message = \<lparr>payerKey = payer, recentBlockhash = hash, instructions = ixs\<rparr>, tx_tables = luts'\<rparr>))] @ ixs\<rparr>"
    using assms
    by (auto simp: buildTransaction_def bindA_eq_Inr_iff getAddressLookupTables_def Let_def split: if_splits)
  show ?thesis unfolding tx
    by (auto simp: compute_units_def split: sum.splits option.splits intro!: exI)
qed

lemma tables_cached:
  "luts \<noteq> [] \<Longrightarrow> getAddressLookupTables rpc addrs luts = (Inr luts, luts)"
  by (simp add: getAddressLookupTables_def)

end
