(* ===== verification/Base64.thy ===== *)
theory Base64
  imports Prelude
begin

text \<open>
  Text functions of the language that the parsing of transaction logs uses:
  \<open>Buffer.from(text, 'base64')\<close> (characters outside the alphabet are skipped, decoding stops
  at the padding), \<open>startsWith\<close> and \<open>split\<close>; with the encoder, for the round trip.
\<close>

section \<open>Decoding\<close>

definition b64_value :: "char \<Rightarrow> nat option" where
  "b64_value c = (let n = of_char c :: nat in
     if 65 \<le> n \<and> n \<le> 90 then Some (n - 65)
     else if 97 \<le> n \<and> n \<le> 122 then Some (n - 71)
     else if 48 \<le> n \<and> n \<le> 57 then Some (n + 4)
     else if n = 43 \<or> n = 45 then Some 62
     else if n = 47 \<or> n = 95 then Some 63
     else None)"

definition b64_sextets :: "string \<Rightarrow> nat list" where
  "b64_sextets cs = List.map_filter b64_value (takeWhile (\<lambda>c. c \<noteq> CHR ''='') cs)"

fun b64_groups :: "nat list \<Rightarrow> nat list" where
  "b64_groups (w # x # y # z # rest) =
     [w * 4 + x div 16, x mod 16 * 16 + y div 4, y mod 4 * 64 + z] @ b64_groups rest"
| "b64_groups [w, x, y] = [w * 4 + x div 16, x mod 16 * 16 + y div 4]"
| "b64_groups [w, x] = [w * 4 + x div 16]"
| "b64_groups _ = []"

definition b64_decode :: "string \<Rightarrow> buffer" where
  "b64_decode cs = map of_nat (b64_groups (b64_sextets cs))"

section \<open>Encoding\<close>

definition b64_char :: "nat \<Rightarrow> char" where
  "b64_char n = char_of (if n < 26 then n + 65 else if n < 52 then n + 71
     else if n < 62 then n - 4 else if n = 62 then 43 else 47)"

fun b64_split :: "nat list \<Rightarrow> nat list" where
  "b64_split (a # b # c # rest) =
     [a div 4, a mod 4 * 16 + b div 16, b mod 16 * 4 + c div 64, c mod 64] @ b64_split rest"
| "b64_split [a, b] = [a div 4, a mod 4 * 16 + b div 16, b mod 16 * 4]"
| "b64_split [a] = [a div 4, a mod 4 * 16]"
| "b64_split [] = []"

definition b64_encode :: "buffer \<Rightarrow> string" where
  "b64_encode bs = map b64_char (b64_split (map unat bs)) @
     (if length bs mod 3 = 1 then ''=='' else if length bs mod 3 = 2 then ''='' else [])"

lemma b64_groups_split: "\<forall>n \<in> set ns. n < 256 \<Longrightarrow> b64_groups (b64_split ns) = ns"
  by (induction ns rule: b64_split.induct) auto

lemma b64_split_bound: "\<forall>n \<in> set ns. n < 256 \<Longrightarrow> \<forall>m \<in> set (b64_split ns). m < 64"
  by (induction ns rule: b64_split.induct) auto

lemma b64_value_char: "n < 64 \<Longrightarrow> b64_value (b64_char n) = Some n"
  by (auto simp: b64_value_def b64_char_def of_char_of Let_def)

lemma b64_char_not_pad: "n < 64 \<Longrightarrow> b64_char n \<noteq> CHR ''=''"
proof
  assume n: "n < 64" "b64_char n = CHR ''=''"
  then have "b64_value (b64_char n) = b64_value CHR ''=''" by simp
  then show False using b64_value_char [OF n(1)] by (simp add: b64_value_def)
qed

lemma map_filter_chars: "\<forall>m \<in> set ms. m < 64 \<Longrightarrow> List.map_filter b64_value (map b64_char ms) = ms"
  by (induction ms) (simp_all add: map_filter_simps b64_value_char)

lemma takeWhile_chars:
  "\<forall>m \<in> set ms. m < 64 \<Longrightarrow> tl' = [] \<or> hd tl' = CHR ''='' \<Longrightarrow>
     takeWhile (\<lambda>c. c \<noteq> CHR ''='') (map b64_char ms @ tl') = map b64_char ms"
  by (induction ms) (cases tl', auto simp: b64_char_not_pad)

lemma map_unat_bound: "\<forall>n \<in> set (map unat (bs :: buffer)). n < 256"
proof -
  have "unat b < 256" for b :: byte using unsigned_less [of b] by simp
  then show ?thesis by simp
qed

lemma b64_decode_encode: "b64_decode (b64_encode bs) = bs"
proof -
  have lt: "\<forall>n \<in> set (map unat bs). n < 256" by (rule map_unat_bound)
  note m = b64_split_bound [OF lt]
  have "b64_sextets (b64_encode bs) = b64_split (map unat bs)"
    unfolding b64_sextets_def b64_encode_def
    by (subst takeWhile_chars [OF m]) (auto simp: map_filter_chars [OF m])
  then show ?thesis by (simp add: b64_decode_def b64_groups_split [OF lt] map_idI)
qed

text \<open>Encoding a prefix of a multiple of three bytes gives a prefix of the text.\<close>

lemma b64_encode_six:
  "b64_encode (a # b # c # d # e # f # bs) =
     map b64_char (b64_split (map unat [a, b, c, d, e, f])) @ b64_encode bs"
proof -
  have "(6 + length bs) mod 3 = length bs mod 3" by presburger
  then show ?thesis by (simp add: b64_encode_def)
qed

lemma b64_encode_alphabet: "c \<in> set (b64_encode bs) \<Longrightarrow> c \<noteq> CHR '' ''"
proof -
  assume c: "c \<in> set (b64_encode bs)"
  have m: "\<forall>n \<in> set (b64_split (map unat bs)). n < 64"
    by (rule b64_split_bound [OF map_unat_bound])
  from c consider k where "k < 64" "c = b64_char k" | "c = CHR ''=''"
    using m by (auto simp: b64_encode_def split: if_splits)
  then show ?thesis
  proof cases
    case 1
    then have "b64_value c = Some k" by (simp add: b64_value_char)
    then show ?thesis by (auto simp: b64_value_def)
  qed simp
qed

section \<open>Strings\<close>

definition starts_with :: "string \<Rightarrow> string \<Rightarrow> bool" where
  "starts_with p s \<longleftrightarrow> take (length p) s = p"

function split_from :: "string \<Rightarrow> string \<Rightarrow> string \<Rightarrow> string list" where
  "split_from sep acc s =
     (if sep \<noteq> [] \<and> starts_with sep s \<and> s \<noteq> [] then rev acc # split_from sep [] (drop (length sep) s)
      else (case s of [] \<Rightarrow> [rev acc] | c # cs \<Rightarrow> split_from sep (c # acc) cs))"
  by pat_completeness auto
termination by (relation "measure (\<lambda>(sep, acc, s). length s)") auto

declare split_from.simps [simp del]

definition js_split :: "string \<Rightarrow> string \<Rightarrow> string list" where
  "js_split sep s = split_from sep [] s"

lemma split_from_plain:
  "sep \<noteq> [] \<Longrightarrow> hd sep \<notin> set s \<Longrightarrow> split_from sep acc s = [rev acc @ s]"
proof (induction s arbitrary: acc)
  case Nil
  then show ?case by (subst split_from.simps) simp
next
  case (Cons c cs)
  have "\<not> starts_with sep (c # cs)" using Cons.prems by (cases sep) (auto simp: starts_with_def)
  then show ?case using Cons by (subst split_from.simps) simp
qed

text \<open>
  A text that begins with the separator and does not hold its last character again has one
  piece after it.
\<close>

lemma split_from_no_last:
  "sep \<noteq> [] \<Longrightarrow> last sep \<notin> set s \<Longrightarrow> split_from sep acc s = [rev acc @ s]"
proof (induction s arbitrary: acc)
  case Nil
  then show ?case by (subst split_from.simps) simp
next
  case (Cons c cs)
  have "\<not> starts_with sep (c # cs)"
  proof
    assume "starts_with sep (c # cs)"
    then have "set sep \<subseteq> set (c # cs)" unfolding starts_with_def by (metis set_take_subset)
    then show False using Cons.prems last_in_set by blast
  qed
  then show ?case using Cons by (subst split_from.simps) simp
qed

lemma js_split_prefix:
  assumes "sep \<noteq> []" "last sep \<notin> set s"
  shows "js_split sep (sep @ s) = [[], s]"
proof -
  have "split_from sep [] (sep @ s) = [] # split_from sep [] s"
    using assms(1) by (subst split_from.simps) (simp add: starts_with_def)
  then show ?thesis using split_from_no_last [OF assms, of "[]"] by (simp add: js_split_def)
qed

end
