(* ===== verification/EarnAuth.thy ===== *)
theory EarnAuth
  imports Managers Db Transactions Base64
begin

text \<open>
  \<open>sdk/src/earn_auth.ts\<close>: the earn authority of an extension program.  The state is the
  database flag of the module \<open>db.ts\<close> extended with the fields of the class; the cache of
  managers is a map on object identities, because a JavaScript \<open>Map\<close> compares \<open>PublicKey\<close>
  keys by reference.
\<close>

section \<open>State and services\<close>

record 'n EarnAuthority = db_state +
  ea_program :: buffer
  ea_global :: "'n GlobalAccountData"
  managerCache :: "nat \<Rightarrow> EarnManager option"
  ea_tables :: "buffer list"

text \<open>
  The connection as the class uses it: the simulation of claims returns an error or the logs, the
  token program's reads return the supply of a mint and the amount of a token account.
\<close>

record claim_rpc = tx_rpc +
  simulate_logs :: "VersionedTransaction \<Rightarrow> (string option \<times> string list option) result"
  getMint_supply :: "buffer \<Rightarrow> int result"
  getAccount_amount :: "buffer \<Rightarrow> int result"

definition EarnAuthority_load ::
  "'n bn_ops \<Rightarrow> 'n web3 \<Rightarrow> account_decoder \<Rightarrow> 'r account_rpc_scheme \<Rightarrow> buffer \<Rightarrow> bool \<Rightarrow>
     'n EarnAuthority result" where
  "EarnAuthority_load B W decode_account rpc program db =
     bindE (loadGlobal B W decode_account rpc program) (\<lambda>global.
       Inr \<lparr>database = db, ea_program = program, ea_global = global,
            managerCache = (\<lambda>_. None), ea_tables = []\<rparr>)"

text \<open>\<open>refresh\<close> assigns every field of a freshly loaded object, the empty cache included.\<close>

definition EarnAuthority_refresh ::
  "'n bn_ops \<Rightarrow> 'n web3 \<Rightarrow> account_decoder \<Rightarrow> 'r account_rpc_scheme \<Rightarrow> ('n EarnAuthority, unit) action" where
  "EarnAuthority_refresh B W decode_account rpc s =
     (case EarnAuthority_load B W decode_account rpc (ea_program s) (database s) of
        Inl e \<Rightarrow> (Inl e, s) | Inr updated \<Rightarrow> (Inr (), updated))"

definition latestIndex :: "'n EarnAuthority \<Rightarrow> 'n option" where
  "latestIndex s = GlobalAccountData.index (ea_global s)"

definition EarnAuthority_admin :: "'n web3 \<Rightarrow> 'n EarnAuthority \<Rightarrow> buffer result" where
  "EarnAuthority_admin W s = new_PublicKey W (admin (ea_global s))"

definition getAllEarners :: "'n program_api \<Rightarrow> ('n EarnAuthority, 'n Earner list) action" where
  "getAllEarners api =
     bindA (stateA ea_program) (\<lambda>p.
     liftA (bindE (all_earners api p None) (\<lambda>accounts.
       Inr (map (\<lambda>(pk, d). new_Earner pk d p) accounts))))"

section \<open>Claims\<close>

text \<open>A non-null assertion on an absent value is checked nowhere; its use throws.\<close>

definition required :: "'a option \<Rightarrow> 'a result" where
  "required x = (case x of Some y \<Rightarrow> Inr y | None \<Rightarrow> Inl TypeError)"

text \<open>One round of the yield: \<open>y = (y + b) * I_n / I_(n-1) - b\<close>.\<close>

definition claim_step :: "'n bn_ops \<Rightarrow> 'n \<Rightarrow> 'n \<Rightarrow> IndexUpdate \<Rightarrow> IndexUpdate \<Rightarrow> 'n result" where
  "claim_step B claimYield indexBalance last' current =
     bindE (bn_of_number B (IndexUpdate.index current)) (\<lambda>ci.
     bindE (bn_of_number B (IndexUpdate.index last')) (\<lambda>li.
     bindE (bn_div B (bn_mul B (bn_add B claimYield indexBalance) ci) li) (\<lambda>q.
       Inr (bn_sub B q indexBalance))))"

fun claim_loop ::
  "'n bn_ops \<Rightarrow> (int \<Rightarrow> ('s, 'n) action) \<Rightarrow> IndexUpdate \<Rightarrow> 'n \<Rightarrow> IndexUpdate list \<Rightarrow> ('s, 'n) action" where
  "claim_loop B balanceAt last' claimYield [] = returnA claimYield"
| "claim_loop B balanceAt last' claimYield (current # steps) =
     (if ts current = ts last' then claim_loop B balanceAt last' claimYield steps
      else if IndexUpdate.index current < IndexUpdate.index last' \<or> ts current < ts last'
      then throwA (Error ''Invalid index or timestamp'')
      else bindA (balanceAt (ts current)) (\<lambda>indexBalance.
           bindA (liftA (claim_step B claimYield indexBalance last' current)) (\<lambda>claimYield'.
             claim_loop B balanceAt current claimYield' steps)))"

definition claim_yield ::
  "'n bn_ops \<Rightarrow> (int \<Rightarrow> ('s, 'n) action) \<Rightarrow> IndexUpdate list \<Rightarrow> ('s, 'n) action" where
  "claim_yield B balanceAt steps =
     bindA (liftA (bn_of_number B 0)) (\<lambda>zero.
       case rev steps of
         [] \<Rightarrow> returnA zero
       | last' # rest \<Rightarrow> claim_loop B balanceAt last' zero rest)"

text \<open>
  The first part of \<open>buildClaimInstruction\<close>: the balance to claim against, or \<open>None\<close> where the
  method returns null.
\<close>

definition claim_balance ::
  "'n bn_ops \<Rightarrow> 'n web3 \<Rightarrow> mongo \<Rightarrow> 'n EarnerData \<Rightarrow> bool \<Rightarrow> ('n EarnAuthority, 'n option) action" where
  "claim_balance B W M d pendingSync =
     bindA (currentIndex M) (\<lambda>(dbIndex, dbTs).
     bindA (stateA ea_global) (\<lambda>global.
     bindA (liftA (if pendingSync then bn_of_number B dbIndex
                   else required (GlobalAccountData.index global))) (\<lambda>latest.
     if bn_gte B (lastClaimIndex d) latest then returnA None
     else
       bindA (liftA (bn_toNumber B (lastClaimTimestamp d))) (\<lambda>fromTime.
       bindA (liftA (if pendingSync then Inr (dbTs div 1000 + 1)
                     else bindE (required (timestamp global)) (\<lambda>t.
                          bindE (bn_toNumber B t) (\<lambda>n. Inr (n + 1))))) (\<lambda>toTime.
       bindA (indexUpdates M fromTime (Some toTime)) (\<lambda>steps.
       bindA (claim_yield B (getBalanceAt B W M (userTokenAccount d) (extMint global)) steps)
         (\<lambda>claimYield.
       bindA (liftA (bn_div B (bn_mul B claimYield (lastClaimIndex d))
                       (bn_sub B latest (lastClaimIndex d)))) (\<lambda>claimBalance.
       bindA (liftA (bn_of_number B 0)) (\<lambda>zero.
         returnA (if bn_lte B claimBalance zero then None else Some claimBalance))))))))))"

definition cached_manager ::
  "'n web3 \<Rightarrow> 'n program_api \<Rightarrow> PublicKey \<Rightarrow> ('n EarnAuthority, EarnManager) action" where
  "cached_manager W api mgr =
     bindA (stateA managerCache) (\<lambda>cache.
       case cache (ref mgr) of
         Some m \<Rightarrow> returnA m
       | None \<Rightarrow>
           bindA (stateA ea_program) (\<lambda>program.
           bindA (liftA (EarnManager_fromManagerAddress W api program (toBuffer mgr))) (\<lambda>m.
           bindA (updateA (\<lambda>s. s\<lparr>managerCache := (managerCache s)(ref mgr \<mapsto> m)\<rparr>)) (\<lambda>_.
             returnA m))))"

definition claim_call ::
  "'n web3 \<Rightarrow> 'n GlobalAccountData \<Rightarrow> 'n Earner \<Rightarrow> EarnManager \<Rightarrow> 'n \<Rightarrow> 'n anchor_call" where
  "claim_call W global earner m claimBalance =
     \<lparr>call_method = ''claimFor'', call_args = [ArgBN claimBalance],
      call_accounts =
        [(''earnAuthority'', earnAuthority global),
         (''userTokenAccount'', Some (case recipientTokenAccount (er_data earner) of
            Some r \<Rightarrow> r | None \<Rightarrow> userTokenAccount (er_data earner))),
         (''earnManagerTokenAccount'', Some (feeTokenAccount (mgr_data m))),
         (''extTokenProgram'', Some (TOKEN_2022_PROGRAM_ID W)),
         (''earnerAccount'', Some (er_pubkey earner))]\<rparr>"

definition buildClaimInstruction ::
  "'n bn_ops \<Rightarrow> 'n web3 \<Rightarrow> mongo \<Rightarrow> 'n program_api \<Rightarrow> 'n Earner \<Rightarrow> bool \<Rightarrow>
     ('n EarnAuthority, TransactionInstruction option) action" where
  "buildClaimInstruction B W M api earner pendingSync =
     bindA (claim_balance B W M (er_data earner) pendingSync) (\<lambda>claim.
       case claim of
         None \<Rightarrow> returnA None
       | Some claimBalance \<Rightarrow>
           bindA (cached_manager W api (er_earnManager (er_data earner))) (\<lambda>m.
           bindA (stateA id) (\<lambda>s.
           liftA (bindE (anchor W (ea_program s) (claim_call W (ea_global s) earner m claimBalance))
             (\<lambda>ix. Inr (Some ix))))))"

section \<open>The claims' rewards\<close>

record 'n reward =
  rw_tokenAccount :: buffer
  rw_user :: 'n
  rw_fee :: 'n

definition readBigUInt64LE :: "buffer \<Rightarrow> nat \<Rightarrow> int result" where
  "readBigUInt64LE d off =
     (if off + 8 \<le> length d then Inr (int (le_nat (take 8 (drop off d))))
      else Inl (External ''ERR_OUT_OF_RANGE''))"

definition subarray :: "buffer \<Rightarrow> nat \<Rightarrow> nat \<Rightarrow> buffer" where
  "subarray d a b = take (b - a) (drop a d)"

definition parse_reward :: "'n bn_ops \<Rightarrow> 'n web3 \<Rightarrow> string \<Rightarrow> 'n reward result" where
  "parse_reward B W log =
     bindE (js_get (js_split ''Program data: '' log) 1) (\<lambda>text.
       let d = b64_decode text in
       bindE (new_PublicKey W (subarray d 8 40)) (\<lambda>acct.
       bindE (readBigUInt64LE d 72) (\<lambda>usr.
       bindE (readBigUInt64LE d 96) (\<lambda>fee.
         Inr \<lparr>rw_tokenAccount = acct, rw_user = bn_of_string B usr, rw_fee = bn_of_string B fee\<rparr>))))"

definition getRewardAmounts :: "'n bn_ops \<Rightarrow> 'n web3 \<Rightarrow> string list \<Rightarrow> 'n reward list result" where
  "getRewardAmounts B W logs =
     mapE (parse_reward B W) (filter (starts_with ''Program data: VKjUbMsK'') logs)"

definition total_rewards :: "'n bn_ops \<Rightarrow> 'n \<Rightarrow> 'n reward list \<Rightarrow> 'n" where
  "total_rewards B zero rewards =
     foldl (\<lambda>total r. bn_add B (bn_add B total (rw_user r)) (rw_fee r)) zero rewards"

definition simulateAndValidateClaimIxs ::
  "'n bn_ops \<Rightarrow> 'n web3 \<Rightarrow> mongo \<Rightarrow> 'r claim_rpc_scheme \<Rightarrow> lut_addresses \<Rightarrow>
     TransactionInstruction list \<Rightarrow> ('n EarnAuthority, 'n) action" where
  "simulateAndValidateClaimIxs B W M rpc addrs ixs =
     bindA (stateA id) (\<lambda>s.
     bindA (liftA (bindE (required (earnAuthority (ea_global s))) (new_PublicKey W))) (\<lambda>feePayer.
     bindA (zoomA ea_tables (\<lambda>l s. s\<lparr>ea_tables := l\<rparr>)
              (buildTransaction W rpc addrs ixs feePayer 250000 True)) (\<lambda>txn.
     bindA (liftA (simulate_logs rpc txn)) (\<lambda>(err, logs).
       case err of
         Some e \<Rightarrow> throwA (Error (''Claim batch simulation failed: '' @ e))
       | None \<Rightarrow>
         bindA (liftA (bindE (required logs) (getRewardAmounts B W))) (\<lambda>rewards.
         bindA (liftA (bn_of_number B 0)) (\<lambda>zero.
         let totalRewards = total_rewards B zero rewards in
         bindA (liftA (getMint_supply rpc (extMint (ea_global s)))) (\<lambda>supply.
         let vault = associatedTokenAddress W (mMint (ea_global s))
               (findProgramAddress W [bytes_of ''m_vault''] (ea_program s)) True
               (TOKEN_2022_PROGRAM_ID W) in
         bindA (liftA (getAccount_amount rpc vault)) (\<lambda>amount.
         bindA (currentIndex M) (\<lambda>(dbIndex, _).
         bindA (liftA (bindE (bn_of_number B dbIndex) (\<lambda>i.
                  bindE (bn_of_number B 1000000000000) (\<lambda>scale.
                    bn_div B (bn_mul B (bn_of_string B amount) i) scale)))) (\<lambda>collateral.
           if bn_gt B (bn_add B (bn_of_string B supply) totalRewards) collateral
           then throwA (Error ''Claim amount exceeds max claimable rewards'')
           else returnA totalRewards)))))))))) "

section \<open>The index sync\<close>

definition sync_discriminator :: buffer where
  "sync_discriminator = [4, 219, 40, 164, 21, 157, 189, 88]"

definition scaled_ui_sync :: "'n web3 \<Rightarrow> buffer \<Rightarrow> 'n GlobalAccountData \<Rightarrow> TransactionInstruction" where
  "scaled_ui_sync W program global =
     (let vault = findProgramAddress W [bytes_of ''m_vault''] program in
      \<lparr>txi_keys =
         [\<lparr>am_pubkey = findProgramAddress W [bytes_of ''global''] program,
           am_isSigner = False, am_isWritable = True\<rparr>,
          \<lparr>am_pubkey = mMint global, am_isSigner = False, am_isWritable = False\<rparr>,
          \<lparr>am_pubkey = vault, am_isSigner = False, am_isWritable = False\<rparr>,
          \<lparr>am_pubkey = associatedTokenAddress W (mMint global) vault True (TOKEN_2022_PROGRAM_ID W),
           am_isSigner = False, am_isWritable = False\<rparr>,
          \<lparr>am_pubkey = extMint global, am_isSigner = False, am_isWritable = True\<rparr>,
          \<lparr>am_pubkey = findProgramAddress W [bytes_of ''mint_authority''] program,
           am_isSigner = False, am_isWritable = False\<rparr>,
          \<lparr>am_pubkey = TOKEN_2022_PROGRAM_ID W, am_isSigner = False, am_isWritable = False\<rparr>],
       txi_programId = program, txi_data = sync_discriminator\<rparr>)"

definition buildIndexSyncInstruction :: "'n web3 \<Rightarrow> 'n EarnAuthority \<Rightarrow> TransactionInstruction result" where
  "buildIndexSyncInstruction W s =
     (let v = variant (ea_global s) in
      if v = ''NoYield'' then Inl (Error ''No index to sync for NoYield variant'')
      else if v = ''Crank'' then
        anchor W (ea_program s) \<lparr>call_method = ''sync'', call_args = [],
          call_accounts = [(''earnAuthority'', earnAuthority (ea_global s))]\<rparr>
      else if v = ''ScaledUi'' then Inr (scaled_ui_sync W (ea_program s) (ea_global s))
      else Inl (Error (''Unknown yield variant: '' @ v)))"

definition loadIndexFromDB :: "mongo \<Rightarrow> ('s db_state_scheme, int) action" where
  "loadIndexFromDB M = bindA (currentIndex M) (\<lambda>(i, t). returnA i)"

end
