(* ===== verification/EarnClaims.thy ===== *)
theory EarnClaims
  imports EarnAuth
begin

text \<open>
  What the claim computation guarantees.  The yield of one round is exact up to the truncation of
  one division; the lemmas of \<open>bignum\<close> show that the truncations never make the claim exceed
  the largest balance, that no round loses yield, and that the balance claimed against is positive.
\<close>

section \<open>One round and the loop\<close>

lemma claim_round_upper:
  assumes "0 < i0" "0 < li" "li \<le> ci" "0 \<le> b" "b \<le> m" "0 \<le> y" "y * i0 \<le> m * (li - i0)"
    and "q * li \<le> (y + b) * (ci :: int)"
  shows "(q - b) * i0 \<le> m * (ci - i0)"
proof -
  have ci: "0 \<le> ci" using assms(2,3) by simp
  have "(q - b) * i0 * li = q * li * i0 - b * li * i0" by (simp add: algebra_simps)
  also have "\<dots> \<le> (y + b) * ci * i0 - b * li * i0"
    using mult_right_mono [OF assms(8), of i0] assms(1) by simp
  also have "\<dots> = y * i0 * ci + b * (i0 * (ci - li))" by (simp add: algebra_simps)
  also have "\<dots> \<le> m * (li - i0) * ci + m * (i0 * (ci - li))"
    by (intro add_mono mult_right_mono) (use assms(1,3,5,7) ci in simp_all)
  also have "\<dots> = m * (ci - i0) * li" by (simp add: algebra_simps)
  finally show ?thesis using assms(2) by simp
qed

context bignum
begin

lemma claim_step_val:
  assumes "claim_step B y b last' current = Inr y'"
  shows "IndexUpdate.index last' \<noteq> 0"
    and "val y' = ((val y + val b) * IndexUpdate.index current) sdiv IndexUpdate.index last' - val b"
  using assms of_number_val div_val by (fastforce simp: claim_step_def bindE_eq_Inr_iff val_simps)+

lemma claim_step_bounds:
  assumes "claim_step B y b last' current = Inr y'"
    and "0 < i0" "i0 \<le> IndexUpdate.index last'" "IndexUpdate.index last' \<le> IndexUpdate.index current"
    and "0 \<le> val b" "val b \<le> m" "0 \<le> val y"
    and "val y * i0 \<le> m * (IndexUpdate.index last' - i0)"
  shows "val y \<le> val y'" and "val y' * i0 \<le> m * (IndexUpdate.index current - i0)"
proof -
  let ?li = "IndexUpdate.index last'" and ?ci = "IndexUpdate.index current"
  let ?q = "((val y + val b) * ?ci) sdiv ?li"
  have li: "0 < ?li" using assms(2,3) by simp
  have num: "0 \<le> (val y + val b) * ?ci" using assms(4,5,7) li by simp
  have y': "val y' = ?q - val b" using claim_step_val(2) [OF assms(1)] .
  have "(val y + val b) * ?li \<le> (val y + val b) * ?ci" using assms(4,5,7) by (simp add: mult_left_mono)
  then have "val y + val b \<le> ?q" using num li by (intro sdiv_lower)
  then show "val y \<le> val y'" using y' by simp
  have "?q * ?li \<le> (val y + val b) * ?ci" using num li by (rule sdiv_mult_le)
  then show "val y' * i0 \<le> m * (?ci - i0)"
    unfolding y' using claim_round_upper [OF assms(2) li assms(4,5,6,7,8)] by blast
qed

lemma claim_loop_bounds:
  assumes "\<forall>t s b s'. balanceAt t s = (Inr b, s') \<longrightarrow> 0 \<le> val b \<and> val b \<le> m"
    and "0 < i0"
  shows "claim_loop B balanceAt last' y steps s = (Inr y', s') \<Longrightarrow>
    i0 \<le> IndexUpdate.index last' \<Longrightarrow> IndexUpdate.index last' \<le> hi \<Longrightarrow>
    \<forall>u \<in> set steps. IndexUpdate.index u \<le> hi \<Longrightarrow> 0 \<le> m \<Longrightarrow>
    0 \<le> val y \<Longrightarrow> val y * i0 \<le> m * (IndexUpdate.index last' - i0) \<Longrightarrow>
    val y \<le> val y' \<and> val y' * i0 \<le> m * (hi - i0)"
proof (induction steps arbitrary: last' y s)
  case Nil
  have "m * (IndexUpdate.index last' - i0) \<le> m * (hi - i0)"
    using Nil.prems(3,5) by (simp add: mult_left_mono)
  then show ?case using Nil.prems by simp
next
  case (Cons current steps)
  show ?case
  proof (cases "ts current = ts last'")
    case True
    then show ?thesis using Cons.IH [of last' y s] Cons.prems by simp
  next
    case False
    then have mono: "IndexUpdate.index last' \<le> IndexUpdate.index current"
      and "bindA (balanceAt (ts current)) (\<lambda>b. bindA (liftA (claim_step B y b last' current))
        (\<lambda>y1. claim_loop B balanceAt current y1 steps)) s = (Inr y', s')"
      using Cons.prems(1) by (auto split: if_splits)
    then obtain b s1 y1 where b: "balanceAt (ts current) s = (Inr b, s1)"
      and y1: "claim_step B y b last' current = Inr y1"
      and rest: "claim_loop B balanceAt current y1 steps s1 = (Inr y', s')"
      by (auto simp: bindA_eq_Inr_iff)
    have bb: "0 \<le> val b" "val b \<le> m" using assms(1) b by blast+
    note st = claim_step_bounds [OF y1 assms(2) Cons.prems(2) mono bb Cons.prems(6,7)]
    have "val y1 \<le> val y' \<and> val y' * i0 \<le> m * (hi - i0)"
      using Cons.prems(2,4,5,6) mono st by (intro Cons.IH [OF rest]) auto
    then show ?thesis using st(1) by simp
  qed
qed

lemma claim_yield_bounds:
  assumes "\<forall>t s b s'. balanceAt t s = (Inr b, s') \<longrightarrow> 0 \<le> val b \<and> val b \<le> m" "0 \<le> m"
    and "0 < lc" "lc \<le> hi" "\<forall>u \<in> set steps. lc \<le> IndexUpdate.index u \<and> IndexUpdate.index u \<le> hi"
    and "claim_yield B balanceAt steps s = (Inr y, s')"
  shows "0 \<le> val y" "val y * lc \<le> m * (hi - lc)"
proof -
  obtain zero where z: "bn_of_number B 0 = Inr zero" "val zero = 0"
    using of_number_safe [of 0] by (auto simp: safe_number_def)
  have "0 \<le> val y \<and> val y * lc \<le> m * (hi - lc)"
  proof (cases "rev steps")
    case Nil
    then show ?thesis using assms(2,4,6) z by (simp add: claim_yield_def bindA_def)
  next
    case (Cons u us)
    have mem: "u \<in> set steps" "set us \<subseteq> set steps" using Cons by (metis list.set_intros(1) set_rev)
        (metis Cons set_rev set_subset_Cons)
    let ?i0 = "IndexUpdate.index u"
    have i0: "0 < ?i0" "lc \<le> ?i0" "?i0 \<le> hi" using mem(1) assms(3,5) by fastforce+
    have "claim_loop B balanceAt u zero us s = (Inr y, s')"
      using assms(6) z Cons by (simp add: claim_yield_def bindA_def)
    from claim_loop_bounds [OF assms(1) i0(1) this _ i0(3) _ assms(2)]
    have y: "0 \<le> val y" "val y * ?i0 \<le> m * (hi - ?i0)" using mem(2) assms(5) z(2)
      by (auto simp: subset_iff)
    have "val y * lc \<le> val y * ?i0" using y(1) i0(2) by (simp add: mult_left_mono)
    moreover have "m * (hi - ?i0) \<le> m * (hi - lc)" using i0(2) assms(2) by (simp add: mult_left_mono)
    ultimately show ?thesis using y by linarith
  qed
  then show "0 \<le> val y" "val y * lc \<le> m * (hi - lc)" by simp_all
qed

end

section \<open>The balance claimed against\<close>

text \<open>What a returned balance went through.\<close>

lemma claim_balance_Some:
  assumes "claim_balance B W M d pendingSync s = (Inr (Some claim), s')"
  obtains dbIndex dbTs latest fromTime toTime steps y zero s1 s2 s3 where
    "currentIndex M s = (Inr (dbIndex, dbTs), s1)"
    "(if pendingSync then bn_of_number B dbIndex
      else required (GlobalAccountData.index (ea_global s1))) = Inr latest"
    "\<not> bn_gte B (lastClaimIndex d) latest" "bn_toNumber B (lastClaimTimestamp d) = Inr fromTime"
    "indexUpdates M fromTime (Some toTime) s1 = (Inr steps, s2)"
    "pendingSync \<Longrightarrow> toTime = dbTs div 1000 + 1"
    "\<not> pendingSync \<Longrightarrow> \<exists>t n. timestamp (ea_global s1) = Some t \<and> bn_toNumber B t = Inr n \<and> toTime = n + 1"
    "claim_yield B (getBalanceAt B W M (userTokenAccount d) (extMint (ea_global s1))) steps s2 = (Inr y, s3)"
    "bn_div B (bn_mul B y (lastClaimIndex d)) (bn_sub B latest (lastClaimIndex d)) = Inr claim"
    "bn_of_number B 0 = Inr zero" "\<not> bn_lte B claim zero"
  using assms
  by (auto simp: claim_balance_def bindA_eq_Inr_iff bindE_eq_Inr_iff required_def
      split: if_splits prod.splits option.splits)

end
