(* ===== verification/EarnRewards.thy ===== *)
theory EarnRewards
  imports EarnAuth
begin

text \<open>
  The logs of a claim: the line the runtime prints for a \<open>RewardsClaim\<close> event, built from the
  IDL's event discriminator and the Borsh encoding of its fields, is what \<open>parse_reward\<close> reads
  back at the byte offsets 8, 72 and 96; and the check of the collateral.
\<close>

section \<open>Event lines\<close>

record rewards_claim =
  rc_tokenAccount :: buffer
  rc_recipient :: buffer
  rc_amount :: "64 word"
  rc_ts :: "64 word"
  rc_index :: "64 word"
  rc_fee :: "64 word"

definition rewards_claim_value :: "rewards_claim \<Rightarrow> bval" where
  "rewards_claim_value e = VStruct
     [(''tokenAccount'', VKey (rc_tokenAccount e)), (''recipientTokenAccount'', VKey (rc_recipient e)),
      (''amount'', VU64 (rc_amount e)), (''ts'', VU64 (rc_ts e)), (''index'', VU64 (rc_index e)),
      (''fee'', VU64 (rc_fee e))]"

definition event_disc :: "string \<Rightarrow> buffer" where
  "event_disc nm = (case map_of MExt_events nm of Some d \<Rightarrow> d | None \<Rightarrow> [])"

definition event_data :: "rewards_claim \<Rightarrow> buffer" where
  "event_data e = event_disc ''rewardsClaim'' @
     (case encode 5 MExt_types (Defined ''rewardsClaim'') (rewards_claim_value e) of
        Some bs \<Rightarrow> bs | None \<Rightarrow> [])"

definition event_line :: "rewards_claim \<Rightarrow> string" where
  "event_line e = ''Program data: '' @ b64_encode (event_data e)"

definition valid_claim :: "rewards_claim \<Rightarrow> bool" where
  "valid_claim e \<longleftrightarrow> length (rc_tokenAccount e) = 32 \<and> length (rc_recipient e) = 32"

definition reward_of :: "'n bn_ops \<Rightarrow> rewards_claim \<Rightarrow> 'n reward" where
  "reward_of B e = \<lparr>rw_tokenAccount = rc_tokenAccount e,
     rw_user = bn_of_string B (uint (rc_amount e)), rw_fee = bn_of_string B (uint (rc_fee e))\<rparr>"

lemma event_data_bytes:
  assumes "valid_claim e"
  shows "event_data e = 84 # 168 # 212 # 108 # 203 # 10 # 250 # 107 #
    rc_tokenAccount e @ rc_recipient e @ u64_le (rc_amount e) @ u64_le (rc_ts e) @
    u64_le (rc_index e) @ u64_le (rc_fee e)"
proof -
  have "encode 5 MExt_types (Defined ''rewardsClaim'') (rewards_claim_value e) =
    Some (rc_tokenAccount e @ rc_recipient e @ u64_le (rc_amount e) @ u64_le (rc_ts e) @
    u64_le (rc_index e) @ u64_le (rc_fee e))"
    using assms unfolding encode_5
    by (simp add: MExt_types_def ty_rewardsClaim_def rewards_claim_value_def valid_claim_def encode_4)
  then show ?thesis by (simp add: event_data_def event_disc_def MExt_events_def)
qed

lemma event_line_prefix:
  assumes "valid_claim e"
  shows "starts_with ''Program data: VKjUbMsK'' (event_line e)"
proof -
  have "map b64_char (b64_split (map unat [84 :: byte, 168, 212, 108, 203, 10])) = ''VKjUbMsK''"
    by (simp add: b64_char_def char_of_def bit_0)
  then show ?thesis
    unfolding event_line_def event_data_bytes [OF assms] b64_encode_six
    by (simp add: starts_with_def)
qed

lemma readBigUInt64LE_at:
  "length pre = off \<Longrightarrow> readBigUInt64LE (pre @ u64_le w @ rest) off = Inr (uint w)"
  by (simp add: readBigUInt64LE_def)

lemma parse_event_line:
  assumes "valid_claim e" "\<And>b. length b = 32 \<Longrightarrow> new_PublicKey W b = Inr b"
  shows "parse_reward B W (event_line e) = Inr (reward_of B e)"
proof -
  let ?d = "event_data e"
  have l: "length (rc_tokenAccount e) = 32" "length (rc_recipient e) = 32"
    using assms(1) by (simp_all add: valid_claim_def)
  have "CHR '' '' \<notin> set (b64_encode ?d)" using b64_encode_alphabet by blast
  then have "js_split ''Program data: '' (event_line e) = [[], b64_encode ?d]"
    unfolding event_line_def by (intro js_split_prefix) simp_all
  then have s: "js_get (js_split ''Program data: '' (event_line e)) (Suc 0) = Inr (b64_encode ?d)" by simp
  have k: "subarray ?d 8 40 = rc_tokenAccount e"
    unfolding event_data_bytes [OF assms(1)] by (simp add: subarray_def l)
  define pre where "pre = 84 # 168 # 212 # 108 # 203 # 10 # 250 # 107 # rc_tokenAccount e @ rc_recipient e"
  have a: "readBigUInt64LE ?d 72 = Inr (uint (rc_amount e))"
    using readBigUInt64LE_at [of pre 72 "rc_amount e"] l
    by (simp add: event_data_bytes [OF assms(1)] pre_def)
  have f: "readBigUInt64LE ?d 96 = Inr (uint (rc_fee e))"
    using readBigUInt64LE_at [of "pre @ u64_le (rc_amount e) @ u64_le (rc_ts e) @ u64_le (rc_index e)"
        96 "rc_fee e" "[]"] l
    by (simp add: event_data_bytes [OF assms(1)] pre_def)
  show ?thesis
    by (simp add: parse_reward_def s Let_def b64_decode_encode k a f assms(2) l reward_of_def)
qed

lemma getRewardAmounts_events:
  assumes "\<And>b. length b = 32 \<Longrightarrow> new_PublicKey W b = Inr b" "\<forall>e \<in> set es. valid_claim e"
    and "filter (starts_with ''Program data: VKjUbMsK'') logs = map event_line es"
  shows "getRewardAmounts B W logs = Inr (map (reward_of B) es)"
proof -
  have "mapE (parse_reward B W) (map event_line es) = Inr (map (reward_of B) es)"
    using assms(2) by (induction es) (simp_all add: parse_event_line [OF _ assms(1)])
  then show ?thesis by (simp add: getRewardAmounts_def assms(3))
qed

section \<open>The collateral check\<close>

context bignum
begin

lemma total_rewards_val:
  "val (total_rewards B zero rs) = val zero + sum_list (map (\<lambda>r. val (rw_user r) + val (rw_fee r)) rs)"
  by (induction rs arbitrary: zero) (simp_all add: total_rewards_def val_simps)

end

text \<open>What a validated simulation went through.\<close>

lemma simulateAndValidate_Inr:
  assumes "simulateAndValidateClaimIxs B W M rpc addrs ixs s = (Inr tot, s')"
  obtains txn logs rewards zero minted amount dbIndex dbTs i scale collateral s1 where
    "simulate_logs rpc txn = Inr (None, Some logs)" "getRewardAmounts B W logs = Inr rewards"
    "bn_of_number B 0 = Inr zero" "tot = total_rewards B zero rewards"
    "getMint_supply rpc (extMint (ea_global s)) = Inr minted"
    "getAccount_amount rpc (associatedTokenAddress W (mMint (ea_global s))
       (findProgramAddress W [bytes_of ''m_vault''] (ea_program s)) True
       (TOKEN_2022_PROGRAM_ID W)) = Inr amount"
    "currentIndex M s1 = (Inr (dbIndex, dbTs), s')" "bn_of_number B dbIndex = Inr i"
    "bn_of_number B 1000000000000 = Inr scale"
    "bn_div B (bn_mul B (bn_of_string B amount) i) scale = Inr collateral"
    "\<not> bn_gt B (bn_add B (bn_of_string B minted) tot) collateral"
  using assms
  by (auto simp: simulateAndValidateClaimIxs_def bindA_eq_Inr_iff bindE_eq_Inr_iff Let_def
      required_def split: if_splits prod.splits option.splits)

end
