(* ===== verification/DbProperties.thy ===== *)
theory DbProperties
  imports Db
begin

text \<open>
  The properties of the database queries, with a small database as witness.  Each holds for every
  service that behaves as documented (\<open>mongo_service\<close>), whatever order it gives to
  documents of the same block height.
\<close>

section \<open>Rows and the documents they come from\<close>

lemma mapE_rows: "mapE f ds = Inr rows \<Longrightarrow> list_all2 (\<lambda>d r. f d = Inr r) ds rows"
  by (induction ds arbitrary: rows) (auto simp: bindE_eq_Inr_iff)

lemma list_all2_member: "list_all2 P xs ys \<Longrightarrow> y \<in> set ys \<Longrightarrow> \<exists>x \<in> set xs. P x y"
  by (induction rule: list_all2_induct) auto

lemma index_update_row_ts:
  "index_update_row d = Inr r \<Longrightarrow> date_field ''transaction.block_time'' d = Some (ts r)"
  by (auto simp: index_update_row_def bindE_eq_Inr_iff get_date_def split: option.splits)

lemma in_window_row:
  "in_window fromTime toTime d \<Longrightarrow> date_field ''transaction.block_time'' d = Some t \<Longrightarrow>
     fromTime * 1000 \<le> t \<and> (\<forall>u. toTime = Some u \<longrightarrow> u \<noteq> 0 \<longrightarrow> t < u * 1000)"
  by (auto simp: in_window_def match_gte_def match_lt_def)

lemma indexUpdates_docs:
  assumes "mongo_service (mongo_aggregate M) db" "all_docs db"
    and "indexUpdates M fromTime toTime s = (Inr rows, s')"
  obtains docs where "mset docs = mset (filter (in_window fromTime toTime) (index_events db))"
    "descending ''transaction.block_height'' docs" "list_all2 (\<lambda>d r. index_update_row d = Inr r) docs rows"
proof -
  obtain docs where d: "mongo_aggregate M ''events'' (index_updates_stages fromTime toTime) = Inr docs"
    "mapE index_update_row docs = Inr rows"
    using assms(3) by (auto simp: indexUpdates_def bindA_eq_Inr_iff)
  from index_updates_pipeline [OF assms(2) mongo_service.aggregate_ok [OF assms(1) d(1)]]
    mapE_rows [OF d(2)] that show ?thesis by blast
qed

section \<open>What the queries return\<close>

definition balance_events :: "'n web3 \<Rightarrow> (string \<Rightarrow> bson list) \<Rightarrow> buffer \<Rightarrow> buffer \<Rightarrow> int \<Rightarrow> bson list" where
  "balance_events W db acct mint t = filter (match_lt ''transaction.block_time'' t)
     (joined db ''balance_updates''
       [(''pubkey'', BString (toBase58 W acct)), (''mint'', BString (toBase58 W mint))])"

lemma indexUpdates_rows:
  assumes "mongo_service (mongo_aggregate M) db" "all_docs db"
    and "indexUpdates M fromTime toTime s = (Inr rows, s')"
  shows "(\<forall>r \<in> set rows. fromTime * 1000 \<le> ts r \<and>
      (\<forall>u. toTime = Some u \<longrightarrow> u \<noteq> 0 \<longrightarrow> ts r < u * 1000)) \<and>
    (\<exists>docs. mset docs = mset (filter (in_window fromTime toTime) (index_events db)) \<and>
       descending ''transaction.block_height'' docs \<and>
       list_all2 (\<lambda>d r. index_update_row d = Inr r) docs rows)"
proof -
  obtain docs where docs: "mset docs = mset (filter (in_window fromTime toTime) (index_events db))"
    "descending ''transaction.block_height'' docs" "list_all2 (\<lambda>d r. index_update_row d = Inr r) docs rows"
    using assms by (rule indexUpdates_docs)
  have win: "in_window fromTime toTime d" if "d \<in> set docs" for d
    using that docs(1) by (metis mem_Collect_eq set_filter set_mset_mset)
  have "fromTime * 1000 \<le> ts r \<and> (\<forall>u. toTime = Some u \<longrightarrow> u \<noteq> 0 \<longrightarrow> ts r < u * 1000)"
    if r: "r \<in> set rows" for r
  proof -
    obtain d where "d \<in> set docs" "index_update_row d = Inr r"
      using list_all2_member [OF docs(3) r] by blast
    then show ?thesis using in_window_row [OF win index_update_row_ts] by blast
  qed
  with docs show ?thesis by blast
qed

lemma currentIndex_row:
  assumes "mongo_service (mongo_aggregate M) db" "all_docs db"
    and "currentIndex M s = (Inr (i, t), s')"
  shows "\<exists>d \<in> set (index_events db). number_field ''index'' d = Some i \<and>
    date_field ''transaction.block_time'' d = Some t \<and>
    (\<forall>e \<in> set (index_events db). \<forall>x y. number_field ''transaction.block_height'' d = Some x \<longrightarrow>
       number_field ''transaction.block_height'' e = Some y \<longrightarrow> y \<le> x)"
proof -
  obtain docs where a: "mongo_aggregate M ''events'' current_index_stages = Inr docs"
    and d: "js_get docs 0 = Inr (docs ! 0)" "docs \<noteq> []"
      "number_field ''index'' (docs ! 0) = Some i"
      "date_field ''transaction.block_time'' (docs ! 0) = Some t"
    using assms(3) by (auto simp: currentIndex_def bindA_eq_Inr_iff bindE_eq_Inr_iff js_get_def
        get_number_def get_date_def split: if_splits option.splits)
  obtain mid where mid: "mset mid = mset (index_events db)"
    "descending ''transaction.block_height'' mid" "take 1 mid = docs"
    using mongo_service.aggregate_ok [OF assms(1) a]
    unfolding current_index_stages_def joined_prefix [OF assms(2)]
    by (auto simp: index_events_def)
  from limited_head(2) [OF mid, of "docs ! 0" "tl docs"] d show ?thesis
    by (cases docs) auto
qed

lemma getBalanceAt_row:
  assumes "mongo_service (mongo_aggregate M) db" "all_docs db" "bignum B val"
    and "getBalanceAt B W M acct mint t s = (Inr b, s')"
  shows "(balance_events W db acct mint t = [] \<and> val b = 0) \<or>
    (\<exists>d \<in> set (balance_events W db acct mint t). number_field ''post_balance'' d = Some (val b) \<and>
      (\<forall>e \<in> set (balance_events W db acct mint t). \<forall>x y.
         number_field ''transaction.block_height'' d = Some x \<longrightarrow>
         number_field ''transaction.block_height'' e = Some y \<longrightarrow> y \<le> x))"
proof -
  obtain docs where a: "mongo_aggregate M ''balance_updates'' (balance_stages W acct mint t) = Inr docs"
    and b: "(if length docs = 0 then bn_of_number B 0
      else bindE (get_number ''post_balance'' (docs ! 0)) (bn_of_number B)) = Inr b"
    using assms(4) by (auto simp: getBalanceAt_def bindA_eq_Inr_iff split: if_splits)
  obtain mid where mid: "mset mid = mset (balance_events W db acct mint t)"
    "descending ''transaction.block_height'' mid" "take 1 mid = docs"
    using mongo_service.aggregate_ok [OF assms(1) a]
    unfolding balance_stages_def joined_prefix [OF assms(2)]
    by (auto simp: balance_events_def)
  show ?thesis
  proof (cases docs)
    case Nil
    then show ?thesis using limited_head(1) [OF mid] b bignum.of_number_val [OF assms(3)] by auto
  next
    case (Cons d ds)
    then show ?thesis using limited_head(2) [OF mid Cons] b bignum.of_number_val [OF assms(3)]
      by (auto simp: bindE_eq_Inr_iff get_number_def split: option.splits)
  qed
qed

section \<open>A small database\<close>

definition toy_event :: "string \<Rightarrow> int \<Rightarrow> bson" where
  "toy_event sig i = BDoc [(''event'', BString ''index_update_v2''), (''signature'', BString sig),
     (''program_id'', BString ''p''), (''token_supply'', BNumber 5), (''index'', BNumber i)]"

definition toy_transaction :: "string \<Rightarrow> int \<Rightarrow> int \<Rightarrow> bson" where
  "toy_transaction sig height t = BDoc [(''signature'', BString sig),
     (''block_height'', BNumber height), (''block_time'', BDate t)]"

definition toy_balance :: "string \<Rightarrow> int \<Rightarrow> bson" where
  "toy_balance sig b = BDoc [(''pubkey'', BString ''acct''), (''mint'', BString ''mint''),
     (''signature'', BString sig), (''post_balance'', BNumber b)]"

definition toy_db :: "string \<Rightarrow> bson list" where
  "toy_db coll =
     (if coll = ''events'' then [toy_event ''a'' 10, toy_event ''b'' 12]
      else if coll = ''transactions'' then [toy_transaction ''a'' 1 3000, toy_transaction ''b'' 2 5000]
      else if coll = ''balance_updates'' then [toy_balance ''a'' 7, toy_balance ''b'' 9]
      else [])"

definition toy_mongo :: mongo where
  "toy_mongo = \<lparr>connection_string = ''uri'', mongo_connect = (\<lambda>_. Inr ()),
     mongo_aggregate = ref_aggregate toy_db\<rparr>"

lemma toy_mongo_service: "mongo_service (mongo_aggregate toy_mongo) toy_db"
  by (simp add: toy_mongo_def ref_mongo.mongo_service_axioms)

lemma toy_db_docs: "all_docs toy_db"
  by (simp add: all_docs_def toy_db_def toy_event_def toy_transaction_def toy_balance_def)

lemmas toy_db_eval = connect_def toy_mongo_def bindA_def with_transactions_def ref_aggregate_def
  toy_db_def toy_event_def toy_transaction_def toy_balance_def match_eq_def match_gte_def
  match_lt_def field_def lookup_doc_def unwind_doc_def date_field_def number_field_def
  get_number_def get_string_def get_date_def toy_web3_def int_bn_def safe_number_def

section \<open>Properties\<close>

text \<open>
  C27. \<open>indexUpdates\<close> returns one row for each index update event joined with its transaction
  whose block time lies in \<open>[fromTime, toTime)\<close> seconds (no upper bound when \<open>toTime\<close> is
  absent or zero), no other row, and the rows in descending order of block height.
\<close>

theorem indexUpdates_window:
  assumes "mongo_service (mongo_aggregate M) db" "all_docs db"
    and "indexUpdates M fromTime toTime s = (Inr rows, s')"
  shows "(\<forall>r \<in> set rows. fromTime * 1000 \<le> ts r \<and>
      (\<forall>u. toTime = Some u \<longrightarrow> u \<noteq> 0 \<longrightarrow> ts r < u * 1000)) \<and>
    (\<exists>docs. mset docs = mset (filter (in_window fromTime toTime) (index_events db)) \<and>
       descending ''transaction.block_height'' docs \<and>
       list_all2 (\<lambda>d r. index_update_row d = Inr r) docs rows)"
  using assms by (rule indexUpdates_rows)

lemma toy_indexUpdates:
  "fst (indexUpdates toy_mongo 4 None \<lparr>database = False\<rparr>) =
     Inr [\<lparr>index = 12, program_id = ''p'', signature = ''b'', tokenSupply = 5, ts = 5000\<rparr>]"
  by (simp add: indexUpdates_def index_updates_stages_def index_update_row_def toy_db_eval)

theorem indexUpdates_window_witness:
  "\<exists>docs. mset docs = mset (filter (in_window 4 None) (index_events toy_db)) \<and>
     descending ''transaction.block_height'' docs \<and>
     list_all2 (\<lambda>d r. index_update_row d = Inr r) docs
       [\<lparr>index = 12, program_id = ''p'', signature = ''b'', tokenSupply = 5, ts = 5000\<rparr>]"
  using indexUpdates_window [OF toy_mongo_service toy_db_docs, of 4 None "\<lparr>database = False\<rparr>"
      "[\<lparr>index = 12, program_id = ''p'', signature = ''b'', tokenSupply = 5, ts = 5000\<rparr>]"
      "snd (indexUpdates toy_mongo 4 None \<lparr>database = False\<rparr>)"]
    toy_indexUpdates by (metis prod.collapse)

text \<open>
  C28. \<open>currentIndex\<close> returns the index and the block time of an index update event whose
  block height no other event exceeds.
\<close>

theorem currentIndex_newest:
  assumes "mongo_service (mongo_aggregate M) db" "all_docs db"
    and "currentIndex M s = (Inr (i, t), s')"
  shows "\<exists>d \<in> set (index_events db). number_field ''index'' d = Some i \<and>
    date_field ''transaction.block_time'' d = Some t \<and>
    (\<forall>e \<in> set (index_events db). \<forall>x y. number_field ''transaction.block_height'' d = Some x \<longrightarrow>
       number_field ''transaction.block_height'' e = Some y \<longrightarrow> y \<le> x)"
  using assms by (rule currentIndex_row)

lemma toy_currentIndex: "fst (currentIndex toy_mongo \<lparr>database = False\<rparr>) = Inr (12, 5000)"
  by (simp add: currentIndex_def current_index_stages_def toy_db_eval)

theorem currentIndex_newest_witness:
  "\<exists>d \<in> set (index_events toy_db). number_field ''index'' d = Some 12 \<and>
     date_field ''transaction.block_time'' d = Some 5000"
  using currentIndex_newest [OF toy_mongo_service toy_db_docs, of "\<lparr>database = False\<rparr>" 12 5000
      "snd (currentIndex toy_mongo \<lparr>database = False\<rparr>)"]
    toy_currentIndex by (metis prod.collapse)

text \<open>
  C29. \<open>getBalanceAt\<close> returns the balance after an update of the token account before the given
  time (exclusive) whose block height no other such update exceeds, and zero when there is none.
  Which of several updates in one block is returned is open: the query sorts by height only.
\<close>

theorem getBalanceAt_latest:
  assumes "mongo_service (mongo_aggregate M) db" "all_docs db" "bignum B val"
    and "getBalanceAt B W M acct mint t s = (Inr b, s')"
  shows "(balance_events W db acct mint t = [] \<and> val b = 0) \<or>
    (\<exists>d \<in> set (balance_events W db acct mint t). number_field ''post_balance'' d = Some (val b) \<and>
      (\<forall>e \<in> set (balance_events W db acct mint t). \<forall>x y.
         number_field ''transaction.block_height'' d = Some x \<longrightarrow>
         number_field ''transaction.block_height'' e = Some y \<longrightarrow> y \<le> x))"
  using assms by (rule getBalanceAt_row)

lemma toy_getBalanceAt:
  "getBalanceAt int_bn toy_web3 toy_mongo [] [0] 4000 \<lparr>database = False\<rparr> = (Inr 7, \<lparr>database = True\<rparr>)"
  by (simp add: getBalanceAt_def balance_stages_def toy_db_eval)

theorem getBalanceAt_latest_witness:
  "(balance_events (toy_web3 :: int web3) toy_db [] [0] 4000 = [] \<and> (7::int) = 0) \<or>
   (\<exists>d \<in> set (balance_events (toy_web3 :: int web3) toy_db [] [0] 4000). number_field ''post_balance'' d = Some 7)"
  using getBalanceAt_latest [OF toy_mongo_service toy_db_docs int_bn.bignum_axioms toy_getBalanceAt]
  by blast

end
