(* ===== verification/EarnProperties.thy ===== *)
theory EarnProperties
  imports EarnClaims EarnRewards DbProperties
begin

text \<open>
  The properties of the account loader, the earn authority, the earn manager and the transaction
  builder, with their witnesses.
\<close>

section \<open>Histories\<close>

text \<open>
  Hypotheses on the recorded history.  \<open>index_history\<close>: each index update has a height and an
  index, a higher block never has a smaller index, and the updates of one block have one index.
  \<open>synced_history\<close>: no recorded update up to the second of a timestamp is above an index, as when the
  global account was synced then to the index of that time.
\<close>

definition index_history :: "(string \<Rightarrow> bson list) \<Rightarrow> bool" where
  "index_history db \<longleftrightarrow> (\<forall>d \<in> set (index_events db). \<forall>e \<in> set (index_events db).
     (case (number_field ''transaction.block_height'' d, number_field ''transaction.block_height'' e,
            number_field ''index'' d, number_field ''index'' e) of
        (Some x, Some y, Some i, Some j) \<Rightarrow> (if y \<le> x then j \<le> i else True)
      | _ \<Rightarrow> False))"

definition synced_history :: "(string \<Rightarrow> bson list) \<Rightarrow> int \<Rightarrow> int \<Rightarrow> bool" where
  "synced_history db i t \<longleftrightarrow> 0 \<le> t \<and>
     list_all (\<lambda>d. match_lt ''transaction.block_time'' ((t + 1) * 1000) d \<longrightarrow>
       (case number_field ''index'' d of Some j \<Rightarrow> j \<le> i | None \<Rightarrow> True)) (index_events db)"

text \<open>From the second of the last claim on, no recorded index is below the index of that claim.\<close>

definition claimed_before :: "(string \<Rightarrow> bson list) \<Rightarrow> int \<Rightarrow> int \<Rightarrow> bool" where
  "claimed_before db fromTime lc \<longleftrightarrow>
     list_all (\<lambda>d. match_gte ''transaction.block_time'' (fromTime * 1000) d \<longrightarrow>
       (case number_field ''index'' d of Some i \<Rightarrow> lc \<le> i | None \<Rightarrow> True)) (index_events db)"

text \<open>No recorded balance of the token account is negative or above \<open>m\<close>.\<close>

definition balances_upto :: "'n web3 \<Rightarrow> (string \<Rightarrow> bson list) \<Rightarrow> buffer \<Rightarrow> buffer \<Rightarrow> int \<Rightarrow> bool" where
  "balances_upto W db acct mint m \<longleftrightarrow> 0 \<le> m \<and>
     list_all (\<lambda>d. case number_field ''post_balance'' d of Some x \<Rightarrow> 0 \<le> x \<and> x \<le> m | None \<Rightarrow> True)
       (joined db ''balance_updates''
         [(''pubkey'', BString (toBase58 W acct)), (''mint'', BString (toBase58 W mint))])"

lemma index_history_newest:
  assumes "index_history db" "d \<in> set (index_events db)" "e \<in> set (index_events db)"
    and "\<forall>x y. number_field ''transaction.block_height'' d = Some x \<longrightarrow>
       number_field ''transaction.block_height'' e = Some y \<longrightarrow> y \<le> x"
    and "number_field ''index'' d = Some i" "number_field ''index'' e = Some j"
  shows "j \<le> i"
  using assms unfolding index_history_def
  by (fastforce split: option.splits if_splits)

lemma balances_upto_value:
  assumes "mongo_service (mongo_aggregate M) db" "all_docs db" "bignum B val"
    and "balances_upto W db acct mint m" "getBalanceAt B W M acct mint t s = (Inr b, s')"
  shows "0 \<le> val b \<and> val b \<le> m"
proof -
  have sub: "set (balance_events W db acct mint t) \<subseteq> set (joined db ''balance_updates''
         [(''pubkey'', BString (toBase58 W acct)), (''mint'', BString (toBase58 W mint))])"
    by (simp add: balance_events_def)
  consider "val b = 0" | d where "d \<in> set (balance_events W db acct mint t)"
      "number_field ''post_balance'' d = Some (val b)"
    using getBalanceAt_row [OF assms(1,2,3,5)] by blast
  then show ?thesis
  proof cases
    case 1
    then show ?thesis using assms(4) by (simp add: balances_upto_def)
  next
    case 2
    then show ?thesis using assms(4) sub by (fastforce simp: balances_upto_def list_all_iff)
  qed
qed

lemma index_update_row_index:
  "index_update_row d = Inr r \<Longrightarrow> number_field ''index'' d = Some (IndexUpdate.index r)"
  by (auto simp: index_update_row_def bindE_eq_Inr_iff get_number_def split: option.splits)

text \<open>The steps of a claim lie between the last claimed index and the index it is normalized against.\<close>

lemma claim_steps_docs:
  assumes "mongo_service (mongo_aggregate M) db" "all_docs db"
    and "indexUpdates M fromTime toTime s1 = (Inr steps, s2)" "u \<in> set steps"
  obtains d where "d \<in> set (index_events db)" "in_window fromTime toTime d"
    "number_field ''index'' d = Some (IndexUpdate.index u)"
proof -
  obtain docs where docs: "mset docs = mset (filter (in_window fromTime toTime) (index_events db))"
    "list_all2 (\<lambda>d r. index_update_row d = Inr r) docs steps"
    using indexUpdates_docs [OF assms(1-3)] by blast
  obtain d where d: "d \<in> set docs" "index_update_row d = Inr u"
    using list_all2_member [OF docs(2) assms(4)] by blast
  have "d \<in> set (index_events db)" "in_window fromTime toTime d"
    using d(1) docs(1) by (metis mem_Collect_eq set_filter set_mset_mset)+
  then show ?thesis using that index_update_row_index [OF d(2)] by blast
qed

lemma claim_steps_lower:
  assumes "mongo_service (mongo_aggregate M) db" "all_docs db"
    and "indexUpdates M fromTime toTime s1 = (Inr steps, s2)" "u \<in> set steps"
    and "claimed_before db fromTime lc"
  shows "lc \<le> IndexUpdate.index u"
  using claim_steps_docs [OF assms(1-4)] assms(5)
  by (fastforce simp: claimed_before_def list_all_iff in_window_def)

lemma claim_steps_pending:
  assumes "mongo_service (mongo_aggregate M) db" "all_docs db" "index_history db"
    and "currentIndex M s = (Inr (i, t), s1)"
    and "indexUpdates M fromTime toTime s1 = (Inr steps, s2)" "u \<in> set steps"
  shows "IndexUpdate.index u \<le> i"
proof -
  obtain d where d: "d \<in> set (index_events db)" "number_field ''index'' d = Some (IndexUpdate.index u)"
    using claim_steps_docs [OF assms(1,2,5,6)] by blast
  obtain n where n: "n \<in> set (index_events db)" "number_field ''index'' n = Some i"
    "\<forall>e \<in> set (index_events db). \<forall>x y. number_field ''transaction.block_height'' n = Some x \<longrightarrow>
       number_field ''transaction.block_height'' e = Some y \<longrightarrow> y \<le> x"
    using currentIndex_row [OF assms(1,2,4)] by blast
  show ?thesis using index_history_newest [OF assms(3) n(1) d(1) _ n(2) d(2)] n(3) d(1) by blast
qed

lemma claim_steps_synced:
  assumes "mongo_service (mongo_aggregate M) db" "all_docs db" "synced_history db i t"
    and "indexUpdates M fromTime (Some (t + 1)) s1 = (Inr steps, s2)" "u \<in> set steps"
  shows "IndexUpdate.index u \<le> i"
  using claim_steps_docs [OF assms(1,2,4,5)] assms(3)
  by (fastforce simp: synced_history_def list_all_iff in_window_def)

section \<open>Claims\<close>

text \<open>
  C16. The balance a claim is made against is positive and never exceeds the largest balance the
  database records for the token account: the truncated compounding over any number of index
  updates, and the final normalization by the claimed index range, do not overstate it, in both modes
  of \<open>buildClaimInstruction\<close>.  The hypotheses: the index of the last claim is positive and no update
  from the second of that claim on is below it (\<open>claimed_before\<close>); the recorded balances lie between
  zero and \<open>m\<close> (\<open>balances_upto\<close>); with a pending sync the recorded indexes never fall with the block
  height and are equal within a block (\<open>index_history\<close>); without one, no update up to the second of
  the global account's timestamp is above its index (\<open>synced_history\<close>).
\<close>

theorem claim_within_balances:
  assumes "bignum B val" "mongo_service (mongo_aggregate M) db" "all_docs db"
    and "pendingSync \<Longrightarrow> index_history db"
    and "\<And>i t. \<not> pendingSync \<Longrightarrow> GlobalAccountData.index (ea_global s) = Some i \<Longrightarrow>
      timestamp (ea_global s) = Some t \<Longrightarrow> synced_history db (val i) (val t)"
    and "0 < val (lastClaimIndex d)"
    and "claimed_before db (val (lastClaimTimestamp d)) (val (lastClaimIndex d))"
    and "balances_upto W db (userTokenAccount d) (extMint (ea_global s)) m"
    and "claim_balance B W M d pendingSync s = (Inr (Some claim), s')"
  shows "0 < val claim \<and> val claim \<le> m"
proof -
  obtain dbIndex dbTs latest fromTime toTime steps y zero s1 s2 s3 where
    ci: "currentIndex M s = (Inr (dbIndex, dbTs), s1)" and
    latest: "(if pendingSync then bn_of_number B dbIndex
      else required (GlobalAccountData.index (ea_global s1))) = Inr latest" and
    gt: "\<not> bn_gte B (lastClaimIndex d) latest" and
    tn: "bn_toNumber B (lastClaimTimestamp d) = Inr fromTime" and
    iu: "indexUpdates M fromTime (Some toTime) s1 = (Inr steps, s2)" and
    to: "\<not> pendingSync \<Longrightarrow> \<exists>t n. timestamp (ea_global s1) = Some t \<and> bn_toNumber B t = Inr n \<and> toTime = n + 1" and
    cy: "claim_yield B (getBalanceAt B W M (userTokenAccount d) (extMint (ea_global s1))) steps s2 =
      (Inr y, s3)" and
    dv: "bn_div B (bn_mul B y (lastClaimIndex d)) (bn_sub B latest (lastClaimIndex d)) = Inr claim" and
    z: "bn_of_number B 0 = Inr zero" "\<not> bn_lte B claim zero"
    using assms(9) by (rule claim_balance_Some) (rule that)
  note of_num = bignum.of_number_val [OF assms(1)]
  let ?lc = "val (lastClaimIndex d)"
  have v: "val zero = 0" "fromTime = val (lastClaimTimestamp d)"
    using of_num z(1) bignum.toNumber_val [OF assms(1) tn] by blast+
  have lt: "?lc < val latest" using gt bignum.gte_val [OF assms(1)] by simp
  have global: "ea_global s1 = ea_global s" using currentIndex_state [OF ci] by auto
  have upper: "IndexUpdate.index u \<le> val latest" if u: "u \<in> set steps" for u
  proof (cases pendingSync)
    case True
    then have "val latest = dbIndex" using latest of_num by simp
    then show ?thesis using claim_steps_pending [OF assms(2,3) assms(4) [OF True] ci iu u] by simp
  next
    case False
    then obtain t n where t: "timestamp (ea_global s) = Some t" "bn_toNumber B t = Inr n" "toTime = n + 1"
      using to global by auto
    have "GlobalAccountData.index (ea_global s) = Some latest"
      using latest False global by (auto simp: required_def split: option.splits)
    note h = assms(5) [OF False this t(1)]
    have "toTime = val t + 1" using t bignum.toNumber_val [OF assms(1) t(2)] by simp
    then show ?thesis using claim_steps_synced [OF assms(2,3) h _ u] iu by simp
  qed
  have btw: "\<forall>u \<in> set steps. ?lc \<le> IndexUpdate.index u \<and> IndexUpdate.index u \<le> val latest"
    using claim_steps_lower [OF assms(2,3) iu] upper assms(7) v(2) by simp
  have bal: "\<forall>t s b s'. getBalanceAt B W M (userTokenAccount d) (extMint (ea_global s1)) t s = (Inr b, s') \<longrightarrow>
      0 \<le> val b \<and> val b \<le> m"
    using balances_upto_value [OF assms(2,3,1)] assms(8) global by metis
  have m: "0 \<le> m" using assms(8) by (simp add: balances_upto_def)
  note y = bignum.claim_yield_bounds [OF assms(1) bal m assms(6) _ btw cy]
  have cl: "val claim = (val y * ?lc) sdiv (val latest - ?lc)"
    using bignum.div_val [OF assms(1) dv] bignum.val_simps(2-4) [OF assms(1)] by simp
  have "val claim \<le> m" unfolding cl using y lt assms(6) by (intro sdiv_upper) simp_all
  moreover have "0 < val claim" using z(2) v(1) bignum.lte_val [OF assms(1)] by simp
  ultimately show ?thesis by simp
qed

definition toy_global :: "int GlobalAccountData" where
  "toy_global = \<lparr>admin = [1], extMint = [0], mMint = [2], variant = ''Crank'', wrapAuthorities = [],
     index = Some 11, timestamp = Some 4, earnAuthority = Some [9]\<rparr>"

definition toy_auth :: "int EarnAuthority" where
  "toy_auth = \<lparr>database = True, ea_program = [7], ea_global = toy_global,
     managerCache = (\<lambda>_. None), ea_tables = []\<rparr>"

definition toy_earner_data :: "int EarnerData" where
  "toy_earner_data = \<lparr>lastClaimIndex = 10, lastClaimTimestamp = 3, er_bump = 0, user = [4],
     userTokenAccount = [], er_earnManager = \<lparr>ref = 1, toBuffer = [5]\<rparr>,
     recipientTokenAccount = None\<rparr>"

lemma toy_auth_queries:
  "currentIndex toy_mongo toy_auth = (Inr (12, 5000), toy_auth)"
  "indexUpdates toy_mongo 3 (Some 6) toy_auth =
     (Inr [\<lparr>index = 12, program_id = ''p'', signature = ''b'', tokenSupply = 5, ts = 5000\<rparr>,
           \<lparr>index = 10, program_id = ''p'', signature = ''a'', tokenSupply = 5, ts = 3000\<rparr>], toy_auth)"
  "getBalanceAt int_bn toy_web3 toy_mongo [] [0] 5000 toy_auth = (Inr 7, toy_auth)"
  by (simp add: currentIndex_def current_index_stages_def toy_db_eval toy_auth_def,
      simp add: indexUpdates_def index_updates_stages_def index_update_row_def toy_db_eval toy_auth_def,
      simp add: getBalanceAt_def balance_stages_def toy_db_eval toy_auth_def)

lemma toy_currentIndex_any: "currentIndex toy_mongo s = (Inr (12, 5000), s\<lparr>database := True\<rparr>)"
  by (simp add: currentIndex_def current_index_stages_def toy_db_eval)

lemma toy_claim: "claim_balance int_bn toy_web3 toy_mongo toy_earner_data True toy_auth = (Inr (Some 5), toy_auth)"
proof -
  have g: "ea_global toy_auth = toy_global" by (simp add: toy_auth_def)
  show ?thesis
    by (simp add: claim_balance_def bindA_def g toy_auth_queries toy_earner_data_def toy_global_def
        int_bn_simps safe_number_def claim_yield_def claim_step_def
        signed_divide_int_def)
qed

lemma toy_index_events:
  "index_events toy_db = [doc_set ''transaction'' (toy_transaction ''a'' 1 3000) (toy_event ''a'' 10),
     doc_set ''transaction'' (toy_transaction ''b'' 2 5000) (toy_event ''b'' 12)]"
  by (simp add: index_events_def joined_def joins_def toy_db_eval)

text \<open>The same database with the account of a program that was synced to its newest update.\<close>

definition toy_synced_auth :: "int EarnAuthority" where
  "toy_synced_auth = toy_auth\<lparr>ea_global := toy_global\<lparr>GlobalAccountData.index := Some 12, timestamp := Some 5\<rparr>\<rparr>"

lemma toy_synced_queries:
  "currentIndex toy_mongo toy_synced_auth = (Inr (12, 5000), toy_synced_auth)"
  "indexUpdates toy_mongo 3 (Some 6) toy_synced_auth =
     (Inr [\<lparr>index = 12, program_id = ''p'', signature = ''b'', tokenSupply = 5, ts = 5000\<rparr>,
           \<lparr>index = 10, program_id = ''p'', signature = ''a'', tokenSupply = 5, ts = 3000\<rparr>], toy_synced_auth)"
  "getBalanceAt int_bn toy_web3 toy_mongo [] [0] 5000 toy_synced_auth = (Inr 7, toy_synced_auth)"
  by (simp add: currentIndex_def current_index_stages_def toy_db_eval toy_synced_auth_def toy_auth_def,
      simp add: indexUpdates_def index_updates_stages_def index_update_row_def toy_db_eval toy_synced_auth_def
        toy_auth_def,
      simp add: getBalanceAt_def balance_stages_def toy_db_eval toy_synced_auth_def toy_auth_def)

lemma toy_synced_claim:
  "claim_balance int_bn toy_web3 toy_mongo toy_earner_data p toy_synced_auth = (Inr (Some 5), toy_synced_auth)"
proof -
  have g: "ea_global toy_synced_auth = toy_global\<lparr>GlobalAccountData.index := Some 12, timestamp := Some 5\<rparr>"
    by (simp add: toy_synced_auth_def)
  show ?thesis
    by (simp add: claim_balance_def bindA_def g toy_synced_queries toy_earner_data_def toy_global_def
        int_bn_simps safe_number_def claim_yield_def claim_step_def required_def
        signed_divide_int_def)
qed

theorem claim_within_balances_witness:
  "\<forall>p. \<exists>claim. fst (claim_balance int_bn toy_web3 toy_mongo toy_earner_data p toy_synced_auth) =
     Inr (Some claim) \<and> 0 < claim \<and> claim \<le> 9"
proof
  fix p
  have "0 < (5 :: int) \<and> 5 \<le> (9 :: int)"
  proof (rule claim_within_balances [OF int_bn.bignum_axioms toy_mongo_service toy_db_docs _ _ _ _ _ toy_synced_claim])
    show "index_history toy_db"
      by (simp add: index_history_def toy_index_events) (simp add: toy_db_eval)
    show "synced_history toy_db i t"
      if "GlobalAccountData.index (ea_global toy_synced_auth) = Some i"
        "timestamp (ea_global toy_synced_auth) = Some t" for i t
      using that
      by (simp add: synced_history_def toy_index_events toy_synced_auth_def) (auto simp: toy_db_eval)
    show "0 < lastClaimIndex toy_earner_data" by (simp add: toy_earner_data_def)
    show "claimed_before toy_db (lastClaimTimestamp toy_earner_data) (lastClaimIndex toy_earner_data)"
      by (simp add: claimed_before_def toy_index_events toy_earner_data_def) (simp add: toy_db_eval)
    show "balances_upto (toy_web3 :: int web3) toy_db (userTokenAccount toy_earner_data)
        (extMint (ea_global toy_synced_auth)) 9"
      by (simp add: balances_upto_def joined_def joins_def toy_earner_data_def toy_synced_auth_def
          toy_global_def toy_db_eval)
  qed
  then show "\<exists>claim. fst (claim_balance int_bn toy_web3 toy_mongo toy_earner_data p toy_synced_auth) =
     Inr (Some claim) \<and> 0 < claim \<and> claim \<le> 9"
    by (simp add: toy_synced_claim)
qed

section \<open>Rewards\<close>

text \<open>
  C10. A validated simulation respects the collateral: the total returned is the sum of the user
  rewards and fees in the simulated logs, and with it the supply of the extension stays within
  the $M of the vault scaled by the newest index of the database.
\<close>

theorem claims_within_collateral:
  assumes "bignum B val"
    and "simulateAndValidateClaimIxs B W M rpc addrs ixs s = (Inr tot, s')"
  shows "\<exists>logs rewards minted amount dbIndex dbTs s1 txn.
    simulate_logs rpc txn = Inr (None, Some logs) \<and> getRewardAmounts B W logs = Inr rewards \<and>
    val tot = sum_list (map (\<lambda>r. val (rw_user r) + val (rw_fee r)) rewards) \<and>
    getMint_supply rpc (extMint (ea_global s)) = Inr minted \<and>
    getAccount_amount rpc (associatedTokenAddress W (mMint (ea_global s))
      (findProgramAddress W [bytes_of ''m_vault''] (ea_program s)) True (TOKEN_2022_PROGRAM_ID W)) =
      Inr amount \<and>
    currentIndex M s1 = (Inr (dbIndex, dbTs), s') \<and>
    minted + val tot \<le> (amount * dbIndex) sdiv 10 ^ 12"
proof -
  note of_num = bignum.of_number_val [OF assms(1)]
  note vs = bignum.val_simps [OF assms(1)]
  obtain txn logs rewards zero minted amount dbIndex dbTs i scale collateral s1 where
    a: "simulate_logs rpc txn = Inr (None, Some logs)" "getRewardAmounts B W logs = Inr rewards"
    "getMint_supply rpc (extMint (ea_global s)) = Inr minted"
    "getAccount_amount rpc (associatedTokenAddress W (mMint (ea_global s))
       (findProgramAddress W [bytes_of ''m_vault''] (ea_program s)) True
       (TOKEN_2022_PROGRAM_ID W)) = Inr amount"
    "currentIndex M s1 = (Inr (dbIndex, dbTs), s')"
    and z: "bn_of_number B 0 = Inr zero" "tot = total_rewards B zero rewards"
    "bn_of_number B dbIndex = Inr i" "bn_of_number B 1000000000000 = Inr scale"
    "bn_div B (bn_mul B (bn_of_string B amount) i) scale = Inr collateral"
    "\<not> bn_gt B (bn_add B (bn_of_string B minted) tot) collateral"
    using assms(2) by (rule simulateAndValidate_Inr)
  have v: "val zero = 0" "val i = dbIndex" "val scale = 10 ^ 12" using of_num z(1,3,4) by fastforce+
  have "val tot = sum_list (map (\<lambda>r. val (rw_user r) + val (rw_fee r)) rewards)"
    using bignum.total_rewards_val [OF assms(1)] z(2) v(1) by simp
  moreover have "val collateral = (amount * dbIndex) sdiv 10 ^ 12"
    using bignum.div_val [OF assms(1) z(5)] v by (simp add: vs)
  then have "minted + val tot \<le> (amount * dbIndex) sdiv 10 ^ 12" using z(6) by (simp add: vs)
  ultimately show ?thesis using a by blast
qed

definition toy_claim_event :: rewards_claim where
  "toy_claim_event = \<lparr>rc_tokenAccount = replicate 32 5, rc_recipient = replicate 32 6,
     rc_amount = 300, rc_ts = 1, rc_index = 2, rc_fee = 20\<rparr>"

definition toy_rpc :: claim_rpc where
  "toy_rpc = \<lparr>getLatestBlockhash = Inr ''hash'', getAddressLookupTable = (\<lambda>a. Inr (Some a)),
     simulate_units = (\<lambda>_. Inr (Some 1001)),
     simulate_logs = (\<lambda>_. Inr (None, Some [''Program log: claim'', event_line toy_claim_event])),
     getMint_supply = (\<lambda>_. Inr 1000), getAccount_amount = (\<lambda>_. Inr (10 ^ 15))\<rparr>"

definition toy_luts :: lut_addresses where
  "toy_luts = \<lparr>EARN_ADDRESS_TABLE = [11], EARN_ADDRESS_TABLE_DEVNET = [12]\<rparr>"

lemma toy_rpc_simps:
  "simulate_logs toy_rpc tx = Inr (None, Some [''Program log: claim'', event_line toy_claim_event])"
  "getMint_supply toy_rpc b = Inr 1000" "getAccount_amount toy_rpc b = Inr (10 ^ 15)"
  by (simp_all add: toy_rpc_def)

lemma toy_event_valid: "valid_claim toy_claim_event"
  by (simp add: valid_claim_def toy_claim_event_def)

lemma toy_rewards:
  "getRewardAmounts int_bn toy_web3 [''Program log: claim'', event_line toy_claim_event] =
     Inr [\<lparr>rw_tokenAccount = replicate 32 5, rw_user = 300, rw_fee = 20\<rparr>]"
proof -
  have "filter (starts_with ''Program data: VKjUbMsK'') [''Program log: claim'', event_line toy_claim_event] =
      map event_line [toy_claim_event]"
    using event_line_prefix [OF toy_event_valid] by (simp add: starts_with_def)
  then have "getRewardAmounts int_bn toy_web3 [''Program log: claim'', event_line toy_claim_event] =
      Inr (map (reward_of int_bn) [toy_claim_event])"
    by (intro getRewardAmounts_events) (simp_all add: toy_web3_def toy_event_valid)
  then show ?thesis by (simp add: reward_of_def toy_claim_event_def int_bn_simps)
qed

lemma toy_simulate:
  "fst (simulateAndValidateClaimIxs int_bn toy_web3 toy_mongo toy_rpc toy_luts [] toy_auth) = Inr 320"
proof -
  have tx: "\<exists>tx. buildTransaction (toy_web3 :: int web3) toy_rpc toy_luts [] [9] 250000 True [] = (Inr tx, [[12], [11]])"
    by (simp add: buildTransaction_def getAddressLookupTables_def bindA_def toy_rpc_def toy_luts_def Let_def)
  have db: "currentIndex toy_mongo (toy_auth\<lparr>ea_tables := l\<rparr>) = (Inr (12, 5000), toy_auth\<lparr>ea_tables := l\<rparr>)" for l
    by (simp add: currentIndex_def current_index_stages_def toy_db_eval toy_auth_def)
  have g: "ea_global toy_auth = toy_global" "ea_tables toy_auth = []" by (simp_all add: toy_auth_def)
  from tx obtain tx where "buildTransaction (toy_web3 :: int web3) toy_rpc toy_luts [] [9] 250000 True [] = (Inr tx, [[12], [11]])" ..
  then show ?thesis
    by (simp add: simulateAndValidateClaimIxs_def bindA_def g zoomA_def toy_global_def required_def
        db int_bn_simps safe_number_def toy_rewards total_rewards_def signed_divide_int_def Let_def
        toy_web3_simps toy_rpc_simps)
qed

theorem claims_within_collateral_witness:
  "\<exists>logs rewards minted amount. getRewardAmounts int_bn toy_web3 logs = Inr rewards \<and>
     320 = sum_list (map (\<lambda>r. rw_user r + rw_fee r) rewards) \<and>
     getMint_supply toy_rpc (extMint (ea_global toy_auth)) = Inr minted \<and>
     minted + 320 \<le> (amount * 12) sdiv 10 ^ 12"
proof -
  obtain s' where s': "simulateAndValidateClaimIxs int_bn toy_web3 toy_mongo toy_rpc toy_luts [] toy_auth =
      (Inr 320, s')" using toy_simulate by (metis prod.collapse)
  obtain logs rewards minted amount dbIndex dbTs s1 where
    "getRewardAmounts int_bn toy_web3 logs = Inr rewards"
    "320 = sum_list (map (\<lambda>r. rw_user r + rw_fee r) rewards)"
    "getMint_supply toy_rpc (extMint (ea_global toy_auth)) = Inr minted"
    "minted + 320 \<le> (amount * dbIndex) sdiv 10 ^ 12" "currentIndex toy_mongo s1 = (Inr (dbIndex, dbTs), s')"
    using claims_within_collateral [OF int_bn.bignum_axioms s'] by blast
  moreover have "dbIndex = 12"
    using toy_currentIndex_any calculation(5) by (metis Inr_inject Pair_inject prod.sel(1))
  ultimately show ?thesis by blast
qed

end
