(* ===== verification/IdlTypes.thy ===== *)
theory IdlTypes
  imports Accounts
begin

text \<open>
  Types of decoded values.  A value that has an encoding under an IDL has its declared type, and a
  decoder of Borsh returns only values whose encoding is in the bytes it read; so what \<open>loadGlobal\<close>
  reads from a decoded account is there, and the byte of the yield variant is where it looks.
\<close>

section \<open>Typing\<close>

fun prim_typed :: "string \<Rightarrow> bval \<Rightarrow> bool" where
  "prim_typed p (VKey b) \<longleftrightarrow> p = ''pubkey'' \<and> length b = 32"
| "prim_typed p (VU8 x) \<longleftrightarrow> p = ''u8''"
| "prim_typed p (VU64 w) \<longleftrightarrow> p = ''u64''"
| "prim_typed p (VBool c) \<longleftrightarrow> p = ''bool''"
| "prim_typed p _ \<longleftrightarrow> False"

primrec has_type :: "nat \<Rightarrow> typedefs \<Rightarrow> idl_type \<Rightarrow> bval \<Rightarrow> bool" where
  "has_type 0 T ty v \<longleftrightarrow> False"
| "has_type (Suc n) T ty v \<longleftrightarrow>
     (case ty of
        Prim p \<Rightarrow> prim_typed p v
      | TOption t \<Rightarrow> (case v of VOption x \<Rightarrow> pred_option (has_type n T t) x | _ \<Rightarrow> False)
      | TVec t \<Rightarrow> (case v of VVec vs \<Rightarrow> list_all (has_type n T t) vs | _ \<Rightarrow> False)
      | TArray t k \<Rightarrow> (case v of VVec vs \<Rightarrow> length vs = k \<and> list_all (has_type n T t) vs | _ \<Rightarrow> False)
      | Defined nm \<Rightarrow>
          (case map_of T nm of
             None \<Rightarrow> False
           | Some (Struct fs) \<Rightarrow> (case v of
               VStruct vs \<Rightarrow> list_all2 (\<lambda>f x. fst f = fst x \<and> has_type n T (snd f) (snd x)) fs vs | _ \<Rightarrow> False)
           | Some (Enum names) \<Rightarrow> (case v of VEnum c \<Rightarrow> c \<in> set names | _ \<Rightarrow> False)))"

lemma encode_prim_typed: "encode_prim p v = Some bs \<Longrightarrow> prim_typed p v"
  by (cases v) (simp_all split: if_splits)

lemma concat_opt_all: "concat_opt (map f vs) = Some bs \<Longrightarrow> \<forall>v \<in> set vs. \<exists>b. f v = Some b"
  by (induction vs arbitrary: bs) (auto split: option.splits)

lemma concat_opt_fields:
  assumes "\<And>t x bs. f t x = Some bs \<Longrightarrow> P t x"
  shows "map fst vs = map fst fs \<Longrightarrow> concat_opt (map (\<lambda>((_, t), (_, x)). f t x) (zip fs vs)) = Some bs \<Longrightarrow>
    list_all2 (\<lambda>f x. fst f = fst x \<and> P (snd f) (snd x)) fs vs"
proof (induction fs arbitrary: vs bs)
  case Nil
  then show ?case by simp
next
  case (Cons f' fs)
  then show ?case by (cases vs; cases f'; cases "hd vs") (auto simp: assms split: option.splits)
qed

lemma encode_typed: "encode n T ty v = Some bs \<Longrightarrow> has_type n T ty v"
proof (induction n arbitrary: ty v bs)
  case 0
  then show ?case by simp
next
  case (Suc n)
  have many: "list_all (has_type n T t) vs" if "concat_opt (map (encode n T t) vs) = Some cs" for t vs cs
    using concat_opt_all [OF that] Suc.IH by (fastforce simp: list_all_iff)
  have fields: "list_all2 (\<lambda>f x. fst f = fst x \<and> has_type n T (snd f) (snd x)) fs vs"
    if "map fst vs = map fst fs" "concat_opt (map (\<lambda>((_, t), (_, x)). encode n T t x) (zip fs vs)) = Some cs"
    for fs vs cs
    using concat_opt_fields [where f = "encode n T", OF Suc.IH that] .
  show ?case
  proof (cases ty)
    case (Prim p)
    then show ?thesis using Suc.prems encode_prim_typed by simp
  next
    case (TOption t)
    then show ?thesis using Suc.prems Suc.IH by (auto split: bval.splits option.splits)
  next
    case (TVec t)
    then show ?thesis using Suc.prems many by (auto split: bval.splits if_splits)
  next
    case (TArray t k)
    then show ?thesis using Suc.prems many by (auto split: bval.splits if_splits)
  next
    case (Defined nm)
    then obtain body where b: "map_of T nm = Some body" using Suc.prems by (auto split: option.splits)
    show ?thesis
      using Suc.prems Defined b fields by (cases body) (auto split: bval.splits if_splits)
  qed
qed

section \<open>Exact coders\<close>

text \<open>
  The converse of \<open>borsh_coder\<close>: Borsh is canonical, so an account that decodes is the discriminator,
  the encoding of the value and bytes that are ignored.
\<close>

locale exact_coder =
  fixes decode_account :: account_decoder
  assumes decode_account_exact:
    "enums_ok (idl_types I) \<Longrightarrow> decode_account I nm bs = Inr v \<Longrightarrow>
      \<exists>disc used rest. map_of (idl_accounts I) nm = Some disc \<and> bs = disc @ used @ rest \<and>
        encode 5 (idl_types I) (Defined nm) v = Some used"
begin

lemma decode_account_typed:
  "enums_ok (idl_types I) \<Longrightarrow> decode_account I nm bs = Inr v \<Longrightarrow> has_type 5 (idl_types I) (Defined nm) v"
  using decode_account_exact encode_typed by blast

end

lemma ref_decoder_exact:
  assumes "enums_ok (idl_types I)" "ref_decoder I nm bs = Inr v"
  shows "\<exists>disc used rest. map_of (idl_accounts I) nm = Some disc \<and> bs = disc @ used @ rest \<and>
    encode 5 (idl_types I) (Defined nm) v = Some used"
proof -
  obtain disc rest where d: "map_of (idl_accounts I) nm = Some disc" "take (length disc) bs = disc"
    "decode 5 (idl_types I) (Defined nm) (drop (length disc) bs) = Some (v, rest)"
    using assms(2) by (auto simp: ref_decoder_def split: option.splits if_splits)
  from decode_exact [OF assms(1) d(3)] obtain used where
    "drop (length disc) bs = used @ rest" "encode 5 (idl_types I) (Defined nm) v = Some used" by blast
  moreover have "bs = disc @ drop (length disc) bs" using d(2) by (metis append_take_drop_id)
  ultimately show ?thesis using d(1) by metis
qed

interpretation ref_exact: exact_coder ref_decoder
  by unfold_locales (rule ref_decoder_exact)

section \<open>The global account\<close>

definition fields_typed :: "nat \<Rightarrow> typedefs \<Rightarrow> (string \<times> idl_type) list \<Rightarrow> (string \<times> bval) list \<Rightarrow> bool" where
  "fields_typed n T fs vs \<longleftrightarrow> list_all2 (\<lambda>f x. fst f = fst x \<and> has_type n T (snd f) (snd x)) fs vs"

lemma fields_typed_Cons:
  "fields_typed n T ((k, t) # fs) vs \<longleftrightarrow>
    (\<exists>x xs. vs = (k, x) # xs \<and> has_type n T t x \<and> fields_typed n T fs xs)"
  unfolding fields_typed_def by (cases vs) auto

lemma fields_typed_Nil: "fields_typed n T [] vs \<longleftrightarrow> vs = []"
  by (simp add: fields_typed_def)

lemma has_type_struct:
  assumes "has_type (Suc n) T (Defined nm) v" "map_of T nm = Some (Struct fs)"
  obtains vs where "v = VStruct vs" "fields_typed n T fs vs"
  using assms by (auto simp: fields_typed_def split: bval.splits)

lemma has_type_key: "has_type (Suc n) T (Prim ''pubkey'') v \<longleftrightarrow> (\<exists>b. v = VKey b \<and> length b = 32)"
  by (cases v) auto

lemma has_type_u8: "has_type (Suc n) T (Prim ''u8'') v \<longleftrightarrow> (\<exists>x. v = VU8 x)"
  by (cases v) auto

lemma has_type_u64: "has_type (Suc n) T (Prim ''u64'') v \<longleftrightarrow> (\<exists>w. v = VU64 w)"
  by (cases v) auto

lemma has_type_keys:
  "has_type (Suc (Suc n)) T (TVec (Prim ''pubkey'')) v \<longleftrightarrow>
    (\<exists>ks. v = VVec (map VKey ks) \<and> list_all (\<lambda>b. length b = 32) ks)"
proof -
  have "list_all (has_type (Suc n) T (Prim ''pubkey'')) vs \<longleftrightarrow>
      (\<exists>ks. vs = map VKey ks \<and> list_all (\<lambda>b. length b = 32) ks)" for vs
  proof (induction vs)
    case (Cons v vs)
    show ?case
    proof
      assume "list_all (has_type (Suc n) T (Prim ''pubkey'')) (v # vs)"
      then obtain b ks where "v = VKey b" "length b = 32" "vs = map VKey ks" "list_all (\<lambda>b. length b = 32) ks"
        using Cons unfolding list.pred_inject has_type_key by blast
      then show "\<exists>ks. v # vs = map VKey ks \<and> list_all (\<lambda>b. length b = 32) ks"
        by (intro exI [of _ "b # ks"]) simp
    next
      assume "\<exists>ks. v # vs = map VKey ks \<and> list_all (\<lambda>b. length b = 32) ks"
      then show "list_all (has_type (Suc n) T (Prim ''pubkey'')) (v # vs)"
        unfolding list.pred_inject has_type_key using Cons
        by (auto simp: list.pred_map comp_def simp del: has_type.simps)
    qed
  qed simp
  then show ?thesis by (cases v) auto
qed

lemma has_type_enum:
  "map_of T nm = Some (Enum names) \<Longrightarrow> has_type (Suc n) T (Defined nm) v \<longleftrightarrow> (\<exists>c. v = VEnum c \<and> c \<in> set names)"
  by (cases v) auto

lemmas has_type_3 = has_type_key [of 2, unfolded Suc_steps] has_type_u64 [of 2, unfolded Suc_steps]

lemmas has_type_prims = has_type_key has_type_u8 has_type_u64 has_type_keys

text \<open>What the declared type of the result promises, with the fields that depend on the variant.\<close>

definition global_typed :: "byte \<Rightarrow> 'n GlobalAccountData \<Rightarrow> bool" where
  "global_typed w g \<longleftrightarrow> length (admin g) = 32 \<and> length (extMint g) = 32 \<and> length (mMint g) = 32 \<and>
     variant g \<in> {''NoYield'', ''ScaledUi'', ''Crank''} \<and> list_all (\<lambda>b. length b = 32) (wrapAuthorities g) \<and>
     (index g = None \<longleftrightarrow> w = 0) \<and> (timestamp g = None \<longleftrightarrow> w \<noteq> 2) \<and>
     (earnAuthority g = None \<longleftrightarrow> w \<noteq> 2) \<and> pred_option (\<lambda>b. length b = 32) (earnAuthority g)"

lemma config_typed:
  assumes "w < 3" "has_type 4 (idl_types (variant_idl w)) (Defined ''YieldConfig'') yc"
  obtains c ix t ea where "bindE (js_prop ''yield_variant'' (Some yc)) as_variant = Inr c"
    "c \<in> {''NoYield'', ''ScaledUi'', ''Crank''}"
    "bindE (js_prop ''last_ext_index'' (Some yc)) (as_bn_opt B) = Inr ix" "ix = None \<longleftrightarrow> w = 0"
    "bindE (js_prop ''timestamp'' (Some yc)) (as_bn_opt B) = Inr t" "t = None \<longleftrightarrow> w \<noteq> 2"
    "bindE (js_prop ''earn_authority'' (Some yc)) as_key_opt = Inr ea" "ea = None \<longleftrightarrow> w \<noteq> 2"
    "pred_option (\<lambda>b. length b = 32) ea"
proof -
  define T where "T = idl_types (variant_idl w)"
  have T: "map_of T ''YieldConfig'' = Some (Struct (yieldVariants ! unat w))"
    "map_of T ''YieldVariant'' = Some (Enum [''NoYield'', ''ScaledUi'', ''Crank''])"
    using assms(1) by (simp_all add: T_def variant_idl_types)
  have h: "has_type (Suc 3) T (Defined ''YieldConfig'') yc" using assms(2) by (simp add: T_def eval_nat_numeral)
  obtain vs where vs: "yc = VStruct vs" "fields_typed (Suc 2) T (yieldVariants ! unat w) vs"
    using has_type_struct [OF h T(1)] by (metis Suc_steps(3))
  note fields = vs(2) [unfolded yieldVariants_def]
  note enum = has_type_enum [OF T(2), of 2, unfolded Suc_steps]
  have "unat w = 0 \<or> unat w = 1 \<or> unat w = 2" using assms(1) by (simp add: word_less_nat_alt) arith
  then consider "w = 0" | "w = 1" | "w = 2" by (auto simp: word_unat_eq_iff)
  then show thesis
  proof cases
    case 1
    then obtain c where "vs = [(''yield_variant'', VEnum c)]" "c \<in> {''NoYield'', ''ScaledUi'', ''Crank''}"
      using fields by (auto simp: fields_typed_Cons fields_typed_Nil enum simp del: has_type.simps)
    then show thesis using 1 by (intro that [of c None None None]) (simp_all add: vs(1) js_prop_def)
  next
    case 2
    then obtain c f l ix where "vs = [(''yield_variant'', VEnum c), (''fee_bps'', VU64 f), (''last_m_index'', VU64 l),
        (''last_ext_index'', VU64 ix)]" "c \<in> {''NoYield'', ''ScaledUi'', ''Crank''}"
      using fields by (auto simp: fields_typed_Cons fields_typed_Nil enum has_type_3
        simp del: has_type.simps)
    then show thesis using 2
      by (intro that [of c "Some (bn_of_string B (uint ix))" None None]) (simp_all add: vs(1) js_prop_def)
  next
    case 3
    then obtain c e l ix t where "vs = [(''yield_variant'', VEnum c), (''earn_authority'', VKey e), (''last_m_index'', VU64 l),
        (''last_ext_index'', VU64 ix), (''timestamp'', VU64 t)]" "c \<in> {''NoYield'', ''ScaledUi'', ''Crank''}" "length e = 32"
      using fields by (auto simp: fields_typed_Cons fields_typed_Nil enum has_type_3
        simp del: has_type.simps)
    then show thesis using 3
      by (intro that [of c "Some (bn_of_string B (uint ix))" "Some (bn_of_string B (uint t))" "Some e"])
        (simp_all add: vs(1) js_prop_def)
  qed
qed

lemma read_global_typed:
  assumes "w < 3" "has_type 5 (idl_types (variant_idl w)) (Defined ''ExtGlobalV2'') v"
  shows "\<exists>g. read_global B v = Inr g \<and> global_typed w g"
proof -
  let ?T = "idl_types (variant_idl w)"
  have T: "map_of ?T ''ExtGlobalV2'' = Some (Struct ext_global_fields)"
    using assms(1) by (simp add: variant_idl_types)
  have h: "has_type (Suc 4) ?T (Defined ''ExtGlobalV2'') v" using assms(2) by (simp add: eval_nat_numeral)
  obtain vs where vs: "v = VStruct vs" "fields_typed (Suc (Suc 2)) ?T ext_global_fields vs"
    using has_type_struct [OF h T] by (metis Suc_steps(2,3))
  note fields = vs(2) [unfolded ext_global_fields_def fields_typed_Cons fields_typed_Nil has_type_prims]
  obtain a pa em mm mg b1 b2 b3 yc wa where f: "vs = [(''admin'', VKey a), (''pending_admin'', pa), (''ext_mint'', VKey em),
      (''m_mint'', VKey mm), (''m_earn_global_account'', mg), (''bump'', b1), (''m_vault_bump'', b2),
      (''ext_mint_authority_bump'', b3), (''yield_config'', yc), (''wrap_authorities'', VVec (map VKey wa))]"
    "length a = 32" "length em = 32" "length mm = 32" "list_all (\<lambda>b. length b = 32) wa"
    "has_type 4 ?T (Defined ''YieldConfig'') yc"
    using fields by (auto simp: Suc_steps simp del: has_type.simps)
  obtain c ix t ea where "bindE (js_prop ''yield_variant'' (Some yc)) as_variant = Inr c"
    "c \<in> {''NoYield'', ''ScaledUi'', ''Crank''}"
    "bindE (js_prop ''last_ext_index'' (Some yc)) (as_bn_opt B) = Inr ix" "ix = None \<longleftrightarrow> w = 0"
    "bindE (js_prop ''timestamp'' (Some yc)) (as_bn_opt B) = Inr t" "t = None \<longleftrightarrow> w \<noteq> 2"
    "bindE (js_prop ''earn_authority'' (Some yc)) as_key_opt = Inr ea" "ea = None \<longleftrightarrow> w \<noteq> 2"
    "pred_option (\<lambda>b. length b = 32) ea"
    by (rule config_typed [OF assms(1) f(6), of B])
  then show ?thesis
    using f by (simp add: read_global_def vs(1) js_prop_def mapE_keys global_typed_def)
qed

text \<open>
  The byte of the variant: in an account that encodes a value, the byte \<open>loadGlobal\<close> looks at is the
  number of the enum in the value.
\<close>

lemma concat_opt_zip_Cons:
  "concat_opt (map (\<lambda>((_, t), (_, x)). f t x) (zip ((k, t) # fs) ((k', x) # vs))) = Some bs \<longleftrightarrow>
    (\<exists>b cs. f t x = Some b \<and> concat_opt (map (\<lambda>((_, t), (_, x)). f t x) (zip fs vs)) = Some cs \<and> bs = b @ cs)"
  by (auto split: option.splits)

lemma map_fst_Cons: "map fst vs = k # ks \<longleftrightarrow> (\<exists>x xs. vs = (k, x) # xs \<and> map fst xs = ks)"
  by (cases vs) auto

lemma encoded_config:
  assumes "w < 3" "encode 4 (idl_types (variant_idl w)) (Defined ''YieldConfig'') yc = Some bs"
  obtains c ys cs where "yc = VStruct ys" "map_of ys ''yield_variant'' = Some (VEnum c)"
    "c \<in> {''NoYield'', ''ScaledUi'', ''Crank''}"
    "bs = of_int (index_of [''NoYield'', ''ScaledUi'', ''Crank''] c) # cs"
proof -
  define T where "T = idl_types (variant_idl w)"
  have T: "map_of T ''YieldConfig'' = Some (Struct (yieldVariants ! unat w))"
    "map_of T ''YieldVariant'' = Some (Enum [''NoYield'', ''ScaledUi'', ''Crank''])"
    using assms(1) by (simp_all add: T_def variant_idl_types)
  have h: "encode (Suc 3) T (Defined ''YieldConfig'') yc = Some bs" using assms(2) by (simp add: T_def eval_nat_numeral)
  obtain ys where ys: "yc = VStruct ys" "map fst ys = map fst (yieldVariants ! unat w)"
    "concat_opt (map (\<lambda>((_, t), (_, x)). encode 3 T t x) (zip (yieldVariants ! unat w) ys)) = Some bs"
    by (rule encode_struct_fields [OF h T(1)])
  have "unat w = 0 \<or> unat w = 1 \<or> unat w = 2" using assms(1) by (simp add: word_less_nat_alt) arith
  then obtain fs where "yieldVariants ! unat w = (''yield_variant'', Defined ''YieldVariant'') # fs"
    by (auto simp: yieldVariants_def)
  then obtain x xs b cs where x: "ys = (''yield_variant'', x) # xs"
    "encode 3 T (Defined ''YieldVariant'') x = Some b" "bs = b @ cs"
    using ys(2,3) unfolding map_fst_Cons list.map fst_conv by (auto simp: concat_opt_zip_Cons simp del: zip_Cons_Cons)
  have "\<exists>c. x = VEnum c \<and> c \<in> {''NoYield'', ''ScaledUi'', ''Crank''} \<and>
      b = [of_int (index_of [''NoYield'', ''ScaledUi'', ''Crank''] c)]"
    using x(2) unfolding encode_3 by (auto simp: T(2) split: bval.splits if_splits)
  with x ys(1) show thesis using that by fastforce
qed

lemma encoded_variant:
  assumes "w < 3" "encode 5 (idl_types (variant_idl w)) (Defined ''ExtGlobalV2'') v = Some used"
    and "d = disc @ used @ rest" "length disc = 8"
  obtains vs ys c where "v = VStruct vs" "map_of vs ''yield_config'' = Some (VStruct ys)"
    "map_of ys ''yield_variant'' = Some (VEnum c)" "c \<in> {''NoYield'', ''ScaledUi'', ''Crank''}"
    "byte_at d (yield_type_offset d) = Some (of_int (index_of [''NoYield'', ''ScaledUi'', ''Crank''] c))"
proof -
  let ?T = "idl_types (variant_idl w)"
  have T: "map_of ?T ''ExtGlobalV2'' = Some (Struct ext_global_fields)"
    using assms(1) by (simp add: variant_idl_types)
  have h: "encode (Suc 4) ?T (Defined ''ExtGlobalV2'') v = Some used" using assms(2) by (simp add: eval_nat_numeral)
  obtain vs where vs: "v = VStruct vs" "map fst vs = map fst ext_global_fields"
    "concat_opt (map (\<lambda>((_, t), (_, x)). encode 4 ?T t x) (zip ext_global_fields vs)) = Some used"
    by (rule encode_struct_fields [OF h T])
  note prims = encode_prims [of 3, unfolded Suc_steps]
  obtain a pa em mm mg b1 b2 b3 yc wa pb yb wb where
    f: "vs = [(''admin'', VKey a), (''pending_admin'', pa), (''ext_mint'', VKey em),
      (''m_mint'', VKey mm), (''m_earn_global_account'', VKey mg), (''bump'', VU8 b1), (''m_vault_bump'', VU8 b2),
      (''ext_mint_authority_bump'', VU8 b3), (''yield_config'', yc), (''wrap_authorities'', wa)]"
    and l: "length a = 32" "length em = 32" "length mm = 32" "length mg = 32"
    and pb: "encode 4 ?T (TOption (Prim ''pubkey'')) pa = Some pb"
    and yb: "encode 4 ?T (Defined ''YieldConfig'') yc = Some yb"
    and u: "used = a @ pb @ em @ mm @ mg @ [b1, b2, b3] @ yb @ wb"
    using vs(2,3) unfolding ext_global_fields_def list.map fst_conv map_fst_Cons
    by (auto simp: concat_opt_zip_Cons prims simp del: zip_Cons_Cons encode.simps concat_opt.simps)
  obtain c ys cs where c: "yc = VStruct ys" "map_of ys ''yield_variant'' = Some (VEnum c)"
    "c \<in> {''NoYield'', ''ScaledUi'', ''Crank''}"
    "yb = of_int (index_of [''NoYield'', ''ScaledUi'', ''Crank''] c) # cs"
    by (rule encoded_config [OF assms(1) yb])
  have d: "d = (disc @ a) @ pb @ em @ mm @ mg @ [b1, b2, b3] @
      of_int (index_of [''NoYield'', ''ScaledUi'', ''Crank''] c) # cs @ wb @ rest"
    using assms(3) u c(4) by simp
  have "pb = [0] \<or> (\<exists>b. pb = 1 # b \<and> length b = 32)"
    using pb unfolding encode_4 by (auto simp: encode_prims [of 2, unfolded Suc_steps] split: bval.splits option.splits)
  then have "byte_at d (yield_type_offset d) = Some (of_int (index_of [''NoYield'', ''ScaledUi'', ''Crank''] c))"
  proof
    assume p: "pb = [0]"
    have "d ! 40 = 0" "d ! 140 = of_int (index_of [''NoYield'', ''ScaledUi'', ''Crank''] c)" "140 < length d"
      unfolding d by (simp_all add: nth_append p l assms(4))
    then show ?thesis by (simp add: yield_type_offset_def byte_at_def)
  next
    assume "\<exists>b. pb = 1 # b \<and> length b = 32"
    then obtain b where p: "pb = 1 # b" "length b = 32" by blast
    have "d ! 40 = 1" "d ! 172 = of_int (index_of [''NoYield'', ''ScaledUi'', ''Crank''] c)" "172 < length d"
      unfolding d by (simp_all add: nth_append p l assms(4))
    then show ?thesis by (simp add: yield_type_offset_def byte_at_def)
  qed
  moreover have "map_of vs ''yield_config'' = Some (VStruct ys)" by (simp add: f c(1))
  ultimately show thesis using that [OF vs(1) _ c(2,3)] by blast
qed

text \<open>So the variant that is returned is the one the layout was chosen by.\<close>

lemma variant_enums_ok: "w < 3 \<Longrightarrow> enums_ok (idl_types (variant_idl w))"
  by (simp add: variant_idl_types enums_ok_def)

lemma read_global_variant:
  assumes "exact_coder decode_account" "byte_at d (yield_type_offset d) = Some w" "w < 3"
    and "decode_account (variant_idl w) ''ExtGlobalV2'' d = Inr v"
  shows "\<exists>g. read_global B v = Inr g \<and> global_typed w g \<and>
    w = of_int (index_of [''NoYield'', ''ScaledUi'', ''Crank''] (variant g))"
proof -
  note ok = variant_enums_ok [OF assms(3)]
  obtain g where g: "read_global B v = Inr g" "global_typed w g"
    using read_global_typed [OF assms(3) exact_coder.decode_account_typed [OF assms(1) ok assms(4)]] by blast
  obtain disc used rest where e: "map_of (idl_accounts (variant_idl w)) ''ExtGlobalV2'' = Some disc"
    "d = disc @ used @ rest" "encode 5 (idl_types (variant_idl w)) (Defined ''ExtGlobalV2'') v = Some used"
    using exact_coder.decode_account_exact [OF assms(1) ok assms(4)] by blast
  have "length disc = 8" using e(1) by (auto simp: variant_idl_types(3) [OF assms(3)])
  then obtain vs ys c where "v = VStruct vs" "map_of vs ''yield_config'' = Some (VStruct ys)"
    "map_of ys ''yield_variant'' = Some (VEnum c)"
    and b: "byte_at d (yield_type_offset d) = Some (of_int (index_of [''NoYield'', ''ScaledUi'', ''Crank''] c))"
    by (rule encoded_variant [OF assms(3) e(3,2)])
  then have "variant g = c" using g(1) by (auto simp: read_global_def bindE_eq_Inr_iff js_prop_def)
  then show ?thesis using g b assms(2) by simp
qed

end
