(* ===== verification/SdkProperties.thy ===== *)
theory SdkProperties
  imports EarnProperties IdlTypes
begin

text \<open>
  The properties of the account loader, the reward logs, the index sync, the earner queries, the
  manager's instructions and the transaction builder, with their witnesses.
\<close>

section \<open>The global account\<close>

text \<open>
  C24. \<open>loadGlobal\<close> reads back the global account for all three yield variants, with and without
  a pending admin: the byte offsets 140 and 172 of the variant are those of the Borsh layout,
  and the layout chosen by it is the one the account was written with.
\<close>

theorem loadGlobal_roundtrip:
  assumes "borsh_coder decode_account" "valid_global g"
    and "getAccountInfo rpc (findProgramAddress W [bytes_of ''global''] program) =
      Inr (Some ([116, 209, 219, 83, 70, 143, 55, 127] @ ext_global_bytes g @ rest))"
  shows "loadGlobal B W decode_account rpc program = Inr (global_of B g)"
  using assms by (rule loadGlobal_decodes)

definition toy_ext_global :: ExtGlobalV2 where
  "toy_ext_global = \<lparr>g_admin = replicate 32 1, g_pending_admin = Some (replicate 32 2),
     g_ext_mint = replicate 32 3, g_m_mint = replicate 32 4, g_m_earn_global = replicate 32 5,
     g_bump = 255, g_m_vault_bump = 254, g_ext_mint_authority_bump = 253,
     g_yield_config = Crank (replicate 32 6) 100 101 102, g_wrap_authorities = [replicate 32 7]\<rparr>"

definition toy_account_rpc :: account_rpc where
  "toy_account_rpc = \<lparr>getAccountInfo = (\<lambda>_. Inr (Some ([116, 209, 219, 83, 70, 143, 55, 127] @
     ext_global_bytes toy_ext_global @ [])))\<rparr>"

theorem loadGlobal_roundtrip_witness:
  "loadGlobal int_bn toy_web3 ref_decoder toy_account_rpc [7] =
     Inr \<lparr>admin = replicate 32 1, extMint = replicate 32 3, mMint = replicate 32 4,
       variant = ''Crank'', wrapAuthorities = [replicate 32 7], index = Some 101,
       timestamp = Some 102, earnAuthority = Some (replicate 32 6)\<rparr>"
proof -
  have "valid_global toy_ext_global" by (simp add: valid_global_def toy_ext_global_def)
  then have "loadGlobal int_bn toy_web3 ref_decoder toy_account_rpc [7] =
      Inr (global_of int_bn toy_ext_global)"
    by (rule loadGlobal_roundtrip [OF ref_coder.borsh_coder_axioms]) (simp add: toy_account_rpc_def)
  then show ?thesis by (simp add: global_of_def toy_ext_global_def int_bn_simps)
qed

text \<open>
  An account whose variant byte is 3 or more is refused before anything is decoded.
\<close>

theorem loadGlobal_unknown_variant:
  assumes "getAccountInfo rpc (findProgramAddress W [bytes_of ''global''] program) = Inr (Some d)"
    and "byte_at d (yield_type_offset d) = Some w" "3 \<le> w"
  shows "loadGlobal B W decode_account rpc program =
    Inl (Error ''Invalid yield variant, must be 0, 1, or 2'')"
  using assms by (rule loadGlobal_bad_variant)

theorem loadGlobal_unknown_variant_witness:
  "loadGlobal int_bn toy_web3 ref_decoder
     \<lparr>getAccountInfo = (\<lambda>_. Inr (Some (replicate 140 0 @ [9])))\<rparr> [7] =
   Inl (Error ''Invalid yield variant, must be 0, 1, or 2'')"
  by (rule loadGlobal_unknown_variant [of _ _ _ "replicate 140 0 @ [9]" 9])
    (simp_all add: byte_at_def yield_type_offset_def nth_append)

text \<open>
  C23. Whatever bytes the account holds, \<open>loadGlobal\<close> returns what its type declares: when the
  account decodes under the IDL chosen by the byte at the offset it computes, every property it
  reads is there, the keys have 32 bytes, and the variant it returns is one of the three names; the
  index is there exactly for \<open>ScaledUi\<close> and \<open>Crank\<close>, the timestamp and the earn authority exactly for
  \<open>Crank\<close>.  The byte that chooses the layout is therefore the variant of the decoded value, with and
  without a pending admin; a decoder of Borsh accepts only canonical encodings (\<open>exact_coder\<close>).
\<close>

theorem loadGlobal_typed:
  assumes "exact_coder decode_account"
    and "getAccountInfo rpc (findProgramAddress W [bytes_of ''global''] program) = Inr (Some d)"
    and "byte_at d (yield_type_offset d) = Some w" "w < 3"
    and "decode_account (variant_idl w) ''ExtGlobalV2'' d = Inr v"
  shows "\<exists>g. loadGlobal B W decode_account rpc program = Inr g \<and>
    length (admin g) = 32 \<and> length (extMint g) = 32 \<and> length (mMint g) = 32 \<and>
    variant g \<in> {''NoYield'', ''ScaledUi'', ''Crank''} \<and> list_all (\<lambda>b. length b = 32) (wrapAuthorities g) \<and>
    (GlobalAccountData.index g \<noteq> None \<longleftrightarrow> variant g = ''ScaledUi'' \<or> variant g = ''Crank'') \<and>
    (GlobalAccountData.timestamp g \<noteq> None \<longleftrightarrow> variant g = ''Crank'') \<and>
    (earnAuthority g \<noteq> None \<longleftrightarrow> variant g = ''Crank'') \<and> pred_option (\<lambda>b. length b = 32) (earnAuthority g)"
proof -
  obtain g where g: "read_global B v = Inr g" "global_typed w g"
    and w: "w = of_int (index_of [''NoYield'', ''ScaledUi'', ''Crank''] (variant g))"
    using read_global_variant [OF assms(1,3-5)] by blast
  have "loadGlobal B W decode_account rpc program = Inr g"
    using assms(2,3,5) g(1) by (simp add: loadGlobal_def Let_def variant_idl_types(1) [OF assms(4)])
  moreover have "variant g \<in> {''NoYield'', ''ScaledUi'', ''Crank''}" using g(2) by (simp add: global_typed_def)
  ultimately show ?thesis using g(2) w by (auto simp: global_typed_def index_of_def)
qed

theorem loadGlobal_typed_witness:
  "\<exists>g. loadGlobal int_bn toy_web3 ref_decoder toy_account_rpc [7] = Inr g \<and> length (admin g) = 32 \<and>
    (GlobalAccountData.timestamp g \<noteq> None \<longleftrightarrow> variant g = ''Crank'')"
proof -
  let ?w = "variant_byte (g_yield_config toy_ext_global)"
  let ?d = "[116, 209, 219, 83, 70, 143, 55, 127] @ ext_global_bytes toy_ext_global"
  have v: "valid_global toy_ext_global" by (simp add: valid_global_def toy_ext_global_def)
  have b: "byte_at ?d (yield_type_offset ?d) = Some ?w"
    by (rule yield_type_byte [OF v, where disc = "[116, 209, 219, 83, 70, 143, 55, 127]" and rest = "[]"]) simp_all
  have e: "ref_decoder (variant_idl ?w) ''ExtGlobalV2'' ?d = Inr (ext_global_value toy_ext_global)"
    using ref_coder.decode_account_ok [OF _ encode_ext_global [OF v], where rest = "[]"]
    by (simp add: variant_idl_types(3) [OF variant_byte_less])
  have a: "getAccountInfo toy_account_rpc (findProgramAddress toy_web3 [bytes_of ''global''] [7]) = Inr (Some ?d)"
    by (simp add: toy_account_rpc_def)
  show ?thesis
    using loadGlobal_typed [OF ref_exact.exact_coder_axioms a b variant_byte_less e, of int_bn] by blast
qed

section \<open>Logs and the index sync\<close>

text \<open>
  C26. The parser of the claim logs reads back every \<open>RewardsClaim\<close> event in order, wherever the
  other lines of the log stand, between, before or after the events: the line the runtime prints for
  an event (IDL discriminator and Borsh fields in base 64) has the prefix searched for, and its token
  account, amount and fee are found at the offsets 8, 72 and 96; a line without the prefix is skipped.
\<close>

theorem reward_logs_roundtrip:
  assumes "\<And>b. length b = 32 \<Longrightarrow> new_PublicKey W b = Inr b" "\<And>e. Inr e \<in> set xs \<Longrightarrow> valid_claim e"
    and "\<And>l. Inl l \<in> set xs \<Longrightarrow> \<not> starts_with ''Program data: VKjUbMsK'' l"
  shows "getRewardAmounts B W (map (\<lambda>x. case x of Inl l \<Rightarrow> l | Inr e \<Rightarrow> event_line e) xs) =
    Inr [reward_of B e. Inr e \<leftarrow> xs]"
proof -
  have f: "filter (starts_with ''Program data: VKjUbMsK'') (map (\<lambda>x. case x of Inl l \<Rightarrow> l | Inr e \<Rightarrow> event_line e) xs) =
      map event_line [e. Inr e \<leftarrow> xs]"
    using assms(2,3) by (induction xs) (auto simp: event_line_prefix split: sum.split)
  have "\<forall>e \<in> set [e. Inr e \<leftarrow> xs]. valid_claim e" using assms(2) by (auto split: sum.splits)
  from getRewardAmounts_events [OF assms(1) this f]
  have "getRewardAmounts B W (map (\<lambda>x. case x of Inl l \<Rightarrow> l | Inr e \<Rightarrow> event_line e) xs) =
      Inr (map (reward_of B) [e. Inr e \<leftarrow> xs])" by simp
  moreover have "map (reward_of B) [e. Inr e \<leftarrow> xs] = [reward_of B e. Inr e \<leftarrow> xs]"
    by (induction xs) (simp_all split: sum.split)
  ultimately show ?thesis by simp
qed

theorem reward_logs_roundtrip_witness:
  "getRewardAmounts int_bn toy_web3
     [''Program log: x'', event_line toy_claim_event, ''Program data: other'', event_line toy_claim_event, ''Program 7 success''] =
   Inr [\<lparr>rw_tokenAccount = replicate 32 5, rw_user = 300, rw_fee = 20\<rparr>,
        \<lparr>rw_tokenAccount = replicate 32 5, rw_user = 300, rw_fee = 20\<rparr>]"
proof -
  let ?xs = "[Inl ''Program log: x'', Inr toy_claim_event, Inl ''Program data: other'', Inr toy_claim_event,
    Inl ''Program 7 success''] :: (string + rewards_claim) list"
  have "getRewardAmounts int_bn toy_web3 (map (\<lambda>x. case x of Inl l \<Rightarrow> l | Inr e \<Rightarrow> event_line e) ?xs) =
      Inr [reward_of int_bn e. Inr e \<leftarrow> ?xs]"
    by (rule reward_logs_roundtrip) (auto simp: toy_web3_simps toy_event_valid starts_with_def)
  then show ?thesis by (simp add: reward_of_def toy_claim_event_def int_bn_simps)
qed

text \<open>
  The index sync: \<open>NoYield\<close> throws; for \<open>ScaledUi\<close> the hand-built instruction goes to the
  program, carries the discriminator that the IDL gives to \<open>sync\<close> and to no other instruction,
  names no signer, and writes to the global account and the mint only.
\<close>

lemma sync_discriminator_unique:
  "map ii_name (filter (\<lambda>i. ii_discriminator i = sync_discriminator) (idl_instructions MExt)) = [''sync'']"
  by (simp add: sync_discriminator_def MExt_def
      ix_acceptAdmin_def ix_addEarnManager_def ix_addEarner_def ix_addWrapAuthority_def
      ix_claimFor_def ix_configureEarnManager_def ix_initialize_def
      ix_removeEarnManager_def ix_removeEarner_def ix_removeOrphanedEarner_def
      ix_removeWrapAuthority_def ix_revokeAdminTransfer_def ix_setEarnAuthority_def
      ix_setRecipient_def ix_sync_def ix_transferAdmin_def ix_transferEarner_def
      ix_unwrap_def ix_wrap_def)

theorem index_sync_outcome:
  "case buildIndexSyncInstruction W s of
     Inl e \<Rightarrow> variant (ea_global s) \<noteq> ''ScaledUi''
   | Inr ix \<Rightarrow> variant (ea_global s) \<noteq> ''NoYield'' \<and>
       (if variant (ea_global s) = ''ScaledUi'' then
          txi_programId ix = ea_program s \<and>
          map ii_name (filter (\<lambda>i. ii_discriminator i = txi_data ix) (idl_instructions MExt)) = [''sync''] \<and>
          list_all (\<lambda>k. \<not> am_isSigner k) (txi_keys ix) \<and>
          map am_pubkey (filter am_isWritable (txi_keys ix)) =
            [findProgramAddress W [bytes_of ''global''] (ea_program s), extMint (ea_global s)]
        else variant (ea_global s) = ''Crank'')"
proof -
  consider (scaled) "variant (ea_global s) = ''ScaledUi''" | (none) "variant (ea_global s) = ''NoYield''"
    | (crank) "variant (ea_global s) = ''Crank''"
    | (other) "variant (ea_global s) \<notin> {''ScaledUi'', ''NoYield'', ''Crank''}" by blast
  then show ?thesis
  proof cases
    case scaled
    then have "buildIndexSyncInstruction W s = Inr (scaled_ui_sync W (ea_program s) (ea_global s))"
      by (simp add: buildIndexSyncInstruction_def)
    then show ?thesis using scaled
      by (simp add: scaled_ui_sync_def Let_def sync_discriminator_unique)
  qed (simp_all add: buildIndexSyncInstruction_def split: sum.split)
qed

section \<open>Earners and managers\<close>

text \<open>
  C34. \<open>Earner.fromUserAddress\<close> returns exactly the earner accounts of the program whose user is
  the given key: the \<open>memcmp\<close> offset 25 is where the Borsh layout of the IDL puts the user.
\<close>

theorem earners_of_user:
  assumes "earner_accounts W api chain b58" "length usr = 32"
    and "Earner_fromUserAddress W api usr p = Inr es"
  shows "es = map (\<lambda>(pk, d, e). new_Earner pk e p) (filter (\<lambda>(pk, d, e). user e = usr) (chain p))"
  using assms(3,2) by (rule earner_accounts.fromUserAddress_exact [OF assms(1)])

definition toy_earner_account :: "byte \<Rightarrow> int EarnerData" where
  "toy_earner_account u = \<lparr>lastClaimIndex = 10, lastClaimTimestamp = 3, er_bump = 0,
     user = replicate 32 u, userTokenAccount = replicate 32 9,
     er_earnManager = \<lparr>ref = 1, toBuffer = replicate 32 8\<rparr>, recipientTokenAccount = None\<rparr>"

definition toy_accounts :: "buffer \<Rightarrow> (buffer \<times> int EarnerData) list" where
  "toy_accounts p = [([1], toy_earner_account 1), ([2], toy_earner_account 2)]"

theorem earners_of_user_witness:
  "\<exists>es. Earner_fromUserAddress text_web3 (ref_api toy_accounts) (replicate 32 2) [7] = Inr es \<and>
     es = map (\<lambda>(pk, d, e). new_Earner pk e [7])
       (filter (\<lambda>(pk, d, e). user e = replicate 32 2) (ref_chain toy_accounts [7]))"
proof -
  obtain es where "Earner_fromUserAddress text_web3 (ref_api toy_accounts) (replicate 32 2) [7] = Inr es"
    by (auto simp: Earner_fromUserAddress_def ref_api_def)
  with earners_of_user [OF ref_earners.earner_accounts_axioms _ this] show ?thesis by simp
qed

text \<open>
  Adding an earner without a token account: the instruction list is the \<open>addEarner\<close> call on
  the associated token account of the user for the extension's mint, preceded by the creation of
  that account exactly when the token program cannot read it.
\<close>

theorem add_earner_creates_missing_account:
  assumes "loadGlobal B W decode_account rpc (mgr_program m) = Inr global"
    and "ata = associatedTokenAddress W (extMint global) usr True (TOKEN_2022_PROGRAM_ID W)"
    and "buildAddEarnerInstruction B W decode_account rpc api m usr None = Inr ixs"
  shows "\<exists>ix. anchor W (mgr_program m)
      \<lparr>call_method = ''addEarner'', call_args = [ArgKey usr],
       call_accounts = [(''signer'', Some (manager m)), (''userTokenAccount'', Some ata)]\<rparr> = Inr ix \<and>
    ixs = (if isl (spl_getAccount api ata)
      then [createAssociatedTokenAccount W (manager m) ata usr (extMint global) (TOKEN_2022_PROGRAM_ID W), ix]
      else [ix])"
  using assms by (auto simp: buildAddEarnerInstruction_def bindE_eq_Inr_iff Let_def isl_def split: sum.splits)

definition toy_manager :: EarnManager where
  "toy_manager = \<lparr>mgr_program = [7], manager = [5], mgr_pubkey = [6],
     mgr_data = \<lparr>isActive = True, feeBps = 15, feeTokenAccount = [8], em_bump = 0, em_earnManager = [5]\<rparr>\<rparr>"

theorem add_earner_creates_missing_account_witness:
  "\<exists>ixs. buildAddEarnerInstruction int_bn toy_web3 ref_decoder toy_account_rpc (ref_api toy_accounts)
     toy_manager [4] None = Inr ixs \<and> length ixs = 2"
proof -
  obtain g :: "int GlobalAccountData" where g:
    "loadGlobal int_bn toy_web3 ref_decoder toy_account_rpc (mgr_program toy_manager) = Inr g"
    using loadGlobal_decodes [OF ref_coder.borsh_coder_axioms, of toy_ext_global toy_account_rpc
        toy_web3 "[7]" "[]" int_bn]
    by (auto simp: toy_account_rpc_def toy_manager_def valid_global_def toy_ext_global_def)
  then obtain ixs where i: "buildAddEarnerInstruction int_bn toy_web3 ref_decoder toy_account_rpc
      (ref_api toy_accounts) toy_manager [4] None = Inr ixs"
    by (simp add: buildAddEarnerInstruction_def toy_web3_simps Let_def)
  have "isl (spl_getAccount (ref_api toy_accounts) a)" for a by (simp add: ref_api_def)
  with add_earner_creates_missing_account [OF g refl i] i show ?thesis by auto
qed

section \<open>Transactions\<close>

text \<open>
  C35. A built transaction holds the compute budget instructions, then the given instructions
  unchanged; the unit limit is the default or, after a simulation that consumed \<open>u\<close> units
  (below \<open>2 ^ 46\<close>), exactly \<open>\<lfloor>11 u / 10\<rfloor>\<close>, in spite of the product in double precision.
\<close>

theorem built_transaction_contents:
  assumes "buildTransaction W rpc addrs ixs payer fee sim luts = (Inr tx, luts')"
    and "\<And>t u. simulate_units rpc t = Inr (Some u) \<Longrightarrow> u < 2 ^ 46"
  shows "payerKey (tx_message tx) = payer \<and> tx_tables tx = luts' \<and>
    (\<exists>u. instructions (tx_message tx) = setComputeUnitPrice W fee # setComputeUnitLimit W (int u) # ixs \<and>
      (u = DEFAULT_COMPUTE_BUDGET \<or> (\<exists>v t. sim \<and> simulate_units rpc t = Inr (Some v) \<and>
         instructions (tx_message t) = ixs \<and> u = 11 * v div 10)))"
  using buildTransaction_contents [OF assms(1)] floor_times_1_1_exact assms(2) by metis

theorem built_transaction_contents_witness:
  "\<exists>tx. fst (buildTransaction (toy_web3 :: int web3) toy_rpc toy_luts [] [9] 5 True []) = Inr tx \<and>
     tx_tables tx = [[12], [11]] \<and> payerKey (tx_message tx) = [9]"
proof -
  obtain tx where tx: "buildTransaction (toy_web3 :: int web3) toy_rpc toy_luts [] [9] 5 True [] =
      (Inr tx, [[12], [11]])"
    by (simp add: buildTransaction_def getAddressLookupTables_def bindA_def toy_rpc_def toy_luts_def Let_def)
  have "simulate_units toy_rpc t = Inr (Some u) \<Longrightarrow> u < 2 ^ 46" for t u by (simp add: toy_rpc_def)
  from built_transaction_contents [OF tx this] tx show ?thesis by auto
qed

end
