(* ===== verification/EvmCaller.thy ===== *)
theory EvmCaller
  imports Web3
begin

text \<open>
  \<open>sdk/src/evm_caller.ts\<close> and the addresses of \<open>sdk/src/index.ts\<close>: reads of two Ethereum
  contracts.  The contract client is the argument \<open>evm\<close>; hexadecimal decoding is Node's
  (it stops at the first pair that is not two digits).
\<close>

section \<open>Hexadecimal\<close>

definition hex_value :: "char \<Rightarrow> nat option" where
  "hex_value c = (let n = of_char c :: nat in
     if 48 \<le> n \<and> n \<le> 57 then Some (n - 48)
     else if 97 \<le> n \<and> n \<le> 102 then Some (n - 87)
     else if 65 \<le> n \<and> n \<le> 70 then Some (n - 55)
     else None)"

fun hex_decode :: "string \<Rightarrow> buffer" where
  "hex_decode (a # b # cs) = (case (hex_value a, hex_value b) of
     (Some x, Some y) \<Rightarrow> of_nat (16 * x + y) # hex_decode cs | _ \<Rightarrow> [])"
| "hex_decode _ = []"

definition hex_digit :: "nat \<Rightarrow> char" where
  "hex_digit n = char_of (if n < 10 then n + 48 else n + 87)"

definition hex_encode :: "buffer \<Rightarrow> string" where
  "hex_encode bs = concat (map (\<lambda>b. [hex_digit (unat b div 16), hex_digit (unat b mod 16)]) bs)"

lemma hex_value_digit: "n < 16 \<Longrightarrow> hex_value (hex_digit n) = Some n"
  by (auto simp: hex_value_def hex_digit_def of_char_of Let_def)

lemma hex_decode_encode: "hex_decode (hex_encode bs) = bs"
proof (induction bs)
  case Nil
  then show ?case by (simp add: hex_encode_def)
next
  case (Cons b bs)
  have "unat b < 256" using unsigned_less [of b] by simp
  then have d: "unat b div 16 < 16" "unat b mod 16 < 16" by auto
  have "(of_nat (16 * (unat b div 16) + unat b mod 16) :: byte) = b" by simp
  then show ?case using Cons d by (simp add: hex_encode_def hex_value_digit del: of_nat_add of_nat_mult)
qed

section \<open>Addresses and lists\<close>

definition ETH_M_ADDRESS :: string where
  "ETH_M_ADDRESS = ''0x866A2BF4E572CbcF37D5071A7a58503Bfb36be1b''"

definition ETH_MERKLE_TREE_BUILDER :: string where
  "ETH_MERKLE_TREE_BUILDER = ''0xCab755D715f312AD946d6982b8778BFAD7E322d7''"

definition ETH_MERKLE_TREE_BUILDER_DEVNET :: string where
  "ETH_MERKLE_TREE_BUILDER_DEVNET = ''0x050258e4761650ad774b5090a5DA0e204348Eb48''"

datatype registrar_list = Earners | EarnManagers

fun REGISTRAR_LISTS :: "registrar_list \<Rightarrow> string" where
  "REGISTRAR_LISTS Earners = ''0x736f6c616e612d6561726e657273000000000000000000000000000000000000''"
| "REGISTRAR_LISTS EarnManagers = ''0x736f6c616e612d6561726e2d6d616e6167657273000000000000000000000000''"

section \<open>The contracts\<close>

record abi_function =
  abi_inputs :: "(string \<times> string) list"
  abi_name :: string
  abi_outputs :: "(string \<times> string) list"

definition merkle_abi :: "abi_function list" where
  "merkle_abi =
     [\<lparr>abi_inputs = [(''list'', ''bytes32'')], abi_name = ''getList'', abi_outputs = [(''list'', ''bytes32[]'')]\<rparr>,
      \<lparr>abi_inputs = [(''list'', ''bytes32'')], abi_name = ''getRoot'', abi_outputs = [(''root'', ''bytes32'')]\<rparr>]"

definition m_token_abi :: "abi_function list" where
  "m_token_abi =
     [\<lparr>abi_inputs = [], abi_name = ''currentIndex'', abi_outputs = [(''currentIndex'', ''uint256'')]\<rparr>,
      \<lparr>abi_inputs = [], abi_name = ''earnerRate'', abi_outputs = [(''earnerRate'', ''uint32'')]\<rparr>]"

text \<open>
  A read names the contract, its ABI, the function and the arguments; the result has the type of
  the function's output.
\<close>

record evm =
  read_bytes32 :: "string \<Rightarrow> abi_function list \<Rightarrow> string \<Rightarrow> string list \<Rightarrow> string result"
  read_bytes32_list :: "string \<Rightarrow> abi_function list \<Rightarrow> string \<Rightarrow> string list \<Rightarrow> string list result"
  read_uint :: "string \<Rightarrow> abi_function list \<Rightarrow> string \<Rightarrow> string list \<Rightarrow> int result"

section \<open>The class\<close>

record EvmCaller =
  client :: evm
  mTokenAddress :: string
  merkleTreeAddress :: string

definition new_EvmCaller :: "evm \<Rightarrow> string option \<Rightarrow> string option \<Rightarrow> EvmCaller" where
  "new_EvmCaller c m t =
     \<lparr>client = c,
      mTokenAddress = (case m of Some a \<Rightarrow> a | None \<Rightarrow> ETH_M_ADDRESS),
      merkleTreeAddress = (case t of Some a \<Rightarrow> a | None \<Rightarrow> ETH_MERKLE_TREE_BUILDER)\<rparr>"

definition getMerkleRoot :: "EvmCaller \<Rightarrow> registrar_list \<Rightarrow> string result" where
  "getMerkleRoot c l = read_bytes32 (client c) (merkleTreeAddress c) merkle_abi ''getRoot'' [REGISTRAR_LISTS l]"

definition getList :: "'n web3 \<Rightarrow> EvmCaller \<Rightarrow> registrar_list \<Rightarrow> buffer list result" where
  "getList W c l =
     bindE (read_bytes32_list (client c) (merkleTreeAddress c) merkle_abi ''getList'' [REGISTRAR_LISTS l])
       (mapE (\<lambda>a. new_PublicKey W (hex_decode (drop 2 a))))"

definition evm_getEarners :: "'n web3 \<Rightarrow> EvmCaller \<Rightarrow> buffer list result" where
  "evm_getEarners W c = getList W c Earners"

definition evm_getManagers :: "'n web3 \<Rightarrow> EvmCaller \<Rightarrow> buffer list result" where
  "evm_getManagers W c = getList W c EarnManagers"

definition getCurrentIndex :: "'n bn_ops \<Rightarrow> EvmCaller \<Rightarrow> 'n result" where
  "getCurrentIndex B c =
     bindE (read_uint (client c) (mTokenAddress c) m_token_abi ''currentIndex'' []) (\<lambda>n.
       Inr (bn_of_string B n))"

definition getEarnerRate :: "'n bn_ops \<Rightarrow> EvmCaller \<Rightarrow> 'n result" where
  "getEarnerRate B c =
     bindE (read_uint (client c) (mTokenAddress c) m_token_abi ''earnerRate'' []) (\<lambda>n.
       Inr (bn_of_string B n))"

lemma getList_keys:
  assumes "read_bytes32_list (client c) (merkleTreeAddress c) merkle_abi ''getList'' [REGISTRAR_LISTS l] =
      Inr (map (\<lambda>k. ''0x'' @ hex_encode k) ks)"
    and "\<And>b. length b = 32 \<Longrightarrow> new_PublicKey W b = Inr b" "\<forall>k \<in> set ks. length k = 32"
  shows "getList W c l = Inr ks"
proof -
  have "mapE (\<lambda>a. new_PublicKey W (hex_decode (drop 2 a))) (map (\<lambda>k. ''0x'' @ hex_encode k) ks) = Inr ks"
    using assms(3) by (induction ks) (simp_all add: hex_decode_encode assms(2))
  then show ?thesis by (simp add: getList_def assms(1))
qed

text \<open>The list names are ASCII texts padded with zeros to 32 bytes.\<close>

lemma registrar_list_names:
  "hex_decode (drop 2 (REGISTRAR_LISTS Earners)) = bytes_of ''solana-earners'' @ replicate 18 0"
  "hex_decode (drop 2 (REGISTRAR_LISTS EarnManagers)) = bytes_of ''solana-earn-managers'' @ replicate 12 0"
  by (simp_all add: hex_value_def bytes_of_def numeral_eq_Suc)

end
