(* ===== verification/Services.thy ===== *)
theory Services
  imports EarnAuth EvmCaller
begin

text \<open>
  \<open>services/shared\<close>: the environment of the services, the balance check, the Slack summary and
  the freshness check of the database.  Keypair parsing, clients and HTTP are arguments.  A
  variable of the environment that is unset or empty is false, as in the source.
\<close>

section \<open>Numbers as text\<close>

fun decimal :: "nat \<Rightarrow> string" where
  "decimal n = (if n < 10 then [hex_digit n] else decimal (n div 10) @ [hex_digit (n mod 10)])"

declare decimal.simps [simp del]

definition decimal_int :: "int \<Rightarrow> string" where
  "decimal_int n = (if n < 0 then ''-'' @ decimal (nat (- n)) else decimal (nat n))"

section \<open>\<open>environment.ts\<close>\<close>

type_synonym process_env = "string \<Rightarrow> string option"

definition env_set :: "process_env \<Rightarrow> string \<Rightarrow> string option" where
  "env_set e k = (case e k of Some v \<Rightarrow> if v = [] then None else Some v | None \<Rightarrow> None)"

record TurnkeyEnvOption =
  tk_pubkey :: "string option"

record SquadsEnvOption =
  squadsPda :: buffer
  squadsVault :: buffer

record EnvOptions =
  isDevnet :: bool
  connection_url :: "string option"
  evmClient_url :: "string option"
  env_merkleTreeAddress :: string
  evmWallet :: "(string \<times> bool) option"
  signerPubkey :: buffer
  signer :: "buffer option"
  squads :: "SquadsEnvOption option"
  turnkey :: "TurnkeyEnvOption option"

text \<open>
  \<open>keypair_json\<close> and \<open>keypair_base64\<close> give the public key of the secret key in a text, or throw;
  \<open>key_of_text\<close> is \<open>new PublicKey(text)\<close> (an undefined text throws), \<open>check_evm_key\<close> is
  \<open>privateKeyToAccount\<close>, \<open>check_url\<close> the constructor of a connection.
\<close>

record env_services =
  keypair_json :: "string \<Rightarrow> buffer result"
  keypair_base64 :: "string \<Rightarrow> buffer result"
  key_of_text :: "string option \<Rightarrow> buffer result"
  check_evm_key :: "string \<Rightarrow> unit result"
  check_url :: "string option \<Rightarrow> unit result"

definition env_signer :: "env_services \<Rightarrow> process_env \<Rightarrow> buffer option result" where
  "env_signer S e =
     (case env_set e ''KEYPAIR'' of
        None \<Rightarrow> Inr None
      | Some k \<Rightarrow> (case keypair_json S k of
          Inr kp \<Rightarrow> Inr (Some kp)
        | Inl _ \<Rightarrow> bindE (keypair_base64 S k) (\<lambda>kp. Inr (Some kp))))"

definition env_turnkey :: "process_env \<Rightarrow> TurnkeyEnvOption option" where
  "env_turnkey e =
     (if env_set e ''TURNKEY_API_PRIVATE_KEY'' \<noteq> None \<and> env_set e ''TURNKEY_API_PUBLIC_KEY'' \<noteq> None
      then Some \<lparr>tk_pubkey = e ''TURNKEY_PUBKEY''\<rparr> else None)"

definition env_squads :: "env_services \<Rightarrow> process_env \<Rightarrow> SquadsEnvOption option result" where
  "env_squads S e =
     (case (env_set e ''SQUADS_PDA'', env_set e ''SQUADS_VAULT'') of
        (Some p, Some v) \<Rightarrow>
          bindE (key_of_text S (Some p)) (\<lambda>pda. bindE (key_of_text S (Some v)) (\<lambda>vault.
            Inr (Some \<lparr>squadsPda = pda, squadsVault = vault\<rparr>)))
      | _ \<Rightarrow> Inr None)"

definition getEnv :: "env_services \<Rightarrow> process_env \<Rightarrow> EnvOptions result" where
  "getEnv S e =
     bindE (env_signer S e) (\<lambda>sgn.
     let devnet = (e ''DEVNET'' = Some ''true'') in
     bindE (case env_set e ''EVM_KEY'' of
         None \<Rightarrow> Inr None
       | Some k \<Rightarrow> bindE (check_evm_key S k) (\<lambda>_. Inr (Some (k, devnet)))) (\<lambda>wallet.
     let tk = env_turnkey e in
     if wallet = None \<and> sgn = None \<and> tk = None
     then Inl (Error ''A signer or turnkey setup is required'')
     else
       bindE (env_squads S e) (\<lambda>sq.
       bindE (case sgn of Some k \<Rightarrow> Inr k
              | None \<Rightarrow> (case tk of Some t \<Rightarrow> key_of_text S (tk_pubkey t) | None \<Rightarrow> Inr zero_key)) (\<lambda>pk.
       bindE (check_url S (e ''RPC_URL'')) (\<lambda>_.
         Inr \<lparr>isDevnet = devnet, connection_url = e ''RPC_URL'', evmClient_url = e ''ETH_RPC_URL'',
           env_merkleTreeAddress =
             (if devnet then ETH_MERKLE_TREE_BUILDER_DEVNET else ETH_MERKLE_TREE_BUILDER),
           evmWallet = wallet, signerPubkey = pk, signer = sgn, squads = sq, turnkey = tk\<rparr>)))))"

lemma env_squads_Some:
  "env_squads S e = Inr sq \<Longrightarrow>
     sq \<noteq> None \<longleftrightarrow> env_set e ''SQUADS_PDA'' \<noteq> None \<and> env_set e ''SQUADS_VAULT'' \<noteq> None"
  by (auto simp: env_squads_def bindE_eq_Inr_iff split: option.splits)

lemma getEnv_Inr:
  assumes "getEnv S e = Inr opt"
  obtains sgn wallet sq pk where
    "env_signer S e = Inr sgn" "wallet \<noteq> None \<or> sgn \<noteq> None \<or> env_turnkey e \<noteq> None"
    "env_squads S e = Inr sq"
    "(case sgn of Some k \<Rightarrow> Inr k | None \<Rightarrow> (case env_turnkey e of Some t \<Rightarrow> key_of_text S (tk_pubkey t)
       | None \<Rightarrow> Inr zero_key)) = Inr pk"
    "opt = \<lparr>isDevnet = (e ''DEVNET'' = Some ''true''), connection_url = e ''RPC_URL'',
       evmClient_url = e ''ETH_RPC_URL'',
       env_merkleTreeAddress = (if e ''DEVNET'' = Some ''true'' then ETH_MERKLE_TREE_BUILDER_DEVNET
         else ETH_MERKLE_TREE_BUILDER),
       evmWallet = wallet, signerPubkey = pk, signer = sgn, squads = sq, turnkey = env_turnkey e\<rparr>"
proof -
  obtain sgn where sgn: "env_signer S e = Inr sgn" using assms by (auto simp: getEnv_def bindE_eq_Inr_iff)
  obtain wallet where w: "(case env_set e ''EVM_KEY'' of None \<Rightarrow> Inr None
       | Some k \<Rightarrow> bindE (check_evm_key S k) (\<lambda>_. Inr (Some (k, e ''DEVNET'' = Some ''true'')))) = Inr wallet"
    using assms by (auto simp: getEnv_def sgn Let_def bindE_eq_Inr_iff)
  have any: "wallet \<noteq> None \<or> sgn \<noteq> None \<or> env_turnkey e \<noteq> None"
    using assms by (auto simp: getEnv_def sgn Let_def w split: if_splits)
  obtain sq where sq: "env_squads S e = Inr sq"
    using assms any by (auto simp: getEnv_def sgn Let_def w bindE_eq_Inr_iff split: if_splits)
  obtain pk where pk: "(case sgn of Some k \<Rightarrow> Inr k | None \<Rightarrow> (case env_turnkey e of
       Some t \<Rightarrow> key_of_text S (tk_pubkey t) | None \<Rightarrow> Inr zero_key)) = Inr pk"
    using assms any unfolding getEnv_def sgn bindE_Inr Let_def w sq
    by (fastforce simp: bindE_eq_Inr_iff split: if_splits)
  have "opt = \<lparr>isDevnet = (e ''DEVNET'' = Some ''true''), connection_url = e ''RPC_URL'',
       evmClient_url = e ''ETH_RPC_URL'',
       env_merkleTreeAddress = (if e ''DEVNET'' = Some ''true'' then ETH_MERKLE_TREE_BUILDER_DEVNET
         else ETH_MERKLE_TREE_BUILDER),
       evmWallet = wallet, signerPubkey = pk, signer = sgn, squads = sq, turnkey = env_turnkey e\<rparr>"
    using assms any unfolding getEnv_def sgn bindE_Inr Let_def w sq pk
    by (simp add: bindE_eq_Inr_iff split: if_splits)
  from that [OF sgn any sq pk this] show ?thesis .
qed

section \<open>\<open>balances.ts\<close>\<close>

datatype json = JNull | JBool bool | JNumber int | JString string | JObject "(string \<times> json) list" | JArray "json list"

record http_response =
  ok :: bool
  status :: nat
  statusText :: string
  body :: "json option"

datatype blockchain = Solana | Ethereum

fun chain_name :: "blockchain \<Rightarrow> string" where
  "chain_name Solana = ''solana''"
| "chain_name Ethereum = ''ethereum''"

fun chain_method :: "blockchain \<Rightarrow> string" where
  "chain_method Solana = ''getBalance''"
| "chain_method Ethereum = ''eth_getBalance''"

fun chain_params :: "blockchain \<Rightarrow> string \<Rightarrow> string list" where
  "chain_params Solana a = [a]"
| "chain_params Ethereum a = [a, ''latest'']"

fun defaultWarnThreshold :: "blockchain \<Rightarrow> int" where
  "defaultWarnThreshold Solana = 10000000"
| "defaultWarnThreshold Ethereum = 5000000000000000"

text \<open>
  \<open>BigInt(text)\<close>: after trimming white space (of ASCII), a number with the prefix of base 16, 8 or 2,
  a decimal number with or without a sign, or the empty text; else a SyntaxError.
\<close>

fun digits_value :: "nat \<Rightarrow> nat \<Rightarrow> string \<Rightarrow> nat option" where
  "digits_value base acc [] = Some acc"
| "digits_value base acc (c # cs) = (case hex_value c of
     Some d \<Rightarrow> if d < base then digits_value base (base * acc + d) cs else None | None \<Rightarrow> None)"

definition js_trim :: "string \<Rightarrow> string" where
  "js_trim s =
     (let space = (\<lambda>c. c \<in> {CHR 0x20, CHR 0x09, CHR 0x0A, CHR 0x0B, CHR 0x0C, CHR 0x0D})
      in rev (dropWhile space (rev (dropWhile space s))))"

definition bigint_of_string :: "string \<Rightarrow> int result" where
  "bigint_of_string s =
     (let t = js_trim s; prefix = take 2 t; long = (2 < length t);
          number = (\<lambda>base ds. map_option int (digits_value base 0 ds))
      in case (if prefix \<in> {''0x'', ''0X''} \<and> long then number 16 (drop 2 t)
               else if prefix \<in> {''0o'', ''0O''} \<and> long then number 8 (drop 2 t)
               else if prefix \<in> {''0b'', ''0B''} \<and> long then number 2 (drop 2 t)
               else if take 1 t = ''-'' \<and> 1 < length t then map_option uminus (number 10 (drop 1 t))
               else if take 1 t = ''+'' \<and> 1 < length t then number 10 (drop 1 t)
               else number 10 t) of
        Some n \<Rightarrow> Inr n | None \<Rightarrow> Inl (External ''SyntaxError''))"

fun bigint_of_json :: "json option \<Rightarrow> int result" where
  "bigint_of_json (Some (JNumber n)) = Inr n"
| "bigint_of_json (Some (JBool b)) = Inr (if b then 1 else 0)"
| "bigint_of_json (Some (JString s)) = bigint_of_string s"
| "bigint_of_json _ = Inl TypeError"

fun json_get :: "string \<Rightarrow> json option \<Rightarrow> json option" where
  "json_get k (Some (JObject fs)) = map_of fs k"
| "json_get k _ = None"

fun json_falsy :: "json option \<Rightarrow> bool" where
  "json_falsy None = True"
| "json_falsy (Some JNull) = True"
| "json_falsy (Some (JBool b)) = (\<not> b)"
| "json_falsy (Some (JNumber n)) = (n = 0)"
| "json_falsy (Some (JString s)) = (s = [])"
| "json_falsy (Some _) = False"

fun parseBalance :: "blockchain \<Rightarrow> json option \<Rightarrow> int result" where
  "parseBalance Solana r =
     (let v = json_get ''value'' r in if json_falsy v then Inr 0 else bigint_of_json v)"
| "parseBalance Ethereum r = bigint_of_json r"

record BotBalance =
  balance_amount :: int
  belowThreshold :: bool

definition checkBlockchainBalance ::
  "(string \<Rightarrow> string \<Rightarrow> string list \<Rightarrow> http_response result) \<Rightarrow> blockchain \<Rightarrow> string \<Rightarrow> string \<Rightarrow>
     BotBalance result" where
  "checkBlockchainBalance fetch chain rpc address =
     bindE (fetch rpc (chain_method chain) (chain_params chain address)) (\<lambda>resp.
       if \<not> ok resp then Inl (Error (''Failed to fetch '' @ chain_name chain @ '' balance; status: '' @
            decimal (status resp) @ '' - '' @ statusText resp))
       else bindE (case body resp of Some (JObject fs) \<Rightarrow> Inr (map_of fs ''result'')
                   | Some JNull \<Rightarrow> Inl TypeError | Some _ \<Rightarrow> Inr None
                   | None \<Rightarrow> Inl (External ''SyntaxError'')) (\<lambda>result.
            bindE (parseBalance chain result) (\<lambda>balance.
              Inr \<lparr>balance_amount = balance, belowThreshold = balance < defaultWarnThreshold chain\<rparr>)))"

section \<open>\<open>slack.ts\<close>\<close>

record SlackMessage =
  messages :: "string list"
  slack_service :: string

fun join_with :: "string \<Rightarrow> string list \<Rightarrow> string" where
  "join_with sep [] = []"
| "join_with sep [x] = x"
| "join_with sep (x # xs) = x @ sep @ join_with sep xs"

text \<open>The request posted, if any: the webhook, the service and the message text.\<close>

definition sendSlackMessage :: "process_env \<Rightarrow> SlackMessage \<Rightarrow> (string \<times> string \<times> string) option" where
  "sendSlackMessage e m =
     (case env_set e ''SLACK_WEBHOOK_URL'' of
        None \<Rightarrow> None
      | Some url \<Rightarrow> Some (url, slack_service m, join_with [CHR 0x0A, CHR 0x0A] (messages m)))"

section \<open>\<open>validation.ts\<close>\<close>

text \<open>
  \<open>Number(index)\<close> rounds to double precision; without an index it is \<open>NaN\<close>, and the comparison
  is false.
\<close>

definition double_of_nat :: "nat \<Rightarrow> nat" where
  "double_of_nat n = round_even (excess_bits n) n"

definition number_of_bn :: "('n \<Rightarrow> int) \<Rightarrow> 'n \<Rightarrow> int" where
  "number_of_bn val x = (let n = val x in
     if 0 \<le> n then int (double_of_nat (nat n)) else - int (double_of_nat (nat (- n))))"

definition stale_index :: "int \<Rightarrow> int \<Rightarrow> js_error" where
  "stale_index dbIndex i =
     Error (''Database index is not up to date: '' @ decimal_int dbIndex @ '' vs '' @ decimal_int i)"

definition validateDatabaseData :: "('n \<Rightarrow> int) \<Rightarrow> mongo \<Rightarrow> ('n EarnAuthority, unit) action" where
  "validateDatabaseData val M =
     bindA (loadIndexFromDB M) (\<lambda>dbIndex.
     bindA (stateA latestIndex) (\<lambda>index.
       case index of
         Some i \<Rightarrow> if dbIndex < number_of_bn val i
           then throwA (stale_index dbIndex (val i)) else returnA ()
       | None \<Rightarrow> returnA ()))"

lemma double_of_nat_exact: "n < 2 ^ 53 \<Longrightarrow> double_of_nat n = n"
  by (simp add: double_of_nat_def round_even_def Let_def excess_bits.simps)

lemma number_of_bn_exact: "0 \<le> val i \<Longrightarrow> val i < 2 ^ 53 \<Longrightarrow> number_of_bn val i = val i"
  by (simp add: number_of_bn_def Let_def double_of_nat_exact nat_less_iff)

lemma validate_fresh:
  assumes "validateDatabaseData val M s = (Inr (), s')" "latestIndex s = Some i"
    and "0 \<le> val i" "val i < 2 ^ 53"
  shows "\<exists>dbIndex t s1. currentIndex M s = (Inr (dbIndex, t), s1) \<and> val i \<le> dbIndex"
proof -
  obtain dbIndex t s1 where ci: "currentIndex M s = (Inr (dbIndex, t), s1)"
    and rest: "(case latestIndex s1 of Some i \<Rightarrow> if dbIndex < number_of_bn val i
      then throwA (stale_index dbIndex (val i)) else returnA ()
      | None \<Rightarrow> returnA ()) s1 = (Inr (), s')"
    using assms(1) by (auto simp: validateDatabaseData_def loadIndexFromDB_def bindA_eq_Inr_iff)
  have "latestIndex s1 = Some i"
    using currentIndex_state [OF ci] assms(2) by (auto simp: latestIndex_def)
  then have "val i \<le> dbIndex" using rest assms(3,4) by (simp add: number_of_bn_exact split: if_splits)
  with ci show ?thesis by blast
qed

end
