(* ===== verification/YieldBot.thy ===== *)
theory YieldBot
  imports Services
begin

text \<open>
  \<open>services/yield-bot/main.ts\<close>: batching, building and sending of transactions, the squads
  proposals, the priority fee and the delivery.  The state \<open>sending\<close> holds the tables cached by the
  bot's own transaction builder and the transactions the network has accepted so far, on which a
  read of the multisig account depends.
\<close>

section \<open>Batches\<close>

text \<open>
  The loop \<open>for (i = 0; i < ixs.length; i += batchSize)\<close> over slices; a batch size of zero does
  not advance, so the value is \<open>None\<close> there.
\<close>

partial_function (option) batches :: "nat \<Rightarrow> 'a list \<Rightarrow> 'a list list option" where
  "batches n ixs =
     (if ixs = [] then Some []
      else Option.bind (batches n (drop n ixs)) (\<lambda>rest. Some (take n ixs # rest)))"

locale batching =
  fixes split :: "nat \<Rightarrow> 'a list \<Rightarrow> 'a list list option"
  assumes split_returns: "0 < n \<Longrightarrow> \<exists>bs. split n xs = Some bs"
    and split_concat: "split n xs = Some bs \<Longrightarrow> concat bs = xs"
    and split_sizes: "split n xs = Some bs \<Longrightarrow> b \<in> set bs \<Longrightarrow> b \<noteq> [] \<and> length b \<le> n"
begin

lemma one_batch:
  assumes "0 < n" "xs \<noteq> []" "length xs \<le> n" "split n xs = Some bs" "length bs = 1"
  shows "bs = [xs]"
  using split_concat [OF assms(4)] assms(5) by (cases bs) auto

lemma members: "split n xs = Some bs \<Longrightarrow> x \<in> set xs \<longleftrightarrow> (\<exists>b \<in> set bs. x \<in> set b)"
  using split_concat by force

lemma number: "split n xs = Some bs \<Longrightarrow> length xs \<le> n * length bs"
proof -
  assume s: "split n xs = Some bs"
  have "length (concat bs) \<le> n * length bs" using split_sizes [OF s]
    by (induction bs) (auto simp: add_mono)
  then show ?thesis using split_concat [OF s] by simp
qed

end

lemma batches_returns: "0 < n \<Longrightarrow> \<exists>bs. batches n xs = Some bs"
proof (induction "length xs" arbitrary: xs rule: less_induct)
  case less
  show ?case
  proof (cases "xs = []")
    case True
    then show ?thesis by (subst batches.simps) simp
  next
    case False
    then have "length (drop n xs) < length xs" using less.prems by simp
    then obtain bs where "batches n (drop n xs) = Some bs" using less by blast
    then show ?thesis by (subst batches.simps) simp
  qed
qed

lemma batches_props:
  "batches n xs = Some bs \<Longrightarrow> concat bs = xs \<and> (\<forall>b \<in> set bs. b \<noteq> [] \<and> length b \<le> n)"
proof (induction bs arbitrary: xs)
  case Nil
  then show ?case by (subst (asm) batches.simps) (auto split: if_splits bind_splits)
next
  case (Cons b bs)
  have ne: "xs \<noteq> []" using Cons.prems by (subst (asm) batches.simps) (auto split: if_splits)
  then have b: "b = take n xs" "batches n (drop n xs) = Some bs"
    using Cons.prems by (subst (asm) batches.simps, auto split: if_splits bind_splits)+
  have "n \<noteq> 0"
  proof
    assume "n = 0"
    then have "batches n xs = Some bs" "batches n xs = Some (b # bs)" using b(2) Cons.prems by simp_all
    then show False by simp
  qed
  then show ?case using Cons.IH [OF b(2)] b(1) ne by auto
qed

interpretation bot: batching batches
  by unfold_locales (auto simp: batches_returns dest: batches_props)

section \<open>Options and services\<close>

record ParsedOptions = EnvOptions +
  dryRun :: bool

record 'n services =
  sv_bn :: "'n bn_ops"
  sv_val :: "'n \<Rightarrow> int"
  sv_web3 :: "'n web3"
  sv_mongo :: mongo
  sv_decode :: account_decoder
  sv_accounts :: account_rpc
  sv_api :: "'n program_api"
  sv_rpc :: claim_rpc
  sv_luts :: lut_addresses

text \<open>
  Signing: by the local keypair, which throws for a message that is too long or does not name
  the key as a signer, or remotely by turnkey, which may refuse; a signed transaction keeps the key
  it is signed with.
\<close>

record signing =
  keypair_sign :: "VersionedTransaction \<Rightarrow> buffer \<Rightarrow> unit result"
  turnkey_sign :: "VersionedTransaction \<Rightarrow> string option \<Rightarrow> unit result"

record signed_transaction =
  signed_tx :: VersionedTransaction
  signed_by :: string

definition sign_transaction ::
  "signing \<Rightarrow> 'o ParsedOptions_scheme \<Rightarrow> (buffer \<Rightarrow> string) \<Rightarrow> VersionedTransaction \<Rightarrow>
     signed_transaction result" where
  "sign_transaction sg opt b58 tx =
     (case signer opt of
        Some k \<Rightarrow> bindE (keypair_sign sg tx k) (\<lambda>_. Inr \<lparr>signed_tx = tx, signed_by = b58 k\<rparr>)
      | None \<Rightarrow> (case turnkey opt of
          None \<Rightarrow> Inl TypeError
        | Some t \<Rightarrow> bindE (turnkey_sign sg tx (tk_pubkey t)) (\<lambda>_.
            Inr \<lparr>signed_tx = tx, signed_by = (case tk_pubkey t of Some p \<Rightarrow> p | None \<Rightarrow> [])\<rparr>)))"

section \<open>Squads proposals\<close>

text \<open>
  The Squads SDK: the vault's address, the transaction index the multisig account has on chain
  once the given transactions of the bot were accepted, and the two instructions, which carry the
  index of the proposal.  Proposals of other members during a run are left out.
\<close>

record sending =
  cached_tables :: "buffer list"
  sent_txs :: "signed_transaction list"

record squads_sdk =
  getVaultPda :: "buffer \<Rightarrow> buffer"
  multisig_transactionIndex :: "buffer \<Rightarrow> signed_transaction list \<Rightarrow> nat result"
  vaultTransactionCreate ::
    "buffer \<Rightarrow> nat \<Rightarrow> buffer \<Rightarrow> message \<Rightarrow> string \<Rightarrow> TransactionInstruction"
  proposalCreate :: "buffer \<Rightarrow> buffer \<Rightarrow> nat \<Rightarrow> TransactionInstruction"

definition proposal_memo :: "string option \<Rightarrow> string" where
  "proposal_memo memo = ''yield bot: '' @ (case memo of Some m \<Rightarrow> m | None \<Rightarrow> ''proposal with no memo'')"

abbreviation with_tables :: "(buffer list, 'a) action \<Rightarrow> (sending, 'a) action" where
  "with_tables \<equiv> zoomA cached_tables (\<lambda>l s. s\<lparr>cached_tables := l\<rparr>)"

definition proposeSquadsTransaction ::
  "'n services \<Rightarrow> squads_sdk \<Rightarrow> signing \<Rightarrow>
     'o ParsedOptions_scheme \<Rightarrow> TransactionInstruction list \<Rightarrow> int \<Rightarrow> string option \<Rightarrow>
     (sending, signed_transaction) action" where
  "proposeSquadsTransaction S Q sg opt ixs priorityFee memo =
     bindA (liftA (required (squads opt))) (\<lambda>sq.
     let vaultPda = getVaultPda Q (squadsPda sq) in
     bindA (liftA (getLatestBlockhash (sv_rpc S))) (\<lambda>hash.
     let msg = \<lparr>payerKey = vaultPda, recentBlockhash = hash, instructions = ixs\<rparr> in
     bindA (stateA sent_txs) (\<lambda>sent.
     bindA (liftA (multisig_transactionIndex Q (squadsPda sq) sent)) (\<lambda>currentTransactionIndex.
     let newTransactionIndex = currentTransactionIndex + 1;
         ix1 = vaultTransactionCreate Q (squadsPda sq) newTransactionIndex (signerPubkey opt) msg
           (proposal_memo memo);
         ix2 = proposalCreate Q (squadsPda sq) (signerPubkey opt) newTransactionIndex
     in bindA (with_tables (buildTransaction (sv_web3 S) (sv_rpc S) (sv_luts S) [ix1, ix2]
                (signerPubkey opt) priorityFee True)) (\<lambda>tx.
        liftA (sign_transaction sg opt (toBase58 (sv_web3 S)) tx))))))"

section \<open>Building\<close>

definition build_batch ::
  "'n services \<Rightarrow> squads_sdk \<Rightarrow> signing \<Rightarrow>
     'o ParsedOptions_scheme \<Rightarrow> int \<Rightarrow> string option \<Rightarrow> TransactionInstruction list \<Rightarrow>
     (sending, signed_transaction) action" where
  "build_batch S Q sg opt priorityFee memo batchIxs =
     (if squads opt \<noteq> None then
        proposeSquadsTransaction S Q sg opt
          (setComputeUnitPrice (sv_web3 S) priorityFee # batchIxs) priorityFee memo
      else
        bindA (with_tables (buildTransaction (sv_web3 S) (sv_rpc S) (sv_luts S) batchIxs
                 (signerPubkey opt) priorityFee True)) (\<lambda>tx.
          liftA (sign_transaction sg opt (toBase58 (sv_web3 S)) tx)))"

text \<open>\<open>None\<close> stands for the loop that does not end (a batch size of zero).\<close>

definition buildTransactions ::
  "'n services \<Rightarrow> squads_sdk \<Rightarrow> signing \<Rightarrow>
     'o ParsedOptions_scheme \<Rightarrow> TransactionInstruction list \<Rightarrow> int \<Rightarrow> nat \<Rightarrow> string option \<Rightarrow>
     (sending, signed_transaction list) action option" where
  "buildTransactions S Q sg opt ixs priorityFee batchSize memo =
     map_option (mapA (build_batch S Q sg opt priorityFee memo)) (batches batchSize ixs)"

section \<open>Priority fee\<close>

text \<open>
  The answer of the gas tracker: not reached, a failed status, or a body.  The body's field
  \<open>sol.per_compute_unit.percentiles\<close> may be missing, and so may the 75th percentile in it.
\<close>

datatype gas_response = GasError | GasStatus nat | GasBody "(string \<times> int) list option"

definition getPriorityFee :: "gas_response \<Rightarrow> int option" where
  "getPriorityFee r =
     (case r of
        GasError \<Rightarrow> Some 250000
      | GasStatus n \<Rightarrow> Some 250000
      | GasBody None \<Rightarrow> Some 250000
      | GasBody (Some percentiles) \<Rightarrow> map_of percentiles ''75'')"

section \<open>Sending\<close>

text \<open>
  \<open>attempt tx j\<close> is the outcome of attempt \<open>j\<close> to send a transaction.  The first component are the
  signatures kept for confirmation (only those of a first attempt), the second all the signatures
  of accepted sends, in order.
\<close>

definition send_attempts ::
  "(signed_transaction \<Rightarrow> nat \<Rightarrow> string result) \<Rightarrow> signed_transaction \<Rightarrow> string list \<times> string list" where
  "send_attempts attempt tx =
     foldl (\<lambda>(kept, sent) j. case attempt tx j of
         Inr sig \<Rightarrow> (if j = 0 then kept @ [sig] else kept, sent @ [sig])
       | Inl _ \<Rightarrow> (kept, sent)) ([], []) [0, 1, 2]"

fun send_all ::
  "(signed_transaction \<Rightarrow> nat \<Rightarrow> string result) \<Rightarrow> signed_transaction list \<Rightarrow> string list \<times> string list" where
  "send_all attempt [] = ([], [])"
| "send_all attempt (tx # txs) =
     (let (kept, sent) = send_attempts attempt tx; (kept', sent') = send_all attempt txs
      in (kept @ kept', sent @ sent'))"

record send_rpc =
  sendTransaction :: "signed_transaction \<Rightarrow> nat \<Rightarrow> string result"
  confirmTransaction :: "string \<Rightarrow> unit result"
  serialize64 :: "signed_transaction \<Rightarrow> string"

definition deliver ::
  "claim_rpc \<Rightarrow> send_rpc \<Rightarrow> bool \<Rightarrow> signed_transaction list \<Rightarrow> string list result" where
  "deliver rpc R dry txs =
     (if dry then Inr (map (serialize64 R) txs)
      else
        let returnData = fst (send_all (sendTransaction R) txs) in
        bindE (getLatestBlockhash rpc) (\<lambda>_.
        bindE (mapE (confirmTransaction R) returnData) (\<lambda>_. Inr returnData)))"

text \<open>The transaction once for each attempt that was accepted.\<close>

definition accepted_sends ::
  "(signed_transaction \<Rightarrow> nat \<Rightarrow> string result) \<Rightarrow> signed_transaction \<Rightarrow> signed_transaction list" where
  "accepted_sends attempt tx = map (\<lambda>_. tx) (snd (send_attempts attempt tx))"

text \<open>
  All transactions are built before the first one is sent.  What was accepted is on chain even when
  the confirmation fails afterwards.
\<close>

definition buildAndSendTransaction ::
  "'n services \<Rightarrow> squads_sdk \<Rightarrow> signing \<Rightarrow> send_rpc \<Rightarrow>
     gas_response \<Rightarrow> 'o ParsedOptions_scheme \<Rightarrow> TransactionInstruction list \<Rightarrow> nat \<Rightarrow> string option \<Rightarrow>
     (sending, string list) action option" where
  "buildAndSendTransaction S Q sg R gas opt ixs batchSize memo =
     map_option (\<lambda>build. bindA build (\<lambda>txs.
         bindA (updateA (\<lambda>s. if dryRun opt then s
             else s\<lparr>sent_txs := sent_txs s @ concat (map (accepted_sends (sendTransaction R)) txs)\<rparr>))
           (\<lambda>_. liftA (deliver (sv_rpc S) R (dryRun opt) txs))))
       (buildTransactions S Q sg opt ixs
          (case getPriorityFee gas of Some fee \<Rightarrow> fee | None \<Rightarrow> 250000) batchSize memo)"

end
