(* ===== verification/YieldRun.thy ===== *)
theory YieldRun
  imports YieldBot
begin

text \<open>
  The distribution of one extension and the run over all extensions, from
  \<open>services/yield-bot/main.ts\<close>.  During one run a read of the chain or the database is a
  function of its request, except that the index of the multisig depends on the transactions sent;
  the outcomes of sending and of the gas tracker may differ from one extension to the next.
\<close>

section \<open>State\<close>

record YieldToExtensionLog =
  yl_name :: string
  yl_programId :: string
  yl_success :: bool
  yl_text :: string

text \<open>\<open>amountUsd\<close> is the amount divided by a million in double precision; the amount is kept.\<close>

record DistributeResult =
  dr_signature :: "string option"
  distribution :: "(int \<times> nat) option"

record bot_state = db_state +
  bot_sending :: sending
  yieldLogs :: "YieldToExtensionLog list"
  slackMessage :: SlackMessage

record bot_world =
  bw_signing :: signing
  bw_squads :: squads_sdk
  bw_send :: "buffer \<Rightarrow> send_rpc"
  bw_gas :: "buffer \<Rightarrow> gas_response"

section \<open>One extension\<close>

text \<open>The earn authority is local to the call; only the database flag outlives it.\<close>

definition localA :: "'n EarnAuthority \<Rightarrow> ('n EarnAuthority, 'a) action \<Rightarrow> (bot_state, 'a) action" where
  "localA auth m s =
     (case m (auth\<lparr>database := database s\<rparr>) of (r, auth') \<Rightarrow> (r, s\<lparr>database := database auth'\<rparr>))"

fun claim_ixs :: "'a option list \<Rightarrow> 'a list" where
  "claim_ixs [] = []"
| "claim_ixs (Some ix # r) = ix # claim_ixs r"
| "claim_ixs (None # r) = claim_ixs r"

definition auth_instructions ::
  "'n services \<Rightarrow> ('n EarnAuthority, TransactionInstruction list \<times> (int \<times> nat) option) action" where
  "auth_instructions S =
     bindA (stateA id) (\<lambda>auth.
     bindA (liftA (buildIndexSyncInstruction (sv_web3 S) auth)) (\<lambda>sync.
     if variant (ea_global auth) = ''Crank'' then
       bindA (validateDatabaseData (sv_val S) (sv_mongo S)) (\<lambda>_.
       bindA (getAllEarners (sv_api S)) (\<lambda>earners.
       bindA (mapA (\<lambda>earner. buildClaimInstruction (sv_bn S) (sv_web3 S) (sv_mongo S) (sv_api S) earner True)
                earners) (\<lambda>claims.
       let ixs = sync # claim_ixs claims; claimIxs = length ixs - 1 in
       if 0 < claimIxs then
         bindA (simulateAndValidateClaimIxs (sv_bn S) (sv_web3 S) (sv_mongo S) (sv_rpc S) (sv_luts S) ixs)
           (\<lambda>distributed.
         bindA (liftA (bn_toNumber (sv_bn S) distributed)) (\<lambda>n.
           returnA (ixs, Some (n, claimIxs))))
       else returnA (ixs, None))))
     else returnA ([sync], None)))"

definition distribute_instructions ::
  "'n services \<Rightarrow> buffer \<Rightarrow> (bot_state, TransactionInstruction list \<times> (int \<times> nat) option) action" where
  "distribute_instructions S programID =
     bindA (stateA database) (\<lambda>db.
     bindA (liftA (EarnAuthority_load (sv_bn S) (sv_web3 S) (sv_decode S) (sv_accounts S) programID db))
       (\<lambda>auth. localA auth (auth_instructions S)))"

text \<open>\<open>None\<close> would be a run that does not return; the batch size is 10, so it never is.\<close>

definition distributeYield ::
  "'n services \<Rightarrow> bot_world \<Rightarrow> 'o ParsedOptions_scheme \<Rightarrow> buffer \<Rightarrow> bot_state \<Rightarrow>
     (DistributeResult result \<times> bot_state) option" where
  "distributeYield S w opt programID s =
     (case distribute_instructions S programID s of
        (Inl e, s') \<Rightarrow> Some (Inl e, s')
      | (Inr (ixs, dist), s') \<Rightarrow>
          map_option (\<lambda>send.
              bindA (zoomA bot_sending (\<lambda>x s. s\<lparr>bot_sending := x\<rparr>) send) (\<lambda>sigs.
                returnA \<lparr>dr_signature = (case sigs of [] \<Rightarrow> None | sig # _ \<Rightarrow> Some sig),
                         distribution = dist\<rparr>) s')
            (buildAndSendTransaction S (bw_squads w) (bw_signing w) (bw_send w programID)
               (bw_gas w programID) opt ixs 10 None))"

section \<open>Texts\<close>

text \<open>
  \<open>(amount / 1e6).toFixed(0)\<close>: the nearest integer, halves away from zero.  For amounts below
  \<open>2 ^ 53\<close> the rounded quotient lies on the same side of every half as the exact one.
\<close>

definition usd_text :: "int \<Rightarrow> string" where
  "usd_text amount =
     (if amount < 0 then ''-'' @ decimal (nat ((500000 - amount) div 1000000))
      else decimal (nat ((amount + 500000) div 1000000)))"

definition explorerTxUrl :: "string option \<Rightarrow> bool \<Rightarrow> string" where
  "explorerTxUrl sig devnet =
     (let base = ''https://explorer.solana.com/tx/'' @ (case sig of Some t \<Rightarrow> t | None \<Rightarrow> ''undefined'')
      in if devnet then base @ ''?cluster=devnet'' else base)"

text \<open>The dash of the notice is one character of the source, three bytes in UTF-8.\<close>

definition dry_run_notice :: string where
  "dry_run_notice =
     ''Dry run '' @ [CHR 0xE2, CHR 0x80, CHR 0x94] @ '' transaction built & simulated, not sent.''"

definition buildSuccessText :: "'o ParsedOptions_scheme \<Rightarrow> DistributeResult \<Rightarrow> string" where
  "buildSuccessText opt result =
     join_with [CHR 0x0A]
       ((case distribution result of
           Some (amount, earners) \<Rightarrow>
             [''Distributed $'' @ usd_text amount @ '' to '' @ decimal earners @ '' earners'']
         | None \<Rightarrow> []) @
        [if dryRun opt then dry_run_notice else explorerTxUrl (dr_signature result) (isDevnet opt)])"

definition renderYieldLog :: "YieldToExtensionLog \<Rightarrow> string" where
  "renderYieldLog log =
     (if yl_success log then '':white_check_mark:'' else '':x:'') @ '' '' @ yl_name log @ '' ('' @
     yl_programId log @ '')'' @ [CHR 0x0A] @ yl_text log @ [CHR 0x0A]"

section \<open>The run\<close>

definition EXTENSIONS :: "(string \<times> string) list" where
  "EXTENSIONS =
     [(''wM'', ''wMXX1K1nca5W4pZr1piETe78gcAVVrEFi9f4g46uXko''),
      (''USDKy'', ''extMahs9bUFMYcviKCvnSRaXgs5PcqmMzcnHRtTqE85'')]"

definition extension_log ::
  "(js_error \<Rightarrow> string) \<Rightarrow> 'o ParsedOptions_scheme \<Rightarrow> string \<times> string \<Rightarrow> DistributeResult result \<Rightarrow>
     YieldToExtensionLog" where
  "extension_log show_error opt ext r =
     (case r of
        Inr result \<Rightarrow> \<lparr>yl_name = fst ext, yl_programId = snd ext, yl_success = True,
          yl_text = buildSuccessText opt result\<rparr>
      | Inl e \<Rightarrow> \<lparr>yl_name = fst ext, yl_programId = snd ext, yl_success = False,
          yl_text = show_error e\<rparr>)"

fun run_extensions ::
  "'n services \<Rightarrow> bot_world \<Rightarrow> (js_error \<Rightarrow> string) \<Rightarrow> (string \<Rightarrow> buffer) \<Rightarrow> 'o ParsedOptions_scheme \<Rightarrow>
     (string \<times> string) list \<Rightarrow> bot_state \<Rightarrow> bot_state option" where
  "run_extensions S w show_error key opt [] s = Some s"
| "run_extensions S w show_error key opt (ext # exts) s =
     Option.bind (distributeYield S w opt (key (snd ext)) s) (\<lambda>(r, s').
       run_extensions S w show_error key opt exts
         (s'\<lparr>yieldLogs := yieldLogs s' @ [extension_log show_error opt ext r]\<rparr>))"

definition push_log :: "YieldToExtensionLog \<Rightarrow> bot_state \<Rightarrow> bot_state" where
  "push_log l s = s\<lparr>yieldLogs := yieldLogs s @ [l]\<rparr>"

definition push_message :: "string \<Rightarrow> bot_state \<Rightarrow> bot_state" where
  "push_message m s =
     s\<lparr>slackMessage := (slackMessage s)\<lparr>messages := messages (slackMessage s) @ [m]\<rparr>\<rparr>"

definition balance_warning :: "int \<Rightarrow> string" where
  "balance_warning amount =
     '':warning: Bot balance is below configured threshold: '' @ decimal_int amount @
     ''. Top up the balance at the next possible occasion.''"

text \<open>
  The start-up: the environment and the balance check.  An unset \<open>RPC_URL\<close> has failed in
  \<open>getEnv\<close> (a connection needs a URL) or is the text of the endpoint.
\<close>

definition startup ::
  "env_services \<Rightarrow> (string \<Rightarrow> string \<Rightarrow> string list \<Rightarrow> http_response result) \<Rightarrow> (buffer \<Rightarrow> string) \<Rightarrow>
     process_env \<Rightarrow> (bot_state, EnvOptions) action" where
  "startup ES fetch b58 e =
     bindA (liftA (getEnv ES e)) (\<lambda>env.
     bindA (liftA (bindE (required (connection_url env)) (\<lambda>url.
              checkBlockchainBalance fetch Solana url (b58 (signerPubkey env))))) (\<lambda>botBalance.
     bindA (updateA (\<lambda>s. if belowThreshold botBalance
         then push_message (balance_warning (balance_amount botBalance)) s else s)) (\<lambda>_.
       returnA env)))"

definition parsed_options :: "EnvOptions \<Rightarrow> bool \<Rightarrow> ParsedOptions" where
  "parsed_options env dry = EnvOptions.extend env (ParsedOptions.fields dry)"

definition distribute_command ::
  "env_services \<Rightarrow> (string \<Rightarrow> string \<Rightarrow> string list \<Rightarrow> http_response result) \<Rightarrow> 'n services \<Rightarrow> bot_world \<Rightarrow>
     (js_error \<Rightarrow> string) \<Rightarrow> (string \<Rightarrow> buffer) \<Rightarrow> process_env \<Rightarrow> bool \<Rightarrow> bot_state \<Rightarrow> bot_state option" where
  "distribute_command ES fetch S w show_error key e dry s =
     (case startup ES fetch (toBase58 (sv_web3 S)) e s of
        (Inl err, s') \<Rightarrow> Some (push_log \<lparr>yl_name = ''startup'', yl_programId = ''-'',
            yl_success = False, yl_text = show_error err\<rparr> s')
      | (Inr env, s') \<Rightarrow>
          run_extensions S w show_error key (parsed_options env dry) EXTENSIONS
            (s'\<lparr>bot_sending := (bot_sending s')\<lparr>cached_tables := []\<rparr>\<rparr>))"

text \<open>
  The flush at the end: the rendered logs join the messages, and the summary is posted.  The
  value is the request of \<open>sendSlackMessage\<close>.
\<close>

definition initial_state :: bot_state where
  "initial_state = \<lparr>database = False, bot_sending = \<lparr>cached_tables = [], sent_txs = []\<rparr>, yieldLogs = [],
     slackMessage = \<lparr>messages = [], slack_service = ''yield-bot''\<rparr>\<rparr>"

text \<open>
  The option \<open>-d, --dryRun [bool]\<close> is \<open>false\<close> when it is not given, \<open>true\<close> without a value, and
  otherwise the text of its value, which the code only tests for truth.
\<close>

datatype dryRun_arg = NotGiven | Given | GivenText string

fun dryRun_value :: "dryRun_arg \<Rightarrow> bool" where
  "dryRun_value NotGiven = False"
| "dryRun_value Given = True"
| "dryRun_value (GivenText t) = (t \<noteq> [])"

lemma dryRun_false_is_true: "dryRun_value (GivenText ''false'')"
  by simp

definition yieldCLI ::
  "env_services \<Rightarrow> (string \<Rightarrow> string \<Rightarrow> string list \<Rightarrow> http_response result) \<Rightarrow> 'n services \<Rightarrow> bot_world \<Rightarrow>
     (js_error \<Rightarrow> string) \<Rightarrow> (string \<Rightarrow> buffer) \<Rightarrow> process_env \<Rightarrow> dryRun_arg \<Rightarrow>
     (string \<times> string \<times> string) option option" where
  "yieldCLI ES fetch S w show_error key e arg =
     map_option (\<lambda>s. sendSlackMessage e (slackMessage
         (foldl (\<lambda>s entry. push_message entry s) s (map renderYieldLog (yieldLogs s)))))
       (distribute_command ES fetch S w show_error key e (dryRun_value arg) initial_state)"

end
