(* ===== verification/YieldSending.thy ===== *)
theory YieldSending
  imports YieldRun EarnRewards
begin

text \<open>
  Lemmas on the yield bot: what the built transactions carry, which signatures a run confirms,
  what a run reports, and what a reported distribution was checked against.
\<close>

section \<open>Building\<close>

definition tx_ixs :: "signed_transaction \<Rightarrow> TransactionInstruction list" where
  "tx_ixs t = drop 2 (instructions (tx_message (signed_tx t)))"

lemma sign_keeps: "sign_transaction tsig opt b58 tx = Inr t \<Longrightarrow> signed_tx t = tx"
  by (auto simp: sign_transaction_def bindE_eq_Inr_iff split: option.splits)

lemma build_batch_direct:
  assumes "build_batch S Q sg opt fee memo b st = (Inr t, st')" "squads opt = None"
  shows "tx_ixs t = b \<and> payerKey (tx_message (signed_tx t)) = signerPubkey opt"
proof -
  obtain tx l l' where "buildTransaction (sv_web3 S) (sv_rpc S) (sv_luts S) b (signerPubkey opt) fee True l =
      (Inr tx, l')" "signed_tx t = tx"
    using assms by (auto simp: build_batch_def bindA_eq_Inr_iff zoomA_Inr sign_keeps)
  then show ?thesis using buildTransaction_contents by (fastforce simp: tx_ixs_def)
qed

text \<open>
  The two instructions of a proposal of a batch under an index, as they follow the compute budget
  instructions of the transaction.
\<close>

abbreviation proposes ::
  "'n services \<Rightarrow> squads_sdk \<Rightarrow> 'o ParsedOptions_scheme \<Rightarrow> SquadsEnvOption \<Rightarrow> int \<Rightarrow> string option \<Rightarrow> nat \<Rightarrow>
     TransactionInstruction list \<Rightarrow> signed_transaction \<Rightarrow> bool" where
  "proposes S Q opt sq fee memo i b t \<equiv> \<exists>hash. drop 2 (instructions (tx_message (signed_tx t))) =
     [vaultTransactionCreate Q (squadsPda sq) i (signerPubkey opt)
        \<lparr>payerKey = getVaultPda Q (squadsPda sq), recentBlockhash = hash,
         instructions = setComputeUnitPrice (sv_web3 S) fee # b\<rparr> (proposal_memo memo),
      proposalCreate Q (squadsPda sq) (signerPubkey opt) i]"

lemma build_batch_squads:
  assumes "build_batch S Q sg opt fee memo b st = (Inr t, st')" "squads opt = Some sq"
  shows "\<exists>k. multisig_transactionIndex Q (squadsPda sq) (sent_txs st) = Inr k \<and>
    proposes S Q opt sq fee memo (k + 1) b t"
proof -
  obtain k hash tx l l' where k: "multisig_transactionIndex Q (squadsPda sq) (sent_txs st) = Inr k" and
    "buildTransaction (sv_web3 S) (sv_rpc S) (sv_luts S)
      [vaultTransactionCreate Q (squadsPda sq) (k + 1) (signerPubkey opt)
         \<lparr>payerKey = getVaultPda Q (squadsPda sq), recentBlockhash = hash,
          instructions = setComputeUnitPrice (sv_web3 S) fee # b\<rparr> (proposal_memo memo),
       proposalCreate Q (squadsPda sq) (signerPubkey opt) (k + 1)] (signerPubkey opt) fee True l =
      (Inr tx, l')" "signed_tx t = tx"
    using assms
    by (auto simp: build_batch_def proposeSquadsTransaction_def required_def bindA_eq_Inr_iff
        zoomA_Inr Let_def dest: sign_keeps)
  then show ?thesis using buildTransaction_contents by fastforce
qed

text \<open>Building sends nothing.\<close>

lemma keeps_with_tables: "keeps (\<lambda>st. sent_txs st = sent) (with_tables m)"
  by (simp add: keeps_def zoomA_def split: prod.splits)

lemma build_batch_sent: "keeps (\<lambda>st. sent_txs st = sent) (build_batch S Q sg opt fee memo b)"
  unfolding build_batch_def proposeSquadsTransaction_def Let_def
  by (auto intro!: keeps_basic keeps_bindA keeps_with_tables)

lemma buildTransactions_returns:
  "0 < n \<Longrightarrow> \<exists>bs. batches n ixs = Some bs \<and> buildTransactions S Q tsig opt ixs fee n memo =
     Some (mapA (build_batch S Q tsig opt fee memo) bs)"
  using bot.split_returns [of n ixs] by (auto simp: buildTransactions_def)

lemma buildTransactions_batches:
  assumes "buildTransactions S Q tsig opt ixs fee n memo = Some build" "build st = (Inr txs, st')"
  obtains bs where "concat bs = ixs" "\<forall>b \<in> set bs. b \<noteq> [] \<and> length b \<le> n"
    "list_all2 (\<lambda>b t. \<exists>l l'. build_batch S Q tsig opt fee memo b l = (Inr t, l')) bs txs"
  using assms bot.split_concat bot.split_sizes mapA_results
  by (fastforce simp: buildTransactions_def)

lemma mapA_keeps_results:
  assumes "\<And>x. keeps I (f x)"
  shows "mapA f xs s = (Inr ys, s') \<Longrightarrow> I s \<Longrightarrow>
    list_all2 (\<lambda>x y. \<exists>s s'. I s \<and> f x s = (Inr y, s')) xs ys \<and> I s'"
proof (induction xs arbitrary: s ys)
  case Nil
  then show ?case by simp
next
  case (Cons x xs)
  obtain y s1 zs where x: "f x s = (Inr y, s1)" "mapA f xs s1 = (Inr zs, s')" "ys = y # zs"
    using Cons.prems(1) by (auto simp: bindA_eq_Inr_iff)
  have "I s1" using assms [of x] Cons.prems(2) x(1) by (metis keeps_def snd_conv)
  with Cons.IH [OF x(2)] x Cons.prems(2) show ?case by auto
qed

text \<open>With a squads vault all proposals are built on the index of the multisig before the call.\<close>

lemma buildTransactions_squads:
  assumes "buildTransactions S Q sg opt ixs fee n memo = Some build" "build st = (Inr txs, st')"
    and "squads opt = Some sq" "multisig_transactionIndex Q (squadsPda sq) (sent_txs st) = Inr k"
  shows "sent_txs st' = sent_txs st \<and>
    (\<exists>bs. concat bs = ixs \<and> list_all2 (proposes S Q opt sq fee memo (k + 1)) bs txs)"
proof -
  obtain bs where bs: "batches n ixs = Some bs" "mapA (build_batch S Q sg opt fee memo) bs st = (Inr txs, st')"
    using assms(1,2) by (auto simp: buildTransactions_def)
  have *: "list_all2 (\<lambda>b t. \<exists>s s'. sent_txs s = sent_txs st \<and> build_batch S Q sg opt fee memo b s = (Inr t, s')) bs txs
      \<and> sent_txs st' = sent_txs st"
    using mapA_keeps_results [OF build_batch_sent bs(2)] by simp
  have "list_all2 (proposes S Q opt sq fee memo (k + 1)) bs txs"
    using conjunct1 [OF *] by (rule list_all2_mono) (use build_batch_squads [OF _ assms(3)] assms(4) in fastforce)
  then show ?thesis using * bot.split_concat [OF bs(1)] by blast
qed

lemma buildAndSend_squads:
  assumes "buildAndSendTransaction S Q sg R gas opt ixs n memo = Some act" "act st = (Inr sigs, st')"
    and "squads opt = Some sq" "multisig_transactionIndex Q (squadsPda sq) (sent_txs st) = Inr k"
  shows "\<exists>bs txs. concat bs = ixs \<and>
    list_all2 (proposes S Q opt sq (case getPriorityFee gas of Some fee \<Rightarrow> fee | None \<Rightarrow> 250000) memo (k + 1)) bs txs \<and>
    sent_txs st' = sent_txs st @ (if dryRun opt then [] else concat (map (accepted_sends (sendTransaction R)) txs))"
proof -
  obtain build where b: "buildTransactions S Q sg opt ixs
      (case getPriorityFee gas of Some fee \<Rightarrow> fee | None \<Rightarrow> 250000) n memo = Some build"
    and act: "act = bindA build (\<lambda>txs. bindA (updateA (\<lambda>s. if dryRun opt then s
      else s\<lparr>sent_txs := sent_txs s @ concat (map (accepted_sends (sendTransaction R)) txs)\<rparr>))
        (\<lambda>_. liftA (deliver (sv_rpc S) R (dryRun opt) txs)))"
    using assms(1) by (auto simp: buildAndSendTransaction_def)
  obtain txs st1 where t: "build st = (Inr txs, st1)"
    and e: "sent_txs st' = sent_txs st1 @ (if dryRun opt then [] else concat (map (accepted_sends (sendTransaction R)) txs))"
    using assms(2) unfolding act by (cases "dryRun opt") (auto simp: bindA_eq_Inr_iff)
  obtain bs where "sent_txs st1 = sent_txs st" "concat bs = ixs"
    "list_all2 (proposes S Q opt sq (case getPriorityFee gas of Some fee \<Rightarrow> fee | None \<Rightarrow> 250000) memo (k + 1)) bs txs"
    using buildTransactions_squads [OF b t assms(3,4)] by blast
  then show ?thesis by (intro exI [of _ bs] exI [of _ txs] conjI) (simp_all only: e)
qed

lemma list_all2_map_eq: "list_all2 (\<lambda>x y. f y = x) xs ys \<Longrightarrow> xs = map f ys"
  by (induction rule: list_all2_induct) auto

section \<open>Sending\<close>

definition first_signatures ::
  "(signed_transaction \<Rightarrow> nat \<Rightarrow> string result) \<Rightarrow> signed_transaction list \<Rightarrow> string list" where
  "first_signatures attempt txs =
     concat (map (\<lambda>t. case attempt t 0 of Inr sig \<Rightarrow> [sig] | Inl _ \<Rightarrow> []) txs)"

lemma send_attempts_kept:
  "fst (send_attempts attempt t) = (case attempt t 0 of Inr sig \<Rightarrow> [sig] | Inl _ \<Rightarrow> [])"
  by (simp add: send_attempts_def split: sum.splits)

lemma send_attempts_sent:
  "snd (send_attempts attempt t) =
     concat (map (\<lambda>j. case attempt t j of Inr sig \<Rightarrow> [sig] | Inl _ \<Rightarrow> []) [0, 1, 2])"
  by (simp add: send_attempts_def split: sum.splits)

lemma send_all_kept: "fst (send_all attempt txs) = first_signatures attempt txs"
  by (induction txs)
    (auto simp: first_signatures_def send_attempts_kept split: prod.splits, metis fst_conv send_attempts_kept)

lemma send_all_sent:
  "snd (send_all attempt txs) = concat (map (\<lambda>t. snd (send_attempts attempt t)) txs)"
  by (induction txs) (auto split: prod.splits)

section \<open>The run\<close>

lemma buildAndSend_returns:
  assumes "0 < n"
  shows "\<exists>act. buildAndSendTransaction S Q tsig R gas opt ixs n memo = Some act"
proof -
  obtain bs where "batches n ixs = Some bs" using bot.split_returns [OF assms] by blast
  then show ?thesis by (simp add: buildAndSendTransaction_def buildTransactions_def)
qed

lemma distributeYield_returns: "\<exists>r s'. distributeYield S w opt pid s = Some (r, s')"
proof (cases "distribute_instructions S pid s")
  case (Pair r s1)
  show ?thesis
  proof (cases r)
    case (Inl e)
    then show ?thesis by (simp add: distributeYield_def Pair)
  next
    case (Inr ixs)
    obtain ins dist where ixs: "ixs = (ins, dist)" by (cases ixs)
    obtain act where "buildAndSendTransaction S (bw_squads w) (bw_signing w) (bw_send w pid)
        (bw_gas w pid) opt ins 10 None = Some act"
      using buildAndSend_returns [OF zero_less_numeral] by blast
    then show ?thesis unfolding distributeYield_def Pair Inr ixs
      by simp
  qed
qed

lemma localA_logs: "yieldLogs (snd (localA auth m s)) = yieldLogs s"
  by (simp add: localA_def split: prod.splits)

lemma distribute_instructions_logs: "yieldLogs (snd (distribute_instructions S pid s)) = yieldLogs s"
  using localA_logs
  by (auto simp: distribute_instructions_def bindA_def split: sum.splits)

lemma distributeYield_logs:
  assumes "distributeYield S w opt pid s = Some (r, s')"
  shows "yieldLogs s' = yieldLogs s"
  using assms distribute_instructions_logs [of S pid s]
  by (auto simp: distributeYield_def bindA_def zoomA_def split: prod.splits sum.splits)

lemma run_extensions_logs:
  "\<exists>s' ls. run_extensions S w show_error key opt exts s = Some s' \<and>
     yieldLogs s' = yieldLogs s @ ls \<and>
     list_all2 (\<lambda>ext l. \<exists>s1 r s2. distributeYield S w opt (key (snd ext)) s1 = Some (r, s2) \<and>
       l = extension_log show_error opt ext r) exts ls"
proof (induction exts arbitrary: s)
  case Nil
  then show ?case by simp
next
  case (Cons ext exts)
  obtain r s1 where d: "distributeYield S w opt (key (snd ext)) s = Some (r, s1)"
    using distributeYield_returns by blast
  let ?s2 = "s1\<lparr>yieldLogs := yieldLogs s1 @ [extension_log show_error opt ext r]\<rparr>"
  obtain s' ls where r: "run_extensions S w show_error key opt exts ?s2 = Some s'"
    "yieldLogs s' = yieldLogs ?s2 @ ls"
    "list_all2 (\<lambda>ext l. \<exists>s1 r s2. distributeYield S w opt (key (snd ext)) s1 = Some (r, s2) \<and>
       l = extension_log show_error opt ext r) exts ls"
    using Cons.IH [of ?s2] by blast
  have "yieldLogs s' = yieldLogs s @ (extension_log show_error opt ext r # ls)"
    using r(2) distributeYield_logs [OF d] by simp
  moreover have "run_extensions S w show_error key opt (ext # exts) s = Some s'" using d r(1) by simp
  ultimately show ?case using r(3) d by fastforce
qed

lemma startup_logs: "yieldLogs (snd (startup ES fetch b58 e s)) = yieldLogs s"
  by (auto simp: startup_def bindA_def push_message_def split: sum.splits)

section \<open>A reported distribution\<close>

lemma simulateAndValidate_built:
  assumes "simulateAndValidateClaimIxs B W M rpc addrs ixs s = (Inr tot, s')"
  obtains feePayer txn l logs rewards zero minted amount dbIndex dbTs i scale collateral s1 where
    "buildTransaction W rpc addrs ixs feePayer 250000 True (ea_tables s) = (Inr txn, l)"
    "simulate_logs rpc txn = Inr (None, Some logs)" "getRewardAmounts B W logs = Inr rewards"
    "bn_of_number B 0 = Inr zero" "tot = total_rewards B zero rewards"
    "getMint_supply rpc (extMint (ea_global s)) = Inr minted"
    "getAccount_amount rpc (associatedTokenAddress W (mMint (ea_global s))
       (findProgramAddress W [bytes_of ''m_vault''] (ea_program s)) True
       (TOKEN_2022_PROGRAM_ID W)) = Inr amount"
    "currentIndex M s1 = (Inr (dbIndex, dbTs), s')" "bn_of_number B dbIndex = Inr i"
    "bn_of_number B 1000000000000 = Inr scale"
    "bn_div B (bn_mul B (bn_of_string B amount) i) scale = Inr collateral"
    "\<not> bn_gt B (bn_add B (bn_of_string B minted) tot) collateral"
  using assms
  by (auto simp: simulateAndValidateClaimIxs_def bindA_eq_Inr_iff bindE_eq_Inr_iff Let_def zoomA_Inr
      required_def split: if_splits prod.splits option.splits)

end
