(* ===== verification/YieldProperties.thy ===== *)
theory YieldProperties
  imports YieldSending EarnProperties
begin

text \<open>
  The properties of the yield bot, with their witnesses: a reported distribution and what it was
  checked against, the batches, the squads proposals, the signatures and the run.
\<close>

section \<open>A reported distribution\<close>

text \<open>Building claims changes neither the program nor the loaded global account.\<close>

abbreviation loaded :: "'n GlobalAccountData \<times> buffer \<Rightarrow> 'n EarnAuthority \<Rightarrow> bool" where
  "loaded x s \<equiv> (ea_global s, ea_program s) = x"

lemma keeps_state:
  assumes "\<And>s r s'. m s = (r, s') \<Longrightarrow> s' = s \<or> s' = s\<lparr>database := True\<rparr>"
  shows "keeps (loaded x) m"
proof -
  have "loaded x (snd (m s))" if "loaded x s" for s
    using assms [of s "fst (m s)" "snd (m s)"] that by auto
  then show ?thesis unfolding keeps_def by blast
qed

lemma keepsD: "keeps I m \<Longrightarrow> m s = (r, s') \<Longrightarrow> I s \<Longrightarrow> I s'"
  unfolding keeps_def by (metis snd_conv)

lemma getBalanceAt_state:
  "getBalanceAt B W M acct mint u s = (r, s') \<Longrightarrow> s' = s \<or> s' = s\<lparr>database := True\<rparr>"
  using connect_cases [of M s]
  by (auto simp: getBalanceAt_def bindA_def split: sum.splits prod.splits if_splits)

lemmas loaded_queries =
  keeps_state [of "currentIndex _", OF currentIndex_state]
  keeps_state [of "indexUpdates _ _ _", OF indexUpdates_state]
  keeps_state [of "getBalanceAt _ _ _ _ _ _", OF getBalanceAt_state]

lemma loaded_claim_loop:
  assumes "\<And>u. keeps I (balanceAt u)"
  shows "keeps I (claim_loop B balanceAt l y steps)"
  by (induction steps arbitrary: l y) (auto intro!: assms keeps_basic keeps_bindA)

lemma loaded_claim_balance: "keeps (loaded x) (claim_balance B W M d p)"
  unfolding claim_balance_def claim_yield_def
  by (auto intro!: loaded_claim_loop loaded_queries keeps_basic keeps_bindA split: list.split)

lemma loaded_buildClaim: "keeps (loaded x) (buildClaimInstruction B W M api earner p)"
  unfolding buildClaimInstruction_def cached_manager_def
  by (auto intro!: loaded_claim_balance keeps_basic keeps_bindA keeps_updateA split: option.split)

lemma loaded_validate: "keeps (loaded x) (validateDatabaseData val M)"
  unfolding validateDatabaseData_def loadIndexFromDB_def
  by (auto intro!: loaded_queries keeps_basic keeps_bindA split: option.split)

lemma auth_instructions_Crank:
  assumes "auth_instructions S auth = (Inr (ixs, Some (n, k)), auth')"
  obtains sync s1 s2 claims distributed where
    "variant (ea_global auth) = ''Crank''"
    "buildIndexSyncInstruction (sv_web3 S) auth = Inr sync"
    "validateDatabaseData (sv_val S) (sv_mongo S) auth = (Inr (), s1)"
    "ixs = sync # claims" "k = length claims"
    "simulateAndValidateClaimIxs (sv_bn S) (sv_web3 S) (sv_mongo S) (sv_rpc S) (sv_luts S) ixs s2 =
       (Inr distributed, auth')"
    "bn_toNumber (sv_bn S) distributed = Inr n"
    "ea_global s2 = ea_global auth" "ea_program s2 = ea_program auth"
proof -
  let ?m = "mapA (\<lambda>earner. buildClaimInstruction (sv_bn S) (sv_web3 S) (sv_mongo S) (sv_api S) earner True)"
  obtain sync where sync: "buildIndexSyncInstruction (sv_web3 S) auth = Inr sync"
    using assms by (auto simp: auth_instructions_def bindA_eq_Inr_iff)
  have v: "variant (ea_global auth) = ''Crank''"
    using assms sync by (auto simp: auth_instructions_def bindA_eq_Inr_iff split: if_splits)
  obtain s1 where s1: "validateDatabaseData (sv_val S) (sv_mongo S) auth = (Inr (), s1)"
    using assms by (auto simp: auth_instructions_def sync v bindA_eq_Inr_iff)
  obtain earners where e: "getAllEarners (sv_api S) s1 = (Inr earners, s1)"
    using assms by (auto simp: auth_instructions_def sync v s1 bindA_eq_Inr_iff getAllEarners_def)
  obtain claims s2 where c: "?m earners s1 = (Inr claims, s2)"
    using assms by (auto simp: auth_instructions_def sync v s1 e bindA_eq_Inr_iff)
  have r: "ixs = sync # claim_ixs claims" "k = length (claim_ixs claims)"
    using assms by (auto simp: auth_instructions_def sync v s1 e c bindA_eq_Inr_iff Let_def split: if_splits)
  obtain distributed where d: "simulateAndValidateClaimIxs (sv_bn S) (sv_web3 S) (sv_mongo S) (sv_rpc S)
      (sv_luts S) ixs s2 = (Inr distributed, auth')" "bn_toNumber (sv_bn S) distributed = Inr n"
    using assms unfolding r(1)
    by (auto simp: auth_instructions_def sync v s1 e c bindA_eq_Inr_iff Let_def split: if_splits)
  let ?I = "loaded (ea_global auth, ea_program auth)"
  have k1: "keeps ?I (validateDatabaseData (sv_val S) (sv_mongo S))" by (rule loaded_validate)
  have k2: "keeps ?I (?m earners)" by (rule keeps_mapA) (rule loaded_buildClaim)
  have "?I s2" by (rule keepsD [OF k2 c], rule keepsD [OF k1 s1], simp)
  then have "ea_global s2 = ea_global auth" "ea_program s2 = ea_program auth" by simp_all
  then show thesis by (rule that [OF v sync s1 r d])
qed

lemma distributeYield_dist:
  assumes "distributeYield S w opt pid s = Some (Inr r, s')" "distribution r = Some (n, k)"
  obtains g auth auth' ixs s1 where
    "loadGlobal (sv_bn S) (sv_web3 S) (sv_decode S) (sv_accounts S) pid = Inr g"
    "auth_instructions S auth = (Inr (ixs, Some (n, k)), auth')" "ea_global auth = g"
    "ea_program auth = pid"
proof -
  obtain ixs dist s1 where d: "distribute_instructions S pid s = (Inr (ixs, dist), s1)"
    using assms(1) by (auto simp: distributeYield_def split: prod.splits sum.splits)
  have dist: "dist = Some (n, k)"
    using assms by (auto simp: distributeYield_def d bindA_eq_Inr_iff)
  obtain g where g: "loadGlobal (sv_bn S) (sv_web3 S) (sv_decode S) (sv_accounts S) pid = Inr g"
    using d by (auto simp: distribute_instructions_def EarnAuthority_load_def bindA_eq_Inr_iff
        bindE_eq_Inr_iff)
  define auth where "auth = \<lparr>database = database s, ea_program = pid, ea_global = g,
    managerCache = (\<lambda>_. None), ea_tables = []\<rparr>"
  have "localA auth (auth_instructions S) s = (Inr (ixs, dist), s1)"
    using d by (simp add: distribute_instructions_def EarnAuthority_load_def bindA_def g auth_def)
  then obtain auth' where "auth_instructions S auth = (Inr (ixs, dist), auth')"
    by (auto simp: localA_def auth_def split: prod.splits)
  moreover have "ea_global auth = g" "ea_program auth = pid" unfolding auth_def by simp_all
  ultimately show thesis using that [OF g] unfolding dist by blast
qed

abbreviation paid_fee :: "gas_response \<Rightarrow> int" where
  "paid_fee gas \<equiv> (case getPriorityFee gas of Some fee \<Rightarrow> fee | None \<Rightarrow> 250000)"

lemma distributeYield_delivered:
  assumes "distribute_instructions S pid s = (Inr (ixs, dist), s1)"
    and "buildTransactions S (bw_squads w) (bw_signing w) opt ixs (paid_fee (bw_gas w pid)) 10 None =
      Some build" "build (bot_sending s1) = (Inr txs, l)"
    and "deliver (sv_rpc S) (bw_send w pid) (dryRun opt) txs = Inr sigs"
  shows "\<exists>s'. distributeYield S w opt pid s =
    Some (Inr \<lparr>dr_signature = (case sigs of [] \<Rightarrow> None | sig # _ \<Rightarrow> Some sig), distribution = dist\<rparr>, s')"
  using assms(2-4)
  by (simp add: distributeYield_def assms(1) buildAndSendTransaction_def bindA_def zoomA_def split: prod.split)

lemma deliver_sends:
  assumes "getLatestBlockhash rpc = Inr h" "mapE (confirmTransaction R) (first_signatures (sendTransaction R) txs) = Inr us"
  shows "deliver rpc R False txs = Inr (first_signatures (sendTransaction R) txs)"
  using assms by (simp add: deliver_def Let_def send_all_kept)

text \<open>A concrete run: one Crank extension with one earner, an environment with a local signer.\<close>

definition toy_crank_value :: bval where
  "toy_crank_value = VStruct
     [(''admin'', VKey [1]), (''ext_mint'', VKey [0]), (''m_mint'', VKey [2]),
      (''yield_config'', VStruct [(''yield_variant'', VEnum ''Crank''), (''earn_authority'', VKey [9]),
        (''last_ext_index'', VU64 11), (''timestamp'', VU64 4)]),
      (''wrap_authorities'', VVec [])]"

definition toy_bot_api :: "int program_api" where
  "toy_bot_api = \<lparr>fetch_earnManager = (\<lambda>_ _. Inr \<lparr>isActive = True, feeBps = 15, feeTokenAccount = [8],
       em_bump = 0, em_earnManager = [5]\<rparr>),
     fetch_earner = (\<lambda>_ _. Inr toy_earner_data), all_earners = (\<lambda>_ _. Inr [([1], toy_earner_data)]),
     spl_getAccount = (\<lambda>_. Inr ())\<rparr>"

definition toy_services :: "int services" where
  "toy_services = \<lparr>sv_bn = int_bn, sv_val = (\<lambda>n. n), sv_web3 = toy_web3, sv_mongo = toy_mongo,
     sv_decode = (\<lambda>_ _ _. Inr toy_crank_value),
     sv_accounts = \<lparr>getAccountInfo = (\<lambda>_. Inr (Some (replicate 140 0 @ [2])))\<rparr>,
     sv_api = toy_bot_api, sv_rpc = toy_rpc, sv_luts = toy_luts\<rparr>"

definition toy_options :: ParsedOptions where
  "toy_options = \<lparr>isDevnet = False, connection_url = Some ''rpc'', evmClient_url = None,
     env_merkleTreeAddress = ETH_MERKLE_TREE_BUILDER, evmWallet = None, signerPubkey = [4],
     signer = Some [4], squads = None, turnkey = None, dryRun = False\<rparr>"

definition toy_squads :: squads_sdk where
  "toy_squads = \<lparr>getVaultPda = (\<lambda>b. b), multisig_transactionIndex = (\<lambda>_ sent. Inr (41 + length sent)),
     vaultTransactionCreate = (\<lambda>m i c msg memo. \<lparr>txi_keys = [], txi_programId = m, txi_data = [of_nat i]\<rparr>),
     proposalCreate = (\<lambda>m c i. \<lparr>txi_keys = [], txi_programId = m, txi_data = [of_nat i]\<rparr>)\<rparr>"

definition toy_send :: send_rpc where
  "toy_send = \<lparr>sendTransaction = (\<lambda>t j. if j = 2 then Inr ''sig'' else Inl (External ''dropped'')),
     confirmTransaction = (\<lambda>_. Inr ()), serialize64 = (\<lambda>_. [])\<rparr>"

definition toy_signing :: signing where
  "toy_signing = \<lparr>keypair_sign = (\<lambda>_ _. Inr ()), turnkey_sign = (\<lambda>_ _. Inr ())\<rparr>"

definition toy_world :: bot_world where
  "toy_world = \<lparr>bw_signing = toy_signing, bw_squads = toy_squads, bw_send = (\<lambda>_. toy_send),
     bw_gas = (\<lambda>_. GasError)\<rparr>"

definition toy_bot_state :: bot_state where
  "toy_bot_state = initial_state\<lparr>database := True\<rparr>"

lemma toy_services_simps:
  "sv_bn toy_services = int_bn" "sv_val toy_services = (\<lambda>n. n)" "sv_web3 toy_services = toy_web3"
  "sv_mongo toy_services = toy_mongo" "sv_api toy_services = toy_bot_api"
  "sv_rpc toy_services = toy_rpc" "sv_luts toy_services = toy_luts"
  by (simp_all add: toy_services_def)

lemma toy_load_global: "loadGlobal (sv_bn toy_services) (sv_web3 toy_services) (sv_decode toy_services)
     (sv_accounts toy_services) [7] = Inr toy_global"
  by (simp add: loadGlobal_def toy_services_def byte_at_def yield_type_offset_def nth_append
      extensionIDL_def Let_def read_global_def toy_crank_value_def js_prop_def int_bn_simps toy_global_def)

lemma toy_auth_fields: "ea_global toy_auth = toy_global" "ea_program toy_auth = [7]"
  "ea_tables toy_auth = []" "managerCache toy_auth = (\<lambda>_. None)"
  by (simp_all add: toy_auth_def)

lemma toy_validate: "validateDatabaseData (\<lambda>n. n) toy_mongo toy_auth = (Inr (), toy_auth)"
proof -
  have "number_of_bn (\<lambda>n. n) 11 = 11" by (rule number_of_bn_exact) simp_all
  then show ?thesis
    by (simp add: validateDatabaseData_def loadIndexFromDB_def bindA_def toy_auth_queries
        latestIndex_def toy_auth_fields toy_global_def)
qed

lemma toy_build_claim:
  "\<exists>ix s. buildClaimInstruction int_bn toy_web3 toy_mongo toy_bot_api (new_Earner [1] toy_earner_data [7]) True
     toy_auth = (Inr (Some ix), s) \<and> ea_global s = toy_global \<and> ea_program s = [7] \<and> ea_tables s = []"
  by (simp add: buildClaimInstruction_def bindA_def new_Earner_def toy_claim cached_manager_def
      toy_auth_fields EarnManager_fromManagerAddress_def toy_bot_api_def toy_web3_simps claim_call_def
      Let_def)

lemma toy_simulate_any:
  assumes "ea_global s = toy_global" "ea_program s = [7]" "ea_tables s = []"
  shows "\<exists>s'. simulateAndValidateClaimIxs int_bn toy_web3 toy_mongo toy_rpc toy_luts ixs s = (Inr 320, s')"
proof -
  obtain tx where tx: "buildTransaction (toy_web3 :: int web3) toy_rpc toy_luts ixs [9] 250000 True [] =
      (Inr tx, [[12], [11]])"
    by (simp add: buildTransaction_def getAddressLookupTables_def bindA_def toy_rpc_def toy_luts_def Let_def)
  show ?thesis
    by (simp add: simulateAndValidateClaimIxs_def bindA_def assms zoomA_def toy_global_def required_def
        tx toy_currentIndex_any int_bn_simps safe_number_def toy_rewards total_rewards_def
        signed_divide_int_def Let_def toy_web3_simps toy_rpc_simps)
qed

lemma toy_auth_instructions:
  "\<exists>sync claim s. auth_instructions toy_services toy_auth = (Inr ([sync, claim], Some (320, 1)), s)"
proof -
  obtain ix s where c: "buildClaimInstruction int_bn toy_web3 toy_mongo toy_bot_api
      (new_Earner [1] toy_earner_data [7]) True toy_auth = (Inr (Some ix), s)"
    "ea_global s = toy_global" "ea_program s = [7]" "ea_tables s = []"
    using toy_build_claim by blast
  have e: "getAllEarners toy_bot_api toy_auth = (Inr [new_Earner [1] toy_earner_data [7]], toy_auth)"
    by (simp add: getAllEarners_def bindA_def toy_auth_fields toy_bot_api_def)
  obtain sync where sync: "buildIndexSyncInstruction toy_web3 toy_auth = Inr sync"
    by (simp add: buildIndexSyncInstruction_def toy_auth_fields toy_global_def toy_web3_simps)
  obtain s' where "simulateAndValidateClaimIxs int_bn toy_web3 toy_mongo toy_rpc toy_luts [sync, ix] s =
      (Inr 320, s')" using toy_simulate_any [OF c(2-4)] by blast
  then show ?thesis
    by (simp add: auth_instructions_def bindA_def toy_services_simps sync toy_validate e c(1)
        toy_auth_fields) (simp add: toy_global_def int_bn_simps safe_number_def Let_def bindA_def)
qed

lemma toy_build_any:
  "\<exists>t l'. build_batch toy_services toy_squads toy_signing toy_options fee memo b l = (Inr t, l')"
proof -
  have "\<exists>tx l'. buildTransaction (toy_web3 :: int web3) toy_rpc toy_luts b [4] fee True l = (Inr tx, l')" for l
    by (simp add: buildTransaction_def getAddressLookupTables_def bindA_def toy_rpc_def toy_luts_def Let_def)
  then obtain tx l' where "buildTransaction (toy_web3 :: int web3) toy_rpc toy_luts b [4] fee True
      (cached_tables l) = (Inr tx, l')" by blast
  then show ?thesis
    by (simp add: build_batch_def toy_options_def toy_services_simps bindA_def zoomA_def sign_transaction_def
        toy_signing_def)
qed

lemma mapA_total:
  assumes "\<And>x s. \<exists>y s'. f x s = (Inr y, s')"
  shows "\<exists>ys s'. mapA f xs s = (Inr ys, s')"
proof (induction xs arbitrary: s)
  case Nil
  then show ?case by simp
next
  case (Cons x xs)
  obtain y t where "f x s = (Inr y, t)" using assms by blast
  moreover obtain ys s' where "mapA f xs t = (Inr ys, s')" using Cons.IH by blast
  ultimately show ?case by (simp add: bindA_def)
qed

lemma toy_transactions:
  "\<exists>build txs l'. buildTransactions toy_services toy_squads toy_signing toy_options ixs fee 10 memo = Some build \<and>
     build l = (Inr txs, l')"
proof -
  obtain bs where "batches 10 ixs = Some bs" using bot.split_returns [OF zero_less_numeral] by blast
  then show ?thesis
    using mapA_total [of "build_batch toy_services toy_squads toy_signing toy_options fee memo", OF toy_build_any]
    by (auto simp: buildTransactions_def)
qed

lemma toy_distribute_instructions:
  "\<exists>ixs s1. distribute_instructions toy_services [7] toy_bot_state = (Inr (ixs, Some (320, 1)), s1)"
proof -
  obtain ixs s1 where a: "auth_instructions toy_services toy_auth = (Inr (ixs, Some (320, 1)), s1)"
    using toy_auth_instructions by blast
  have "EarnAuthority_load (sv_bn toy_services) (sv_web3 toy_services) (sv_decode toy_services)
      (sv_accounts toy_services) [7] True = Inr toy_auth"
    unfolding EarnAuthority_load_def toy_load_global by (simp add: toy_auth_def)
  moreover have "toy_auth\<lparr>database := True\<rparr> = toy_auth" by (simp add: toy_auth_def)
  ultimately show ?thesis
    by (simp add: distribute_instructions_def bindA_def toy_bot_state_def localA_def a)
qed

lemma toy_no_first: "first_signatures (sendTransaction toy_send) txs = []"
  by (simp add: first_signatures_def toy_send_def)

lemma toy_distribute:
  "\<exists>s'. distributeYield toy_services toy_world toy_options [7] toy_bot_state =
     Some (Inr \<lparr>dr_signature = None, distribution = Some (320, 1)\<rparr>, s')"
proof -
  obtain ixs s1 where d: "distribute_instructions toy_services [7] toy_bot_state = (Inr (ixs, Some (320, 1)), s1)"
    using toy_distribute_instructions by blast
  obtain build txs l where b: "buildTransactions toy_services (bw_squads toy_world) (bw_signing toy_world)
      toy_options ixs (paid_fee (bw_gas toy_world [7])) 10 None = Some build"
    "build (bot_sending s1) = (Inr txs, l)"
    using toy_transactions [of ixs "paid_fee (bw_gas toy_world [7])" None "bot_sending s1"]
    by (auto simp: toy_world_def)
  have "deliver (sv_rpc toy_services) (bw_send toy_world [7]) (dryRun toy_options) txs = Inr []"
    using deliver_sends [of toy_rpc "''hash''" toy_send txs "[]"]
    by (simp add: toy_services_simps toy_world_def toy_options_def toy_no_first toy_rpc_def)
  from distributeYield_delivered [OF d b this] show ?thesis by simp
qed

text \<open>
  C15. A distribution the bot reports for an extension was validated: the extension is a Crank
  extension whose index (below 53 bits) the database has reached; one simulated transaction held the
  index sync and all the claims, their number is reported; the amount reported is the sum of the
  rewards and fees in its logs; and the supply plus this amount is within the collateral, the $M of
  the vault scaled by the newest index of the database.
\<close>

theorem reported_distribution_validated:
  fixes S :: "'n services"
  assumes "bignum (sv_bn S) (sv_val S)"
    and "distributeYield S w opt pid s = Some (Inr r, s')" "distribution r = Some (n, k)"
  shows "\<exists>g sync claims txn fee units logs rewards minted amount dbIndex t s1 s2.
    loadGlobal (sv_bn S) (sv_web3 S) (sv_decode S) (sv_accounts S) pid = Inr g \<and>
    variant g = ''Crank'' \<and> k = length claims \<and>
    instructions (tx_message txn) = fee # units # sync # claims \<and>
    simulate_logs (sv_rpc S) txn = Inr (None, Some logs) \<and>
    getRewardAmounts (sv_bn S) (sv_web3 S) logs = Inr rewards \<and>
    n = sum_list (map (\<lambda>r. sv_val S (rw_user r) + sv_val S (rw_fee r)) rewards) \<and>
    getMint_supply (sv_rpc S) (extMint g) = Inr minted \<and>
    getAccount_amount (sv_rpc S) (associatedTokenAddress (sv_web3 S) (mMint g)
      (findProgramAddress (sv_web3 S) [bytes_of ''m_vault''] pid) True
      (TOKEN_2022_PROGRAM_ID (sv_web3 S))) = Inr amount \<and>
    currentIndex (sv_mongo S) (s1 :: 'n EarnAuthority) = (Inr (dbIndex, t), s2) \<and>
    minted + n \<le> (amount * dbIndex) sdiv 10 ^ 12 \<and>
    (\<forall>i. GlobalAccountData.index g = Some i \<and> 0 \<le> sv_val S i \<and> sv_val S i < 2 ^ 53 \<longrightarrow>
       sv_val S i \<le> dbIndex)"
proof -
  note of_num = bignum.of_number_val [OF assms(1)]
  note vs = bignum.val_simps [OF assms(1)]
  obtain g auth auth' ixs s1 where
    g: "loadGlobal (sv_bn S) (sv_web3 S) (sv_decode S) (sv_accounts S) pid = Inr g"
    and ai: "auth_instructions S auth = (Inr (ixs, Some (n, k)), auth')"
    and ag: "ea_global auth = g" "ea_program auth = pid"
    using distributeYield_dist [OF assms(2,3)] by metis
  obtain sync claims s2 tot sv where v: "variant g = ''Crank''" "ixs = sync # claims" "k = length claims"
    and sim: "simulateAndValidateClaimIxs (sv_bn S) (sv_web3 S) (sv_mongo S) (sv_rpc S) (sv_luts S) ixs s2 =
       (Inr tot, auth')"
    and n: "bn_toNumber (sv_bn S) tot = Inr n"
    and s2: "ea_global s2 = g" "ea_program s2 = pid"
    and fresh: "validateDatabaseData (sv_val S) (sv_mongo S) auth = (Inr (), sv)"
    using auth_instructions_Crank [OF ai] unfolding ag by metis
  obtain feePayer txn l logs rewards zero minted amount dbIndex dbTs i scale collateral s3 where
    tx: "buildTransaction (sv_web3 S) (sv_rpc S) (sv_luts S) ixs feePayer 250000 True (ea_tables s2) =
      (Inr txn, l)"
    and a: "simulate_logs (sv_rpc S) txn = Inr (None, Some logs)"
      "getRewardAmounts (sv_bn S) (sv_web3 S) logs = Inr rewards"
      "currentIndex (sv_mongo S) s3 = (Inr (dbIndex, dbTs), auth')"
      "getMint_supply (sv_rpc S) (extMint g) = Inr minted"
      "getAccount_amount (sv_rpc S) (associatedTokenAddress (sv_web3 S) (mMint g)
        (findProgramAddress (sv_web3 S) [bytes_of ''m_vault''] pid) True
        (TOKEN_2022_PROGRAM_ID (sv_web3 S))) = Inr amount"
    and z: "bn_of_number (sv_bn S) 0 = Inr zero" "tot = total_rewards (sv_bn S) zero rewards"
      "bn_of_number (sv_bn S) dbIndex = Inr i" "bn_of_number (sv_bn S) 1000000000000 = Inr scale"
      "bn_div (sv_bn S) (bn_mul (sv_bn S) (bn_of_string (sv_bn S) amount) i) scale = Inr collateral"
      "\<not> bn_gt (sv_bn S) (bn_add (sv_bn S) (bn_of_string (sv_bn S) minted) tot) collateral"
    using sim by (rule simulateAndValidate_built) (simp add: s2)
  have val: "sv_val S zero = 0" "sv_val S i = dbIndex" "sv_val S scale = 10 ^ 12"
    using of_num z(1,3,4) by fastforce+
  have tot: "n = sv_val S tot" using bignum.toNumber_val [OF assms(1) n] by simp
  then have sum: "n = sum_list (map (\<lambda>r. sv_val S (rw_user r) + sv_val S (rw_fee r)) rewards)"
    using bignum.total_rewards_val [OF assms(1)] z(2) val(1) by simp
  have "sv_val S collateral = (amount * dbIndex) sdiv 10 ^ 12"
    using bignum.div_val [OF assms(1) z(5)] val by (simp add: vs)
  then have le: "minted + n \<le> (amount * dbIndex) sdiv 10 ^ 12" using z(6) tot by (simp add: vs)
  obtain fee units where "instructions (tx_message txn) = fee # units # ixs"
    using buildTransaction_contents [OF tx] by blast
  moreover have "sv_val S i \<le> dbIndex"
    if "GlobalAccountData.index g = Some i" "0 \<le> sv_val S i" "sv_val S i < 2 ^ 53" for i
    using validate_fresh [OF fresh _ that(2,3)] that(1) ag(1) currentIndex_unique [OF a(3)]
    by (auto simp: latestIndex_def)
  ultimately show ?thesis using g v a sum le by blast
qed

theorem reported_distribution_validated_witness:
  "\<exists>logs rewards minted amount dbIndex. getRewardAmounts int_bn toy_web3 logs = Inr rewards \<and>
     320 = sum_list (map (\<lambda>r. rw_user r + rw_fee r) rewards) \<and>
     getMint_supply toy_rpc (extMint toy_global) = Inr minted \<and> 11 \<le> dbIndex \<and>
     minted + 320 \<le> (amount * dbIndex) sdiv 10 ^ 12"
proof -
  obtain s' where d: "distributeYield toy_services toy_world toy_options [7] toy_bot_state =
     Some (Inr \<lparr>dr_signature = None, distribution = Some (320, 1)\<rparr>, s')" using toy_distribute by blast
  have "bignum (sv_bn toy_services) (sv_val toy_services)"
    by (simp add: toy_services_simps int_bn.bignum_axioms)
  from reported_distribution_validated [OF this d, of 320 1]
  obtain g logs rewards minted amount dbIndex where
    g: "loadGlobal (sv_bn toy_services) (sv_web3 toy_services) (sv_decode toy_services)
      (sv_accounts toy_services) [7] = Inr g"
    and r: "getRewardAmounts int_bn toy_web3 logs = Inr rewards"
      "320 = sum_list (map (\<lambda>r. rw_user r + rw_fee r) rewards)"
      "getMint_supply toy_rpc (extMint g) = Inr minted" "minted + 320 \<le> (amount * dbIndex) sdiv 10 ^ 12"
      "\<forall>i. GlobalAccountData.index g = Some i \<and> 0 \<le> i \<and> i < 2 ^ 53 \<longrightarrow> i \<le> dbIndex"
    unfolding toy_services_simps by auto
  have e: "g = toy_global" using g toy_load_global by simp
  have "11 \<le> dbIndex" using r(5) by (simp add: e toy_global_def)
  then show ?thesis using r unfolding e by blast
qed

section \<open>Batches\<close>

text \<open>
  C20. Without a squads vault the transactions built for a list of instructions carry all of them,
  in order and once: after the two compute budget instructions each transaction holds between one
  and \<open>batchSize\<close> of them, and the payer is the signer.
\<close>

theorem transactions_carry_all:
  assumes "squads opt = None" "buildTransactions S Q sg opt ixs fee n memo = Some build"
    and "build luts = (Inr txs, luts')"
  shows "ixs = concat (map (\<lambda>t. drop 2 (instructions (tx_message (signed_tx t)))) txs) \<and>
    list_all (\<lambda>t. payerKey (tx_message (signed_tx t)) = signerPubkey opt \<and>
      3 \<le> length (instructions (tx_message (signed_tx t))) \<and>
      length (instructions (tx_message (signed_tx t))) \<le> n + 2) txs"
proof -
  obtain bs where bs: "concat bs = ixs" "\<forall>b \<in> set bs. b \<noteq> [] \<and> length b \<le> n"
    "list_all2 (\<lambda>b t. \<exists>l l'. build_batch S Q sg opt fee memo b l = (Inr t, l')) bs txs"
    using buildTransactions_batches [OF assms(2,3)] .
  then have t: "list_all2 (\<lambda>b t. tx_ixs t = b \<and> payerKey (tx_message (signed_tx t)) = signerPubkey opt) bs txs"
    by (elim list_all2_mono) (metis build_batch_direct assms(1))
  then have m: "bs = map tx_ixs txs" by (intro list_all2_map_eq) (auto elim: list_all2_mono)
  have "tx_ixs u \<noteq> [] \<and> length (tx_ixs u) \<le> n" if "u \<in> set txs" for u using that bs(2) m by simp
  moreover have "payerKey (tx_message (signed_tx u)) = signerPubkey opt" if "u \<in> set txs" for u
    using list_all2_member [OF t that] by blast
  ultimately have "list_all (\<lambda>u. payerKey (tx_message (signed_tx u)) = signerPubkey opt \<and>
      3 \<le> length (instructions (tx_message (signed_tx u))) \<and>
      length (instructions (tx_message (signed_tx u))) \<le> n + 2) txs"
    by (fastforce simp: list_all_iff tx_ixs_def)
  then show ?thesis using bs(1) m by (auto simp: tx_ixs_def [abs_def])
qed

theorem transactions_carry_all_witness:
  "\<exists>build txs l. buildTransactions toy_services toy_squads toy_signing toy_options
      [scaled_ui_sync toy_web3 [7] toy_global, scaled_ui_sync toy_web3 [8] toy_global] 5 10 None = Some build \<and>
     build \<lparr>cached_tables = [], sent_txs = []\<rparr> = (Inr txs, l) \<and> concat (map (\<lambda>t. drop 2 (instructions (tx_message (signed_tx t)))) txs) =
       [scaled_ui_sync toy_web3 [7] toy_global, scaled_ui_sync toy_web3 [8] toy_global]"
proof -
  obtain build txs l where b: "buildTransactions toy_services toy_squads toy_signing toy_options
      [scaled_ui_sync toy_web3 [7] toy_global, scaled_ui_sync toy_web3 [8] toy_global] 5 10 None = Some build"
      "build \<lparr>cached_tables = [], sent_txs = []\<rparr> = (Inr txs, l)"
    using toy_transactions by blast
  have "squads toy_options = None" by (simp add: toy_options_def)
  from transactions_carry_all [OF this b] b show ?thesis by metis
qed

text \<open>
  C36. With a squads vault a run of \<open>buildAndSendTransaction\<close> proposes every batch under one and the
  same transaction index, one above the index the multisig has before the call, however its index
  depends on what is sent: all transactions are built before the first one goes out.  What the
  network accepts in the end are these proposals, so after the first accepted one the index has
  passed the index of the others.
\<close>

theorem squads_batches_share_index:
  assumes "squads opt = Some sq" "buildAndSendTransaction S Q sg R gas opt ixs n memo = Some act"
    and "act st = (Inr sigs, st')" "multisig_transactionIndex Q (squadsPda sq) (sent_txs st) = Inr k"
  shows "\<exists>bs txs. concat bs = ixs \<and>
    list_all2 (\<lambda>b t. \<exists>hash. drop 2 (instructions (tx_message (signed_tx t))) =
      [vaultTransactionCreate Q (squadsPda sq) (k + 1) (signerPubkey opt)
         \<lparr>payerKey = getVaultPda Q (squadsPda sq), recentBlockhash = hash, instructions =
            setComputeUnitPrice (sv_web3 S) (case getPriorityFee gas of Some fee \<Rightarrow> fee | None \<Rightarrow> 250000) # b\<rparr>
         (proposal_memo memo),
       proposalCreate Q (squadsPda sq) (signerPubkey opt) (k + 1)]) bs txs \<and>
    sent_txs st' = sent_txs st @ (if dryRun opt then [] else concat (map (\<lambda>t. concat (map (\<lambda>j.
      case sendTransaction R t j of Inr sig \<Rightarrow> [t] | Inl _ \<Rightarrow> []) [0, 1, 2])) txs))"
proof -
  have eq: "accepted_sends (sendTransaction R) = (\<lambda>t. concat (map (\<lambda>j.
      case sendTransaction R t j of Inr sig \<Rightarrow> [t] | Inl _ \<Rightarrow> []) [0, 1, 2]))"
    by (simp add: fun_eq_iff accepted_sends_def send_attempts_sent split: sum.split)
  show ?thesis using buildAndSend_squads [OF assms(2,3,1,4)] unfolding eq .
qed

text \<open>
  Twelve instructions are more than one batch: both proposals name index 42, and both are accepted,
  though the multisig has reached that index with the first.
\<close>

definition toy_squads_options :: ParsedOptions where
  "toy_squads_options = toy_options\<lparr>squads := Some \<lparr>squadsPda = [20], squadsVault = [21]\<rparr>\<rparr>"

abbreviation fresh_sending :: sending where
  "fresh_sending \<equiv> \<lparr>cached_tables = [], sent_txs = []\<rparr>"

lemma bindA_stateA: "bindA (stateA g) f s = f (g s) s"
  by (simp add: bindA_def)

lemma toy_squads_run:
  "\<exists>act st'. buildAndSendTransaction toy_services toy_squads toy_signing toy_send (GasStatus 500)
     toy_squads_options ixs 10 None = Some act \<and> act fresh_sending = (Inr [], st')"
proof -
  have key: "\<exists>t l'. bindA (with_tables (buildTransaction (toy_web3 :: int web3) toy_rpc toy_luts b [4] fee True))
      (\<lambda>tx. liftA (sign_transaction toy_signing toy_squads_options b58 tx)) l = (Inr t, l')" for b fee l b58
    by (simp add: buildTransaction_def getAddressLookupTables_def bindA_def toy_rpc_def toy_luts_def Let_def
        zoomA_def sign_transaction_def toy_squads_options_def toy_options_def toy_signing_def)
  have f: "squads toy_squads_options = Some \<lparr>squadsPda = [20], squadsVault = [21]\<rparr>"
      "signerPubkey toy_squads_options = [4]" "getLatestBlockhash toy_rpc = Inr ''hash''"
      "dryRun toy_squads_options = False" "(case getPriorityFee (GasStatus 500) of Some fee \<Rightarrow> fee | None \<Rightarrow> 250000) = 250000"
    by (simp_all add: toy_squads_options_def toy_options_def toy_rpc_def getPriorityFee_def)
  have one: "\<exists>t l'. build_batch toy_services toy_squads toy_signing toy_squads_options 250000 None b l = (Inr t, l')"
    for b l
    using key by (simp add: build_batch_def proposeSquadsTransaction_def f toy_services_simps bindA_liftA
        bindA_stateA required_def toy_squads_def Let_def)
  obtain bs where bs: "batches 10 ixs = Some bs" using bot.split_returns [OF zero_less_numeral] by blast
  obtain txs st1 where t: "mapA (build_batch toy_services toy_squads toy_signing toy_squads_options 250000 None)
      bs fresh_sending = (Inr txs, st1)"
    using mapA_total [of "build_batch toy_services toy_squads toy_signing toy_squads_options 250000 None", OF one]
    by blast
  have "deliver toy_rpc toy_send False txs = Inr []"
    using deliver_sends [of toy_rpc "''hash''" toy_send txs "[]"] by (simp add: toy_no_first f(3))
  then show ?thesis
    using t by (simp add: buildAndSendTransaction_def buildTransactions_def bs f bindA_def toy_services_simps)
qed

theorem squads_batches_share_index_witness:
  "\<exists>act st' bs txs. buildAndSendTransaction toy_services toy_squads toy_signing toy_send (GasStatus 500)
       toy_squads_options (replicate 12 (scaled_ui_sync toy_web3 [7] toy_global)) 10 None = Some act \<and>
     act fresh_sending = (Inr [], st') \<and> concat bs = replicate 12 (scaled_ui_sync toy_web3 [7] toy_global) \<and>
     list_all2 (\<lambda>b t. \<exists>hash. drop 2 (instructions (tx_message (signed_tx t))) =
        [vaultTransactionCreate toy_squads [20] (41 + 1) [4]
           \<lparr>payerKey = [20], recentBlockhash = hash,
            instructions = setComputeUnitPrice (toy_web3 :: int web3) 250000 # b\<rparr> ''yield bot: proposal with no memo'',
         proposalCreate toy_squads [20] [4] (41 + 1)]) bs txs \<and>
     sent_txs st' = txs \<and> multisig_transactionIndex toy_squads [20] [hd txs] = Inr 42"
proof -
  let ?ixs = "replicate 12 (scaled_ui_sync toy_web3 [7] toy_global)"
  obtain act st' where b: "buildAndSendTransaction toy_services toy_squads toy_signing toy_send (GasStatus 500)
      toy_squads_options ?ixs 10 None = Some act" "act fresh_sending = (Inr [], st')"
    using toy_squads_run by blast
  have o: "squads toy_squads_options = Some \<lparr>squadsPda = [20], squadsVault = [21]\<rparr>"
      "signerPubkey toy_squads_options = [4]" "dryRun toy_squads_options = False"
      "(case getPriorityFee (GasStatus 500) of Some fee \<Rightarrow> fee | None \<Rightarrow> 250000) = 250000"
    by (simp_all add: toy_squads_options_def toy_options_def getPriorityFee_def)
  have k: "multisig_transactionIndex toy_squads (squadsPda \<lparr>squadsPda = [20], squadsVault = [21]\<rparr>)
      (sent_txs fresh_sending) = Inr 41"
    and v: "getVaultPda toy_squads [20] = [20]" by (simp_all add: toy_squads_def)
  have m: "proposal_memo None = ''yield bot: proposal with no memo''" by (simp add: proposal_memo_def)
  have e: "(case sendTransaction toy_send t j of Inr sig \<Rightarrow> [t] | Inl _ \<Rightarrow> []) = (if j = 2 then [t] else [])" for t and j :: nat
    by (simp add: toy_send_def)
  have i: "multisig_transactionIndex toy_squads [20] [t] = Inr 42" for t by (simp add: toy_squads_def)
  from squads_batches_share_index [OF o(1) b k] obtain bs txs where
    "concat bs = ?ixs"
    and "list_all2 (\<lambda>b t. \<exists>hash. drop 2 (instructions (tx_message (signed_tx t))) =
        [vaultTransactionCreate toy_squads [20] (41 + 1) [4]
           \<lparr>payerKey = [20], recentBlockhash = hash,
            instructions = setComputeUnitPrice (toy_web3 :: int web3) 250000 # b\<rparr> ''yield bot: proposal with no memo'',
         proposalCreate toy_squads [20] [4] (41 + 1)]) bs txs"
    and sent: "sent_txs st' = concat (map (\<lambda>t. concat (map (\<lambda>j. if j = 2 then [t] else []) [0, 1, 2 :: nat])) txs)"
    unfolding o m toy_services_simps SquadsEnvOption.select_convs sending.select_convs v e if_False append_Nil
    by blast
  moreover
  have "concat (map (\<lambda>t. concat (map (\<lambda>j. if j = 2 then [t] else []) [0, 1, 2 :: nat])) ts) = ts" for ts :: "signed_transaction list"
    by (induction ts) simp_all
  then have "sent_txs st' = txs" using sent by simp
  ultimately show ?thesis using b i
    by (intro exI [of _ act] exI [of _ st'] exI [of _ bs] exI [of _ txs] conjI)
qed

section \<open>Signatures\<close>

text \<open>
  C37. What \<open>buildAndSendTransaction\<close> sends and what it confirms differ.  Of every transaction
  the signatures of all accepted attempts are sent, but only the signature of a successful first
  attempt is returned; if some first attempt is dropped and a repetition accepted, that
  transaction is neither confirmed nor reported.
\<close>

theorem delivered_signatures:
  assumes "deliver rpc R False txs = Inr sigs"
  shows "sigs = concat (map (\<lambda>t. case sendTransaction R t 0 of Inr sig \<Rightarrow> [sig] | Inl _ \<Rightarrow> []) txs) \<and>
    list_all (\<lambda>sig. confirmTransaction R sig = Inr ()) sigs \<and>
    snd (send_all (sendTransaction R) txs) = concat (map (\<lambda>t. concat (map (\<lambda>j.
      case sendTransaction R t j of Inr sig \<Rightarrow> [sig] | Inl _ \<Rightarrow> []) [0, 1, 2])) txs)"
proof -
  have s: "sigs = first_signatures (sendTransaction R) txs"
    and c: "\<exists>us. mapE (confirmTransaction R) sigs = Inr us"
    using assms by (auto simp: deliver_def Let_def send_all_kept bindE_eq_Inr_iff)
  have "list_all (\<lambda>sig. confirmTransaction R sig = Inr ()) sigs" using c
    by (induction sigs) (auto simp: bindE_eq_Inr_iff)
  then show ?thesis
    using s by (simp only: first_signatures_def send_all_sent send_attempts_sent simp_thms)
qed

definition toy_signed :: signed_transaction where
  "toy_signed = \<lparr>signed_tx = \<lparr>tx_message = \<lparr>payerKey = [9], recentBlockhash = ''hash'', instructions = []\<rparr>,
     tx_tables = []\<rparr>, signed_by = ''keypair''\<rparr>"

theorem delivered_signatures_witness:
  "deliver toy_rpc toy_send False [toy_signed] = Inr [] \<and>
     snd (send_all (sendTransaction toy_send) [toy_signed]) = [''sig'']"
proof -
  have "deliver toy_rpc toy_send False [toy_signed] = Inr []"
    using deliver_sends [of toy_rpc "''hash''" toy_send "[toy_signed]" "[]"] by (simp add: toy_no_first toy_rpc_def)
  with delivered_signatures [OF this] show ?thesis by (simp add: toy_send_def)
qed

text \<open>
  C38. When every first attempt to send fails, a run that is not a dry run ends as a success for
  the extension, whatever becomes of the repetitions: no signature is confirmed, and the success
  text links to the transaction \<open>undefined\<close>.
\<close>

theorem unsent_run_reports_success:
  assumes "distribute_instructions S pid s = (Inr (ixs, dist), s1)"
    and "buildTransactions S (bw_squads w) (bw_signing w) opt ixs
      (case getPriorityFee (bw_gas w pid) of Some fee \<Rightarrow> fee | None \<Rightarrow> 250000) 10 None = Some build"
    and "build (bot_sending s1) = (Inr txs, l)" "\<not> dryRun opt" "getLatestBlockhash (sv_rpc S) = Inr h"
    and "list_all (\<lambda>t. isl (sendTransaction (bw_send w pid) t 0)) txs"
  shows "\<exists>r s'. distributeYield S w opt pid s = Some (Inr r, s') \<and>
    yl_success (extension_log show_error opt ext (Inr r)) \<and>
    (\<exists>pre. yl_text (extension_log show_error opt ext (Inr r)) =
       pre @ ''https://explorer.solana.com/tx/undefined'' @ (if isDevnet opt then ''?cluster=devnet'' else []))"
proof -
  have "first_signatures (sendTransaction (bw_send w pid)) txs = []"
    using assms(6) by (auto simp: first_signatures_def list_all_iff isl_def)
  then have "deliver (sv_rpc S) (bw_send w pid) (dryRun opt) txs = Inr []"
    using deliver_sends [OF assms(5), of "bw_send w pid" txs "[]"] assms(4) by simp
  from distributeYield_delivered [OF assms(1-3) this]
  obtain s' where "distributeYield S w opt pid s = Some (Inr \<lparr>dr_signature = None, distribution = dist\<rparr>, s')"
    by auto
  moreover have "\<exists>pre. buildSuccessText opt \<lparr>dr_signature = None, distribution = dist\<rparr> =
      pre @ ''https://explorer.solana.com/tx/undefined'' @ (if isDevnet opt then ''?cluster=devnet'' else [])"
    using assms(4)
    by (cases dist) (auto simp: buildSuccessText_def explorerTxUrl_def Let_def split: prod.splits)
  ultimately show ?thesis by (fastforce simp: extension_log_def)
qed

theorem unsent_run_reports_success_witness:
  "\<exists>r s'. distributeYield toy_services toy_world toy_options [7] toy_bot_state = Some (Inr r, s') \<and>
     yl_success (extension_log (\<lambda>_. []) toy_options (''wM'', ''7'') (Inr r))"
proof -
  obtain ixs s1 where d: "distribute_instructions toy_services [7] toy_bot_state = (Inr (ixs, Some (320, 1)), s1)"
    using toy_distribute_instructions by blast
  obtain build txs l where b: "buildTransactions toy_services (bw_squads toy_world) (bw_signing toy_world)
      toy_options ixs (case getPriorityFee (bw_gas toy_world [7]) of Some fee \<Rightarrow> fee | None \<Rightarrow> 250000) 10 None =
      Some build" "build (bot_sending s1) = (Inr txs, l)"
    using toy_transactions [of ixs "paid_fee (bw_gas toy_world [7])" None "bot_sending s1"]
    by (auto simp: toy_world_def)
  have "\<not> dryRun toy_options" "getLatestBlockhash (sv_rpc toy_services) = Inr ''hash''"
    "list_all (\<lambda>t. isl (sendTransaction (bw_send toy_world [7]) t 0)) txs"
    by (simp_all add: toy_options_def toy_services_simps toy_rpc_def toy_world_def toy_send_def list_all_iff)
  from unsent_run_reports_success [OF d b this] show ?thesis by blast
qed

section \<open>The run\<close>

lemma extension_log_name: "yl_name (extension_log show_error opt ext r) = fst ext"
  by (simp add: extension_log_def split: sum.splits)

text \<open>
  C19. The command returns for every outcome of the services.  When the start-up fails, one entry
  says so; otherwise it adds exactly one entry for each extension, in order, each the success or
  failure of that extension's own distribution: a failure never stops the next extension.
\<close>

theorem run_one_log_per_extension:
  "\<exists>s'. distribute_command ES fetch S w show_error key e dry s = Some s' \<and>
     (case startup ES fetch (toBase58 (sv_web3 S)) e s of
        (Inl err, s1) \<Rightarrow> yieldLogs s' = yieldLogs s @
          [\<lparr>yl_name = ''startup'', yl_programId = ''-'', yl_success = False, yl_text = show_error err\<rparr>]
      | (Inr env, s1) \<Rightarrow> (\<exists>ls. yieldLogs s' = yieldLogs s @ ls \<and> map yl_name ls = [''wM'', ''USDKy''] \<and>
          list_all2 (\<lambda>ext l. \<exists>s1 r s2.
            distributeYield S w (parsed_options env dry) (key (snd ext)) s1 = Some (r, s2) \<and>
            l = extension_log show_error (parsed_options env dry) ext r) EXTENSIONS ls))"
proof (cases "startup ES fetch (toBase58 (sv_web3 S)) e s")
  case (Pair r s1)
  have logs: "yieldLogs s1 = yieldLogs s" using startup_logs [of ES fetch _ e s] by (metis Pair snd_conv)
  show ?thesis
  proof (cases r)
    case (Inl err)
    then show ?thesis using logs by (simp add: distribute_command_def Pair push_log_def)
  next
    case (Inr env)
    obtain s' ls where r: "run_extensions S w show_error key (parsed_options env dry) EXTENSIONS
        (s1\<lparr>bot_sending := (bot_sending s1)\<lparr>cached_tables := []\<rparr>\<rparr>) = Some s'" "yieldLogs s' = yieldLogs s @ ls"
      "list_all2 (\<lambda>ext l. \<exists>s1 r s2.
          distributeYield S w (parsed_options env dry) (key (snd ext)) s1 = Some (r, s2) \<and>
          l = extension_log show_error (parsed_options env dry) ext r) EXTENSIONS ls"
      using run_extensions_logs [of S w show_error key "parsed_options env dry" EXTENSIONS
          "s1\<lparr>bot_sending := (bot_sending s1)\<lparr>cached_tables := []\<rparr>\<rparr>"] logs by auto
    have "list_all2 (\<lambda>ext l. yl_name l = fst ext) EXTENSIONS ls"
      using r(3) by (rule list_all2_mono) (elim exE conjE, simp add: extension_log_name)
    then have "map yl_name ls = [''wM'', ''USDKy'']" by (auto simp: EXTENSIONS_def list_all2_Cons1)
    then show ?thesis using r by (simp add: distribute_command_def Pair Inr)
  qed
qed

end
