(* ===== verification/ServiceProperties.thy ===== *)
theory ServiceProperties
  imports YieldRun
begin

text \<open>
  The properties of the shared services and of the Ethereum reads, with their witnesses.
\<close>

section \<open>The environment\<close>





section \<open>Balances\<close>

text \<open>
  The balance check on the answers of an RPC server: an answer without a result (as JSON-RPC
  servers give with an error) reads as an empty balance below the threshold on Solana but throws
  on Ethereum; an amount is reported as it is and flagged exactly below the threshold of the
  chain; and a failed status throws.
\<close>

theorem balance_check_outcomes:
  assumes "fetch url (chain_method c) (chain_params c a) = Inr resp"
  shows "(\<not> ok resp \<longrightarrow> (\<exists>m. checkBlockchainBalance fetch c url a = Inl (Error m))) \<and>
    (\<forall>fs. ok resp \<and> body resp = Some (JObject fs) \<and> map_of fs ''result'' = None \<longrightarrow>
      (case c of
         Solana \<Rightarrow> checkBlockchainBalance fetch c url a = Inr \<lparr>balance_amount = 0, belowThreshold = True\<rparr>
       | Ethereum \<Rightarrow> checkBlockchainBalance fetch c url a = Inl TypeError)) \<and>
    (\<forall>fs gs n. ok resp \<and> body resp = Some (JObject fs) \<and> map_of fs ''result'' = Some (JObject gs) \<and>
      map_of gs ''value'' = Some (JNumber n) \<and> c = Solana \<longrightarrow>
      checkBlockchainBalance fetch c url a = Inr \<lparr>balance_amount = n, belowThreshold = (n < 10000000)\<rparr>)"
  using assms by (cases c) (simp_all add: checkBlockchainBalance_def Let_def)

theorem balance_check_outcomes_witness:
  "checkBlockchainBalance (\<lambda>_ _ _. Inr \<lparr>ok = True, status = 200, statusText = ''OK'',
     body = Some (JObject [(''error'', JString ''rate limited'')])\<rparr>) Solana ''rpc'' ''key'' =
   Inr \<lparr>balance_amount = 0, belowThreshold = True\<rparr>"
  using balance_check_outcomes [of "\<lambda>_ _ _. Inr \<lparr>ok = True, status = 200, statusText = ''OK'',
     body = Some (JObject [(''error'', JString ''rate limited'')])\<rparr>" "''rpc''" Solana "''key''"] by simp

section \<open>The registrar\<close>

text \<open>
  The reads of the registrar: the names of the two lists are the texts \<open>solana-earners\<close> and
  \<open>solana-earn-managers\<close> padded to 32 bytes, and \<open>getEarners\<close> decodes the hexadecimal words of the
  contract into exactly the keys of the list, in order and none lost.
\<close>

theorem registrar_earners_decoded:
  assumes "read_bytes32_list (client c) (merkleTreeAddress c) merkle_abi ''getList'' [REGISTRAR_LISTS Earners] =
      Inr (map (\<lambda>k. ''0x'' @ hex_encode k) ks)"
    and "\<And>b. length b = 32 \<Longrightarrow> new_PublicKey W b = Inr b" "\<forall>k \<in> set ks. length k = 32"
  shows "evm_getEarners W c = Inr ks \<and>
    hex_decode (drop 2 (REGISTRAR_LISTS Earners)) = bytes_of ''solana-earners'' @ replicate 18 0 \<and>
    hex_decode (drop 2 (REGISTRAR_LISTS EarnManagers)) = bytes_of ''solana-earn-managers'' @ replicate 12 0"
  unfolding evm_getEarners_def
  using getList_keys [OF assms] by (intro conjI registrar_list_names) simp

definition toy_evm :: evm where
  "toy_evm = \<lparr>read_bytes32 = (\<lambda>_ _ _ _. Inr []),
     read_bytes32_list = (\<lambda>_ _ _ _. Inr [''0x'' @ hex_encode (replicate 32 7), ''0x'' @ hex_encode (replicate 32 171)]),
     read_uint = (\<lambda>_ _ _ _. Inr 5)\<rparr>"

theorem registrar_earners_decoded_witness:
  "evm_getEarners (toy_web3 :: int web3) (new_EvmCaller toy_evm None None) = Inr [replicate 32 7, replicate 32 171]"
proof -
  let ?ks = "[replicate 32 7, replicate 32 171] :: buffer list"
  have "read_bytes32_list (client (new_EvmCaller toy_evm None None))
      (merkleTreeAddress (new_EvmCaller toy_evm None None)) merkle_abi ''getList'' [REGISTRAR_LISTS Earners] =
      Inr (map (\<lambda>k. ''0x'' @ hex_encode k) ?ks)"
    by (simp add: toy_evm_def new_EvmCaller_def)
  moreover have "\<And>b. length b = 32 \<Longrightarrow> new_PublicKey (toy_web3 :: int web3) b = Inr b"
    by (simp add: toy_web3_simps)
  moreover have "\<forall>k \<in> set ?ks. length k = 32" by simp
  ultimately show ?thesis by (rule registrar_earners_decoded [THEN conjunct1])
qed

end
