(* ===== verification/Float64.thy ===== *)
theory Float64
  imports Transactions
begin

text \<open>
  The double precision numbers of the earn program, \<open>programs/earn/src/utils/conversion.rs\<close>.  A
  multiplier is a natural number of units of \<open>2 ^ -92\<close>: every quotient of a \<open>u64\<close> by \<open>1e12\<close> and
  the initial 1.0 are whole numbers of such units, and the order of doubles is the order of the
  units.  Conversions and quotients are rounded to 53 significant bits, ties to even.
\<close>

type_synonym f64 = nat

definition f64_unit :: f64 where
  "f64_unit = 2 ^ 92"

text \<open>\<open>a / b\<close> rounded; the exact conversion of an integer is the quotient by one.\<close>

definition round_quot :: "nat \<Rightarrow> nat \<Rightarrow> nat" where
  "round_quot a b =
     (let k = excess_bits (a div b); d = b * 2 ^ k; q = a div d; r = a mod d
      in (if 2 * r < d \<or> (2 * r = d \<and> even q) then q else q + 1) * 2 ^ k)"

definition u64_to_f64 :: "64 word \<Rightarrow> nat" where
  "u64_to_f64 n = round_quot (unat n) 1"

definition index_to_multiplier :: "64 word \<Rightarrow> f64" where
  "index_to_multiplier index = round_quot (u64_to_f64 index * f64_unit) (10 ^ 12)"

section \<open>Rounding is monotone\<close>

lemma excess_bits_small: "n div 2 ^ excess_bits n < 2 ^ 53"
proof (induction n rule: excess_bits.induct)
  case (1 p)
  then show ?case
    by (cases "p < 2 ^ 53")
      (simp_all add: excess_bits.simps [of p] div_mult2_eq [symmetric] mult.commute)
qed

lemma excess_bits_large: "0 < excess_bits n \<Longrightarrow> 2 ^ 52 \<le> n div 2 ^ excess_bits n"
proof (induction n rule: excess_bits.induct)
  case (1 p)
  have big: "\<not> p < 2 ^ 53" using 1(2) by (simp add: excess_bits.simps [of p] split: if_splits)
  have e: "p div 2 ^ excess_bits p = p div 2 div 2 ^ excess_bits (p div 2)"
    using big by (simp add: excess_bits.simps [of p] div_mult2_eq)
  show ?case
  proof (cases "excess_bits (p div 2) = 0")
    case True
    then show ?thesis using e big by simp
  next
    case False
    then show ?thesis using e 1(1) [OF big] by simp
  qed
qed

lemma excess_bits_mono: "m \<le> n \<Longrightarrow> excess_bits m \<le> excess_bits n"
proof (induction n arbitrary: m rule: excess_bits.induct)
  case (1 p)
  show ?case
  proof (cases "m < 2 ^ 53")
    case True
    then show ?thesis by (simp add: excess_bits.simps [of m])
  next
    case False
    then have big: "\<not> p < 2 ^ 53" using 1(2) by simp
    have "excess_bits (m div 2) \<le> excess_bits (p div 2)"
      using 1(2) by (intro 1(1) [OF big] div_le_mono)
    then show ?thesis using False big by (simp add: excess_bits.simps [of m] excess_bits.simps [of p])
  qed
qed

lemma round_quot_bounds:
  assumes "0 < b" "k = excess_bits (a div b)"
  shows "a div (b * 2 ^ k) * 2 ^ k \<le> round_quot a b"
    and "round_quot a b \<le> 2 ^ (53 + k)"
    and "0 < k \<Longrightarrow> 2 ^ (52 + k) \<le> round_quot a b"
proof -
  let ?q = "a div (b * 2 ^ k)"
  have q: "?q = a div b div 2 ^ k" by (simp add: div_mult2_eq)
  have "?q < 2 ^ 53" unfolding q unfolding assms(2) by (rule excess_bits_small)
  then have up: "(?q + 1) * 2 ^ k \<le> 2 ^ 53 * 2 ^ k" by (intro mult_le_mono1) simp
  have r: "round_quot a b = ?q * 2 ^ k \<or> round_quot a b = (?q + 1) * 2 ^ k"
    by (simp add: round_quot_def Let_def assms(2) [symmetric])
  then show low: "?q * 2 ^ k \<le> round_quot a b" by auto
  show "round_quot a b \<le> 2 ^ (53 + k)" using r up by (auto simp: power_add)
  assume "0 < k"
  then have "2 ^ 52 \<le> ?q" unfolding q unfolding assms(2) by (rule excess_bits_large)
  then have "2 ^ 52 * 2 ^ k \<le> ?q * 2 ^ k" by (rule mult_le_mono1)
  from this low have "2 ^ 52 * 2 ^ k \<le> round_quot a b" by (rule order_trans)
  then show "2 ^ (52 + k) \<le> round_quot a b" by (simp only: power_add)
qed

lemma round_quot_mono:
  assumes "0 < b" "a \<le> a'"
  shows "round_quot a b \<le> round_quot a' b"
proof -
  define k k' where "k = excess_bits (a div b)" and "k' = excess_bits (a' div b)"
  have "k \<le> k'" unfolding k_def k'_def using assms(2) by (intro excess_bits_mono div_le_mono)
  then consider "k = k'" | "k < k'" by linarith
  then show ?thesis
  proof cases
    case 1
    let ?d = "b * 2 ^ k"
    have q: "a div ?d \<le> a' div ?d" using assms(2) by (rule div_le_mono)
    have r: "a mod ?d \<le> a' mod ?d" if "a div ?d = a' div ?d"
      using that assms(2) div_mult_mod_eq [of a ?d] div_mult_mod_eq [of a' ?d] by (metis add_le_cancel_left)
    show ?thesis
      using q r unfolding round_quot_def Let_def k_def [symmetric] k'_def [symmetric] 1 [symmetric]
      by (cases "a div ?d = a' div ?d") auto
  next
    case 2
    have "round_quot a b \<le> 2 ^ (53 + k)" using round_quot_bounds(2) [OF assms(1) k_def] .
    also have "\<dots> \<le> 2 ^ (52 + k')" using 2 by (intro power_increasing) simp_all
    also have "\<dots> \<le> round_quot a' b" using round_quot_bounds(3) [OF assms(1) k'_def] 2 by simp
    finally show ?thesis .
  qed
qed

lemma index_to_multiplier_mono: "i \<le> j \<Longrightarrow> index_to_multiplier i \<le> index_to_multiplier j"
  unfolding index_to_multiplier_def u64_to_f64_def
  by (intro round_quot_mono mult_le_mono1) (simp_all add: word_le_nat_alt)

text \<open>The index \<open>1e12\<close> is the multiplier 1.0.\<close>

lemma index_to_multiplier_one: "index_to_multiplier 1000000000000 = f64_unit"
  by (simp add: index_to_multiplier_def u64_to_f64_def round_quot_def f64_unit_def Let_def
      excess_bits.simps)

end
