(* ===== verification/TokenProgram.thy ===== *)
theory TokenProgram
  imports Float64 EarnMerkle
begin

text \<open>
  The token program as the earn program uses it.  Its accounts and mints are the record
  \<open>ledger\<close>; the instructions the earn program invokes are the record \<open>token_program\<close>, an argument
  of every handler, and the locale \<open>token_2022\<close> states what their documentation promises.  The
  multipliers of a mint are numbers of \<open>Float64\<close>.
\<close>

section \<open>Accounts\<close>

record token_account =
  ta_mint :: buffer
  ta_owner :: buffer
  ta_amount :: "64 word"
  ta_frozen :: bool
  ta_immutable :: bool

record scaled_ui_config =
  su_authority :: "buffer option"
  su_multiplier :: f64
  su_new_multiplier :: f64
  su_timestamp :: int

text \<open>An absent extension is \<open>None\<close>.\<close>

record mint_account =
  mi_decimals :: nat
  mi_supply :: "64 word"
  mi_freeze_authority :: "buffer option"
  mi_scaled_ui :: "scaled_ui_config option"
  mi_default_frozen :: "bool option"
  mi_permanent_delegate :: "buffer option option"

record ledger =
  l_mints :: "buffer \<Rightarrow> mint_account option"
  l_accounts :: "buffer \<Rightarrow> token_account option"

section \<open>Instructions\<close>

datatype ix_error =
    ProgramFailed program_error
  | TokenError string
  | ConstraintError string

text \<open>
  The arguments are the ledger, the token account (or accounts), the mint and the authority that
  signs; \<open>tp_create_ata\<close> creates the associated token account of an owner for a mint.
\<close>

record token_program =
  tp_thaw :: "ledger \<Rightarrow> buffer \<Rightarrow> buffer \<Rightarrow> buffer \<Rightarrow> ix_error + ledger"
  tp_freeze :: "ledger \<Rightarrow> buffer \<Rightarrow> buffer \<Rightarrow> buffer \<Rightarrow> ix_error + ledger"
  tp_transfer_checked ::
    "ledger \<Rightarrow> buffer \<Rightarrow> buffer \<Rightarrow> buffer \<Rightarrow> buffer \<Rightarrow> 64 word \<Rightarrow> nat \<Rightarrow> ix_error + ledger"
  tp_update_multiplier :: "ledger \<Rightarrow> buffer \<Rightarrow> buffer \<Rightarrow> f64 \<Rightarrow> int \<Rightarrow> ix_error + ledger"
  tp_create_ata :: "ledger \<Rightarrow> buffer \<Rightarrow> buffer \<Rightarrow> ix_error + ledger"
  tp_ata :: "buffer \<Rightarrow> buffer \<Rightarrow> buffer"

definition set_account :: "ledger \<Rightarrow> buffer \<Rightarrow> token_account \<Rightarrow> ledger" where
  "set_account L a x = L\<lparr>l_accounts := (l_accounts L)(a \<mapsto> x)\<rparr>"

definition set_mint :: "ledger \<Rightarrow> buffer \<Rightarrow> mint_account \<Rightarrow> ledger" where
  "set_mint L m y = L\<lparr>l_mints := (l_mints L)(m \<mapsto> y)\<rparr>"

text \<open>
  Thawing and freezing need the freeze authority of the mint and a state to change; a transfer
  moves tokens and nothing else; a new multiplier needs the authority of the extension; and a new
  account starts in the default state of its mint.
\<close>

definition moves_tokens :: "ledger \<Rightarrow> ledger \<Rightarrow> bool" where
  "moves_tokens L L' \<longleftrightarrow> l_mints L' = l_mints L \<and>
     (\<forall>a. map_option (\<lambda>x. (ta_mint x, ta_owner x, ta_frozen x, ta_immutable x)) (l_accounts L' a) =
          map_option (\<lambda>x. (ta_mint x, ta_owner x, ta_frozen x, ta_immutable x)) (l_accounts L a))"

locale token_2022 =
  fixes P :: token_program
  assumes thaw_effect: "tp_thaw P L a m auth = Inr L' \<Longrightarrow>
      \<exists>x y. l_accounts L a = Some x \<and> ta_mint x = m \<and> ta_frozen x \<and> l_mints L m = Some y \<and>
        mi_freeze_authority y = Some auth \<and> L' = set_account L a (x\<lparr>ta_frozen := False\<rparr>)"
    and freeze_effect: "tp_freeze P L a m auth = Inr L' \<Longrightarrow>
      \<exists>x y. l_accounts L a = Some x \<and> ta_mint x = m \<and> \<not> ta_frozen x \<and> l_mints L m = Some y \<and>
        mi_freeze_authority y = Some auth \<and> L' = set_account L a (x\<lparr>ta_frozen := True\<rparr>)"
    and transfer_effect: "tp_transfer_checked P L a b m auth n d = Inr L' \<Longrightarrow> moves_tokens L L'"
    and multiplier_effect: "tp_update_multiplier P L m auth f t = Inr L' \<Longrightarrow>
      \<exists>y c f0. l_mints L m = Some y \<and> mi_scaled_ui y = Some c \<and> su_authority c = Some auth \<and>
        L' = set_mint L m (y\<lparr>mi_scaled_ui := Some (c\<lparr>su_multiplier := f0, su_new_multiplier := f,
          su_timestamp := t\<rparr>)\<rparr>)"
    and multiplier_accepted: "l_mints L m = Some y \<Longrightarrow> mi_scaled_ui y = Some c \<Longrightarrow>
      su_authority c = Some auth \<Longrightarrow> 0 < f \<Longrightarrow> \<exists>L'. tp_update_multiplier P L m auth f t = Inr L'"
    and create_effect: "tp_create_ata P L m ow = Inr L' \<Longrightarrow>
      \<exists>y fr im. l_mints L m = Some y \<and> l_accounts L (tp_ata P m ow) = None \<and>
        (mi_default_frozen y = Some True \<longrightarrow> fr) \<and>
        L' = set_account L (tp_ata P m ow)
          \<lparr>ta_mint = m, ta_owner = ow, ta_amount = 0, ta_frozen = fr, ta_immutable = im\<rparr>"

section \<open>A reference instance\<close>

definition ref_token_program :: token_program where
  "ref_token_program = \<lparr>
     tp_thaw = (\<lambda>L a m auth. case (l_accounts L a, l_mints L m) of
         (Some x, Some y) \<Rightarrow>
           if ta_mint x = m \<and> ta_frozen x \<and> mi_freeze_authority y = Some auth
           then Inr (set_account L a (x\<lparr>ta_frozen := False\<rparr>)) else Inl (TokenError ''InvalidState'')
       | _ \<Rightarrow> Inl (TokenError ''UninitializedState'')),
     tp_freeze = (\<lambda>L a m auth. case (l_accounts L a, l_mints L m) of
         (Some x, Some y) \<Rightarrow>
           if ta_mint x = m \<and> \<not> ta_frozen x \<and> mi_freeze_authority y = Some auth
           then Inr (set_account L a (x\<lparr>ta_frozen := True\<rparr>)) else Inl (TokenError ''InvalidState'')
       | _ \<Rightarrow> Inl (TokenError ''UninitializedState'')),
     tp_transfer_checked = (\<lambda>L a b m auth n d. case (l_accounts L a, l_accounts L b) of
         (Some x, Some y) \<Rightarrow>
           if ta_frozen x \<or> ta_frozen y then Inl (TokenError ''AccountFrozen'')
           else if ta_amount x < n then Inl (TokenError ''InsufficientFunds'')
           else if a = b then Inr L
           else Inr (set_account (set_account L a (x\<lparr>ta_amount := ta_amount x - n\<rparr>)) b
                       (y\<lparr>ta_amount := ta_amount y + n\<rparr>))
       | _ \<Rightarrow> Inl (TokenError ''UninitializedState'')),
     tp_update_multiplier = (\<lambda>L m auth f t. case l_mints L m of
         Some y \<Rightarrow> (case mi_scaled_ui y of
             Some c \<Rightarrow> if su_authority c = Some auth
               then Inr (set_mint L m (y\<lparr>mi_scaled_ui := Some (c\<lparr>su_multiplier := su_new_multiplier c,
                 su_new_multiplier := f, su_timestamp := t\<rparr>)\<rparr>))
               else Inl (TokenError ''OwnerMismatch'')
           | None \<Rightarrow> Inl (TokenError ''InvalidAccountData''))
       | None \<Rightarrow> Inl (TokenError ''UninitializedState'')),
     tp_create_ata = (\<lambda>L m ow. case (l_mints L m, l_accounts L (m @ ow)) of
         (Some y, None) \<Rightarrow> Inr (set_account L (m @ ow)
           \<lparr>ta_mint = m, ta_owner = ow, ta_amount = 0,
            ta_frozen = (mi_default_frozen y = Some True), ta_immutable = True\<rparr>)
       | _ \<Rightarrow> Inl (TokenError ''IllegalOwner'')),
     tp_ata = (\<lambda>m ow. m @ ow)\<rparr>"

interpretation ref_token: token_2022 ref_token_program
proof unfold_locales
  show "tp_create_ata ref_token_program L m ow = Inr L' \<Longrightarrow>
      \<exists>y fr im. l_mints L m = Some y \<and> l_accounts L (tp_ata ref_token_program m ow) = None \<and>
        (mi_default_frozen y = Some True \<longrightarrow> fr) \<and>
        L' = set_account L (tp_ata ref_token_program m ow)
          \<lparr>ta_mint = m, ta_owner = ow, ta_amount = 0, ta_frozen = fr, ta_immutable = im\<rparr>" for L m ow L'
    by (auto simp: ref_token_program_def split: option.splits)
qed (auto simp: ref_token_program_def moves_tokens_def set_account_def split: option.splits if_splits)

end
