(* ===== verification/EarnProgram.thy ===== *)
theory EarnProgram
  imports TokenProgram
begin

text \<open>
  The earn program, \<open>programs/earn/src\<close>: the global account (\<open>state.rs\<close>), the account constraints
  and the handlers of its six instructions in the build without the feature \<open>migrate\<close>.  A handler
  that fails leaves the state as it was, so it is a function to an error or the new state.  Program
  derived addresses are the record \<open>program_keys\<close>: the constraints \<open>seeds\<close> of Anchor admit no other
  account.  Token accounts are read once, before the handler, as Anchor does.  Constraints are checked
  in the order of the source; when several are violated Anchor may report another one of them.  Rent
  and lamports are left out.
\<close>

section \<open>State\<close>

record EarnGlobal =
  eg_admin :: buffer
  eg_m_mint :: buffer
  portal_authority :: buffer
  ext_swap_global_account :: buffer
  earner_merkle_root :: buffer
  eg_bump :: byte

record IndexUpdateV2 =
  iu_index :: "64 word"
  iu_ts :: int
  iu_supply :: "64 word"
  iu_current_multiplier :: f64
  iu_new_multiplier :: f64

record earn_state =
  es_global :: "EarnGlobal option"
  es_ledger :: ledger
  es_clock :: int
  es_events :: "IndexUpdateV2 list"

record program_keys =
  pda_global :: buffer
  pda_global_bump :: byte
  pda_portal_authority :: buffer
  pda_ext_swap_global :: buffer

definition zero_root :: buffer where
  "zero_root = replicate 32 0"

definition earn_error :: "EarnError \<Rightarrow> ix_error" where
  "earn_error e = ProgramFailed (Err e)"

definition from_program :: "program_error + 'a \<Rightarrow> ix_error + 'a" where
  "from_program r = (case r of Inl e \<Rightarrow> Inl (ProgramFailed e) | Inr x \<Rightarrow> Inr x)"

definition check :: "bool \<Rightarrow> ix_error \<Rightarrow> ix_error + unit" where
  "check c e = (if c then Inr () else Inl e)"

definition fetch :: "'a option \<Rightarrow> ix_error + 'a" where
  "fetch x = (case x of Some y \<Rightarrow> Inr y | None \<Rightarrow> Inl (ConstraintError ''AccountNotInitialized''))"

section \<open>\<open>utils/conversion.rs\<close> and \<open>utils/token.rs\<close>\<close>

definition get_scaled_ui_config :: "ledger \<Rightarrow> buffer \<Rightarrow> ix_error + scaled_ui_config" where
  "get_scaled_ui_config L mint =
     (case l_mints L mint of
        Some y \<Rightarrow> (case mi_scaled_ui y of Some c \<Rightarrow> Inr c | None \<Rightarrow> Inl (TokenError ''InvalidAccountData''))
      | None \<Rightarrow> Inl (TokenError ''UninitializedState''))"

definition update_multiplier ::
  "token_program \<Rightarrow> ledger \<Rightarrow> buffer \<Rightarrow> buffer \<Rightarrow> f64 \<Rightarrow> int \<Rightarrow> ix_error + ledger" where
  "update_multiplier P L mint authority multiplier timestamp =
     bindE (get_scaled_ui_config L mint) (\<lambda>c.
       if su_new_multiplier c < multiplier
       then tp_update_multiplier P L mint authority multiplier timestamp else Inr L)"

definition thaw_if_frozen ::
  "token_program \<Rightarrow> program_keys \<Rightarrow> token_account \<Rightarrow> buffer \<Rightarrow> buffer \<Rightarrow> ledger \<Rightarrow> ix_error + ledger" where
  "thaw_if_frozen P pk acc a mint L =
     (if ta_frozen acc then tp_thaw P L a mint (pda_global pk) else Inr L)"

text \<open>\<open>init_if_needed\<close> with the constraints \<open>associated_token\<close>.\<close>

definition init_ata ::
  "token_program \<Rightarrow> ledger \<Rightarrow> buffer \<Rightarrow> buffer \<Rightarrow> ix_error + (ledger \<times> token_account)" where
  "init_ata P L mint ow =
     bindE (case l_accounts L (tp_ata P mint ow) of
         None \<Rightarrow> tp_create_ata P L mint ow
       | Some x \<Rightarrow> bindE (check (ta_mint x = mint \<and> ta_owner x = ow) (ConstraintError ''ConstraintTokenOwner''))
           (\<lambda>_. Inr L)) (\<lambda>L'.
     bindE (fetch (l_accounts L' (tp_ata P mint ow))) (\<lambda>x. Inr (L', x)))"

section \<open>\<open>instructions/admin\<close>\<close>

definition initialize_validate ::
  "program_keys \<Rightarrow> ledger \<Rightarrow> buffer \<Rightarrow> 64 word \<Rightarrow> ix_error + unit" where
  "initialize_validate pk L mint current_index =
     bindE (fetch (l_mints L mint)) (\<lambda>y.
     case mi_scaled_ui y of
       None \<Rightarrow> Inl (earn_error InvalidMint)
     | Some c \<Rightarrow>
       bindE (check (su_authority c = Some (pda_global pk)) (earn_error InvalidMint)) (\<lambda>_.
       bindE (check (su_new_multiplier c \<le> index_to_multiplier current_index) (earn_error InvalidMint)) (\<lambda>_.
       bindE (check (mi_default_frozen y = Some True) (earn_error InvalidMint)) (\<lambda>_.
       bindE (check (mi_freeze_authority y = Some (pda_global pk)) (earn_error InvalidMint)) (\<lambda>_.
         check (mi_permanent_delegate y = Some (Some (pda_global pk))) (earn_error InvalidMint))))))"

definition initialize ::
  "token_program \<Rightarrow> program_keys \<Rightarrow> buffer \<Rightarrow> buffer \<Rightarrow> 64 word \<Rightarrow> earn_state \<Rightarrow>
     ix_error + earn_state" where
  "initialize P pk admin mint current_index s =
     bindE (check (es_global s = None) (ConstraintError ''AccountAlreadyInUse'')) (\<lambda>_.
     bindE (fetch (l_mints (es_ledger s) mint)) (\<lambda>y.
     bindE (check (mi_decimals y = 6) (ConstraintError ''ConstraintMintDecimals'')) (\<lambda>_.
     bindE (init_ata P (es_ledger s) mint (pda_portal_authority pk)) (\<lambda>(L1, portal_acc).
     bindE (init_ata P L1 mint (pda_ext_swap_global pk)) (\<lambda>(L2, swap_acc).
     bindE (initialize_validate pk L2 mint current_index) (\<lambda>_.
     bindE (update_multiplier P L2 mint (pda_global pk) (index_to_multiplier current_index) (es_clock s))
       (\<lambda>L3.
     bindE (thaw_if_frozen P pk portal_acc (tp_ata P mint (pda_portal_authority pk)) mint L3) (\<lambda>L4.
     bindE (thaw_if_frozen P pk swap_acc (tp_ata P mint (pda_ext_swap_global pk)) mint L4) (\<lambda>L5.
       Inr (s\<lparr>es_ledger := L5, es_global := Some
         \<lparr>eg_admin = admin, eg_m_mint = mint, portal_authority = pda_portal_authority pk,
          ext_swap_global_account = pda_ext_swap_global pk, earner_merkle_root = zero_root,
          eg_bump = pda_global_bump pk\<rparr>\<rparr>))))))))))"

definition recover_m ::
  "token_program \<Rightarrow> program_keys \<Rightarrow> buffer \<Rightarrow> buffer \<Rightarrow> buffer \<Rightarrow> buffer \<Rightarrow> 64 word option \<Rightarrow>
     earn_state \<Rightarrow> ix_error + earn_state" where
  "recover_m P pk admin mint source destination amount s =
     bindE (fetch (es_global s)) (\<lambda>g.
     bindE (check (eg_m_mint g = mint) (earn_error InvalidAccount)) (\<lambda>_.
     bindE (check (eg_admin g = admin) (earn_error NotAuthorized)) (\<lambda>_.
     bindE (fetch (l_mints (es_ledger s) mint)) (\<lambda>y.
     bindE (fetch (l_accounts (es_ledger s) source)) (\<lambda>src.
     bindE (check (ta_mint src = mint) (ConstraintError ''ConstraintTokenMint'')) (\<lambda>_.
     bindE (check (ta_frozen src) (earn_error InvalidAccount)) (\<lambda>_.
     bindE (fetch (l_accounts (es_ledger s) destination)) (\<lambda>dst.
     bindE (check (ta_mint dst = mint) (ConstraintError ''ConstraintTokenMint'')) (\<lambda>_.
     let recover_amount = (case amount of Some n \<Rightarrow> n | None \<Rightarrow> ta_amount src) in
     bindE (tp_thaw P (es_ledger s) source mint (pda_global pk)) (\<lambda>L1.
     bindE (thaw_if_frozen P pk dst destination mint L1) (\<lambda>L2.
     bindE (tp_transfer_checked P L2 source destination mint (pda_global pk) recover_amount
              (mi_decimals y)) (\<lambda>L3.
     bindE (tp_freeze P L3 source mint (pda_global pk)) (\<lambda>L4.
       Inr (s\<lparr>es_ledger := L4\<rparr>))))))))))))))"

definition update_portal_authority ::
  "token_program \<Rightarrow> program_keys \<Rightarrow> buffer \<Rightarrow> buffer \<Rightarrow> earn_state \<Rightarrow> ix_error + earn_state" where
  "update_portal_authority P pk admin mint s =
     bindE (fetch (es_global s)) (\<lambda>g.
     bindE (check (eg_admin g = admin) (earn_error NotAuthorized)) (\<lambda>_.
     bindE (check (eg_m_mint g = mint) (earn_error InvalidMint)) (\<lambda>_.
     bindE (fetch (l_mints (es_ledger s) mint)) (\<lambda>_.
     bindE (init_ata P (es_ledger s) mint (pda_portal_authority pk)) (\<lambda>(L1, portal_acc).
     bindE (thaw_if_frozen P pk portal_acc (tp_ata P mint (pda_portal_authority pk)) mint L1) (\<lambda>L2.
       Inr (s\<lparr>es_ledger := L2,
              es_global := Some (g\<lparr>portal_authority := pda_portal_authority pk\<rparr>)\<rparr>)))))))"

section \<open>\<open>instructions/portal\<close>\<close>

text \<open>The feature \<open>testing\<close> also lets the admin propagate.\<close>

definition propagate_index ::
  "bool \<Rightarrow> token_program \<Rightarrow> program_keys \<Rightarrow> buffer \<Rightarrow> buffer \<Rightarrow> 64 word \<Rightarrow> buffer \<Rightarrow> earn_state \<Rightarrow>
     ix_error + earn_state" where
  "propagate_index testing P pk signer mint new_index new_root s =
     bindE (fetch (es_global s)) (\<lambda>g.
     bindE (check (signer = portal_authority g \<or> (testing \<and> signer = eg_admin g))
              (earn_error NotAuthorized)) (\<lambda>_.
     bindE (check (eg_m_mint g = mint) (ConstraintError ''ConstraintHasOne'')) (\<lambda>_.
     bindE (get_scaled_ui_config (es_ledger s) mint) (\<lambda>c.
     let current_multiplier = su_new_multiplier c; new_multiplier = index_to_multiplier new_index in
     if current_multiplier \<le> new_multiplier then
       let g' = (if new_root \<noteq> zero_root then g\<lparr>earner_merkle_root := new_root\<rparr> else g);
           s' = s\<lparr>es_global := Some g'\<rparr>
       in if current_multiplier < new_multiplier then
            bindE (update_multiplier P (es_ledger s) mint (pda_global pk) new_multiplier (es_clock s)) (\<lambda>L'.
            bindE (get_scaled_ui_config L' mint) (\<lambda>c'.
            bindE (fetch (l_mints L' mint)) (\<lambda>y.
              Inr (s'\<lparr>es_ledger := L',
                     es_events := es_events s @ [\<lparr>iu_index = new_index, iu_ts = es_clock s,
                       iu_supply = mi_supply y, iu_current_multiplier = current_multiplier,
                       iu_new_multiplier = su_new_multiplier c'\<rparr>]\<rparr>))))
          else Inr s'
     else Inr s))))"

section \<open>\<open>instructions/open\<close>\<close>

definition add_registrar_earner ::
  "(buffer \<Rightarrow> buffer) \<Rightarrow> token_program \<Rightarrow> program_keys \<Rightarrow> buffer \<Rightarrow> buffer \<Rightarrow> buffer \<Rightarrow>
     ProofElement list \<Rightarrow> earn_state \<Rightarrow> ix_error + earn_state" where
  "add_registrar_earner K P pk mint user_token_account usr proof s =
     bindE (fetch (es_global s)) (\<lambda>g.
     bindE (check (eg_m_mint g = mint) (earn_error InvalidAccount)) (\<lambda>_.
     bindE (fetch (l_accounts (es_ledger s) user_token_account)) (\<lambda>acc.
     bindE (check (ta_mint acc = mint) (ConstraintError ''ConstraintTokenMint'')) (\<lambda>_.
     bindE (check (ta_owner acc = usr) (ConstraintError ''ConstraintTokenOwner'')) (\<lambda>_.
     bindE (check (ta_immutable acc) (earn_error MutableOwner)) (\<lambda>_.
     bindE (check (ta_frozen acc) (earn_error InvalidAccount)) (\<lambda>_.
     bindE (check (usr \<noteq> zero_key) (earn_error InvalidParam)) (\<lambda>_.
     bindE (from_program (verify_in_tree K (earner_merkle_root g) usr proof)) (\<lambda>_.
     bindE (tp_thaw P (es_ledger s) user_token_account mint (pda_global pk)) (\<lambda>L'.
       Inr (s\<lparr>es_ledger := L'\<rparr>)))))))))))"

definition remove_registrar_earner ::
  "(buffer \<Rightarrow> buffer) \<Rightarrow> token_program \<Rightarrow> program_keys \<Rightarrow> buffer \<Rightarrow> buffer \<Rightarrow>
     ProofElement list list \<Rightarrow> buffer list \<Rightarrow> earn_state \<Rightarrow> ix_error + earn_state" where
  "remove_registrar_earner K P pk mint user_token_account proofs neighbors s =
     bindE (fetch (es_global s)) (\<lambda>g.
     bindE (check (eg_m_mint g = mint) (earn_error InvalidAccount)) (\<lambda>_.
     bindE (fetch (l_accounts (es_ledger s) user_token_account)) (\<lambda>acc.
     bindE (check (ta_mint acc = mint) (ConstraintError ''ConstraintTokenMint'')) (\<lambda>_.
     bindE (check (\<not> ta_frozen acc) (earn_error InvalidAccount)) (\<lambda>_.
     bindE (from_program (verify_not_in_tree K (earner_merkle_root g) (ta_owner acc) proofs neighbors)) (\<lambda>_.
     bindE (check (ta_owner acc \<noteq> portal_authority g \<and> ta_owner acc \<noteq> ext_swap_global_account g)
              (earn_error NotAuthorized)) (\<lambda>_.
     bindE (tp_freeze P (es_ledger s) user_token_account mint (pda_global pk)) (\<lambda>L'.
       Inr (s\<lparr>es_ledger := L'\<rparr>)))))))))"

section \<open>The program\<close>

datatype instruction =
    Initialize buffer buffer "64 word"
  | RecoverM buffer buffer buffer buffer "64 word option"
  | UpdatePortalAuthority buffer buffer
  | PropagateIndex buffer buffer "64 word" buffer
  | AddRegistrarEarner buffer buffer buffer "ProofElement list"
  | RemoveRegistrarEarner buffer buffer "ProofElement list list" "buffer list"

fun execute ::
  "(buffer \<Rightarrow> buffer) \<Rightarrow> bool \<Rightarrow> token_program \<Rightarrow> program_keys \<Rightarrow> instruction \<Rightarrow> earn_state \<Rightarrow>
     ix_error + earn_state" where
  "execute K testing P pk (Initialize admin mint i) s = initialize P pk admin mint i s"
| "execute K testing P pk (RecoverM admin mint src dst n) s = recover_m P pk admin mint src dst n s"
| "execute K testing P pk (UpdatePortalAuthority admin mint) s = update_portal_authority P pk admin mint s"
| "execute K testing P pk (PropagateIndex signer mint i r) s =
     propagate_index testing P pk signer mint i r s"
| "execute K testing P pk (AddRegistrarEarner mint acc usr proof) s =
     add_registrar_earner K P pk mint acc usr proof s"
| "execute K testing P pk (RemoveRegistrarEarner mint acc proofs neighbors) s =
     remove_registrar_earner K P pk mint acc proofs neighbors s"

end
