(* ===== verification/EarnRun.thy ===== *)
theory EarnRun
  imports EarnProgram
begin

text \<open>
  Runs of the earn program: what a handler may do to the mint and to the frozen state of the token
  accounts, the steps of everybody else, and the invariants of all runs.
\<close>

section \<open>The mint\<close>

text \<open>What \<open>initialize\<close> validates of the mint, apart from the multiplier.\<close>

definition secured :: "buffer \<Rightarrow> buffer \<Rightarrow> ledger \<Rightarrow> bool" where
  "secured pda m L \<longleftrightarrow> (case l_mints L m of None \<Rightarrow> False
     | Some y \<Rightarrow> mi_freeze_authority y = Some pda \<and> mi_default_frozen y = Some True \<and>
         mi_permanent_delegate y = Some (Some pda) \<and>
         (case mi_scaled_ui y of Some c \<Rightarrow> su_authority c = Some pda | None \<Rightarrow> False))"

definition mint_multiplier :: "buffer \<Rightarrow> ledger \<Rightarrow> f64" where
  "mint_multiplier m L = (case l_mints L m of None \<Rightarrow> 0
     | Some y \<Rightarrow> (case mi_scaled_ui y of Some c \<Rightarrow> su_new_multiplier c | None \<Rightarrow> 0))"

definition thawed :: "buffer \<Rightarrow> ledger \<Rightarrow> buffer \<Rightarrow> bool" where
  "thawed m L a \<longleftrightarrow> (case l_accounts L a of Some x \<Rightarrow> ta_mint x = m \<and> \<not> ta_frozen x | None \<Rightarrow> False)"

section \<open>Effects on the ledger\<close>

text \<open>
  \<open>permits pda m A L L'\<close>: a secured mint stays secured, its multiplier does not fall, and the only
  accounts thawed are those of \<open>A\<close>.
\<close>

definition permits :: "buffer \<Rightarrow> buffer \<Rightarrow> buffer set \<Rightarrow> ledger \<Rightarrow> ledger \<Rightarrow> bool" where
  "permits pda m A L L' \<longleftrightarrow> (secured pda m L \<longrightarrow>
     secured pda m L' \<and> mint_multiplier m L \<le> mint_multiplier m L' \<and>
     (\<forall>a. thawed m L' a \<longrightarrow> a \<in> A \<or> thawed m L a))"

lemma permits_refl [intro, simp]: "permits pda m A L L"
  by (simp add: permits_def)

lemma permits_trans [trans]:
  "permits pda m A L L' \<Longrightarrow> permits pda m A L' L'' \<Longrightarrow> permits pda m A L L''"
  unfolding permits_def by (meson order_trans)

lemma permits_mono: "permits pda m A L L' \<Longrightarrow> A \<subseteq> B \<Longrightarrow> permits pda m B L L'"
  unfolding permits_def by blast

lemma set_account_simps [simp]:
  "l_mints (set_account L a x) = l_mints L"
  "l_accounts (set_account L a x) = (l_accounts L)(a \<mapsto> x)"
  "l_accounts (set_mint L m y) = l_accounts L"
  "l_mints (set_mint L m y) = (l_mints L)(m \<mapsto> y)"
  by (simp_all add: set_account_def set_mint_def)

lemma secured_mints: "l_mints L' = l_mints L \<Longrightarrow> secured pda m L' = secured pda m L"
  by (simp add: secured_def)

lemma multiplier_mints: "l_mints L' = l_mints L \<Longrightarrow> mint_multiplier m L' = mint_multiplier m L"
  by (simp add: mint_multiplier_def)

lemma account_effects [simp]:
  "secured pda m (set_account L a x) = secured pda m L"
  "mint_multiplier m (set_account L a x) = mint_multiplier m L"
  "thawed m (set_account L a x) b = (if b = a then ta_mint x = m \<and> \<not> ta_frozen x else thawed m L b)"
  by (simp_all add: secured_def mint_multiplier_def thawed_def)

lemma permits_set_account:
  "ta_mint x \<noteq> m \<or> ta_frozen x \<or> a \<in> A \<Longrightarrow> permits pda m A L (set_account L a x)"
  by (auto simp: permits_def)

lemma permits_set_multiplier:
  assumes "l_mints L m' = Some y" "mi_scaled_ui y = Some c" "su_new_multiplier c \<le> su_new_multiplier c'"
    and "su_authority c' = su_authority c"
  shows "permits pda m A L (set_mint L m' (y\<lparr>mi_scaled_ui := Some c'\<rparr>))"
  using assms by (cases "m = m'") (simp_all add: permits_def secured_def mint_multiplier_def thawed_def)

context token_2022
begin

lemma permits_thaw:
  assumes "tp_thaw P L a m' auth = Inr L'" "a \<in> A"
  shows "permits pda m A L L'"
proof -
  obtain x where "L' = set_account L a (x\<lparr>ta_frozen := False\<rparr>)" using thaw_effect [OF assms(1)] by blast
  then show ?thesis using assms(2) by (simp add: permits_set_account)
qed

lemma permits_freeze:
  assumes "tp_freeze P L a m' auth = Inr L'"
  shows "permits pda m A L L'"
proof -
  obtain x where "L' = set_account L a (x\<lparr>ta_frozen := True\<rparr>)" using freeze_effect [OF assms] by blast
  then show ?thesis by (simp add: permits_set_account)
qed

lemma permits_transfer:
  assumes "tp_transfer_checked P L a b m' auth n d = Inr L'"
  shows "permits pda m A L L'"
proof -
  have t: "moves_tokens L L'" using transfer_effect [OF assms] .
  have "thawed m L' c = thawed m L c" for c
  proof -
    have "map_option (\<lambda>x. (ta_mint x, ta_owner x, ta_frozen x, ta_immutable x)) (l_accounts L' c) =
        map_option (\<lambda>x. (ta_mint x, ta_owner x, ta_frozen x, ta_immutable x)) (l_accounts L c)"
      using t unfolding moves_tokens_def by blast
    then show ?thesis by (cases "l_accounts L' c"; cases "l_accounts L c") (simp_all add: thawed_def)
  qed
  moreover have "l_mints L' = l_mints L" using t by (simp add: moves_tokens_def)
  ultimately show ?thesis using secured_mints multiplier_mints unfolding permits_def by (metis order_refl)
qed

lemma permits_update:
  assumes "update_multiplier P L m' auth f t = Inr L'"
  shows "permits pda m A L L'"
proof -
  obtain c where c: "get_scaled_ui_config L m' = Inr c"
    using assms by (auto simp: update_multiplier_def bindE_eq_Inr_iff)
  show ?thesis
  proof (cases "su_new_multiplier c < f")
    case False
    then show ?thesis using assms c by (simp add: update_multiplier_def)
  next
    case True
    then have "tp_update_multiplier P L m' auth f t = Inr L'" using assms c by (simp add: update_multiplier_def)
    then obtain y c' f0 where y: "l_mints L m' = Some y" "mi_scaled_ui y = Some c'"
      "L' = set_mint L m' (y\<lparr>mi_scaled_ui := Some (c'\<lparr>su_multiplier := f0, su_new_multiplier := f,
          su_timestamp := t\<rparr>)\<rparr>)"
      using multiplier_effect by metis
    then have "c' = c" using c by (simp add: get_scaled_ui_config_def)
    then show ?thesis using y True by (simp add: permits_set_multiplier)
  qed
qed

lemma permits_create:
  assumes "tp_create_ata P L m' ow = Inr L'"
  shows "permits pda m A L L'"
proof -
  obtain y fr im where y: "l_mints L m' = Some y" "mi_default_frozen y = Some True \<longrightarrow> fr"
    and L': "L' = set_account L (tp_ata P m' ow)
          \<lparr>ta_mint = m', ta_owner = ow, ta_amount = 0, ta_frozen = fr, ta_immutable = im\<rparr>"
    using create_effect [OF assms] by metis
  show ?thesis
  proof (cases "secured pda m L \<and> m' = m")
    case True
    then have fr using y by (simp add: secured_def)
    then show ?thesis unfolding L' by (simp add: permits_set_account)
  next
    case False
    then show ?thesis unfolding L' by (auto simp: permits_def)
  qed
qed

lemma permits_init_ata:
  assumes "init_ata P L m' ow = Inr (L', x)"
  shows "permits pda m A L L'"
  using assms permits_create
  by (auto simp: init_ata_def check_def bindE_eq_Inr_iff split: option.splits if_splits)

lemma permits_thaw_if_frozen:
  assumes "thaw_if_frozen P pk acc a m' L = Inr L'" "a \<in> A"
  shows "permits pda m A L L'"
  using assms permits_thaw by (auto simp: thaw_if_frozen_def split: if_splits)

end

section \<open>Effects of the handlers\<close>

text \<open>What justifies that a step thaws an account.\<close>

fun authorises ::
  "(buffer \<Rightarrow> buffer) \<Rightarrow> token_program \<Rightarrow> program_keys \<Rightarrow> earn_state \<Rightarrow> instruction \<Rightarrow> buffer \<Rightarrow> bool" where
  "authorises K P pk s (Initialize admin mint i) a =
     (a = tp_ata P mint (pda_portal_authority pk) \<or> a = tp_ata P mint (pda_ext_swap_global pk))"
| "authorises K P pk s (UpdatePortalAuthority admin mint) a =
     (a = tp_ata P mint (pda_portal_authority pk) \<and> map_option eg_admin (es_global s) = Some admin)"
| "authorises K P pk s (RecoverM admin mint src dst n) a =
     (a = dst \<and> map_option eg_admin (es_global s) = Some admin)"
| "authorises K P pk s (AddRegistrarEarner mint acc usr proof) a =
     (a = acc \<and> usr \<noteq> zero_key \<and> map_option ta_owner (l_accounts (es_ledger s) acc) = Some usr \<and>
      map_option ta_immutable (l_accounts (es_ledger s) acc) = Some True \<and>
      (case es_global s of Some g \<Rightarrow> \<not> isl (verify_in_tree K (earner_merkle_root g) usr proof)
       | None \<Rightarrow> False))"
| "authorises K P pk s ix a = False"

lemma check_Inr: "check c e = Inr u \<longleftrightarrow> c"
  by (simp add: check_def)

lemma fetch_Inr: "fetch x = Inr y \<longleftrightarrow> x = Some y"
  by (simp add: fetch_def split: option.splits)

lemma from_program_Inr: "from_program r = Inr x \<longleftrightarrow> r = Inr x"
  by (simp add: from_program_def split: sum.splits)

lemmas handler_simps = bindE_eq_Inr_iff check_Inr fetch_Inr from_program_Inr

text \<open>What a successful propagation does.\<close>

lemma propagate_outcome:
  assumes "propagate_index testing P pk signer mint i r s = Inr s'"
  shows "\<exists>g c. es_global s = Some g \<and> (signer = portal_authority g \<or> (testing \<and> signer = eg_admin g)) \<and>
    eg_m_mint g = mint \<and> get_scaled_ui_config (es_ledger s) mint = Inr c \<and>
    (if index_to_multiplier i < su_new_multiplier c then s' = s
     else es_global s' = Some (if r \<noteq> zero_root then g\<lparr>earner_merkle_root := r\<rparr> else g) \<and>
       (if su_new_multiplier c = index_to_multiplier i then es_ledger s' = es_ledger s
        else update_multiplier P (es_ledger s) mint (pda_global pk) (index_to_multiplier i) (es_clock s) =
          Inr (es_ledger s')))"
proof -
  obtain g c where g: "es_global s = Some g" "signer = portal_authority g \<or> (testing \<and> signer = eg_admin g)"
    "eg_m_mint g = mint" and c: "get_scaled_ui_config (es_ledger s) mint = Inr c"
    using assms by (auto simp: propagate_index_def handler_simps)
  have f: "fetch (es_global s) = Inr g" "check (eg_m_mint g = mint) e = Inr ()"
    "check (signer = portal_authority g \<or> (testing \<and> signer = eg_admin g)) e = Inr ()" for e
    using g by (simp_all add: fetch_def check_def)
  note body = assms [unfolded propagate_index_def f bindE_Inr c Let_def]
  have "if index_to_multiplier i < su_new_multiplier c then s' = s
     else es_global s' = Some (if r \<noteq> zero_root then g\<lparr>earner_merkle_root := r\<rparr> else g) \<and>
       (if su_new_multiplier c = index_to_multiplier i then es_ledger s' = es_ledger s
        else update_multiplier P (es_ledger s) mint (pda_global pk) (index_to_multiplier i) (es_clock s) =
          Inr (es_ledger s'))"
    using body by (auto simp: bindE_eq_Inr_iff split: if_splits)
  then show ?thesis using g c by blast
qed

context token_2022
begin

lemma initialize_permits:
  assumes "initialize P pk admin mint i s = Inr s'"
  shows "permits pda m {a. authorises K P pk s (Initialize admin mint i) a} (es_ledger s) (es_ledger s')"
proof -
  obtain L1 x1 L2 x2 L3 L4 where
    s: "init_ata P (es_ledger s) mint (pda_portal_authority pk) = Inr (L1, x1)"
    "init_ata P L1 mint (pda_ext_swap_global pk) = Inr (L2, x2)"
    "update_multiplier P L2 mint (pda_global pk) (index_to_multiplier i) (es_clock s) = Inr L3"
    "thaw_if_frozen P pk x1 (tp_ata P mint (pda_portal_authority pk)) mint L3 = Inr L4"
    "thaw_if_frozen P pk x2 (tp_ata P mint (pda_ext_swap_global pk)) mint L4 = Inr (es_ledger s')"
    using assms by (auto simp: initialize_def handler_simps)
  let ?A = "{a. authorises K P pk s (Initialize admin mint i) a}"
  have "permits pda m ?A (es_ledger s) L1" by (rule permits_init_ata [OF s(1)])
  also have "permits pda m ?A L1 L2" by (rule permits_init_ata [OF s(2)])
  also have "permits pda m ?A L2 L3" by (rule permits_update [OF s(3)])
  also have "permits pda m ?A L3 L4" by (rule permits_thaw_if_frozen [OF s(4)]) simp
  also have "permits pda m ?A L4 (es_ledger s')" by (rule permits_thaw_if_frozen [OF s(5)]) simp
  finally show ?thesis .
qed

lemma recover_permits:
  assumes "recover_m P pk admin mint src dst n s = Inr s'"
  shows "permits pda m {a. authorises K P pk s (RecoverM admin mint src dst n) a} (es_ledger s) (es_ledger s')"
proof -
  obtain g x L1 L2 L3 n' d where g: "es_global s = Some g" "eg_admin g = admin"
    and s: "tp_thaw P (es_ledger s) src mint (pda_global pk) = Inr L1"
    "thaw_if_frozen P pk x dst mint L1 = Inr L2"
    "tp_transfer_checked P L2 src dst mint (pda_global pk) n' d = Inr L3"
    "tp_freeze P L3 src mint (pda_global pk) = Inr (es_ledger s')"
    using assms by (auto simp: recover_m_def handler_simps Let_def)
  let ?B = "insert src {dst}"
  have "permits pda m ?B (es_ledger s) L1" by (rule permits_thaw [OF s(1)]) simp
  also have "permits pda m ?B L1 L2" by (rule permits_thaw_if_frozen [OF s(2)]) simp
  also have "permits pda m ?B L2 L3" by (rule permits_transfer [OF s(3)])
  also have "permits pda m ?B L3 (es_ledger s')" by (rule permits_freeze [OF s(4)])
  finally have p: "permits pda m ?B (es_ledger s) (es_ledger s')" .
  have "\<not> thawed m (es_ledger s') src" using freeze_effect [OF s(4)] by fastforce
  then show ?thesis using p g by (auto simp: permits_def)
qed

lemma update_portal_permits:
  assumes "update_portal_authority P pk admin mint s = Inr s'"
  shows "permits pda m {a. authorises K P pk s (UpdatePortalAuthority admin mint) a} (es_ledger s) (es_ledger s')"
proof -
  obtain g L1 x where g: "es_global s = Some g" "eg_admin g = admin"
    and s: "init_ata P (es_ledger s) mint (pda_portal_authority pk) = Inr (L1, x)"
    "thaw_if_frozen P pk x (tp_ata P mint (pda_portal_authority pk)) mint L1 = Inr (es_ledger s')"
    using assms by (auto simp: update_portal_authority_def handler_simps)
  let ?A = "{a. authorises K P pk s (UpdatePortalAuthority admin mint) a}"
  have "permits pda m ?A (es_ledger s) L1" by (rule permits_init_ata [OF s(1)])
  also have "permits pda m ?A L1 (es_ledger s')" by (rule permits_thaw_if_frozen [OF s(2)]) (simp add: g)
  finally show ?thesis .
qed

lemma propagate_permits:
  assumes "propagate_index testing P pk signer mint i r s = Inr s'"
  shows "permits pda m A (es_ledger s) (es_ledger s')"
proof -
  have "es_ledger s' = es_ledger s \<or> (\<exists>f t. update_multiplier P (es_ledger s) mint (pda_global pk) f t =
      Inr (es_ledger s'))"
    using propagate_outcome [OF assms] by (auto split: if_splits)
  then show ?thesis using permits_update by auto
qed

lemma add_permits:
  assumes "add_registrar_earner K P pk mint acc usr proof s = Inr s'"
  shows "permits pda m {a. authorises K P pk s (AddRegistrarEarner mint acc usr proof) a}
    (es_ledger s) (es_ledger s')"
proof -
  obtain L' where "tp_thaw P (es_ledger s) acc mint (pda_global pk) = Inr L'" "es_ledger s' = L'"
    using assms by (auto simp: add_registrar_earner_def handler_simps)
  moreover have "authorises K P pk s (AddRegistrarEarner mint acc usr proof) acc"
    using assms by (auto simp: add_registrar_earner_def handler_simps)
  ultimately show ?thesis using permits_thaw by blast
qed

lemma remove_permits:
  assumes "remove_registrar_earner K P pk mint acc proofs neighbors s = Inr s'"
  shows "permits pda m A (es_ledger s) (es_ledger s')"
  using assms permits_freeze by (auto simp: remove_registrar_earner_def handler_simps)

lemma execute_permits:
  assumes "execute K testing P pk ix s = Inr s'"
  shows "permits pda m {a. authorises K P pk s ix a} (es_ledger s) (es_ledger s')"
proof (cases ix)
  case (Initialize admin mint i)
  then show ?thesis using assms initialize_permits by simp
next
  case (RecoverM admin mint src dst n)
  then show ?thesis using assms recover_permits by simp
next
  case (UpdatePortalAuthority admin mint)
  then show ?thesis using assms update_portal_permits by simp
next
  case (PropagateIndex signer mint i r)
  then show ?thesis using assms propagate_permits by simp
next
  case (AddRegistrarEarner mint acc usr path)
  then show ?thesis using assms add_permits by simp
next
  case (RemoveRegistrarEarner mint acc proofs neighbors)
  then show ?thesis using assms remove_permits by simp
qed

end

section \<open>Runs\<close>

text \<open>
  Between two instructions of the program anything else may happen on the chain.  Without the
  signature of the program's global account, which is the freeze authority and the authority of
  the multiplier, it cannot thaw an account of a secured mint nor change its configuration.
\<close>

definition env_step :: "buffer \<Rightarrow> earn_state \<Rightarrow> earn_state \<Rightarrow> bool" where
  "env_step pda s s' \<longleftrightarrow> es_global s' = es_global s \<and> es_events s' = es_events s \<and>
     es_clock s \<le> es_clock s' \<and>
     (\<forall>m. secured pda m (es_ledger s) \<longrightarrow> secured pda m (es_ledger s') \<and>
        mint_multiplier m (es_ledger s') = mint_multiplier m (es_ledger s) \<and>
        (\<forall>a. thawed m (es_ledger s') a \<longrightarrow> thawed m (es_ledger s) a))"

text \<open>A run with the trace of its program steps, each with the state it starts from.\<close>

inductive earn_run ::
  "(buffer \<Rightarrow> buffer) \<Rightarrow> bool \<Rightarrow> token_program \<Rightarrow> program_keys \<Rightarrow> earn_state \<Rightarrow>
     (earn_state \<times> instruction) list \<Rightarrow> earn_state \<Rightarrow> bool"
  for K testing P pk s0 where
  run_start: "earn_run K testing P pk s0 [] s0"
| run_program: "earn_run K testing P pk s0 tr s \<Longrightarrow> execute K testing P pk ix s = Inr s' \<Longrightarrow>
    earn_run K testing P pk s0 (tr @ [(s, ix)]) s'"
| run_environment: "earn_run K testing P pk s0 tr s \<Longrightarrow> env_step (pda_global pk) s s' \<Longrightarrow>
    earn_run K testing P pk s0 tr s'"

lemma run_permits:
  assumes "token_2022 P" "earn_run K testing P pk s0 tr s"
  shows "permits (pda_global pk) m {a. \<exists>(s1, ix) \<in> set tr. authorises K P pk s1 ix a}
    (es_ledger s0) (es_ledger s)"
  using assms(2)
proof induction
  case run_start
  then show ?case by simp
next
  case (run_program tr s ix s')
  have "permits (pda_global pk) m {a. \<exists>(s1, ix) \<in> set (tr @ [(s, ix)]). authorises K P pk s1 ix a}
      (es_ledger s0) (es_ledger s)"
    using run_program.IH by (rule permits_mono) auto
  moreover have "permits (pda_global pk) m {a. \<exists>(s1, ix) \<in> set (tr @ [(s, ix)]). authorises K P pk s1 ix a}
      (es_ledger s) (es_ledger s')"
    using token_2022.execute_permits [OF assms(1) run_program.hyps(2)] by (rule permits_mono) auto
  ultimately show ?case by (rule permits_trans)
next
  case (run_environment tr s s')
  from run_environment.hyps(2) have "permits (pda_global pk) m
      {a. \<exists>(s1, ix) \<in> set tr. authorises K P pk s1 ix a} (es_ledger s) (es_ledger s')"
    by (simp add: env_step_def permits_def)
  with run_environment.IH show ?case by (rule permits_trans)
qed

text \<open>The root of the earners changes only by a propagation.\<close>

definition propagates :: "bool \<Rightarrow> buffer \<Rightarrow> earn_state \<times> instruction \<Rightarrow> bool" where
  "propagates testing r step = (case step of
     (s, PropagateIndex signer mint i r') \<Rightarrow> r' = r \<and> r \<noteq> zero_root \<and>
       mint_multiplier mint (es_ledger s) \<le> index_to_multiplier i \<and>
       (case es_global s of
          Some g \<Rightarrow> eg_m_mint g = mint \<and> (signer = portal_authority g \<or> (testing \<and> signer = eg_admin g))
        | None \<Rightarrow> False)
   | _ \<Rightarrow> False)"

lemma get_scaled_multiplier: "get_scaled_ui_config L m = Inr c \<Longrightarrow> mint_multiplier m L = su_new_multiplier c"
  by (auto simp: get_scaled_ui_config_def mint_multiplier_def split: option.splits)

definition root_of :: "earn_state \<Rightarrow> buffer" where
  "root_of s = (case es_global s of Some g \<Rightarrow> earner_merkle_root g | None \<Rightarrow> zero_root)"

lemma execute_root:
  assumes "execute K testing P pk ix s = Inr s'"
  shows "root_of s' = root_of s \<or> propagates testing (root_of s') (s, ix)"
proof (cases ix)
  case (PropagateIndex signer mint i r)
  then have "propagate_index testing P pk signer mint i r s = Inr s'" using assms by simp
  then obtain g c where g: "es_global s = Some g" "signer = portal_authority g \<or> (testing \<and> signer = eg_admin g)"
    "eg_m_mint g = mint" "get_scaled_ui_config (es_ledger s) mint = Inr c"
    and o: "index_to_multiplier i < su_new_multiplier c \<longrightarrow> s' = s"
      "\<not> index_to_multiplier i < su_new_multiplier c \<longrightarrow>
        es_global s' = Some (if r \<noteq> zero_root then g\<lparr>earner_merkle_root := r\<rparr> else g)"
    using propagate_outcome by (metis (no_types))
  show ?thesis
  proof (cases "index_to_multiplier i < su_new_multiplier c \<or> r = zero_root")
    case True
    then show ?thesis using g(1) o by (auto simp: root_of_def)
  next
    case False
    then have "root_of s' = r" using o by (simp add: root_of_def)
    then show ?thesis
      using False g get_scaled_multiplier [OF g(4)] by (simp add: propagates_def PropagateIndex)
  qed
next
  case (Initialize admin mint i)
  then show ?thesis using assms by (auto simp: initialize_def handler_simps root_of_def)
next
  case (UpdatePortalAuthority admin mint)
  then show ?thesis using assms by (auto simp: update_portal_authority_def handler_simps root_of_def)
next
  case (RecoverM admin mint src dst n)
  then show ?thesis using assms by (auto simp: recover_m_def handler_simps root_of_def Let_def)
next
  case (AddRegistrarEarner mint acc usr path)
  then show ?thesis using assms by (auto simp: add_registrar_earner_def handler_simps root_of_def)
next
  case (RemoveRegistrarEarner mint acc proofs neighbors)
  then show ?thesis using assms by (auto simp: remove_registrar_earner_def handler_simps root_of_def)
qed

lemma run_root:
  assumes "earn_run K testing P pk s0 tr s"
  shows "root_of s = root_of s0 \<or> list_ex (propagates testing (root_of s)) tr"
  using assms
proof induction
  case run_start
  then show ?case by simp
next
  case (run_program tr s ix s')
  then show ?case using execute_root [OF run_program.hyps(2)] by auto
next
  case (run_environment tr s s')
  then show ?case by (simp add: env_step_def root_of_def)
qed

end
