(* ===== verification/Conversion.thy ===== *)
theory Conversion
  imports EarnProgram
begin

text \<open>
  The conversions between amounts, principals, multipliers and indexes,
  \<open>programs/earn/src/utils/conversion.rs\<close>.  A \<open>u128\<close> is a natural number with the checks of its
  operations written out; the cast of a double saturates.  Multipliers are the finite doubles of
  \<open>Float64\<close>, which are not negative.
\<close>

section \<open>Checked arithmetic on \<open>u128\<close>\<close>

definition INDEX_SCALE :: nat where
  "INDEX_SCALE = 10 ^ 12"

definition checked_u128 :: "nat \<Rightarrow> EarnError \<Rightarrow> ix_error + nat" where
  "checked_u128 n e = (if n < 2 ^ 128 then Inr n else Inl (earn_error e))"

definition checked_sub :: "nat \<Rightarrow> nat \<Rightarrow> ix_error + nat" where
  "checked_sub a b = (if b \<le> a then Inr (a - b) else Inl (earn_error MathUnderflow))"

definition checked_div :: "nat \<Rightarrow> nat \<Rightarrow> ix_error + nat" where
  "checked_div a b = (if b \<noteq> 0 then Inr (a div b) else Inl (earn_error MathUnderflow))"

definition try_into_u64 :: "nat \<Rightarrow> ix_error + 64 word" where
  "try_into_u64 n = (if n < 2 ^ 64 then Inr (of_nat n) else Inl (ConstraintError ''InvalidNumericConversion''))"

text \<open>The truncated product of a multiplier and \<open>1e12\<close>, rounded once by the multiplication.\<close>

definition scaled_trunc :: "f64 \<Rightarrow> nat" where
  "scaled_trunc m = round_quot (m * INDEX_SCALE) 1 div f64_unit"

definition index_u128 :: "f64 \<Rightarrow> nat" where
  "index_u128 m = min (scaled_trunc m) (2 ^ 128 - 1)"

section \<open>The conversions\<close>

definition amount_to_principal_down :: "64 word \<Rightarrow> f64 \<Rightarrow> ix_error + 64 word" where
  "amount_to_principal_down amount multiplier =
     (if multiplier = f64_unit then Inr amount
      else
        let i = index_u128 multiplier in
        bindE (checked_u128 (unat amount * INDEX_SCALE) MathOverflow) (\<lambda>x.
        bindE (checked_div x i) try_into_u64))"

definition amount_to_principal_up :: "64 word \<Rightarrow> f64 \<Rightarrow> ix_error + 64 word" where
  "amount_to_principal_up amount multiplier =
     (if multiplier = f64_unit then Inr amount
      else
        let i = index_u128 multiplier in
        bindE (checked_u128 (unat amount * INDEX_SCALE) MathOverflow) (\<lambda>x.
        bindE (checked_sub i 1) (\<lambda>y.
        bindE (checked_u128 (x + y) MathOverflow) (\<lambda>z.
        bindE (checked_div z i) try_into_u64))))"

definition principal_to_amount_down :: "64 word \<Rightarrow> f64 \<Rightarrow> ix_error + 64 word" where
  "principal_to_amount_down princ multiplier =
     (if multiplier = f64_unit then Inr princ
      else
        let i = index_u128 multiplier in
        bindE (checked_u128 (i * unat princ) MathOverflow) (\<lambda>x.
        bindE (checked_div x INDEX_SCALE) try_into_u64))"

definition principal_to_amount_up :: "64 word \<Rightarrow> f64 \<Rightarrow> ix_error + 64 word" where
  "principal_to_amount_up princ multiplier =
     (if multiplier = f64_unit then Inr princ
      else
        let i = index_u128 multiplier in
        bindE (checked_u128 (i * unat princ) MathOverflow) (\<lambda>x.
        bindE (checked_sub INDEX_SCALE 1) (\<lambda>y.
        bindE (checked_u128 (x + y) MathOverflow) (\<lambda>z.
        bindE (checked_div z INDEX_SCALE) try_into_u64))))"

text \<open>The bound \<open>u64::MAX as f64\<close> is \<open>2 ^ 64\<close>; the cast of this value saturates.\<close>

definition multiplier_to_index :: "f64 \<Rightarrow> ix_error + 64 word" where
  "multiplier_to_index multiplier =
     (let i = scaled_trunc multiplier in
      if 2 ^ 64 < i then Inl (earn_error MathOverflow) else Inr (of_nat (min i (2 ^ 64 - 1))))"

section \<open>The error of a rounding\<close>

text \<open>The rounded quotient is at most half a unit in the last place away.\<close>

lemma round_quot_error:
  assumes "0 < b" "k = excess_bits (a div b)"
  shows "2 * (round_quot a b * b) \<le> 2 * a + b * 2 ^ k" "2 * a \<le> 2 * (round_quot a b * b) + b * 2 ^ k"
proof -
  let ?d = "b * 2 ^ k"
  let ?q = "a div ?d" and ?r = "a mod ?d"
  have a: "a = ?q * ?d + ?r" by (rule div_mult_mod_eq [symmetric])
  have r: "?r < ?d" using assms(1) by simp
  have e: "round_quot a b * b = (if 2 * ?r < ?d \<or> (2 * ?r = ?d \<and> even ?q) then ?q * ?d else ?q * ?d + ?d)"
    by (simp add: round_quot_def Let_def assms(2) [symmetric] algebra_simps)
  show "2 * (round_quot a b * b) \<le> 2 * a + b * 2 ^ k"
  proof (cases "2 * ?r < ?d \<or> (2 * ?r = ?d \<and> even ?q)")
    case True
    then have "round_quot a b * b = ?q * ?d" using e by (simp only: if_True)
    then show ?thesis using a by linarith
  next
    case False
    then have "?d \<le> 2 * ?r" by linarith
    moreover have "round_quot a b * b = ?q * ?d + ?d" using e False by (simp only: if_False)
    ultimately show ?thesis using a by linarith
  qed
  show "2 * a \<le> 2 * (round_quot a b * b) + b * 2 ^ k"
  proof (cases "2 * ?r < ?d \<or> (2 * ?r = ?d \<and> even ?q)")
    case True
    then have "round_quot a b * b = ?q * ?d" using e by (simp only: if_True)
    moreover have "2 * ?r \<le> ?d" using True by linarith
    ultimately show ?thesis using a by linarith
  next
    case False
    then have "round_quot a b * b = ?q * ?d + ?d" using e by (simp only: if_False)
    then show ?thesis using a r by linarith
  qed
qed

lemma round_quot_ulp:
  assumes "0 < b" "2 ^ 52 \<le> a div b"
  shows "2 ^ 52 * (b * 2 ^ excess_bits (a div b)) \<le> a"
proof -
  let ?k = "excess_bits (a div b)"
  have "2 ^ 52 \<le> a div b div 2 ^ ?k"
    using assms(2) excess_bits_large [of "a div b"] by (cases "?k = 0") simp_all
  then have "2 ^ 52 \<le> a div (b * 2 ^ ?k)" by (simp add: div_mult2_eq)
  then have "2 ^ 52 * (b * 2 ^ ?k) \<le> a div (b * 2 ^ ?k) * (b * 2 ^ ?k)" by (rule mult_le_mono1)
  also have "\<dots> \<le> a" by (rule div_times_less_eq_dividend)
  finally show ?thesis .
qed

text \<open>So the relative error is at most \<open>2 ^ -53\<close>.\<close>

lemma round_quot_relative:
  assumes "0 < b" "2 ^ 52 \<le> a div b"
  shows "2 ^ 53 * (round_quot a b * b) \<le> 2 ^ 53 * a + a" "2 ^ 53 * a \<le> 2 ^ 53 * (round_quot a b * b) + a"
  using round_quot_error [OF assms(1) refl, of a] round_quot_ulp [OF assms] by simp_all

lemma excess_bits_exact:
  "n < 2 ^ (53 + k) \<Longrightarrow> excess_bits n \<le> k"
proof (induction k arbitrary: n)
  case 0
  then show ?case by (simp add: excess_bits.simps [of n])
next
  case (Suc k)
  have "n div 2 < 2 ^ (53 + k)" using Suc.prems by (simp add: power_add)
  then show ?case using Suc.IH [of "n div 2"] by (simp add: excess_bits.simps [of n])
qed

text \<open>A number of at most 53 significant bits is exact.\<close>

lemma round_quot_exact:
  assumes "n < 2 ^ 53"
  shows "round_quot (n * 2 ^ e) 1 = n * 2 ^ e"
proof -
  let ?k = "excess_bits (n * 2 ^ e)"
  have "?k \<le> e" using assms by (intro excess_bits_exact) (simp add: power_add mult_less_mono1)
  then obtain j where j: "e = ?k + j" by (metis le_Suc_ex)
  have n: "n * 2 ^ e = n * 2 ^ j * 2 ^ ?k" by (subst j) (simp add: power_add)
  have "n * 2 ^ e mod 2 ^ ?k = 0" "n * 2 ^ e div 2 ^ ?k = n * 2 ^ j" by (subst n, simp)+
  then have "round_quot (n * 2 ^ e) 1 = n * 2 ^ j * 2 ^ ?k" by (simp add: round_quot_def Let_def)
  with n show ?thesis by (simp only: )
qed

section \<open>Truncated indexes\<close>

lemma scaled_trunc_bounds:
  assumes "f64_unit \<le> m" "m \<le> 2 ^ 64 * f64_unit"
  shows "INDEX_SCALE \<le> scaled_trunc m" "scaled_trunc m \<le> 2 ^ 64 * INDEX_SCALE" "index_u128 m = scaled_trunc m"
proof -
  have e: "round_quot (2 ^ j * f64_unit * INDEX_SCALE) 1 = 2 ^ j * f64_unit * INDEX_SCALE" for j
    using round_quot_exact [of INDEX_SCALE "j + 92"]
    by (simp add: INDEX_SCALE_def f64_unit_def power_add mult.commute mult.left_commute)
  have l: "2 ^ 0 * f64_unit * INDEX_SCALE \<le> round_quot (m * INDEX_SCALE) 1"
    by (subst e [symmetric], rule round_quot_mono) (use assms(1) in simp_all)
  have u: "round_quot (m * INDEX_SCALE) 1 \<le> 2 ^ 64 * f64_unit * INDEX_SCALE"
    by (subst e [symmetric], rule round_quot_mono) (use assms(2) in \<open>simp_all add: mult_le_mono1\<close>)
  have "f64_unit * INDEX_SCALE div f64_unit \<le> scaled_trunc m"
    unfolding scaled_trunc_def using l by (intro div_le_mono) simp
  then show "INDEX_SCALE \<le> scaled_trunc m" by (simp add: f64_unit_def)
  have "scaled_trunc m \<le> f64_unit * (2 ^ 64 * INDEX_SCALE) div f64_unit"
    unfolding scaled_trunc_def using u by (intro div_le_mono) (simp add: mult.commute mult.left_commute)
  then show t: "scaled_trunc m \<le> 2 ^ 64 * INDEX_SCALE" by (simp add: f64_unit_def)
  then show "index_u128 m = scaled_trunc m" by (simp add: index_u128_def INDEX_SCALE_def)
qed

text \<open>
  Below \<open>2 ^ 52\<close> an index survives both roundings up to the truncation of the product: it comes back
  itself or as its predecessor.
\<close>

lemma scaled_trunc_index:
  assumes "0 < i" "i < 2 ^ 52"
  shows "scaled_trunc (round_quot (i * f64_unit) (10 ^ 12)) = i \<or>
    scaled_trunc (round_quot (i * f64_unit) (10 ^ 12)) = i - 1"
proof -
  define a m p where "a = i * f64_unit" and "m = round_quot a (10 ^ 12)" and "p = round_quot (m * 10 ^ 12) 1"
  have "1 * f64_unit \<le> a" unfolding a_def using assms(1) by (intro mult_le_mono1) simp
  then have "f64_unit div 10 ^ 12 \<le> a div 10 ^ 12" by (intro div_le_mono) simp
  then have q: "2 ^ 52 \<le> a div 10 ^ 12" by (simp add: f64_unit_def)
  note m = round_quot_relative [OF _ q, folded m_def, simplified]
  have "2 ^ 52 \<le> m * 10 ^ 12"
    using m \<open>1 * f64_unit \<le> a\<close> by (simp add: f64_unit_def)
  then have "2 ^ 52 \<le> m * 10 ^ 12 div 1" by simp
  note p = round_quot_relative [OF zero_less_one this, folded p_def, simplified]
  have "i \<le> 2 ^ 52 - 1" using assms(2) by simp
  then have "a \<le> (2 ^ 52 - 1) * 2 ^ 92" unfolding a_def f64_unit_def by (rule mult_le_mono1)
  then have "a \<le> 22300745198530618189775561131127261909483520" by simp
  then have "p < a + 4951760157141521099596496896" "a \<le> p + 4951760157141521099596496896"
    using m p by linarith+
  then have "p < (i + 1) * 2 ^ 92" "i * 2 ^ 92 \<le> p + 2 ^ 92" by (simp_all add: a_def f64_unit_def)
  moreover have "(i - 1) * 2 ^ 92 + 2 ^ 92 = i * 2 ^ 92" using assms(1) by (cases i) simp_all
  ultimately have "p div 2 ^ 92 < i + 1" "i - 1 \<le> p div 2 ^ 92"
    by (simp_all only: less_mult_imp_div_less less_eq_div_iff_mult_less_eq zero_less_power add_le_cancel_right
        rel_simps mult.commute)
  then show ?thesis
    unfolding scaled_trunc_def INDEX_SCALE_def unfolding a_def [symmetric] unfolding m_def [symmetric]
    unfolding p_def [symmetric] f64_unit_def by linarith
qed

lemma multiplier_to_index_near:
  assumes "0 < i" "i < 2 ^ 52"
  shows "multiplier_to_index (index_to_multiplier i) = Inr i \<or>
    multiplier_to_index (index_to_multiplier i) = Inr (i - 1)"
proof -
  have n: "0 < unat i" "unat i < 2 ^ 52"
    using assms by (simp_all add: word_less_nat_alt)
  have u: "u64_to_f64 i = unat i" using round_quot_exact [of "unat i" 0] n by (simp add: u64_to_f64_def)
  have e: "of_nat (unat i - 1) = i - 1" using n by (simp add: of_nat_diff)
  from scaled_trunc_index [OF n] show ?thesis
  proof
    assume "scaled_trunc (round_quot (unat i * f64_unit) (10 ^ 12)) = unat i"
    then show ?thesis using n by (simp add: multiplier_to_index_def index_to_multiplier_def u Let_def)
  next
    assume "scaled_trunc (round_quot (unat i * f64_unit) (10 ^ 12)) = unat i - 1"
    then show ?thesis using n e by (simp add: multiplier_to_index_def index_to_multiplier_def u Let_def)
  qed
qed

section \<open>Amounts and principals\<close>

text \<open>The quotients behind the four conversions, on natural numbers.\<close>

lemma principal_quotients:
  fixes A i S :: nat
  assumes "0 < S" "S \<le> i"
  shows "A * S div i \<le> A" "A * S div i \<le> (A * S + (i - 1)) div i"
    "(A * S + (i - 1)) div i \<le> A * S div i + 1" "(A * S + (i - 1)) div i \<le> A"
    "i * (A * S div i) \<le> A * S" "i * (A * S div i) div S \<le> A"
    "A \<le> i * (A * S div i) div S + i div S + 1" "A \<le> (i * ((A * S + (i - 1)) div i) + (S - 1)) div S"
proof -
  have i: "0 < i" using assms by simp
  have AS: "A * S \<le> A * i" using assms(2) by simp
  show "A * S div i \<le> A" using div_le_mono [OF AS, of i] i by simp
  show "A * S div i \<le> (A * S + (i - 1)) div i" by (intro div_le_mono) simp
  have "(A * S + (i - 1)) div i \<le> (A * S + i) div i" by (intro div_le_mono) simp
  moreover have "(A * S + i) div i = A * S div i + 1" using i by (subst div_add_self2) simp_all
  ultimately show "(A * S + (i - 1)) div i \<le> A * S div i + 1" by linarith
  have "A * S + (i - 1) < A * i + i" using AS i by linarith
  then have "A * S + (i - 1) < (A + 1) * i" by (simp add: algebra_simps)
  then have "(A * S + (i - 1)) div i < A + 1" by (rule less_mult_imp_div_less)
  then show "(A * S + (i - 1)) div i \<le> A" by linarith
  show d: "i * (A * S div i) \<le> A * S" by (metis div_times_less_eq_dividend mult.commute)
  show "i * (A * S div i) div S \<le> A" using div_le_mono [OF d, of S] assms(1) by simp
  have "A * S = i * (A * S div i) + A * S mod i" by simp
  then have "A * S \<le> i * (A * S div i) + i" using i mod_less_divisor [of i "A * S"] by linarith
  then have "A * S div S \<le> (i * (A * S div i) + i) div S" by (rule div_le_mono)
  moreover have "(x + y) div S \<le> x div S + y div S + 1" for x y :: nat
  proof -
    have "x = x div S * S + x mod S" "y = y div S * S + y mod S" by (simp_all only: div_mult_mod_eq)
    then have "x + y < x div S * S + y div S * S + 2 * S"
      using assms(1) mod_less_divisor [of S x] mod_less_divisor [of S y] by linarith
    then have "x + y < (x div S + y div S + 2) * S" by (simp only: distrib_right)
    then have "(x + y) div S < x div S + y div S + 2" by (rule less_mult_imp_div_less)
    then show ?thesis by simp
  qed
  ultimately show "A \<le> i * (A * S div i) div S + i div S + 1" using assms(1) by (simp add: le_trans)
  let ?Q = "(A * S + (i - 1)) div i"
  have "A * S + (i - 1) = i * ?Q + (A * S + (i - 1)) mod i" by simp
  then have "A * S \<le> i * ?Q" using i mod_less_divisor [of i "A * S + (i - 1)"] by linarith
  then have "A * S div S \<le> (i * ?Q + (S - 1)) div S" by (intro div_le_mono) simp
  then show "A \<le> (i * ?Q + (S - 1)) div S" using assms(1) by simp
qed

lemma unat_u64: "unat a < 2 ^ 64" for a :: "64 word"
  using unsigned_less [where 'b = 64 and 'a = nat, of a] by simp

lemma try_into_below:
  fixes a :: "64 word"
  assumes "n \<le> unat a"
  shows "\<exists>p. try_into_u64 n = Inr p \<and> unat p = n"
proof -
  have "n < 2 ^ 64" using assms unat_u64 [of a] by linarith
  then show ?thesis by (simp add: try_into_u64_def unat_of_nat take_bit_nat_eq_self)
qed

lemma scaled_trunc_one: "scaled_trunc f64_unit = INDEX_SCALE"
proof -
  have "round_quot (f64_unit * INDEX_SCALE) 1 = f64_unit * INDEX_SCALE"
    using round_quot_exact [of INDEX_SCALE 92] by (simp add: INDEX_SCALE_def f64_unit_def)
  then show ?thesis by (simp add: scaled_trunc_def f64_unit_def)
qed

lemma try_into_unat: "try_into_u64 (unat a) = Inr a"
  using unat_u64 [of a] by (simp add: try_into_u64_def)

text \<open>The case of the multiplier 1.0 returns what the general case computes.\<close>

lemma scaled_sum:
  fixes a :: "64 word"
  assumes "f64_unit \<le> m" "m \<le> 2 ^ 64 * f64_unit"
  shows "unat a * INDEX_SCALE + (scaled_trunc m - 1) < 2 ^ 127"
proof -
  have "unat a * INDEX_SCALE \<le> 2 ^ 64 * INDEX_SCALE" using unat_u64 [of a] by (intro mult_le_mono1) simp
  with scaled_trunc_bounds(2) [OF assms]
  have "unat a * INDEX_SCALE + (scaled_trunc m - 1) \<le> 2 * (2 ^ 64 * INDEX_SCALE)" by linarith
  then show ?thesis by (rule order.strict_trans1) (simp add: INDEX_SCALE_def)
qed

lemma to_principal_values:
  assumes "f64_unit \<le> m" "m \<le> 2 ^ 64 * f64_unit"
  shows "amount_to_principal_down a m = try_into_u64 (unat a * INDEX_SCALE div scaled_trunc m)"
    "amount_to_principal_up a m = try_into_u64 ((unat a * INDEX_SCALE + (scaled_trunc m - 1)) div scaled_trunc m)"
proof -
  note i = scaled_trunc_bounds [OF assms]
  have i0: "0 < scaled_trunc m" "1 \<le> scaled_trunc m" using i(1) by (simp_all add: INDEX_SCALE_def)
  have s: "unat a * INDEX_SCALE + (scaled_trunc m - 1) < 2 ^ 128" "unat a * INDEX_SCALE < 2 ^ 128"
    using scaled_sum [OF assms, of a] by simp_all
  have one: "unat a * INDEX_SCALE div INDEX_SCALE = unat a"
    "(unat a * INDEX_SCALE + (INDEX_SCALE - 1)) div INDEX_SCALE = unat a" by (simp_all add: INDEX_SCALE_def)
  show "amount_to_principal_down a m = try_into_u64 (unat a * INDEX_SCALE div scaled_trunc m)"
    using s i0 one by (cases "m = f64_unit")
      (simp_all add: amount_to_principal_down_def i(3) checked_u128_def checked_div_def try_into_unat scaled_trunc_one)
  show "amount_to_principal_up a m = try_into_u64 ((unat a * INDEX_SCALE + (scaled_trunc m - 1)) div scaled_trunc m)"
    using s i0 one by (cases "m = f64_unit")
      (simp_all add: amount_to_principal_up_def Let_def i(3) checked_u128_def checked_sub_def checked_div_def
        try_into_unat scaled_trunc_one)
qed

lemma to_amount_values:
  assumes "f64_unit \<le> m" "m \<le> 2 ^ 64 * f64_unit" "scaled_trunc m * unat p < 2 ^ 127"
  shows "principal_to_amount_down p m = try_into_u64 (scaled_trunc m * unat p div INDEX_SCALE)"
    "principal_to_amount_up p m = try_into_u64 ((scaled_trunc m * unat p + (INDEX_SCALE - 1)) div INDEX_SCALE)"
proof -
  note i = scaled_trunc_bounds [OF assms(1,2)]
  have one: "INDEX_SCALE * unat p div INDEX_SCALE = unat p"
    "(INDEX_SCALE * unat p + (INDEX_SCALE - 1)) div INDEX_SCALE = unat p" by (simp_all add: INDEX_SCALE_def)
  have S: "0 < INDEX_SCALE" "1 \<le> INDEX_SCALE" "INDEX_SCALE < 2 ^ 127" by (simp_all add: INDEX_SCALE_def)
  have s: "scaled_trunc m * unat p + (INDEX_SCALE - 1) < 2 ^ 128" using assms(3) S by simp
  show "principal_to_amount_down p m = try_into_u64 (scaled_trunc m * unat p div INDEX_SCALE)"
    using assms(3) one S by (cases "m = f64_unit")
      (simp_all add: principal_to_amount_down_def i(3) checked_u128_def checked_div_def try_into_unat scaled_trunc_one)
  show "principal_to_amount_up p m = try_into_u64 ((scaled_trunc m * unat p + (INDEX_SCALE - 1)) div INDEX_SCALE)"
    using assms(3) one S s by (cases "m = f64_unit")
      (simp_all add: principal_to_amount_up_def Let_def i(3) checked_u128_def checked_sub_def checked_div_def
        try_into_unat scaled_trunc_one)
qed

end
