(* ===== verification/EarnMigrate.thy ===== *)
theory EarnMigrate
  imports EarnRun Conversion
begin

text \<open>
  The build of the earn program with the feature \<open>migrate\<close>
  (\<open>programs/earn/src/instructions/admin/initialize.rs\<close>): \<open>initialize\<close> takes the index, its
  timestamp and the root from the account of the first earn program, and checks that the new
  supply at the new multiplier does not exceed the supply of the first token.
\<close>

section \<open>The handler\<close>

text \<open>The account of the first program, \<open>programs/earn/idls/old_earn.json\<close>, as far as it is read.\<close>

record OldGlobal =
  og_mint :: buffer
  og_index :: "64 word"
  og_timestamp :: "64 word"
  og_merkle_root :: buffer

definition initialize_migrate ::
  "token_program \<Rightarrow> program_keys \<Rightarrow> OldGlobal option \<Rightarrow> buffer \<Rightarrow> buffer \<Rightarrow> buffer \<Rightarrow> earn_state \<Rightarrow>
     ix_error + earn_state" where
  "initialize_migrate P pk old_global adm mint old_mint s =
     bindE (check (es_global s = None) (ConstraintError ''AccountAlreadyInUse'')) (\<lambda>_.
     bindE (fetch old_global) (\<lambda>og.
     bindE (fetch (l_mints (es_ledger s) mint)) (\<lambda>y.
     bindE (check (mi_decimals y = 6) (ConstraintError ''ConstraintMintDecimals'')) (\<lambda>_.
     bindE (fetch (l_mints (es_ledger s) old_mint)) (\<lambda>oy.
     bindE (check (old_mint = og_mint og) (earn_error InvalidMint)) (\<lambda>_.
     bindE (check (mi_decimals oy = mi_decimals y) (ConstraintError ''ConstraintMintDecimals'')) (\<lambda>_.
     bindE (init_ata P (es_ledger s) mint (pda_portal_authority pk)) (\<lambda>(L1, portal_acc).
     bindE (init_ata P L1 mint (pda_ext_swap_global pk)) (\<lambda>(L2, swap_acc).
     bindE (initialize_validate pk L2 mint (og_index og)) (\<lambda>_.
     bindE (update_multiplier P L2 mint (pda_global pk) (index_to_multiplier (og_index og))
              (sint (og_timestamp og))) (\<lambda>L3.
     bindE (get_scaled_ui_config L3 mint) (\<lambda>c.
     bindE (fetch (l_mints L3 mint)) (\<lambda>y3.
     bindE (principal_to_amount_up (mi_supply y3) (su_new_multiplier c)) (\<lambda>new_supply_amount.
     bindE (check (\<not> mi_supply oy < new_supply_amount) (earn_error InvalidMint)) (\<lambda>_.
     bindE (thaw_if_frozen P pk portal_acc (tp_ata P mint (pda_portal_authority pk)) mint L3) (\<lambda>L4.
     bindE (thaw_if_frozen P pk swap_acc (tp_ata P mint (pda_ext_swap_global pk)) mint L4) (\<lambda>L5.
       Inr (s\<lparr>es_ledger := L5, es_global := Some
         \<lparr>eg_admin = adm, eg_m_mint = mint, portal_authority = pda_portal_authority pk,
          ext_swap_global_account = pda_ext_swap_global pk, earner_merkle_root = og_merkle_root og,
          eg_bump = pda_global_bump pk\<rparr>\<rparr>))))))))))))))))))"

section \<open>What an initialization establishes\<close>

lemma validated_secured:
  "initialize_validate pk L m i = Inr u \<Longrightarrow>
    secured (pda_global pk) m L \<and> mint_multiplier m L \<le> index_to_multiplier i"
  by (auto simp: initialize_validate_def secured_def mint_multiplier_def handler_simps split: option.splits)

context token_2022
begin

lemma update_multiplier_exact:
  assumes "update_multiplier P L m auth f t = Inr L'" "mint_multiplier m L \<le> f"
  shows "mint_multiplier m L' = f"
    and "map_option mi_supply (l_mints L' m') = map_option mi_supply (l_mints L m')"
proof -
  obtain c where c: "get_scaled_ui_config L m = Inr c"
    using assms(1) by (auto simp: update_multiplier_def bindE_eq_Inr_iff)
  have "mint_multiplier m L' = f \<and> map_option mi_supply (l_mints L' m') = map_option mi_supply (l_mints L m')"
  proof (cases "su_new_multiplier c < f")
    case False
    then show ?thesis using assms c get_scaled_multiplier [OF c] by (simp add: update_multiplier_def)
  next
    case True
    then have "tp_update_multiplier P L m auth f t = Inr L'" using assms(1) c by (simp add: update_multiplier_def)
    then obtain y c' f0 where "l_mints L m = Some y"
      "L' = set_mint L m (y\<lparr>mi_scaled_ui := Some (c'\<lparr>su_multiplier := f0, su_new_multiplier := f,
          su_timestamp := t\<rparr>)\<rparr>)"
      using multiplier_effect by metis
    then show ?thesis by (simp add: mint_multiplier_def)
  qed
  then show "mint_multiplier m L' = f"
    "map_option mi_supply (l_mints L' m') = map_option mi_supply (l_mints L m')" by simp_all
qed

lemma thaw_if_frozen_mints: "thaw_if_frozen P pk acc a m L = Inr L' \<Longrightarrow> l_mints L' = l_mints L"
  using thaw_effect by (fastforce simp: thaw_if_frozen_def split: if_splits)

text \<open>The steps both builds share, from the validation on.\<close>

lemma validated_update:
  assumes "initialize_validate pk L m i = Inr u"
    and "update_multiplier P L m (pda_global pk) (index_to_multiplier i) t = Inr L'"
    and "l_mints L'' = l_mints L'"
  shows "secured (pda_global pk) m L'' \<and> mint_multiplier m L'' = index_to_multiplier i"
proof -
  note v = validated_secured [OF assms(1)]
  have "permits (pda_global pk) m {} L L'" using assms(2) by (rule permits_update)
  then have "secured (pda_global pk) m L'" using v by (simp add: permits_def)
  then show ?thesis
    using update_multiplier_exact(1) [OF assms(2)] v secured_mints [OF assms(3)] multiplier_mints [OF assms(3)] by simp
qed

lemma initialize_establishes:
  assumes "initialize P pk adm m i s = Inr s'"
  shows "secured (pda_global pk) m (es_ledger s') \<and> mint_multiplier m (es_ledger s') = index_to_multiplier i \<and>
    es_global s' = Some \<lparr>eg_admin = adm, eg_m_mint = m, portal_authority = pda_portal_authority pk,
      ext_swap_global_account = pda_ext_swap_global pk, earner_merkle_root = zero_root,
      eg_bump = pda_global_bump pk\<rparr>"
proof -
  obtain L2 L3 L4 x1 x2 u where
    s: "initialize_validate pk L2 m i = Inr u"
    "update_multiplier P L2 m (pda_global pk) (index_to_multiplier i) (es_clock s) = Inr L3"
    "thaw_if_frozen P pk x1 (tp_ata P m (pda_portal_authority pk)) m L3 = Inr L4"
    "thaw_if_frozen P pk x2 (tp_ata P m (pda_ext_swap_global pk)) m L4 = Inr (es_ledger s')"
    using assms by (auto simp: initialize_def handler_simps)
  have "l_mints (es_ledger s') = l_mints L3" using thaw_if_frozen_mints s(3,4) by metis
  note v = validated_update [OF s(1,2) this]
  show ?thesis using v assms by (auto simp: initialize_def handler_simps)
qed

lemma migrate_establishes:
  assumes "initialize_migrate P pk old adm m om s = Inr s'"
  shows "\<exists>og y oy n. old = Some og \<and> om = og_mint og \<and>
    secured (pda_global pk) m (es_ledger s') \<and>
    mint_multiplier m (es_ledger s') = index_to_multiplier (og_index og) \<and>
    es_global s' = Some \<lparr>eg_admin = adm, eg_m_mint = m, portal_authority = pda_portal_authority pk,
      ext_swap_global_account = pda_ext_swap_global pk, earner_merkle_root = og_merkle_root og,
      eg_bump = pda_global_bump pk\<rparr> \<and>
    l_mints (es_ledger s') m = Some y \<and> l_mints (es_ledger s) om = Some oy \<and>
    principal_to_amount_up (mi_supply y) (index_to_multiplier (og_index og)) = Inr n \<and> n \<le> mi_supply oy"
proof -
  obtain og oy y3 c n L2 L3 L4 x1 x2 u where
    s: "old = Some og" "om = og_mint og" "l_mints (es_ledger s) om = Some oy"
    "initialize_validate pk L2 m (og_index og) = Inr u"
    "update_multiplier P L2 m (pda_global pk) (index_to_multiplier (og_index og)) (sint (og_timestamp og)) = Inr L3"
    and c: "get_scaled_ui_config L3 m = Inr c" "l_mints L3 m = Some y3"
    "principal_to_amount_up (mi_supply y3) (su_new_multiplier c) = Inr n" "n \<le> mi_supply oy"
    and t: "thaw_if_frozen P pk x1 (tp_ata P m (pda_portal_authority pk)) m L3 = Inr L4"
    "thaw_if_frozen P pk x2 (tp_ata P m (pda_ext_swap_global pk)) m L4 = Inr (es_ledger s')"
    using assms by (auto simp: initialize_migrate_def handler_simps not_less)
  have e: "l_mints (es_ledger s') = l_mints L3" using thaw_if_frozen_mints t by metis
  note v = validated_update [OF s(4,5) e]
  have "su_new_multiplier c = index_to_multiplier (og_index og)"
    using v get_scaled_multiplier [OF c(1)] multiplier_mints [OF e, of m] by simp
  moreover have "es_global s' = Some \<lparr>eg_admin = adm, eg_m_mint = m, portal_authority = pda_portal_authority pk,
      ext_swap_global_account = pda_ext_swap_global pk, earner_merkle_root = og_merkle_root og,
      eg_bump = pda_global_bump pk\<rparr>"
    using assms s(1) by (auto simp: initialize_migrate_def handler_simps)
  ultimately show ?thesis using v s c e by auto
qed

end

end
