(* ===== verification/EarnProgramProperties.thy ===== *)
theory EarnProgramProperties
  imports EarnMigrate MerkleProperties
begin

text \<open>
  The properties of the earn program, with their witnesses: who can thaw accounts, the multiplier
  and the root over whole runs, the acceptance of propagations, the meaning of membership
  and the conversions of indexes and amounts.
\<close>

section \<open>A concrete program\<close>

definition toy_pk :: program_keys where
  "toy_pk = \<lparr>pda_global = [1], pda_global_bump = 255, pda_portal_authority = [2], pda_ext_swap_global = [3]\<rparr>"

definition toy_config :: scaled_ui_config where
  "toy_config = \<lparr>su_authority = Some [1], su_multiplier = f64_unit, su_new_multiplier = f64_unit, su_timestamp = 0\<rparr>"

definition toy_mint :: mint_account where
  "toy_mint = \<lparr>mi_decimals = 6, mi_supply = 0, mi_freeze_authority = Some [1],
     mi_scaled_ui = Some toy_config, mi_default_frozen = Some True, mi_permanent_delegate = Some (Some [1])\<rparr>"

definition toy_holder :: token_account where
  "toy_holder = \<lparr>ta_mint = [9], ta_owner = toy_bytes 3, ta_amount = 0, ta_frozen = True, ta_immutable = True\<rparr>"

definition toy_chain :: earn_state where
  "toy_chain = \<lparr>es_global = Some \<lparr>eg_admin = [7], eg_m_mint = [9], portal_authority = [2],
       ext_swap_global_account = [3], earner_merkle_root = zero_root, eg_bump = 255\<rparr>,
     es_ledger = \<lparr>l_mints = [[9] \<mapsto> toy_mint], l_accounts = [[50] \<mapsto> toy_holder]\<rparr>,
     es_clock = 0, es_events = []\<rparr>"

definition toy_listed :: earn_state where
  "toy_listed = toy_chain\<lparr>es_global := Some \<lparr>eg_admin = [7], eg_m_mint = [9], portal_authority = [2],
       ext_swap_global_account = [3], earner_merkle_root = toy_bytes 19, eg_bump = 255\<rparr>\<rparr>"

definition toy_thawed :: earn_state where
  "toy_thawed = toy_listed\<lparr>es_ledger := set_account (es_ledger toy_listed) [50] (toy_holder\<lparr>ta_frozen := False\<rparr>)\<rparr>"

lemma toy_secured: "secured (pda_global toy_pk) [9] (es_ledger toy_chain)"
  by (simp add: secured_def toy_chain_def toy_mint_def toy_config_def toy_pk_def)

lemma toy_bytes_nonzero: "toy_bytes 19 \<noteq> zero_root" "toy_bytes 3 \<noteq> zero_key"
  by (simp_all add: toy_bytes_def zero_root_def zero_key_def)

lemma toy_propagate:
  "execute toyK False ref_token_program toy_pk (PropagateIndex [2] [9] 1000000000000 (toy_bytes 19)) toy_chain =
     Inr toy_listed"
  by (simp add: propagate_index_def fetch_def check_def get_scaled_ui_config_def toy_chain_def toy_mint_def
      toy_config_def toy_listed_def index_to_multiplier_one toy_bytes_nonzero Let_def)

lemma toy_verify: "verify_in_tree toyK (toy_bytes 19) (toy_bytes 3) (toy_proof 2 False) = Inr 1"
  by (simp add: verify_in_tree_def pow2_u64_def add_u64_def toy_proof_def toyK_values)

lemma toy_add:
  "execute toyK False ref_token_program toy_pk
     (AddRegistrarEarner [9] [50] (toy_bytes 3) (toy_proof 2 False)) toy_listed = Inr toy_thawed"
  by (simp add: add_registrar_earner_def fetch_def check_def from_program_def toy_listed_def toy_chain_def
      toy_holder_def toy_bytes_nonzero toy_verify ref_token_program_def toy_mint_def toy_pk_def toy_thawed_def)

lemma toy_run:
  "earn_run toyK False ref_token_program toy_pk toy_chain
     [(toy_chain, PropagateIndex [2] [9] 1000000000000 (toy_bytes 19)),
      (toy_listed, AddRegistrarEarner [9] [50] (toy_bytes 3) (toy_proof 2 False))] toy_thawed"
  using run_program [OF run_program [OF run_start toy_propagate] toy_add] by simp

section \<open>Initialization\<close>

text \<open>
  C5. Both builds of \<open>initialize\<close> end only with a secured mint whose multiplier is exactly that of
  the index, so that the invariants of runs hold from then on, and with a global account that holds
  the admin and the mint of the arguments, the two program derived addresses and the bump.  The normal
  build starts with the zero root; the migration takes the root of the first program, and succeeds
  only if the new supply, converted at the new multiplier and rounded up, is within the supply of the
  first token.
\<close>

theorem initialization_establishes:
  assumes "token_2022 P"
  shows "(initialize P pk adm m i s = Inr s1 \<longrightarrow>
      secured (pda_global pk) m (es_ledger s1) \<and> mint_multiplier m (es_ledger s1) = index_to_multiplier i \<and>
      es_global s1 = Some \<lparr>eg_admin = adm, eg_m_mint = m, portal_authority = pda_portal_authority pk,
        ext_swap_global_account = pda_ext_swap_global pk, earner_merkle_root = zero_root,
        eg_bump = pda_global_bump pk\<rparr>) \<and>
    (initialize_migrate P pk old adm m om s = Inr s2 \<longrightarrow>
      (\<exists>og y oy n. old = Some og \<and> om = og_mint og \<and> secured (pda_global pk) m (es_ledger s2) \<and>
        mint_multiplier m (es_ledger s2) = index_to_multiplier (og_index og) \<and>
        es_global s2 = Some \<lparr>eg_admin = adm, eg_m_mint = m, portal_authority = pda_portal_authority pk,
          ext_swap_global_account = pda_ext_swap_global pk, earner_merkle_root = og_merkle_root og,
          eg_bump = pda_global_bump pk\<rparr> \<and>
        l_mints (es_ledger s2) m = Some y \<and> l_mints (es_ledger s) om = Some oy \<and>
        principal_to_amount_up (mi_supply y) (index_to_multiplier (og_index og)) = Inr n \<and> n \<le> mi_supply oy))"
  using token_2022.initialize_establishes [OF assms] token_2022.migrate_establishes [OF assms] by blast

definition toy_new_chain :: earn_state where
  "toy_new_chain = \<lparr>es_global = None,
     es_ledger = \<lparr>l_mints = [[9] \<mapsto> toy_mint, [8] \<mapsto> toy_mint\<lparr>mi_supply := 5\<rparr>], l_accounts = (\<lambda>_. None)\<rparr>,
     es_clock = 0, es_events = []\<rparr>"

definition toy_old_global :: OldGlobal where
  "toy_old_global = \<lparr>og_mint = [8], og_index = 1000000000000, og_timestamp = 3, og_merkle_root = toy_bytes 19\<rparr>"

lemma toy_migrated:
  "\<exists>s'. initialize_migrate ref_token_program toy_pk (Some toy_old_global) [7] [9] [8] toy_new_chain = Inr s'"
  by (simp add: initialize_migrate_def init_ata_def initialize_validate_def update_multiplier_def
      get_scaled_ui_config_def thaw_if_frozen_def fetch_def check_def principal_to_amount_up_def
      toy_new_chain_def toy_old_global_def toy_mint_def toy_config_def toy_pk_def ref_token_program_def
      index_to_multiplier_one)

theorem initialization_establishes_witness:
  "\<exists>s'. initialize_migrate ref_token_program toy_pk (Some toy_old_global) [7] [9] [8] toy_new_chain = Inr s' \<and>
     es_global s' = Some \<lparr>eg_admin = [7], eg_m_mint = [9], portal_authority = [2], ext_swap_global_account = [3],
       earner_merkle_root = toy_bytes 19, eg_bump = 255\<rparr> \<and>
     secured [1] [9] (es_ledger s') \<and> mint_multiplier [9] (es_ledger s') = f64_unit"
proof -
  obtain s' where s': "initialize_migrate ref_token_program toy_pk (Some toy_old_global) [7] [9] [8] toy_new_chain = Inr s'"
    using toy_migrated by blast
  have "pda_global toy_pk = [1]" "og_merkle_root toy_old_global = toy_bytes 19" "pda_portal_authority toy_pk = [2]"
    "pda_ext_swap_global toy_pk = [3]" "pda_global_bump toy_pk = 255"
    "index_to_multiplier (og_index toy_old_global) = f64_unit"
    by (simp_all add: toy_pk_def toy_old_global_def index_to_multiplier_one)
  with s' initialization_establishes [OF ref_token.token_2022_axioms, of toy_pk "[7]" "[9]" 0 toy_new_chain
      toy_new_chain "Some toy_old_global" "[8]" s'] show ?thesis by auto
qed

section \<open>Runs\<close>

text \<open>
  C1. Who can hold $M: from a state whose mint is secured, an account that was frozen and is thawed
  later was thawed by a step of the run that justifies it: the registration of its immutable owner
  with a valid proof against the root of that moment, the set-up of the portal's or the swap's
  account, or a recovery by the admin into this account.  Nothing else thaws an account.
\<close>

theorem thawed_accounts_authorised:
  assumes "token_2022 P" "earn_run K testing P pk s0 tr s" "secured (pda_global pk) m (es_ledger s0)"
    and "\<not> thawed m (es_ledger s0) a" "thawed m (es_ledger s) a"
  shows "list_ex (\<lambda>(s1, ix). authorises K P pk s1 ix a) tr"
  using run_permits [OF assms(1,2), of m] assms(3-5) by (fastforce simp: permits_def list_ex_iff)

theorem thawed_accounts_authorised_witness:
  "list_ex (\<lambda>(s1, ix). authorises toyK ref_token_program toy_pk s1 ix [50])
     [(toy_chain, PropagateIndex [2] [9] 1000000000000 (toy_bytes 19)),
      (toy_listed, AddRegistrarEarner [9] [50] (toy_bytes 3) (toy_proof 2 False))]"
  by (rule thawed_accounts_authorised [OF ref_token.token_2022_axioms toy_run toy_secured])
    (simp_all add: thawed_def toy_chain_def toy_holder_def toy_thawed_def)

text \<open>
  C3. Over every run a secured mint stays secured and its multiplier never falls, and the root of
  the earners changes only by the propagation of a non-zero root, by the portal authority (or the
  admin in a testing build), with an index that is not stale.
\<close>

theorem multiplier_and_root:
  assumes "token_2022 P" "earn_run K testing P pk s0 tr s" "secured (pda_global pk) m (es_ledger s0)"
  shows "secured (pda_global pk) m (es_ledger s) \<and>
    mint_multiplier m (es_ledger s0) \<le> mint_multiplier m (es_ledger s) \<and>
    (root_of s = root_of s0 \<or> list_ex (propagates testing (root_of s)) tr)"
  using run_permits [OF assms(1,2), of m] run_root [OF assms(2)] assms(3) by (simp add: permits_def)

theorem multiplier_and_root_witness:
  "secured [1] [9] (es_ledger toy_thawed) \<and> root_of toy_thawed \<noteq> root_of toy_chain \<and>
     list_ex (propagates False (toy_bytes 19))
       [(toy_chain, PropagateIndex [2] [9] 1000000000000 (toy_bytes 19)),
        (toy_listed, AddRegistrarEarner [9] [50] (toy_bytes 3) (toy_proof 2 False))]"
proof -
  have r: "root_of toy_thawed = toy_bytes 19" "root_of toy_chain = zero_root" "pda_global toy_pk = [1]"
    by (simp_all add: root_of_def toy_thawed_def toy_listed_def toy_chain_def toy_pk_def)
  then show ?thesis
    using multiplier_and_root [OF ref_token.token_2022_axioms toy_run toy_secured] toy_bytes_nonzero(1)
    by auto
qed

text \<open>
  C4. Propagations are not lost: if the portal authority propagated an index before, any index not
  below it is accepted later, whatever the rounding of the multipliers; the multiplier becomes
  that of the index and a non-zero root is installed.
\<close>

theorem propagation_accepted:
  assumes "token_2022 P" "es_global s = Some g" "secured (pda_global pk) (eg_m_mint g) (es_ledger s)"
    and "mint_multiplier (eg_m_mint g) (es_ledger s) = index_to_multiplier j" "j \<le> i" "r \<noteq> zero_root"
  shows "\<exists>s'. execute K testing P pk (PropagateIndex (portal_authority g) (eg_m_mint g) i r) s = Inr s' \<and>
    root_of s' = r \<and> mint_multiplier (eg_m_mint g) (es_ledger s') = index_to_multiplier i"
proof -
  let ?m = "eg_m_mint g" and ?f = "index_to_multiplier i"
  obtain y c where y: "l_mints (es_ledger s) ?m = Some y" "mi_scaled_ui y = Some c"
      "su_authority c = Some (pda_global pk)"
    using assms(3) by (auto simp: secured_def split: option.splits)
  then have c: "get_scaled_ui_config (es_ledger s) ?m = Inr c" by (simp add: get_scaled_ui_config_def)
  have le: "su_new_multiplier c \<le> ?f"
    using index_to_multiplier_mono [OF assms(5)] assms(4) get_scaled_multiplier [OF c] by simp
  have f: "fetch (es_global s) = Inr g" by (simp add: fetch_def assms(2))
  show ?thesis
  proof (cases "su_new_multiplier c = ?f")
    case True
    then show ?thesis
      using assms(6) get_scaled_multiplier [OF c]
      by (simp add: propagate_index_def f check_def c Let_def root_of_def)
  next
    case False
    with le have lt: "su_new_multiplier c < ?f" by simp
    then have "0 < ?f" by simp
    then obtain L' where u: "tp_update_multiplier P (es_ledger s) ?m (pda_global pk) ?f (es_clock s) = Inr L'"
      using token_2022.multiplier_accepted [OF assms(1) y] by blast
    then obtain c' y' where L': "l_mints L' ?m = Some y'" "mi_scaled_ui y' = Some c'" "su_new_multiplier c' = ?f"
      using token_2022.multiplier_effect [OF assms(1) u] by fastforce
    then have c': "get_scaled_ui_config L' ?m = Inr c'" by (simp add: get_scaled_ui_config_def)
    show ?thesis
      using assms(6) le lt u L' get_scaled_multiplier [OF c']
      by (simp add: propagate_index_def f check_def c c' Let_def root_of_def update_multiplier_def fetch_def assms(2))
  qed
qed

theorem propagation_accepted_witness:
  "\<exists>s'. execute toyK False ref_token_program toy_pk (PropagateIndex [2] [9] 1000000000001 (toy_bytes 19)) toy_chain =
     Inr s' \<and> root_of s' = toy_bytes 19"
proof -
  define g where "g = \<lparr>eg_admin = [7], eg_m_mint = [9], portal_authority = [2],
     ext_swap_global_account = [3], earner_merkle_root = zero_root, eg_bump = (255 :: byte)\<rparr>"
  have g: "es_global toy_chain = Some g" "eg_m_mint g = [9]" "portal_authority g = [2]"
    by (simp_all add: toy_chain_def g_def)
  have m: "mint_multiplier [9] (es_ledger toy_chain) = index_to_multiplier 1000000000000"
    unfolding index_to_multiplier_one by (simp add: mint_multiplier_def toy_chain_def toy_mint_def toy_config_def)
  show ?thesis
    using propagation_accepted [OF ref_token.token_2022_axioms g(1), of toy_pk 1000000000000 1000000000001 "toy_bytes 19"]
      toy_secured m toy_bytes_nonzero(1) unfolding g(2,3) by auto
qed

section \<open>Membership\<close>

text \<open>
  C2. Suppose the global account holds the root of a nonempty tree of earners that was built by the
  constructor, removals and safe additions (\<open>client_tree\<close>), and the hash has no collision on the inputs
  involved.  Then a registration, whatever key and proof it is given, thaws exactly the account it
  names, and the owner stored in that account is listed in the tree; and the account of a listed
  owner cannot be removed, whatever proofs and neighbours are given.
\<close>

theorem membership_respected:
  assumes "token_2022 P" "client_tree K t" "rawLeaves t \<noteq> []"
    and "es_global s = Some g" "root t = Some (earner_merkle_root g)"
    and "no_collision K (tree_inputs t @ verify_inputs K usr path)"
    and "no_collision K (tree_inputs t @ exclusion_inputs K proofs neighbors)"
  shows "(execute K testing P pk (AddRegistrarEarner m acc usr path) s = Inr s1 \<longrightarrow>
      (\<exists>x. l_accounts (es_ledger s) acc = Some x \<and> ta_owner x \<in> set (rawLeaves t) \<and>
        es_ledger s1 = set_account (es_ledger s) acc (x\<lparr>ta_frozen := False\<rparr>))) \<and>
    (l_accounts (es_ledger s) acc' = Some x' \<and> ta_owner x' \<in> set (rawLeaves t) \<longrightarrow>
      (\<exists>e. execute K testing P pk (RemoveRegistrarEarner m acc' proofs neighbors) s = Inl e))"
proof (intro conjI impI)
  note c = client_tree_consistent [OF assms(2)]
  assume "execute K testing P pk (AddRegistrarEarner m acc usr path) s = Inr s1"
  then obtain x n L where x: "l_accounts (es_ledger s) acc = Some x" "ta_owner x = usr"
    and n: "verify_in_tree K (earner_merkle_root g) usr path = Inr n"
    and L: "tp_thaw P (es_ledger s) acc m (pda_global pk) = Inr L" "es_ledger s1 = L"
    using assms(4) by (auto simp: add_registrar_earner_def handler_simps)
  show "\<exists>x. l_accounts (es_ledger s) acc = Some x \<and> ta_owner x \<in> set (rawLeaves t) \<and>
      es_ledger s1 = set_account (es_ledger s) acc (x\<lparr>ta_frozen := False\<rparr>)"
    using x L token_2022.thaw_effect [OF assms(1) L(1)] verify_in_tree_position(4) [OF c assms(3,5) n assms(6)]
    by auto
next
  note c = client_tree_consistent [OF assms(2)]
  assume x: "l_accounts (es_ledger s) acc' = Some x' \<and> ta_owner x' \<in> set (rawLeaves t)"
  show "\<exists>e. execute K testing P pk (RemoveRegistrarEarner m acc' proofs neighbors) s = Inl e"
  proof (cases "execute K testing P pk (RemoveRegistrarEarner m acc' proofs neighbors) s")
    case (Inr s2)
    then have "verify_not_in_tree K (earner_merkle_root g) (ta_owner x') proofs neighbors = Inr ()"
      using assms(4) x by (auto simp: remove_registrar_earner_def handler_simps)
    from verify_not_in_tree_sound [OF c assms(3,5,7) this] x show ?thesis by simp
  qed simp
qed

theorem membership_respected_witness:
  "(\<exists>x. l_accounts (es_ledger toy_listed) [50] = Some x \<and> ta_owner x \<in> set (rawLeaves (toy_tree [2, 3])) \<and>
     es_ledger toy_thawed = set_account (es_ledger toy_listed) [50] (x\<lparr>ta_frozen := False\<rparr>)) \<and>
   (\<exists>e. execute toyK False ref_token_program toy_pk
      (RemoveRegistrarEarner [9] [50] [toy_proof 2 False] [toy_bytes 3]) toy_listed = Inl e)"
proof -
  obtain g where g: "es_global toy_listed = Some g" "earner_merkle_root g = toy_bytes 19"
    by (simp add: toy_listed_def)
  have r: "root (toy_tree [2, 3]) = Some (earner_merkle_root g)" by (simp add: g(2) toy_two_root toyK_values)
  have n: "no_collision toyK (tree_inputs (toy_tree [2, 3]) @ verify_inputs toyK (toy_bytes 3) (toy_proof 2 False))"
    by (simp add: toy_verify_inputs toy_two_inputs toyK_values no_collision_def digests_32_def)
  have x: "no_collision toyK (tree_inputs (toy_tree [2, 3]) @
      exclusion_inputs toyK [toy_proof 2 False] [toy_bytes 3])"
    by (simp add: exclusion_inputs_def toy_verify_inputs toy_two_inputs toyK_values
        no_collision_def digests_32_def)
  have a: "l_accounts (es_ledger toy_listed) [50] = Some toy_holder" "ta_owner toy_holder = toy_bytes 3"
    by (simp_all add: toy_listed_def toy_chain_def toy_holder_def)
  have l: "rawLeaves (toy_tree [2, 3]) \<noteq> []" "toy_bytes 3 \<in> set (rawLeaves (toy_tree [2, 3]))" by simp_all
  note h = membership_respected [OF ref_token.token_2022_axioms toy_tree_client l(1) g(1) r n x,
      of False toy_pk "[9]" "[50]" toy_thawed "[50]" toy_holder]
  show ?thesis using h [THEN conjunct1] h [THEN conjunct2] toy_add a l(2) by simp
qed

section \<open>Conversions\<close>

text \<open>
  C22. An index below \<open>2 ^ 52\<close> survives the conversion to a multiplier and back up to one unit: both
  roundings to doubles together with the truncation return the index or its predecessor, never an
  error and never a larger index.
\<close>

theorem index_round_trip:
  assumes "0 < i" "i < 2 ^ 52"
  shows "multiplier_to_index (index_to_multiplier i) \<in> {Inr i, Inr (i - 1)}"
  using multiplier_to_index_near [OF assms] by simp

text \<open>The predecessor does occur.\<close>

theorem index_round_trip_witness:
  "multiplier_to_index (index_to_multiplier 1000000000004) \<in> {Inr 1000000000004, Inr 1000000000003} \<and>
   multiplier_to_index (index_to_multiplier 1000000000004) = Inr 1000000000003"
proof -
  have "multiplier_to_index (index_to_multiplier 1000000000004) = Inr 1000000000003"
    by (simp add: multiplier_to_index_def index_to_multiplier_def u64_to_f64_def scaled_trunc_def
        INDEX_SCALE_def f64_unit_def round_quot_def excess_bits.simps Let_def)
  then show ?thesis using index_round_trip [of 1000000000004] by simp
qed

text \<open>
  C21. For multipliers from 1.0 to \<open>2 ^ 64\<close> the principal of an amount always exists, rounded down
  or up by less than one; converting the lower principal back never creates tokens and loses less
  than two units more than the multiplier; converting the upper principal back never loses any,
  and fails only when the amount does not fit.
\<close>

theorem principal_round_trip:
  assumes "f64_unit \<le> m" "m \<le> 2 ^ 64 * f64_unit"
  shows "\<exists>p q b. amount_to_principal_down a m = Inr p \<and> amount_to_principal_up a m = Inr q \<and>
    unat p \<le> unat q \<and> unat q \<le> unat p + 1 \<and> unat q \<le> unat a \<and>
    principal_to_amount_down p m = Inr b \<and> unat b \<le> unat a \<and>
    unat a \<le> unat b + scaled_trunc m div INDEX_SCALE + 1 \<and>
    (case principal_to_amount_up q m of Inr c \<Rightarrow> unat a \<le> unat c
     | Inl e \<Rightarrow> e = ConstraintError ''InvalidNumericConversion'')"
proof -
  note t = scaled_trunc_bounds [OF assms]
  have S: "0 < INDEX_SCALE" by (simp add: INDEX_SCALE_def)
  note r = principal_quotients [OF S t(1), of "unat a"]
  obtain p q where p: "amount_to_principal_down a m = Inr p" "unat p = unat a * INDEX_SCALE div scaled_trunc m"
    and q: "amount_to_principal_up a m = Inr q"
      "unat q = (unat a * INDEX_SCALE + (scaled_trunc m - 1)) div scaled_trunc m"
    using to_principal_values [OF assms, of a] try_into_below [OF r(1)] try_into_below [OF r(4)] by auto
  have "scaled_trunc m * unat p < 2 ^ 127" "scaled_trunc m * unat q < 2 ^ 127"
    unfolding p(2) q(2) using scaled_sum [OF assms, of a] r(5)
      times_div_less_eq_dividend [of "scaled_trunc m" "unat a * INDEX_SCALE + (scaled_trunc m - 1)"] by linarith+
  note b = to_amount_values(1) [OF assms this(1), unfolded p(2)]
    and c = to_amount_values(2) [OF assms this(2), unfolded q(2)]
  obtain b where b: "principal_to_amount_down p m = Inr b" "unat b = scaled_trunc m * unat p div INDEX_SCALE"
    using b try_into_below [OF r(6)] by (auto simp: p(2))
  have "case principal_to_amount_up q m of Inr c \<Rightarrow> unat a \<le> unat c
     | Inl e \<Rightarrow> e = ConstraintError ''InvalidNumericConversion''"
    using r(8) by (simp add: c try_into_u64_def unat_of_nat take_bit_nat_eq_self)
  then show ?thesis using p q b r by (intro exI [of _ p] exI [of _ q] exI [of _ b]) (simp add: p(2))
qed

theorem principal_round_trip_witness:
  "\<exists>p b. amount_to_principal_down 1000 (index_to_multiplier 1100000000000) = Inr p \<and>
     principal_to_amount_down p (index_to_multiplier 1100000000000) = Inr b \<and> unat b \<le> 1000"
proof -
  have "f64_unit \<le> index_to_multiplier 1100000000000" "index_to_multiplier 1100000000000 \<le> 2 ^ 64 * f64_unit"
    by (simp_all add: index_to_multiplier_def u64_to_f64_def f64_unit_def round_quot_def excess_bits.simps Let_def)
  from principal_round_trip [OF this, of 1000] show ?thesis by auto
qed

end
