(* ===== verification/Cli.thy ===== *)
theory Cli
  imports Services EvmCaller EarnProgram Base64
begin

text \<open>
  The command line tool of the operators, \<open>services/cli/main.ts\<close> and \<open>services/cli/utils.ts\<close>.  A
  command is an action on the list of its effects: the lines and tables it prints and the
  transactions it sends.  The connection is the record \<open>cli_rpc\<close>; the instructions of the token
  program are data, since the library that builds them is not part of the repository.
\<close>

section \<open>Instructions and effects\<close>

datatype ExtensionType = TransferHook | MetadataPointer | ScaledUiAmountConfig | DefaultAccountState | PermanentDelegate

record TokenMetadata =
  md_updateAuthority :: buffer
  md_mint :: buffer
  md_name :: string
  md_symbol :: string
  md_uri :: "string option"
  md_additional :: "(string \<times> string) list"

text \<open>
  The first argument of an instruction of the token program is the mint.  \<open>InitializeMint\<close> has the
  decimals, the mint authority and the freeze authority; \<open>InitializeMetadata\<close> the update authority
  and the mint authority.
\<close>

datatype mint_instruction =
    SetComputeUnitPrice nat
  | CreateAccount buffer buffer nat nat buffer
  | InitializeMetadataPointer buffer buffer buffer
  | InitializeTransferHook buffer buffer buffer
  | InitializeScaledUiAmountConfig buffer buffer f64
  | InitializeDefaultAccountState buffer bool
  | InitializePermanentDelegate buffer buffer
  | InitializeMint buffer nat buffer buffer
  | InitializeMetadata buffer buffer buffer string string "string option"
  | UpdateMetadataAuthority buffer buffer buffer
  | SetMintAuthority buffer buffer buffer
  | UpdateMetadataUri buffer buffer "string option"

record mint_transaction =
  mt_payer :: buffer
  mt_blockhash :: string
  mt_instructions :: "mint_instruction list"
  mt_signers :: "buffer list"

record legacy_transaction =
  lt_feePayer :: buffer
  lt_blockhash :: string
  lt_instruction :: TransactionInstruction

datatype 'n cli_effect =
    PrintLine string
  | PrintTable "(string \<times> string \<times> string) list"
  | PrintEncoded string string string
  | SentMint mint_transaction
  | SentLegacy legacy_transaction "buffer list"
  | SentCall buffer "'n anchor_call"

record 'n cli_rpc =
  cr_blockhash :: "string result"
  cr_rent :: "nat \<Rightarrow> nat result"
  cr_metadata_len :: "TokenMetadata \<Rightarrow> nat result"
  cr_mint_len :: "ExtensionType list \<Rightarrow> nat"
  cr_serialize_mint :: "mint_transaction \<Rightarrow> buffer result"
  cr_serialize :: "legacy_transaction \<Rightarrow> buffer result"
  cr_base58 :: "buffer \<Rightarrow> string"
  cr_send_mint :: "mint_transaction \<Rightarrow> string result"
  cr_send :: "legacy_transaction \<Rightarrow> buffer list \<Rightarrow> string result"
  cr_call :: "buffer \<Rightarrow> 'n anchor_call \<Rightarrow> string result"
  cr_global :: "buffer \<Rightarrow> EarnGlobal result"

type_synonym ('n, 'a) cli_action = "('n cli_effect list, 'a) action"

definition emit :: "'n cli_effect \<Rightarrow> ('n, unit) cli_action" where
  "emit x = updateA (\<lambda>l. l @ [x])"

section \<open>Keys and programs\<close>

definition keysFromEnv :: "env_services \<Rightarrow> process_env \<Rightarrow> string list \<Rightarrow> buffer list result" where
  "keysFromEnv S e keys =
     mapE (\<lambda>key. keypair_json S (case e key of Some v \<Rightarrow> v | None \<Rightarrow> ''[]'')) keys"

record program_ids =
  prog_portal :: buffer
  prog_earn :: buffer
  prog_swap :: buffer

definition PROGRAMS :: "env_services \<Rightarrow> program_ids result" where
  "PROGRAMS S =
     bindE (key_of_text S (Some ''MzBrgc8yXBj4P16GTkcSyDZkEQZB9qDqf3fh9bByJce'')) (\<lambda>p.
     bindE (key_of_text S (Some ''mz2vDzjbQDUDXBH6FPF5s4odCJ4y8YLE5QWaZ8XdZ9Z'')) (\<lambda>ea.
     bindE (key_of_text S (Some ''MSwapi3WhNKMUGm9YrxGhypgUEt7wYQH3ZgG32XoWzH'')) (\<lambda>sw.
       Inr \<lparr>prog_portal = p, prog_earn = ea, prog_swap = sw\<rparr>)))"

text \<open>\<open>process.env.SQUADS_VAULT\<close>, if set, replaces the payer.\<close>

definition vault_or :: "env_services \<Rightarrow> process_env \<Rightarrow> buffer \<Rightarrow> buffer result" where
  "vault_or S e payer = (case env_set e ''SQUADS_VAULT'' of
     Some v \<Rightarrow> key_of_text S (Some v) | None \<Rightarrow> Inr payer)"

section \<open>\<open>print-addresses\<close>\<close>

definition address_row :: "'n web3 \<Rightarrow> string \<times> buffer \<Rightarrow> string \<times> string \<times> string" where
  "address_row W entry = (case entry of (name, key) \<Rightarrow> (name, toBase58 W key, ''0x'' @ hex_encode key))"

definition print_addresses ::
  "'n web3 \<Rightarrow> env_services \<Rightarrow> process_env \<Rightarrow> program_ids \<Rightarrow> ('n, unit) cli_action" where
  "print_addresses W S e pr =
     bindA (liftA (keysFromEnv S e [''M_MINT_KEYPAIR'', ''WM_MINT_KEYPAIR''])) (\<lambda>keys.
     emit (PrintTable (map (address_row W)
       [(''Portal Program'', prog_portal pr), (''Earn Program'', prog_earn pr), (''Swap Program'', prog_swap pr),
        (''M Mint'', keys ! 0),
        (''Portal Token Authority'', findProgramAddress W [bytes_of ''authority''] (prog_portal pr)),
        (''wM Mint'', keys ! 1),
        (''Transceiver Emitter'', findProgramAddress W [bytes_of ''emitter''] (prog_portal pr)),
        (''Swap Authority'', findProgramAddress W [bytes_of ''global''] (prog_swap pr))])))"

section \<open>\<open>create-m-mint\<close> and \<open>update-mint-uri\<close>\<close>

definition mint_instructions ::
  "'n web3 \<Rightarrow> ExtensionType list \<Rightarrow> buffer \<Rightarrow> buffer \<Rightarrow> buffer \<Rightarrow> buffer \<Rightarrow> buffer \<Rightarrow> TokenMetadata \<Rightarrow>
     nat \<Rightarrow> nat \<Rightarrow> mint_instruction list" where
  "mint_instructions W extensions payer mint mintAuthority globalAuth extensionsAuthority md mintLen lamports =
     [SetComputeUnitPrice 250000,
      CreateAccount payer mint mintLen lamports (TOKEN_2022_PROGRAM_ID W),
      InitializeMetadataPointer mint extensionsAuthority mint] @
     (if TransferHook \<in> set extensions then [InitializeTransferHook mint extensionsAuthority zero_key] else []) @
     (if ScaledUiAmountConfig \<in> set extensions
      then [InitializeScaledUiAmountConfig mint globalAuth f64_unit] else []) @
     (if DefaultAccountState \<in> set extensions then [InitializeDefaultAccountState mint True] else []) @
     (if PermanentDelegate \<in> set extensions then [InitializePermanentDelegate mint globalAuth] else []) @
     [InitializeMint mint 6 payer globalAuth,
      InitializeMetadata mint payer payer (md_name md) (md_symbol md) (md_uri md),
      UpdateMetadataAuthority mint payer extensionsAuthority,
      SetMintAuthority mint payer mintAuthority]"

definition createToken2022Mint ::
  "'n web3 \<Rightarrow> 'n cli_rpc \<Rightarrow> buffer \<Rightarrow> buffer \<Rightarrow> ExtensionType list \<Rightarrow> buffer \<Rightarrow> buffer \<Rightarrow> buffer \<Rightarrow>
     string \<Rightarrow> string \<Rightarrow> string option \<Rightarrow> ('n, unit) cli_action" where
  "createToken2022Mint W R payer mint extensions mintAuthority globalAuth extensionsAuthority
       tokenName tokenSymbol tokenUri =
     (let md = \<lparr>md_updateAuthority = extensionsAuthority, md_mint = mint, md_name = tokenName,
                md_symbol = tokenSymbol, md_uri = tokenUri, md_additional = []\<rparr>;
          metadataExtension = 4; mintLen = cr_mint_len R extensions
      in bindA (liftA (cr_metadata_len R md)) (\<lambda>metadataLen.
         bindA (liftA (cr_rent R (mintLen + metadataExtension + metadataLen))) (\<lambda>lamports.
         bindA (liftA (cr_blockhash R)) (\<lambda>blockhash.
         let tx = \<lparr>mt_payer = payer, mt_blockhash = blockhash,
               mt_instructions = mint_instructions W extensions payer mint mintAuthority globalAuth
                 extensionsAuthority md mintLen lamports,
               mt_signers = [payer, mint]\<rparr>
         in bindA (emit (SentMint tx)) (\<lambda>_.
            bindA (liftA (cr_send_mint R tx)) (\<lambda>_. returnA ()))))))"

text \<open>The option \<open>--owner [pubkey]\<close>: an empty text is false; \<open>owner_text\<close> excludes the flag without a value.\<close>

definition owner_or :: "env_services \<Rightarrow> string option \<Rightarrow> buffer \<Rightarrow> buffer result" where
  "owner_or S ow fallback = (case ow of
     Some t \<Rightarrow> if t \<noteq> [] then key_of_text S (Some t) else Inr fallback | None \<Rightarrow> Inr fallback)"

definition create_m_mint ::
  "'n web3 \<Rightarrow> 'n cli_rpc \<Rightarrow> env_services \<Rightarrow> process_env \<Rightarrow> program_ids \<Rightarrow> string option \<Rightarrow>
     ('n, unit) cli_action" where
  "create_m_mint W R S e pr ow =
     bindA (liftA (keysFromEnv S e [''PAYER_KEYPAIR'', ''M_MINT_KEYPAIR''])) (\<lambda>keys.
     let payer = keys ! 0; mint = keys ! 1 in
     bindA (liftA (owner_or S ow (findProgramAddress W [bytes_of ''token_authority''] (prog_portal pr)))) (\<lambda>mintAuth.
     bindA (liftA (owner_or S ow (findProgramAddress W [bytes_of ''global''] (prog_earn pr)))) (\<lambda>globalAuth.
     bindA (liftA (vault_or S e payer)) (\<lambda>extAuth.
     bindA (createToken2022Mint W R payer mint
        [TransferHook, MetadataPointer, ScaledUiAmountConfig, DefaultAccountState, PermanentDelegate]
        mintAuth globalAuth extAuth ''M by M0'' ''M'' (e ''M_METADATA'')) (\<lambda>_.
     emit (PrintLine (''M mint created: '' @ toBase58 W mint)))))))"

definition update_mint_uri ::
  "'n cli_rpc \<Rightarrow> env_services \<Rightarrow> process_env \<Rightarrow> string option \<Rightarrow> ('n, unit) cli_action" where
  "update_mint_uri R S e uri =
     bindA (liftA (keysFromEnv S e [''M_MINT_KEYPAIR''])) (\<lambda>keys.
     bindA (liftA (key_of_text S (e ''SQUADS_VAULT''))) (\<lambda>vault.
     bindA (liftA (cr_blockhash R)) (\<lambda>blockhash.
     bindA (liftA (cr_serialize_mint R
       \<lparr>mt_payer = vault, mt_blockhash = blockhash,
        mt_instructions = [UpdateMetadataUri (keys ! 0) vault uri], mt_signers = []\<rparr>)) (\<lambda>bytes.
     emit (PrintEncoded ''Transaction'' (b64_encode bytes) (cr_base58 R bytes))))))"

section \<open>\<open>initialize-earn\<close> and \<open>update-portal-authority\<close>\<close>

text \<open>With a squads vault the unsigned transaction is printed, else it is signed and sent.\<close>

definition send_or_print ::
  "'n cli_rpc \<Rightarrow> process_env \<Rightarrow> buffer \<Rightarrow> buffer \<Rightarrow> TransactionInstruction \<Rightarrow> ('n, unit) cli_action" where
  "send_or_print R e ow adm ix =
     bindA (liftA (cr_blockhash R)) (\<lambda>blockhash.
     let tx = \<lparr>lt_feePayer = adm, lt_blockhash = blockhash, lt_instruction = ix\<rparr> in
     case env_set e ''SQUADS_VAULT'' of
       Some _ \<Rightarrow> bindA (liftA (cr_serialize R tx)) (\<lambda>b.
         emit (PrintEncoded ''Transaction:'' (b64_encode b) (cr_base58 R b)))
     | None \<Rightarrow> bindA (emit (SentLegacy tx [ow])) (\<lambda>_.
         bindA (liftA (cr_send R tx [ow])) (\<lambda>sig.
         emit (PrintLine (''Earn initialized: '' @ sig)))))"

definition initialize_earn ::
  "'n bn_ops \<Rightarrow> 'n web3 \<Rightarrow> 'n cli_rpc \<Rightarrow> env_services \<Rightarrow> process_env \<Rightarrow> program_ids \<Rightarrow> evm \<Rightarrow>
     ('n, unit) cli_action" where
  "initialize_earn B W R S e pr evmClient =
     bindA (liftA (keysFromEnv S e [''PAYER_KEYPAIR'', ''M_MINT_KEYPAIR''])) (\<lambda>keys.
     bindA (liftA (vault_or S e (keys ! 0))) (\<lambda>adm.
     bindA (liftA (getCurrentIndex B (new_EvmCaller evmClient None None))) (\<lambda>currentIndex.
     bindA (liftA (anchor W (prog_earn pr)
        \<lparr>call_method = ''initialize'', call_args = [ArgBN currentIndex],
         call_accounts = [(''admin'', Some adm), (''mMint'', Some (keys ! 1))]\<rparr>)) (\<lambda>ix.
       send_or_print R e (keys ! 0) adm ix))))"

definition cli_update_portal_authority ::
  "'n web3 \<Rightarrow> 'n cli_rpc \<Rightarrow> env_services \<Rightarrow> process_env \<Rightarrow> program_ids \<Rightarrow> ('n, unit) cli_action" where
  "cli_update_portal_authority W R S e pr =
     bindA (liftA (keysFromEnv S e [''PAYER_KEYPAIR'', ''M_MINT_KEYPAIR''])) (\<lambda>keys.
     bindA (liftA (vault_or S e (keys ! 0))) (\<lambda>adm.
     bindA (liftA (anchor W (prog_earn pr)
        \<lparr>call_method = ''updatePortalAuthority'', call_args = [],
         call_accounts = [(''admin'', Some adm), (''mMint'', Some (keys ! 1))]\<rparr>)) (\<lambda>ix.
       send_or_print R e (keys ! 0) adm ix)))"

section \<open>\<open>add-registrar-earner\<close>\<close>

text \<open>Every key of the registrar is a new object.\<close>

definition fresh_keys :: "buffer list \<Rightarrow> PublicKey list" where
  "fresh_keys ks = map (\<lambda>(n, k). \<lparr>ref = n, toBuffer = k\<rparr>) (zip [0..<length ks] ks)"

definition registrar_caller :: "process_env \<Rightarrow> evm \<Rightarrow> EvmCaller" where
  "registrar_caller e evmClient = new_EvmCaller evmClient None
     (Some (if e ''NETWORK'' = Some ''devnet'' then ETH_MERKLE_TREE_BUILDER_DEVNET else ETH_MERKLE_TREE_BUILDER))"

definition root_mismatch :: "string \<Rightarrow> string \<Rightarrow> js_error" where
  "root_mismatch expected got = Error (''Root mismatch: expected '' @ expected @ '', got '' @ got)"

definition cli_add_registrar_earner ::
  "(buffer \<Rightarrow> buffer) \<Rightarrow> 'n web3 \<Rightarrow> 'n cli_rpc \<Rightarrow> env_services \<Rightarrow> process_env \<Rightarrow> program_ids \<Rightarrow> evm \<Rightarrow>
     string \<Rightarrow> bool \<Rightarrow> ('n, unit) cli_action" where
  "cli_add_registrar_earner K W R S e pr evmClient earnerAddress extension =
     bindA (liftA (keysFromEnv S e [''PAYER_KEYPAIR'', ''M_MINT_KEYPAIR''])) (\<lambda>keys.
     bindA (liftA (key_of_text S (Some earnerAddress))) (\<lambda>addr.
     let earner = (if extension then findProgramAddress W [bytes_of ''m_vault''] addr else addr);
         earnerATA = associatedTokenAddress W (keys ! 1) earner True (TOKEN_2022_PROGRAM_ID W);
         globalAccount = findProgramAddress W [bytes_of ''global''] (prog_earn pr);
         caller = registrar_caller e evmClient
     in bindA (liftA (evm_getEarners W caller)) (\<lambda>earners.
        bindA (emit (PrintLine (''earners on registrar: '' @ join_with '','' (map (toBase58 W) earners)))) (\<lambda>_.
        bindA (liftA (cr_global R globalAccount)) (\<lambda>global.
        bindA (liftA (getMerkleRoot caller Earners)) (\<lambda>expectedRoot.
        let root = ''0x'' @ hex_encode (earner_merkle_root global) in
        bindA (if root \<noteq> expectedRoot then throwA (root_mismatch expectedRoot root) else returnA ()) (\<lambda>_.
        bindA (liftA (getInclusionProof K (new_MerkleTree K (fresh_keys earners)) earner False)) (\<lambda>proof.
        let call = \<lparr>call_method = ''addRegistrarEarner'',
              call_args = [ArgKey earner, ArgProof (map (\<lambda>x. (node x, onRight x)) proof)],
              call_accounts = [(''signer'', Some (keys ! 0)), (''userTokenAccount'', Some earnerATA)]\<rparr>
        in bindA (emit (SentCall (prog_earn pr) call)) (\<lambda>_.
           bindA (liftA (cr_call R (prog_earn pr) call)) (\<lambda>sig.
           emit (PrintLine (''Earner added: '' @ toBase58 W earner @ '' ('' @ sig @ '')''))))))))))))"

section \<open>\<open>main\<close>\<close>

datatype cli_command =
    PrintAddresses
  | CreateMMint "string option"
  | UpdateMintUri "string option"
  | InitializeEarn
  | CliUpdatePortalAuthority
  | CliAddRegistrarEarner string bool

definition cli_main ::
  "(buffer \<Rightarrow> buffer) \<Rightarrow> 'n bn_ops \<Rightarrow> 'n web3 \<Rightarrow> 'n cli_rpc \<Rightarrow> env_services \<Rightarrow> process_env \<Rightarrow> evm \<Rightarrow>
     cli_command \<Rightarrow> ('n, unit) cli_action" where
  "cli_main K B W R S e evmClient cmd =
     bindA (liftA (PROGRAMS S)) (\<lambda>pr.
     bindA (liftA (check_url S (Some (case e ''RPC_URL'' of Some u \<Rightarrow> u | None \<Rightarrow> [])))) (\<lambda>_.
     case cmd of
       PrintAddresses \<Rightarrow> print_addresses W S e pr
     | CreateMMint ow \<Rightarrow> create_m_mint W R S e pr ow
     | UpdateMintUri uri \<Rightarrow> update_mint_uri R S e uri
     | InitializeEarn \<Rightarrow> initialize_earn B W R S e pr evmClient
     | CliUpdatePortalAuthority \<Rightarrow> cli_update_portal_authority W R S e pr
     | CliAddRegistrarEarner earner extension \<Rightarrow>
         cli_add_registrar_earner K W R S e pr evmClient earner extension))"

end
