(* ===== verification/CliProperties.thy ===== *)
theory CliProperties
  imports Cli MerkleProperties
begin

text \<open>
  The properties of the command line tool against the earn program: the mint it creates is one the
  program can be initialized with, and the proof it sends for an earner is one the program accepts.
\<close>

section \<open>Creating a mint\<close>

text \<open>What the initialization instructions of a transaction configure for a mint.\<close>

fun scaled_config :: "mint_instruction list \<Rightarrow> buffer \<Rightarrow> scaled_ui_config option" where
  "scaled_config [] m = None"
| "scaled_config (InitializeScaledUiAmountConfig m' a f # ixs) m =
     (if m' = m then Some \<lparr>su_authority = Some a, su_multiplier = f, su_new_multiplier = f, su_timestamp = 0\<rparr>
      else scaled_config ixs m)"
| "scaled_config (_ # ixs) m = scaled_config ixs m"

fun default_frozen :: "mint_instruction list \<Rightarrow> buffer \<Rightarrow> bool option" where
  "default_frozen [] m = None"
| "default_frozen (InitializeDefaultAccountState m' frozen # ixs) m =
     (if m' = m then Some frozen else default_frozen ixs m)"
| "default_frozen (_ # ixs) m = default_frozen ixs m"

fun delegate_config :: "mint_instruction list \<Rightarrow> buffer \<Rightarrow> buffer option option" where
  "delegate_config [] m = None"
| "delegate_config (InitializePermanentDelegate m' d # ixs) m =
     (if m' = m then Some (Some d) else delegate_config ixs m)"
| "delegate_config (_ # ixs) m = delegate_config ixs m"

definition configured_mint :: "mint_instruction list \<Rightarrow> buffer \<Rightarrow> nat \<Rightarrow> buffer \<Rightarrow> mint_account" where
  "configured_mint ixs m d fa = \<lparr>mi_decimals = d, mi_supply = 0, mi_freeze_authority = Some fa,
     mi_scaled_ui = scaled_config ixs m, mi_default_frozen = default_frozen ixs m,
     mi_permanent_delegate = delegate_config ixs m\<rparr>"

text \<open>
  The execution of a transaction by the token program: a mint it initializes has afterwards the
  configuration of the instructions of the transaction.
\<close>

locale mint_program =
  fixes run :: "mint_instruction list \<Rightarrow> ledger \<Rightarrow> ix_error + ledger"
  assumes minted: "run ixs L = Inr L' \<Longrightarrow> InitializeMint m d ma fa \<in> set ixs \<Longrightarrow>
    l_mints L' m = Some (configured_mint ixs m d fa)"

fun mint_inits :: "mint_instruction list \<Rightarrow> (buffer \<times> nat \<times> buffer) list" where
  "mint_inits [] = []"
| "mint_inits (InitializeMint m d ma fa # ixs) = (m, d, fa) # mint_inits ixs"
| "mint_inits (_ # ixs) = mint_inits ixs"

definition ref_run :: "mint_instruction list \<Rightarrow> ledger \<Rightarrow> ix_error + ledger" where
  "ref_run ixs L =
     (if distinct (map fst (mint_inits ixs))
      then Inr (foldl (\<lambda>L (m, d, fa). set_mint L m (configured_mint ixs m d fa)) L (mint_inits ixs))
      else Inl (TokenError ''AlreadyInUse''))"

lemma mint_inits_mem: "InitializeMint m d ma fa \<in> set ixs \<Longrightarrow> (m, d, fa) \<in> set (mint_inits ixs)"
  by (induction ixs rule: mint_inits.induct) auto

lemma l_mints_set_mint: "l_mints (set_mint L m y) = (l_mints L)(m \<mapsto> y)"
  by (simp add: set_mint_def)

lemma fold_mints_other:
  "m \<notin> fst ` set xs \<Longrightarrow> l_mints (foldl (\<lambda>L (m, d, fa). set_mint L m (mk m d fa)) L xs) m = l_mints L m"
  by (induction xs arbitrary: L) (auto simp: l_mints_set_mint)

lemma fold_mints:
  "distinct (map fst xs) \<Longrightarrow> (m, d, fa) \<in> set xs \<Longrightarrow>
    l_mints (foldl (\<lambda>L (m, d, fa). set_mint L m (mk m d fa)) L xs) m = Some (mk m d fa)"
  by (induction xs arbitrary: L) (auto simp: l_mints_set_mint fold_mints_other rev_image_eqI)

interpretation ref_mint: mint_program ref_run
  by unfold_locales (auto simp: ref_run_def mint_inits_mem fold_mints split: if_splits)

lemma multiplier_one_iff: "f64_unit \<le> index_to_multiplier i \<longleftrightarrow> 1000000000000 \<le> i"
proof
  assume "f64_unit \<le> index_to_multiplier i"
  moreover have "index_to_multiplier 999999999999 < f64_unit"
    by (simp add: index_to_multiplier_def u64_to_f64_def f64_unit_def round_quot_def excess_bits.simps Let_def)
  ultimately have "\<not> i \<le> 999999999999" using index_to_multiplier_mono [of i 999999999999] by linarith
  then have "999999999999 < unat i" by (simp add: word_le_nat_alt)
  then show "1000000000000 \<le> i" by (simp add: word_le_nat_alt)
next
  assume "1000000000000 \<le> i"
  then show "f64_unit \<le> index_to_multiplier i"
    using index_to_multiplier_mono [of 1000000000000 i] by (simp add: index_to_multiplier_one)
qed

text \<open>What a successful \<open>create-m-mint\<close> sent.\<close>

lemma create_m_mint_sent:
  assumes "create_m_mint W R S e pr ow l = (Inr u, fx)"
  shows "\<exists>payer m ma ga ea md n k tx. keysFromEnv S e [''PAYER_KEYPAIR'', ''M_MINT_KEYPAIR''] = Inr [payer, m] \<and>
    owner_or S ow (findProgramAddress W [bytes_of ''global''] (prog_earn pr)) = Inr ga \<and> SentMint tx \<in> set fx \<and>
    mt_instructions tx = mint_instructions W
      [TransferHook, MetadataPointer, ScaledUiAmountConfig, DefaultAccountState, PermanentDelegate]
      payer m ma ga ea md n k"
proof -
  obtain keys where "keysFromEnv S e [''PAYER_KEYPAIR'', ''M_MINT_KEYPAIR''] = Inr keys"
    using assms by (auto simp: create_m_mint_def bindA_liftA split: sum.splits)
  moreover from mapE_length [OF this [unfolded keysFromEnv_def]] obtain payer m where "keys = [payer, m]"
    by (cases keys; cases "tl keys") auto
  ultimately show ?thesis
    using assms
    by (fastforce simp: create_m_mint_def createToken2022Mint_def emit_def bindA_liftA bindA_eq_Inr_iff Let_def
        split: sum.splits)
qed

lemma created_config:
  assumes "mint_program run"
    and "run (mint_instructions W [TransferHook, MetadataPointer, ScaledUiAmountConfig, DefaultAccountState,
      PermanentDelegate] payer m ma ga ea md n k) L = Inr L'"
  shows "l_mints L' m = Some \<lparr>mi_decimals = 6, mi_supply = 0, mi_freeze_authority = Some ga,
    mi_scaled_ui = Some \<lparr>su_authority = Some ga, su_multiplier = f64_unit, su_new_multiplier = f64_unit, su_timestamp = 0\<rparr>,
    mi_default_frozen = Some True, mi_permanent_delegate = Some (Some ga)\<rparr>"
  using mint_program.minted [OF assms, of m 6 payer ga] by (simp add: mint_instructions_def configured_mint_def)

text \<open>
  C13. The mint of a successful \<open>create-m-mint\<close>, once its transaction is executed, has six decimals
  and passes the validation of \<open>initialize\<close> exactly when no other owner was given than the global
  account of the program and the index is at least one (\<open>1e12\<close>).  With another \<open>--owner\<close> the earn
  program can never be initialized with this mint.
\<close>

theorem created_mint_validates:
  assumes "mint_program run" "create_m_mint W R S e pr ow l = (Inr u, fx)"
    and "pda_global pk = findProgramAddress W [bytes_of ''global''] (prog_earn pr)"
  shows "\<exists>payer m tx. keysFromEnv S e [''PAYER_KEYPAIR'', ''M_MINT_KEYPAIR''] = Inr [payer, m] \<and>
    SentMint tx \<in> set fx \<and> (\<forall>L L'. run (mt_instructions tx) L = Inr L' \<longrightarrow>
      map_option mi_decimals (l_mints L' m) = Some 6 \<and>
      (initialize_validate pk L' m i = Inr () \<longleftrightarrow>
        owner_or S ow (pda_global pk) = Inr (pda_global pk) \<and> 1000000000000 \<le> i))"
proof -
  obtain payer m ma ga ea md n k tx where
    t: "keysFromEnv S e [''PAYER_KEYPAIR'', ''M_MINT_KEYPAIR''] = Inr [payer, m]"
    "owner_or S ow (pda_global pk) = Inr ga" "SentMint tx \<in> set fx"
    "mt_instructions tx = mint_instructions W
      [TransferHook, MetadataPointer, ScaledUiAmountConfig, DefaultAccountState, PermanentDelegate]
      payer m ma ga ea md n k"
    using create_m_mint_sent [OF assms(2)] unfolding assms(3) by metis
  have "map_option mi_decimals (l_mints L' m) = Some 6 \<and>
      (initialize_validate pk L' m i = Inr () \<longleftrightarrow> ga = pda_global pk \<and> 1000000000000 \<le> i)"
    if "run (mt_instructions tx) L = Inr L'" for L L'
    using created_config [OF assms(1) that [unfolded t(4)]]
    by (auto simp: initialize_validate_def fetch_def check_def multiplier_one_iff)
  then show ?thesis using t(1-3) by auto
qed

definition toy_cli_services :: env_services where
  "toy_cli_services = \<lparr>keypair_json = (\<lambda>k. Inr (bytes_of k)), keypair_base64 = (\<lambda>k. Inr (bytes_of k)),
     key_of_text = (\<lambda>t. case t of Some x \<Rightarrow> Inr (bytes_of x) | None \<Rightarrow> Inl TypeError),
     check_evm_key = (\<lambda>_. Inr ()), check_url = (\<lambda>_. Inr ())\<rparr>"

definition toy_cli_env :: process_env where
  "toy_cli_env = [''PAYER_KEYPAIR'' \<mapsto> ''payer'', ''M_MINT_KEYPAIR'' \<mapsto> ''mint'', ''M_METADATA'' \<mapsto> ''uri'']"

definition toy_programs :: program_ids where
  "toy_programs = \<lparr>prog_portal = [11], prog_earn = [12], prog_swap = [13]\<rparr>"

definition toy_cli :: "int cli_rpc" where
  "toy_cli = \<lparr>cr_blockhash = Inr ''hash'', cr_rent = (\<lambda>_. Inr 1), cr_metadata_len = (\<lambda>_. Inr 9), cr_mint_len = (\<lambda>_. 5),
     cr_serialize_mint = (\<lambda>_. Inr []), cr_serialize = (\<lambda>_. Inr []), cr_base58 = (\<lambda>_. []),
     cr_send_mint = (\<lambda>_. Inr ''sig''), cr_send = (\<lambda>_ _. Inr ''sig''), cr_call = (\<lambda>_ _. Inr ''sig''),
     cr_global = (\<lambda>_. Inr \<lparr>eg_admin = [7], eg_m_mint = [9], portal_authority = [2],
       ext_swap_global_account = [3], earner_merkle_root = toy_bytes 19, eg_bump = 255\<rparr>)\<rparr>"

definition toy_cli_keys :: program_keys where
  "toy_cli_keys = \<lparr>pda_global = bytes_of ''global'' @ [12], pda_global_bump = 255, pda_portal_authority = [2],
     pda_ext_swap_global = [3]\<rparr>"

definition toy_mint_tx :: mint_transaction where
  "toy_mint_tx = \<lparr>mt_payer = bytes_of ''payer'', mt_blockhash = ''hash'',
     mt_instructions = mint_instructions (toy_web3 :: int web3)
       [TransferHook, MetadataPointer, ScaledUiAmountConfig, DefaultAccountState, PermanentDelegate]
       (bytes_of ''payer'') (bytes_of ''mint'') (bytes_of ''token_authority'' @ [11]) (bytes_of ''global'' @ [12])
       (bytes_of ''payer'') \<lparr>md_updateAuthority = bytes_of ''payer'', md_mint = bytes_of ''mint'',
         md_name = ''M by M0'', md_symbol = ''M'', md_uri = Some ''uri'', md_additional = []\<rparr> 5 1,
     mt_signers = [bytes_of ''payer'', bytes_of ''mint'']\<rparr>"

lemma toy_cli_keypairs:
  "keysFromEnv toy_cli_services toy_cli_env [''PAYER_KEYPAIR'', ''M_MINT_KEYPAIR''] =
     Inr [bytes_of ''payer'', bytes_of ''mint'']"
  by (simp add: keysFromEnv_def toy_cli_services_def toy_cli_env_def)

lemma toy_cli_variables:
  "env_set toy_cli_env ''SQUADS_VAULT'' = None" "toy_cli_env ''M_METADATA'' = Some ''uri''"
  "toy_cli_env ''NETWORK'' = None"
  by (simp_all add: env_set_def toy_cli_env_def)

lemma liftA_Inr: "liftA (Inr x) = returnA x"
  by (rule ext) simp

lemmas run_simps = liftA_Inr bindA_def emit_def Let_def

lemma toy_create:
  "\<exists>fx. create_m_mint toy_web3 toy_cli toy_cli_services toy_cli_env toy_programs None [] = (Inr (), fx) \<and>
     (\<forall>tx. SentMint tx \<in> set fx \<longrightarrow> tx = toy_mint_tx)"
  by (simp add: create_m_mint_def createToken2022Mint_def run_simps toy_cli_keypairs owner_or_def
      vault_or_def toy_cli_variables toy_cli_def toy_mint_tx_def toy_programs_def toy_web3_simps)

theorem created_mint_validates_witness:
  "\<exists>L'. ref_run (mt_instructions toy_mint_tx) \<lparr>l_mints = \<lambda>_. None, l_accounts = \<lambda>_. None\<rparr> = Inr L' \<and>
     initialize_validate toy_cli_keys L' (bytes_of ''mint'') 1000000000001 = Inr ()"
proof -
  obtain fx where fx: "create_m_mint toy_web3 toy_cli toy_cli_services toy_cli_env toy_programs None [] = (Inr (), fx)"
    "\<And>tx. SentMint tx \<in> set fx \<Longrightarrow> tx = toy_mint_tx" using toy_create by blast
  have pk: "pda_global toy_cli_keys = findProgramAddress (toy_web3 :: int web3) [bytes_of ''global''] (prog_earn toy_programs)"
    by (simp add: toy_cli_keys_def toy_web3_simps toy_programs_def)
  obtain L' where "ref_run (mt_instructions toy_mint_tx) \<lparr>l_mints = \<lambda>_. None, l_accounts = \<lambda>_. None\<rparr> = Inr L'"
    by (simp add: ref_run_def toy_mint_tx_def mint_instructions_def)
  moreover from this have "initialize_validate toy_cli_keys L' (bytes_of ''mint'') 1000000000001 = Inr ()"
    using created_mint_validates [OF ref_mint.mint_program_axioms fx(1) pk, of 1000000000001] fx(2)
    by (fastforce simp: toy_cli_keypairs owner_or_def word_le_nat_alt pk)
  ultimately show ?thesis by blast
qed

section \<open>Registering an earner\<close>

lemma fresh_keys_buffers: "map toBuffer (fresh_keys ks) = ks"
  by (simp add: fresh_keys_def comp_def case_prod_unfold)

text \<open>
  C14. When \<open>add-registrar-earner\<close> ends without an error it sent one call with a leaf of the tree of
  the registered earners and its proof, after it found the registrar's root on chain.  The
  program accepts this proof exactly when the tree has the root on chain, which the command does
  not check; otherwise every registration is refused as an invalid proof.
\<close>

theorem registration_proof_accepted:
  assumes "cli_add_registrar_earner K W R S e pr c text ext [] = (Inr (), fx)"
    and "evm_getEarners W (registrar_caller e c) = Inr ks" "key_list ks"
    and "cr_global R (findProgramAddress W [bytes_of ''global''] (prog_earn pr)) = Inr g"
    and "length (tree (new_MerkleTree K (fresh_keys ks))) \<le> 65"
  shows "\<exists>call usr path. SentCall (prog_earn pr) call \<in> set fx \<and>
    call_args call = [ArgKey usr, ArgProof (map (\<lambda>x. (node x, onRight x)) path)] \<and>
    usr \<in> set (rawLeaves (new_MerkleTree K (fresh_keys ks))) \<and>
    getMerkleRoot (registrar_caller e c) Earners = Inr (''0x'' @ hex_encode (earner_merkle_root g)) \<and>
    verify_in_tree K (earner_merkle_root g) usr path =
      (if root (new_MerkleTree K (fresh_keys ks)) = Some (earner_merkle_root g)
       then Inr (of_nat (path_index path)) else Inl (Err InvalidProof))"
proof -
  let ?t = "new_MerkleTree K (fresh_keys ks)"
  obtain keys addr where k: "keysFromEnv S e [''PAYER_KEYPAIR'', ''M_MINT_KEYPAIR''] = Inr keys"
    "key_of_text S (Some text) = Inr addr"
    using assms(1) by (auto simp: cli_add_registrar_earner_def bindA_liftA split: sum.splits)
  define usr where "usr = (if ext then findProgramAddress W [bytes_of ''m_vault''] addr else addr)"
  have "\<exists>call path. SentCall (prog_earn pr) call \<in> set fx \<and>
    call_args call = [ArgKey usr, ArgProof (map (\<lambda>x. (node x, onRight x)) path)] \<and>
    getMerkleRoot (registrar_caller e c) Earners = Inr (''0x'' @ hex_encode (earner_merkle_root g)) \<and>
    getInclusionProof K ?t usr False = Inr path"
    using assms(1) [unfolded cli_add_registrar_earner_def k bindA_liftA sum.case Let_def assms(2,4) usr_def [symmetric]]
    by (auto simp: bindA_def emit_def assms(4) split: sum.splits if_splits)
  then obtain call path where c: "SentCall (prog_earn pr) call \<in> set fx"
    "call_args call = [ArgKey usr, ArgProof (map (\<lambda>x. (node x, onRight x)) path)]"
    "getMerkleRoot (registrar_caller e c) Earners = Inr (''0x'' @ hex_encode (earner_merkle_root g))"
    "getInclusionProof K ?t usr False = Inr path" by blast
  have t: "consistent K ?t"
    using assms(3) by (intro client_tree_consistent client_tree.build) (simp add: fresh_keys_buffers)
  have u: "usr \<in> set (rawLeaves ?t)" using getInclusionProof_absent [of usr ?t K False] c(4) by fastforce
  obtain r where v: "length path = length (tree ?t) - 1" "root ?t = Some r" "climb K (hashLeaf K usr) path = r"
    using getInclusionProof_complete [OF t u, of False] c(4)
    by (auto simp: verifyInclusionProof_def split: option.splits)
  then have "length path \<le> 64" using assms(5) by simp
  then have "verify_in_tree K (earner_merkle_root g) usr path =
      (if root ?t = Some (earner_merkle_root g) then Inr (of_nat (path_index path)) else Inl (Err InvalidProof))"
    by (simp only: verify_in_tree_decides v option.inject)
  then show ?thesis using c u by blast
qed

definition toy_registrar :: evm where
  "toy_registrar = \<lparr>read_bytes32 = (\<lambda>_ _ _ _. Inr (''0x'' @ hex_encode (toy_bytes 19))),
     read_bytes32_list = (\<lambda>_ _ _ _. Inr (map (\<lambda>k. ''0x'' @ hex_encode k) [toy_bytes 2, toy_bytes 3])),
     read_uint = (\<lambda>_ _ _ _. Inr 1000000000001)\<rparr>"

definition toy_text_services :: env_services where
  "toy_text_services = toy_cli_services\<lparr>key_of_text := (\<lambda>_. Inr (toy_bytes 3))\<rparr>"

lemma toy_registrar_earners:
  "evm_getEarners (toy_web3 :: int web3) (registrar_caller toy_cli_env toy_registrar) = Inr [toy_bytes 2, toy_bytes 3]"
  unfolding evm_getEarners_def
  by (rule getList_keys) (simp_all add: registrar_caller_def new_EvmCaller_def toy_registrar_def toy_web3_simps)

lemma toy_fresh_keys: "fresh_keys [toy_bytes 2, toy_bytes 3] = [\<lparr>ref = 0, toBuffer = toy_bytes 2\<rparr>, \<lparr>ref = 1, toBuffer = toy_bytes 3\<rparr>]"
  by (simp add: fresh_keys_def upt_conv_Cons)

lemma toy_fresh_tree: "new_MerkleTree toyK (fresh_keys [toy_bytes 2, toy_bytes 3]) = toy_tree [2, 3]"
  by (simp add: toy_fresh_keys toy_tree_def toy_key_def new_MerkleTree_def default_leaves_def)

theorem registration_proof_accepted_witness:
  "\<exists>usr path n. usr \<in> set (rawLeaves (toy_tree [2, 3])) \<and> verify_in_tree toyK (toy_bytes 19) usr path = Inr n"
proof -
  have "\<exists>fx. cli_add_registrar_earner toyK toy_web3 toy_cli toy_text_services toy_cli_env toy_programs toy_registrar
      ''key'' False [] = (Inr (), fx)"
  proof -
    obtain p where p: "getInclusionProof toyK (toy_tree [2, 3]) (toy_bytes 3) False = Inr p"
      using getInclusionProof_complete [OF toy_tree_consistent, of "toy_bytes 3" "[2, 3]" False] by auto
    have "keysFromEnv toy_text_services toy_cli_env ks = keysFromEnv toy_cli_services toy_cli_env ks" for ks
      by (simp add: keysFromEnv_def toy_text_services_def)
    moreover have "getMerkleRoot (registrar_caller toy_cli_env toy_registrar) Earners = Inr (''0x'' @ hex_encode (toy_bytes 19))"
      by (simp add: getMerkleRoot_def registrar_caller_def new_EvmCaller_def toy_registrar_def)
    ultimately show ?thesis
      by (simp add: cli_add_registrar_earner_def run_simps toy_cli_keypairs toy_registrar_earners toy_fresh_tree p
          toy_text_services_def toy_cli_def)
  qed
  then obtain fx where fx: "cli_add_registrar_earner toyK toy_web3 toy_cli toy_text_services toy_cli_env toy_programs
      toy_registrar ''key'' False [] = (Inr (), fx)" by blast
  have k: "key_list [toy_bytes 2, toy_bytes 3]" by (simp add: key_list_def)
  obtain g where g: "cr_global toy_cli (findProgramAddress (toy_web3 :: int web3) [bytes_of ''global''] (prog_earn toy_programs)) = Inr g"
    "earner_merkle_root g = toy_bytes 19" by (simp add: toy_cli_def)
  have r: "root (toy_tree [2, 3]) = Some (toy_bytes 19)" by (simp add: toy_two_root toyK_values)
  have l: "length (tree (new_MerkleTree toyK (fresh_keys [toy_bytes 2, toy_bytes 3]))) \<le> 65"
    by (simp add: toy_fresh_tree toy_two_tree)
  from registration_proof_accepted [OF fx toy_registrar_earners k g(1) l] show ?thesis
    unfolding toy_fresh_tree g(2) r by auto
qed

end
