(* ===== verification/Fireblocks.thy ===== *)
theory Fireblocks
  imports Cli
begin

text \<open>
  The proposals to a Fireblocks vault, \<open>services/cli/fb.ts\<close>: wrapping and unwrapping through the
  extension program.  The program's address and interface come from modules that are not part of
  the repository; they are the argument \<open>ext\<close> and the Anchor calls of \<open>Web3\<close>.
\<close>

section \<open>The custody service\<close>

record transaction_request =
  assetId :: string
  operation :: string
  feeLevel :: string
  source_type :: string
  source_id :: "string option"
  fb_note :: string
  programCallData :: string

text \<open>The answer to a query of addresses: none, or a list whose entries may lack the address.\<close>

record fireblocks =
  fb_addresses :: "string \<Rightarrow> string \<Rightarrow> string option list option result"
  fb_createTransaction :: "transaction_request \<Rightarrow> string result"
  fb_token_account :: "buffer \<Rightarrow> buffer \<Rightarrow> buffer \<Rightarrow> buffer result"

datatype fb_effect = FbPrinted string | FbProposed transaction_request

type_synonym 'a fb_action = "(fb_effect list, 'a) action"

definition fb_print :: "string \<Rightarrow> unit fb_action" where
  "fb_print t = updateA (\<lambda>l. l @ [FbPrinted t])"

definition getVaultAddress :: "fireblocks \<Rightarrow> env_services \<Rightarrow> string \<Rightarrow> buffer fb_action" where
  "getVaultAddress F S vaultId =
     catchA
       (bindA (liftA (fb_addresses F vaultId ''SOL_TEST'')) (\<lambda>addresses.
        bindA (liftA (case addresses of
            None \<Rightarrow> Inr []
          | Some as \<Rightarrow> bindE (js_get as 0) (\<lambda>a. Inr (case a of Some t \<Rightarrow> t | None \<Rightarrow> [])))) (\<lambda>addr.
          liftA (key_of_text S (Some addr)))))
       (\<lambda>err. bindA (fb_print ''Error fetching vault data:'') (\<lambda>_.
          throwA (Error ''No fireblocks address found'')))"

definition sendToFireblocks ::
  "fireblocks \<Rightarrow> 'n cli_rpc \<Rightarrow> process_env \<Rightarrow> legacy_transaction \<Rightarrow> string \<Rightarrow> string fb_action" where
  "sendToFireblocks F R e txn text =
     bindA (liftA (cr_serialize R txn)) (\<lambda>serializedTx.
     let payload = \<lparr>assetId = ''SOL_TEST'', operation = ''PROGRAM_CALL'', feeLevel = ''HIGH'',
           source_type = ''VAULT_ACCOUNT'', source_id = e ''FIREBLOCKS_VAULT_ID'',
           fb_note = text @ '' Sent from Solana M CLI.'', programCallData = b64_encode serializedTx\<rparr>
     in bindA (updateA (\<lambda>l. l @ [FbProposed payload])) (\<lambda>_. liftA (fb_createTransaction F payload)))"

definition vault_id :: "process_env \<Rightarrow> string" where
  "vault_id e = (case e ''FIREBLOCKS_VAULT_ID'' of Some v \<Rightarrow> v | None \<Rightarrow> [])"

section \<open>Commands\<close>

definition create_atas ::
  "'n web3 \<Rightarrow> fireblocks \<Rightarrow> env_services \<Rightarrow> process_env \<Rightarrow> unit fb_action" where
  "create_atas W F S e =
     bindA (getVaultAddress F S (vault_id e)) (\<lambda>fbAddress.
     bindA (fb_print (''Fireblocks address: '' @ toBase58 W fbAddress)) (\<lambda>_.
     bindA (liftA (keysFromEnv S e [''PAYER_KEYPAIR'', ''M_MINT_KEYPAIR'', ''WM_MINT_KEYPAIR''])) (\<lambda>keys.
     bindA (liftA (fb_token_account F (keys ! 0) (keys ! 1) fbAddress)) (\<lambda>mATA.
     bindA (fb_print (''M ATA '' @ toBase58 W mATA)) (\<lambda>_.
     bindA (liftA (fb_token_account F (keys ! 0) (keys ! 2) fbAddress)) (\<lambda>wmATA.
       fb_print (''wM ATA '' @ toBase58 W wmATA)))))))"

text \<open>
  \<open>bn_text\<close> is \<open>new BN(text)\<close>; \<open>units\<close> is the text of the amount divided by \<open>1e6\<close>, a number.
\<close>

definition propose_wrap ::
  "'n web3 \<Rightarrow> 'n cli_rpc \<Rightarrow> fireblocks \<Rightarrow> env_services \<Rightarrow> process_env \<Rightarrow> (string \<Rightarrow> 'n result) \<Rightarrow> ('n \<Rightarrow> string) \<Rightarrow>
     buffer \<Rightarrow> string \<Rightarrow> unit fb_action" where
  "propose_wrap W R F S e bn_text units ext amountText =
     bindA (getVaultAddress F S (vault_id e)) (\<lambda>fbAddress.
     bindA (liftA (bn_text amountText)) (\<lambda>amt.
     bindA (liftA (keysFromEnv S e [''PAYER_KEYPAIR'', ''M_MINT_KEYPAIR'', ''WM_MINT_KEYPAIR''])) (\<lambda>keys.
     let mint = keys ! 1; wmMint = keys ! 2; T = TOKEN_2022_PROGRAM_ID W;
         mVault = findProgramAddress W [bytes_of ''m_vault''] ext
     in bindA (liftA (anchor W ext \<lparr>call_method = ''wrap'', call_args = [ArgBN amt],
          call_accounts =
            [(''signer'', Some fbAddress), (''mMint'', Some mint), (''extMint'', Some wmMint),
             (''globalAccount'', Some (findProgramAddress W [bytes_of ''global''] ext)), (''mVault'', Some mVault),
             (''extMintAuthority'', Some (findProgramAddress W [bytes_of ''mint_authority''] ext)),
             (''fromMTokenAccount'', Some (associatedTokenAddress W mint fbAddress True T)),
             (''vaultMTokenAccount'', Some (associatedTokenAddress W mint mVault True T)),
             (''toExtTokenAccount'', Some (associatedTokenAddress W wmMint fbAddress True T)),
             (''token2022'', Some T)]\<rparr>)) (\<lambda>ix.
        bindA (liftA (cr_blockhash R)) (\<lambda>blockhash.
        bindA (sendToFireblocks F R e \<lparr>lt_feePayer = fbAddress, lt_blockhash = blockhash, lt_instruction = ix\<rparr>
            (''Wrap '' @ units amt @ '' M to wM.'')) (\<lambda>response.
          fb_print (''Transaction sent to Fireblocks: '' @ response)))))))"

definition propose_unwrap ::
  "'n web3 \<Rightarrow> 'n cli_rpc \<Rightarrow> fireblocks \<Rightarrow> env_services \<Rightarrow> process_env \<Rightarrow> (string \<Rightarrow> 'n result) \<Rightarrow> ('n \<Rightarrow> string) \<Rightarrow>
     buffer \<Rightarrow> string \<Rightarrow> unit fb_action" where
  "propose_unwrap W R F S e bn_text units ext amountText =
     bindA (getVaultAddress F S (vault_id e)) (\<lambda>fbAddress.
     bindA (liftA (bn_text amountText)) (\<lambda>amt.
     bindA (liftA (keysFromEnv S e [''PAYER_KEYPAIR'', ''M_MINT_KEYPAIR'', ''WM_MINT_KEYPAIR''])) (\<lambda>keys.
     let mint = keys ! 1; wmMint = keys ! 2; T = TOKEN_2022_PROGRAM_ID W;
         mVault = findProgramAddress W [bytes_of ''m_vault''] ext
     in bindA (liftA (anchor W ext \<lparr>call_method = ''unwrap'', call_args = [ArgBN amt],
          call_accounts =
            [(''signer'', Some fbAddress), (''mMint'', Some mint), (''extMint'', Some wmMint),
             (''globalAccount'', Some (findProgramAddress W [bytes_of ''global''] ext)), (''mVault'', Some mVault),
             (''fromExtTokenAccount'', Some (associatedTokenAddress W wmMint fbAddress True T)),
             (''vaultMTokenAccount'', Some (associatedTokenAddress W mint mVault True T)),
             (''toMTokenAccount'', Some (associatedTokenAddress W mint fbAddress True T)),
             (''token2022'', Some T)]\<rparr>)) (\<lambda>ix.
        bindA (liftA (cr_blockhash R)) (\<lambda>blockhash.
        bindA (sendToFireblocks F R e \<lparr>lt_feePayer = fbAddress, lt_blockhash = blockhash, lt_instruction = ix\<rparr>
            (''Unwrap '' @ units amt @ '' wM to M.'')) (\<lambda>response.
          fb_print (''Transaction sent to Fireblocks: '' @ response)))))))"

section \<open>Failures\<close>

text \<open>Whatever goes wrong with the address, the command ends with one error and proposes nothing.\<close>

lemma vault_failure:
  "getVaultAddress F S v l = (Inl err, l') \<Longrightarrow>
    err = Error ''No fireblocks address found'' \<and> l' = l @ [FbPrinted ''Error fetching vault data:'']"
  by (auto simp: getVaultAddress_def catchA_def fb_print_def bindA_def split: prod.splits sum.splits)

lemma proposal_needs_address:
  assumes "getVaultAddress F S (vault_id e) [] = (Inl err, l)"
  shows "propose_wrap W R F S e bn_text units ext t [] = (Inl err, l)"
    "propose_unwrap W R F S e bn_text units ext t [] = (Inl err, l)"
    "create_atas W F S e [] = (Inl err, l)"
  using assms by (simp_all add: propose_wrap_def propose_unwrap_def create_atas_def bindA_Inl)

end
