(* ===== verification/Switchboard.thy ===== *)
theory Switchboard
  imports Services Transactions Base64
begin

text \<open>
  The oracle feed of the earner rate, \<open>services/switchboard/index.ts\<close>: the configuration, the jobs
  and the three commands.  The libraries of the oracle network and the connection are the record
  \<open>oracle_sdk\<close>; a command is an action on the list of the lines it prints and the transactions it
  sends.
\<close>

section \<open>Jobs\<close>

datatype oracle_task =
    CacheTask string "oracle_task list"
  | HttpTask string string "(string \<times> string) list" string
  | RegexExtractTask string nat
  | ValueTask string

type_synonym oracle_job = "oracle_task list"

text \<open>\<open>JSON.stringify\<close> on texts without characters to escape.\<close>

fun stringify :: "json \<Rightarrow> string" where
  "stringify JNull = ''null''"
| "stringify (JBool b) = (if b then ''true'' else ''false'')"
| "stringify (JNumber n) = decimal_int n"
| "stringify (JString s) = [CHR 0x22] @ s @ [CHR 0x22]"
| "stringify (JObject fs) = ''{'' @
     join_with '','' (map (\<lambda>(k, v). [CHR 0x22] @ k @ [CHR 0x22] @ '':'' @ stringify v) fs) @ ''}''"
| "stringify (JArray js) = ''['' @ join_with '','' (map stringify js) @ '']''"

definition rate_call :: json where
  "rate_call = JObject
     [(''jsonrpc'', JString ''2.0''), (''method'', JString ''eth_call''),
      (''params'', JArray
         [JObject [(''to'', JString ''0x866A2BF4E572CbcF37D5071A7a58503Bfb36be1b''), (''data'', JString ''0xc23465b3'')],
          JString ''latest'']),
      (''id'', JNumber 1)]"

definition result_pattern :: string where
  "result_pattern = [CHR 0x22] @ ''result'' @ [CHR 0x22, CHR 0x5C] @ ''s*:'' @ [CHR 0x5C] @ ''s*'' @ [CHR 0x22] @
     ''(0x[a-fA-F0-9]+)'' @ [CHR 0x22]"

definition buildJob :: "string \<Rightarrow> oracle_job" where
  "buildJob rpc =
     [CacheTask ''RATE''
        [HttpTask rpc ''METHOD_POST'' [(''Content-Type'', ''application/json'')] (stringify rate_call),
         RegexExtractTask result_pattern 1],
      ValueTask ''${RATE}'']"

record feed_settings =
  fs_name :: string
  fs_maxVariance :: nat
  fs_minResponses :: nat
  fs_numSignatures :: nat
  fs_minSampleSize :: nat
  fs_maxStaleness :: nat
  fs_rpcs :: "string list"

definition CONFIG :: feed_settings where
  "CONFIG = \<lparr>fs_name = ''M0 Earner Rate'', fs_maxVariance = 0, fs_minResponses = 3, fs_numSignatures = 3,
     fs_minSampleSize = 1, fs_maxStaleness = 750,
     fs_rpcs = [''https://eth.llamarpc.com'', ''https://ethereum-rpc.publicnode.com'', ''https://0xrpc.io/eth'',
       ''https://rpc.flashbots.net'', ''https://eth.meowrpc.com'', ''https://mainnet.gateway.tenderly.co'']\<rparr>"

definition buildJobs :: "oracle_job list" where
  "buildJobs = map buildJob (fs_rpcs CONFIG)"

section \<open>The oracle network\<close>

record feed_config = feed_settings +
  fc_queue :: buffer
  fc_feedHash :: "buffer option"
  fc_payer :: buffer

record v0_request =
  vr_ixs :: "TransactionInstruction list"
  vr_payer :: buffer
  vr_signers :: "buffer list"
  vr_unitPrice :: nat
  vr_unitMultiple :: "nat \<times> nat"
  vr_tables :: "buffer list"

record text_response =
  tr_ok :: bool
  tr_status :: nat
  tr_json :: "string result"
  tr_text :: "string result"

record oracle_sdk =
  os_encode :: "oracle_job \<Rightarrow> buffer"
  os_post :: "string \<Rightarrow> string \<Rightarrow> text_response result"
  os_program :: "unit result"
  os_generate :: buffer
  os_queue :: "buffer result"
  os_store :: "string \<Rightarrow> oracle_job list \<Rightarrow> string result"
  os_decode :: "string \<Rightarrow> buffer option"
  os_init :: "feed_config \<Rightarrow> TransactionInstruction result"
  os_pull :: "string option \<Rightarrow> feed_config \<Rightarrow> buffer \<Rightarrow> (TransactionInstruction list option \<times> buffer list) result"
  os_transaction :: "v0_request \<Rightarrow> VersionedTransaction result"
  os_simulate :: "VersionedTransaction \<Rightarrow> string list option result"
  os_event_rows :: "string list \<Rightarrow> string result"
  os_send :: "VersionedTransaction \<Rightarrow> string result"
  os_confirm :: "string \<Rightarrow> unit result"

datatype oracle_effect = Printed string | SentOracle VersionedTransaction

type_synonym 'a oracle_action = "(oracle_effect list, 'a) action"

definition printA :: "string \<Rightarrow> unit oracle_action" where
  "printA t = updateA (\<lambda>l. l @ [Printed t])"

section \<open>Commands\<close>

definition buildFeedConfig ::
  "'n web3 \<Rightarrow> oracle_sdk \<Rightarrow> buffer \<Rightarrow> buffer \<Rightarrow> string option \<Rightarrow> feed_config result" where
  "buildFeedConfig W SDK payer queue feedhash =
     bindE (case feedhash of
         Some h \<Rightarrow> if h \<noteq> [] then Inr h else os_store SDK (toBase58 W queue) buildJobs
       | None \<Rightarrow> os_store SDK (toBase58 W queue) buildJobs) (\<lambda>hash.
       Inr (feed_settings.extend CONFIG (feed_config.fields queue (os_decode SDK hash) payer)))"

definition simulate_jobs :: "oracle_sdk \<Rightarrow> unit oracle_action" where
  "simulate_jobs SDK =
     bindA (liftA (os_post SDK ''https://api.switchboard.xyz/api/simulate''
        (stringify (JObject [(''cluster'', JString ''Mainnet''),
           (''jobs'', JArray (map (\<lambda>j. JString (b64_encode (os_encode SDK j))) buildJobs))])))) (\<lambda>response.
     if tr_ok response then
       bindA (liftA (tr_json response)) (\<lambda>text.
       bindA (printA (''Response is good ('' @ decimal (tr_status response) @ '')'')) (\<lambda>_. printA text))
     else
       bindA (printA (''Response is bad ('' @ decimal (tr_status response) @ '')'')) (\<lambda>_.
       bindA (liftA (tr_text response)) printA))"

text \<open>\<open>initIx.keys[2] = \<dots>\<close>: past the end it would leave a hole, which the encoder reads.\<close>

definition set_authority :: "buffer \<Rightarrow> TransactionInstruction \<Rightarrow> TransactionInstruction result" where
  "set_authority auth ix =
     (let m = \<lparr>am_pubkey = auth, am_isSigner = False, am_isWritable = False\<rparr>; ks = txi_keys ix in
      if 2 < length ks then Inr (ix\<lparr>txi_keys := ks[2 := m]\<rparr>)
      else if length ks = 2 then Inr (ix\<lparr>txi_keys := ks @ [m]\<rparr>)
      else Inl TypeError)"

definition create_feed ::
  "'n web3 \<Rightarrow> oracle_sdk \<Rightarrow> env_services \<Rightarrow> process_env \<Rightarrow> buffer \<Rightarrow> unit oracle_action" where
  "create_feed W SDK S e keypair =
     bindA (liftA (os_program SDK)) (\<lambda>_.
     bindA (liftA (os_queue SDK)) (\<lambda>queue.
     bindA (liftA (buildFeedConfig W SDK keypair queue None)) (\<lambda>config.
     bindA (liftA (os_init SDK config)) (\<lambda>ix0.
     bindA (case env_set e ''SWITCHBOARD_AUTHORITY'' of
         None \<Rightarrow> returnA ix0
       | Some a \<Rightarrow>
           bindA (liftA (key_of_text S (Some a))) (\<lambda>auth.
           bindA (liftA (set_authority auth ix0)) (\<lambda>ix.
           bindA (printA (''Setting authority to '' @ toBase58 W auth)) (\<lambda>_. returnA ix)))) (\<lambda>ix.
     bindA (liftA (os_transaction SDK \<lparr>vr_ixs = [ix], vr_payer = keypair, vr_signers = [keypair, os_generate SDK],
         vr_unitPrice = 150000, vr_unitMultiple = (6, 5), vr_tables = []\<rparr>)) (\<lambda>tx.
     bindA (printA ''Sending initialize transaction'') (\<lambda>_.
     bindA (updateA (\<lambda>l. l @ [SentOracle tx])) (\<lambda>_.
     bindA (liftA (os_send SDK tx)) (\<lambda>sig.
     bindA (liftA (os_confirm SDK sig)) (\<lambda>_.
     bindA (printA (''Feed '' @ toBase58 W (os_generate SDK) @ '' initialized ('' @ sig @ '')'')) (\<lambda>_.
     case fc_feedHash config of
       Some h \<Rightarrow> printA (''Feed hash: 0x'' @ hex_encode h)
     | None \<Rightarrow> throwA TypeError)))))))))))"

definition update_feed ::
  "'n web3 \<Rightarrow> oracle_sdk \<Rightarrow> process_env \<Rightarrow> buffer \<Rightarrow> unit oracle_action" where
  "update_feed W SDK e keypair =
     bindA (liftA (os_program SDK)) (\<lambda>_.
     bindA (liftA (os_queue SDK)) (\<lambda>queue.
     bindA (liftA (buildFeedConfig W SDK keypair queue (e ''SWITCHBOARD_FEED_HASH''))) (\<lambda>config.
     bindA (liftA (os_pull SDK (e ''SWITCHBOARD_PULL_FEED'') config keypair)) (\<lambda>(pullIx, luts).
     bindA (case pullIx of Some ixs \<Rightarrow> returnA ixs | None \<Rightarrow> throwA TypeError) (\<lambda>ixs.
     bindA (liftA (os_transaction SDK \<lparr>vr_ixs = ixs, vr_payer = keypair, vr_signers = [keypair],
         vr_unitPrice = 150000, vr_unitMultiple = (6, 5), vr_tables = luts\<rparr>)) (\<lambda>tx.
     bindA (liftA (os_simulate SDK tx)) (\<lambda>sim.
     bindA (case sim of Some ls \<Rightarrow> liftA (os_event_rows SDK ls) | None \<Rightarrow> throwA TypeError) (\<lambda>rows.
     bindA (printA (''Submitted updates:'' @ [CHR 0x0A] @ rows)) (\<lambda>_.
     bindA (updateA (\<lambda>l. l @ [SentOracle tx])) (\<lambda>_.
     bindA (liftA (os_send SDK tx)) (\<lambda>sig.
       printA (''Tx Signature: '' @ sig))))))))))))"

datatype oracle_command = SimulateJobs | CreateFeed | UpdateFeed

definition oracle_main ::
  "'n web3 \<Rightarrow> oracle_sdk \<Rightarrow> env_services \<Rightarrow> process_env \<Rightarrow> oracle_command \<Rightarrow> unit oracle_action" where
  "oracle_main W SDK S e cmd =
     bindA (liftA (check_url S (e ''RPC_URL''))) (\<lambda>_.
     bindA (liftA (case e ''PAYER_KEYPAIR'' of Some k \<Rightarrow> keypair_json S k | None \<Rightarrow> Inl (External ''SyntaxError''))) (\<lambda>keypair.
     case cmd of
       SimulateJobs \<Rightarrow> simulate_jobs SDK
     | CreateFeed \<Rightarrow> create_feed W SDK S e keypair
     | UpdateFeed \<Rightarrow> update_feed W SDK e keypair))"

section \<open>The configuration is sound\<close>

text \<open>
  The name fits its 32 bytes, every source has a job of its own, and enough sources are listed for
  the responses required.
\<close>

lemma config_bounds:
  "length (fs_name CONFIG) \<le> 32" "distinct (fs_rpcs CONFIG)" "fs_minResponses CONFIG \<le> length buildJobs"
  by (simp_all add: CONFIG_def buildJobs_def)

text \<open>Every job reads the variable it fills, from its own source.\<close>

lemma job_variables:
  "job \<in> set buildJobs \<Longrightarrow> \<exists>v rpc rest. job = [CacheTask v (HttpTask rpc ''METHOD_POST''
     [(''Content-Type'', ''application/json'')] (stringify rate_call) # rest), ValueTask (''${'' @ v @ ''}'')] \<and>
     rpc \<in> set (fs_rpcs CONFIG)"
  by (auto simp: buildJobs_def buildJob_def)

text \<open>A stored hash is used as it is; only without one the jobs are stored again.\<close>

lemma feed_config_hash:
  "feedhash = Some h \<Longrightarrow> h \<noteq> [] \<Longrightarrow>
    \<exists>c. buildFeedConfig W SDK payer queue feedhash = Inr c \<and> fc_feedHash c = os_decode SDK h \<and>
      fc_queue c = queue \<and> fc_payer c = payer \<and> feed_settings.truncate c = CONFIG"
  by (simp add: buildFeedConfig_def feed_settings.defs feed_config.defs CONFIG_def)

end
