(* ===== verification/Logger.thy ===== *)
theory Logger
  imports Prelude
begin

text \<open>
  The loggers of the SDK, \<open>sdk/src/logger.ts\<close>.  The four levels are ordered as in \<open>winston\<close>, whose
  transports are the list of the lines each has received; the methods of the global \<open>console\<close> are a
  map from its methods to their handlers, which the constructor of the logger may replace.
\<close>

section \<open>Levels and entries\<close>

datatype log_level = Debug | Info | Warn | Err_level

fun severity :: "log_level \<Rightarrow> nat" where
  "severity Debug = 3"
| "severity Info = 2"
| "severity Warn = 1"
| "severity Err_level = 0"

text \<open>A level is below another when it is at least as severe, so a logger takes what is not above its level.\<close>

lemma severity_inject: "severity a = severity b \<Longrightarrow> a = b"
  by (cases a; cases b) simp_all

instantiation log_level :: linorder
begin

definition less_eq_log_level :: "log_level \<Rightarrow> log_level \<Rightarrow> bool" where
  "less_eq_log_level a b \<longleftrightarrow> severity a \<le> severity b"

definition less_log_level :: "log_level \<Rightarrow> log_level \<Rightarrow> bool" where
  "less_log_level a b \<longleftrightarrow> severity a < severity b"

instance
  by standard (auto simp: less_eq_log_level_def less_log_level_def intro: severity_inject)

end

lemmas level_order = less_eq_log_level_def less_log_level_def

record log_entry =
  le_level :: log_level
  le_message :: string
  le_args :: "string list"
  le_meta :: "string \<Rightarrow> string option"

section \<open>\<open>WinstonLogger\<close>\<close>

record WinstonLogger =
  wl_level :: log_level
  wl_json :: bool
  wl_meta :: "string \<Rightarrow> string option"
  wl_transports :: "log_entry list list"

datatype console_method = Con_debug | Con_log | Con_info | Con_warn | Con_error

datatype handler = NativeConsole console_method | LoggerMethod log_level

type_synonym console = "console_method \<Rightarrow> handler"

text \<open>\<open>env\<close> is \<open>process.env.NODE_ENV\<close>; the given fields win over the name.\<close>

definition new_WinstonLogger :: "string option \<Rightarrow> string \<Rightarrow> (string \<Rightarrow> string option) \<Rightarrow> WinstonLogger" where
  "new_WinstonLogger env name defaultMeta =
     (let production = (env = Some ''production'') in
      \<lparr>wl_level = (if production then Info else Debug), wl_json = production,
       wl_meta = [''name'' \<mapsto> name] ++ defaultMeta, wl_transports = [[]]\<rparr>)"

definition catch_console :: "bool \<Rightarrow> console \<Rightarrow> console" where
  "catch_console catchConsoleLogs c =
     (if catchConsoleLogs
      then c(Con_debug := LoggerMethod Debug, Con_info := LoggerMethod Info, Con_warn := LoggerMethod Warn,
             Con_error := LoggerMethod Err_level)
      else c)"

definition winston_log :: "log_level \<Rightarrow> string \<Rightarrow> string list \<Rightarrow> WinstonLogger \<Rightarrow> WinstonLogger" where
  "winston_log lv m args w =
     (if lv \<le> wl_level w
      then w\<lparr>wl_transports := map (\<lambda>t. t @ [\<lparr>le_level = lv, le_message = m, le_args = args, le_meta = wl_meta w\<rparr>])
             (wl_transports w)\<rparr>
      else w)"

text \<open>An \<open>Error\<close> is passed alone, its other arguments are dropped.\<close>

datatype error_arg = ErrorObject string | ErrorText string

definition winston_error :: "error_arg \<Rightarrow> string list \<Rightarrow> WinstonLogger \<Rightarrow> WinstonLogger" where
  "winston_error a args = (case a of
     ErrorObject m \<Rightarrow> winston_log Err_level m [] | ErrorText m \<Rightarrow> winston_log Err_level m args)"

definition withTransport :: "WinstonLogger \<Rightarrow> WinstonLogger" where
  "withTransport w = w\<lparr>wl_transports := wl_transports w @ [[]]\<rparr>"

definition addMetaField :: "string \<Rightarrow> string \<Rightarrow> WinstonLogger \<Rightarrow> WinstonLogger" where
  "addMetaField k v w = w\<lparr>wl_meta := (wl_meta w)(k \<mapsto> v)\<rparr>"

section \<open>The other loggers\<close>

definition MockLogger_log :: "log_level \<Rightarrow> string \<Rightarrow> string list \<Rightarrow> 's \<Rightarrow> 's" where
  "MockLogger_log lv m args s = s"

definition ConsoleLogger :: "log_level \<Rightarrow> console_method" where
  "ConsoleLogger lv = (case lv of Debug \<Rightarrow> Con_debug | Info \<Rightarrow> Con_log | Warn \<Rightarrow> Con_warn | Err_level \<Rightarrow> Con_error)"

section \<open>Facts\<close>

text \<open>In production only debug lines are dropped, elsewhere none.\<close>

lemma production_drops_debug:
  "winston_log lv m args (new_WinstonLogger env name meta) = new_WinstonLogger env name meta \<longleftrightarrow>
    env = Some ''production'' \<and> lv = Debug"
  by (cases lv) (auto simp: winston_log_def new_WinstonLogger_def level_order Let_def)

text \<open>\<open>console.log\<close> is never caught: what the services print with it does not reach the transports.\<close>

lemma console_log_not_caught: "catch_console b c Con_log = c Con_log"
  by (simp add: catch_console_def)

text \<open>A logger that takes a level takes every more severe one.\<close>

lemma levels_downward:
  "winston_log lv m args w \<noteq> w \<Longrightarrow> lv' \<le> lv \<Longrightarrow> winston_log lv' m args w \<noteq> w"
  by (cases "wl_transports w") (auto simp: winston_log_def WinstonLogger.defs intro: order_trans
    dest: arg_cong [where f = wl_transports] split: if_splits)

text \<open>Every transport receives the same later lines.\<close>

lemma transports_agree:
  "lv \<le> wl_level w \<Longrightarrow>
    list_all (\<lambda>t. t \<noteq> [] \<and> le_message (last t) = m \<and> le_meta (last t) = wl_meta w) (wl_transports (winston_log lv m args w))"
  by (simp add: winston_log_def list_all_iff)

lemma addMetaField_kept: "wl_meta (winston_log lv m args (addMetaField k v w)) k = Some v"
  by (simp add: winston_log_def addMetaField_def)

end
