(* ===== verification/SubstreamLogs.thy ===== *)
theory SubstreamLogs
  imports Services Base64 "HOL-Library.Option_ord"
begin

text \<open>
  Logs and instructions in the indexer, \<open>substreams/substream-utils/src/log.rs\<close> and
  \<open>instruction.rs\<close>.  An \<open>unwrap\<close> of nothing, an index out of range and \<open>panic!\<close> are \<open>Panicked\<close>, a
  returned error is \<open>Failed\<close>.  Texts are lists of characters; white space is that of ASCII.
\<close>

datatype rust_error = Failed string | Panicked

section \<open>Log lines\<close>

datatype log = InvokeLog string | SuccessLog string | ReturnLog string | DataLog string
  | ProgramLog string | TruncatedLog string | UnknownLog string

primrec log_text :: "log \<Rightarrow> string" where
  "log_text (InvokeLog s) = s"
| "log_text (SuccessLog s) = s"
| "log_text (ReturnLog s) = s"
| "log_text (DataLog s) = s"
| "log_text (ProgramLog s) = s"
| "log_text (TruncatedLog s) = s"
| "log_text (UnknownLog s) = s"

definition is_whitespace :: "char \<Rightarrow> bool" where
  "is_whitespace c = (let n = of_char c :: nat in n = 32 \<or> (9 \<le> n \<and> n \<le> 13))"

fun whitespace_words :: "string \<Rightarrow> string \<Rightarrow> string list" where
  "whitespace_words acc [] = (if acc = [] then [] else [rev acc])"
| "whitespace_words acc (c # cs) =
     (if is_whitespace c then (if acc = [] then [] else [rev acc]) @ whitespace_words [] cs
      else whitespace_words (c # acc) cs)"

definition split_whitespace :: "string \<Rightarrow> string list" where
  "split_whitespace s = whitespace_words [] s"

definition ends_with :: "string \<Rightarrow> string \<Rightarrow> bool" where
  "ends_with p s \<longleftrightarrow> starts_with (rev p) (rev s)"

definition new_log :: "string \<Rightarrow> log" where
  "new_log s =
     (if starts_with ''Program log: '' s then ProgramLog s
      else if starts_with ''Program data: '' s then DataLog s
      else if starts_with ''Program return: '' s then ReturnLog s
      else if length (split_whitespace s) = 4 \<and> starts_with ''Program'' s \<and> split_whitespace s ! 2 = ''invoke''
      then InvokeLog s
      else if length (split_whitespace s) = 3 \<and> starts_with ''Program'' s \<and> ends_with ''success'' s
      then SuccessLog s
      else if s = ''Log truncated'' then TruncatedLog s
      else UnknownLog s)"

fun is_success :: "log \<Rightarrow> bool" where
  "is_success (SuccessLog s) = True"
| "is_success _ = False"

fun is_invoke :: "log \<Rightarrow> bool" where
  "is_invoke (InvokeLog s) = True"
| "is_invoke _ = False"

fun is_truncated :: "log \<Rightarrow> bool" where
  "is_truncated (TruncatedLog s) = True"
| "is_truncated _ = False"

text \<open>
  The capture of \<open>(.+)\<close> after the first occurrence of a prefix that something other than a line
  break follows.
\<close>

fun capture :: "string \<Rightarrow> string \<Rightarrow> string option" where
  "capture p s =
     (if starts_with p s \<and> takeWhile (\<lambda>c. c \<noteq> CHR 0x0A) (drop (length p) s) \<noteq> []
      then Some (takeWhile (\<lambda>c. c \<noteq> CHR 0x0A) (drop (length p) s))
      else (case s of [] \<Rightarrow> None | c # cs \<Rightarrow> capture p cs))"

declare capture.simps [simp del]

text \<open>The strict decoder accepts exactly the texts the encoder writes.\<close>

definition b64_decode_strict :: "string \<Rightarrow> buffer option" where
  "b64_decode_strict s = (let bs = b64_decode s in if b64_encode bs = s then Some bs else None)"

definition data_of_log :: "string \<Rightarrow> buffer option" where
  "data_of_log s = (case capture ''Program data: '' s of
     Some encoded \<Rightarrow> b64_decode_strict encoded | None \<Rightarrow> None)"

lemma data_of_log_encode:
  assumes "bs \<noteq> []" "CHR 0x0A \<notin> set (b64_encode bs)"
  shows "data_of_log (''Program data: '' @ b64_encode bs) = Some bs"
proof -
  have t: "takeWhile (\<lambda>c. c \<noteq> CHR 0x0A) (b64_encode bs) = b64_encode bs"
    using assms(2) by (auto simp: takeWhile_eq_all_conv)
  have "b64_encode bs \<noteq> []"
  proof
    assume "b64_encode bs = []"
    then have "b64_decode (b64_encode bs) = b64_decode []" by simp
    then show False using assms(1) by (simp add: b64_decode_encode) (simp add: b64_decode_def b64_sextets_def)
  qed
  then show ?thesis
    by (simp add: data_of_log_def capture.simps starts_with_def t b64_decode_strict_def b64_decode_encode)
qed

section \<open>Instructions\<close>

text \<open>
  A compiled instruction has the stack height 1, an inner one the height recorded for it, if any.
  \<open>stack_height\<close> orders absent heights first.
\<close>

record wrapped_instruction =
  wi_program_index :: nat
  wi_accounts :: "nat list"
  wi_data :: buffer
  wi_height :: "nat option"

record resolved_instruction = wrapped_instruction +
  ri_program :: buffer
  ri_accounts :: "buffer list"

definition index_checked :: "'a list \<Rightarrow> nat \<Rightarrow> rust_error + 'a" where
  "index_checked xs i = (if i < length xs then Inr (xs ! i) else Inl Panicked)"

definition new_structured ::
  "buffer list \<Rightarrow> wrapped_instruction \<Rightarrow> rust_error + resolved_instruction" where
  "new_structured accounts w =
     bindE (mapE (index_checked accounts) (wi_accounts w)) (\<lambda>as.
     bindE (index_checked accounts (wi_program_index w)) (\<lambda>p.
       Inr (wrapped_instruction.extend w (resolved_instruction.fields p as))))"

datatype structured_instruction =
  Structured (si_instruction: resolved_instruction) (si_inner: "structured_instruction list")
    (si_logs: "log list option")

section \<open>The stack of logs\<close>

text \<open>The last element of the code's stack is the head here.\<close>

record log_stack =
  ls_stack :: "log list list"
  ls_truncated :: bool

fun open_loop :: "log list list \<Rightarrow> log list \<Rightarrow> rust_error + (log_stack \<times> log list)" where
  "open_loop st [] = Inl Panicked"
| "open_loop st (l # ls) =
     (if is_truncated l then Inr (\<lparr>ls_stack = st, ls_truncated = True\<rparr>, ls)
      else if is_invoke l then Inr (\<lparr>ls_stack = [l] # st, ls_truncated = False\<rparr>, ls)
      else (case st of [] \<Rightarrow> Inl Panicked | f # rest \<Rightarrow> open_loop ((f @ [l]) # rest) ls))"

definition open_log ::
  "buffer list \<Rightarrow> buffer \<Rightarrow> log_stack \<Rightarrow> log list \<Rightarrow> rust_error + (log_stack \<times> log list)" where
  "open_log silent program st logs =
     (if program \<in> set silent \<or> ls_truncated st then Inr (st, logs) else open_loop (ls_stack st) logs)"

fun close_loop :: "log list list \<Rightarrow> log list \<Rightarrow> rust_error + (log list option \<times> log_stack \<times> log list)" where
  "close_loop st [] = Inl Panicked"
| "close_loop st (l # ls) =
     (if is_truncated l then Inr (None, \<lparr>ls_stack = st, ls_truncated = True\<rparr>, ls)
      else if is_invoke l then Inl Panicked
      else (case st of [] \<Rightarrow> Inl Panicked
        | f # rest \<Rightarrow>
            if is_success l then Inr (Some (f @ [l]), \<lparr>ls_stack = rest, ls_truncated = False\<rparr>, ls)
            else close_loop ((f @ [l]) # rest) ls))"

definition close_log ::
  "buffer list \<Rightarrow> buffer \<Rightarrow> log_stack \<Rightarrow> log list \<Rightarrow> rust_error + (log list option \<times> log_stack \<times> log list)" where
  "close_log silent program st logs =
     (if program \<in> set silent then Inr (Some [], st, logs)
      else if ls_truncated st then Inr (None, st, logs)
      else close_loop (ls_stack st) logs)"

section \<open>Structuring\<close>

text \<open>
  The state of the loop: the finished instructions, the stack of open ones (the innermost first)
  with their finished inner instructions, the stack of logs and the lines left.
\<close>

record structuring =
  st_done :: "structured_instruction list"
  st_open :: "(resolved_instruction \<times> structured_instruction list) list"
  st_logs :: log_stack
  st_rest :: "log list"

fun attach ::
  "structured_instruction \<Rightarrow> structured_instruction list \<Rightarrow>
     (resolved_instruction \<times> structured_instruction list) list \<Rightarrow>
     structured_instruction list \<times> (resolved_instruction \<times> structured_instruction list) list" where
  "attach x fin [] = (fin @ [x], [])"
| "attach x fin ((p, inner) # rest) = (fin, (p, inner @ [x]) # rest)"

lemma length_attach: "length (snd (attach x fin rest)) = length rest"
  by (cases "(x, fin, rest)" rule: attach.cases) auto

text \<open>Pop the instructions of at least the given height; the final loop pops all.\<close>

function settle :: "buffer list \<Rightarrow> nat option \<Rightarrow> structuring \<Rightarrow> rust_error + structuring" where
  "settle silent h s =
     (case st_open s of
        [] \<Rightarrow> Inr s
      | (ix, inner) # rest \<Rightarrow>
          if wi_height ix \<ge> h then
            bindE (close_log silent (ri_program ix) (st_logs s) (st_rest s)) (\<lambda>(logs, st, ls).
              let a = attach (Structured ix inner logs) (st_done s) rest
              in settle silent h \<lparr>st_done = fst a, st_open = snd a, st_logs = st, st_rest = ls\<rparr>)
          else Inr s)"
  by pat_completeness auto
termination
  by (relation "measure (\<lambda>(silent, h, s). length (st_open s))") (auto simp: length_attach)

declare settle.simps [simp del]

definition structure_step ::
  "buffer list \<Rightarrow> buffer list \<Rightarrow> wrapped_instruction \<Rightarrow> structuring \<Rightarrow> rust_error + structuring" where
  "structure_step silent accounts w s =
     bindE (new_structured accounts w) (\<lambda>ix.
     bindE (settle silent (wi_height ix) s) (\<lambda>s1.
     bindE (open_log silent (ri_program ix) (st_logs s1) (st_rest s1)) (\<lambda>(st, ls).
       Inr (s1\<lparr>st_open := (ix, []) # st_open s1, st_logs := st, st_rest := ls\<rparr>))))"

fun structure_loop ::
  "buffer list \<Rightarrow> buffer list \<Rightarrow> wrapped_instruction list \<Rightarrow> structuring \<Rightarrow> rust_error + structuring" where
  "structure_loop silent accounts [] s = Inr s"
| "structure_loop silent accounts (w # ws) s =
     bindE (structure_step silent accounts w s) (structure_loop silent accounts ws)"

definition structure_flattened_instructions_with_logs ::
  "buffer list \<Rightarrow> wrapped_instruction list \<Rightarrow> log list \<Rightarrow> buffer list \<Rightarrow> rust_error + structured_instruction list" where
  "structure_flattened_instructions_with_logs silent ws logs accounts =
     bindE (structure_loop silent accounts ws
        \<lparr>st_done = [], st_open = [], st_logs = \<lparr>ls_stack = [], ls_truncated = False\<rparr>, st_rest = logs\<rparr>) (\<lambda>s.
     bindE (settle silent None s) (\<lambda>s'. Inr (st_done s')))"

fun flattened :: "structured_instruction list \<Rightarrow> structured_instruction list" where
  "flattened [] = []"
| "flattened (Structured ix inner logs # rest) = Structured ix inner logs # flattened inner @ flattened rest"

section \<open>Transactions\<close>

text \<open>
  A confirmed transaction as the block stream delivers it, its messages present; \<open>ct_required\<close> is
  the number of signatures its header asks for, \<open>ct_accounts\<close> is \<open>resolved_accounts\<close>.
  A token balance has the index of its account, the texts of mint and owner and of the amount.
\<close>

record inner_instructions =
  in_index :: nat
  in_instructions :: "wrapped_instruction list"

record token_balance =
  tb_account_index :: nat
  tb_mint :: string
  tb_owner :: string
  tb_amount :: string

record confirmed_transaction =
  ct_signatures :: "buffer list"
  ct_required :: nat
  ct_instructions :: "wrapped_instruction list"
  ct_failed :: bool
  ct_inner :: "inner_instructions list"
  ct_logs :: "string list"
  ct_accounts :: "buffer list"
  ct_pre :: "token_balance list"
  ct_post :: "token_balance list"
  ct_pre_lamports :: "64 word list"
  ct_post_lamports :: "64 word list"

text \<open>The inner instructions are listed by the index of their top instruction, in order.\<close>

fun flatten_from :: "nat \<Rightarrow> wrapped_instruction list \<Rightarrow> inner_instructions list \<Rightarrow> wrapped_instruction list" where
  "flatten_from i [] inner = []"
| "flatten_from i (w # ws) inner =
     w\<lparr>wi_height := Some 1\<rparr> #
     (case inner of
        x # rest \<Rightarrow> if in_index x = i then in_instructions x @ flatten_from (Suc i) ws rest
                    else flatten_from (Suc i) ws inner
      | [] \<Rightarrow> flatten_from (Suc i) ws [])"

definition get_flattened_instructions :: "confirmed_transaction \<Rightarrow> wrapped_instruction list" where
  "get_flattened_instructions t = flatten_from 0 (ct_instructions t) (ct_inner t)"

definition get_structured_instructions ::
  "buffer list \<Rightarrow> confirmed_transaction \<Rightarrow> rust_error + structured_instruction list" where
  "get_structured_instructions silent t =
     (if ct_failed t then Inl (Failed ''Cannot structure instructions of a failed transaction.'')
      else structure_flattened_instructions_with_logs silent (get_flattened_instructions t)
        (map new_log (ct_logs t)) (ct_accounts t))"

end
