(* ===== verification/Indexer.thy ===== *)
theory Indexer
  imports SubstreamLogs "HOL-Library.AList"
begin

text \<open>
  The substream that indexes the token, \<open>substreams/graph/src\<close>, with the context of a transaction
  from \<open>substream-utils/src/transaction.rs\<close>.  Arguments are the base 58 codec, the discriminators
  that the event macro writes and the text of a floating point number.  A hash map is an
  association list in the order of insertion; the code walks it in an arbitrary one.
\<close>

record indexer_lib =
  il_b58 :: "buffer \<Rightarrow> string"
  il_unb58 :: "string \<Rightarrow> buffer option"
  il_disc :: "string \<Rightarrow> buffer"
  il_f64 :: "64 word \<Rightarrow> string"

section \<open>Keys and numbers\<close>

definition pubkey_of_text :: "indexer_lib \<Rightarrow> string \<Rightarrow> rust_error + buffer" where
  "pubkey_of_text L s = (case il_unb58 L s of
     Some bs \<Rightarrow> if length bs = 32 then Inr bs else Inl Panicked | None \<Rightarrow> Inl Panicked)"

definition const_key :: "indexer_lib \<Rightarrow> string \<Rightarrow> buffer" where
  "const_key L s = (case il_unb58 L s of Some bs \<Rightarrow> bs | None \<Rightarrow> [])"

definition to_pubkey :: "buffer \<Rightarrow> buffer option" where
  "to_pubkey bs = (if length bs = 32 then Some bs else None)"

definition default_pubkey :: buffer where
  "default_pubkey = replicate 32 0"

definition SYSTEM_PROGRAMS :: "indexer_lib \<Rightarrow> buffer list" where
  "SYSTEM_PROGRAMS L = map (const_key L)
     [''11111111111111111111111111111111'', ''ComputeBudget111111111111111111111111111111'',
      ''Memo1UhkJRfHyvLMcVucJwxXeuD728EqVDDwQDxFMNo'']"

definition PROGRAMS_WITHOUT_LOGGING :: "indexer_lib \<Rightarrow> buffer list" where
  "PROGRAMS_WITHOUT_LOGGING L = map (const_key L)
     [''Ed25519SigVerify111111111111111111111111111'', ''KeccakSecp256k11111111111111111111111111111'']"

definition TOKEN_PROGRAM_KEY :: "indexer_lib \<Rightarrow> buffer" where
  "TOKEN_PROGRAM_KEY L = const_key L ''TokenkegQfeZyiNwAJbNbGKPFXCWuBvf9Ss623VQ5DA''"

definition WRAPPED_SOL_MINT :: "indexer_lib \<Rightarrow> buffer" where
  "WRAPPED_SOL_MINT L = const_key L ''So11111111111111111111111111111111111111112''"

text \<open>\<open>parse::<u64>\<close>: an optional plus sign and at least one digit, without overflow.\<close>

definition parse_u64 :: "string \<Rightarrow> 64 word option" where
  "parse_u64 s =
     (let digits = (if take 1 s = ''+'' then drop 1 s else s)
      in if digits = [] then None
         else (case digits_value 10 0 digits of
           Some n \<Rightarrow> if n < 2 ^ 64 then Some (word_of_nat n) else None | None \<Rightarrow> None))"

section \<open>The context of a transaction\<close>

record TokenAccount =
  ta_address :: buffer
  ta_mint :: buffer
  ta_owner :: buffer
  ta_pre :: "64 word option"
  ta_post :: "64 word option"

record transaction_context =
  tx_accounts :: "buffer list"
  tx_lamports :: "(64 word \<times> 64 word) list"
  tx_token_accounts :: "(buffer \<times> TokenAccount) list"
  tx_signers :: "buffer list"
  tx_signature :: string

definition new_context :: "indexer_lib \<Rightarrow> confirmed_transaction \<Rightarrow> rust_error + transaction_context" where
  "new_context L t =
     bindE (index_checked (ct_signatures t) 0) (\<lambda>sig.
       if ct_required t \<le> length (ct_accounts t)
       then Inr \<lparr>tx_accounts = ct_accounts t, tx_lamports = [], tx_token_accounts = [],
         tx_signers = take (ct_required t) (ct_accounts t), tx_signature = il_b58 L sig\<rparr>
       else Inl Panicked)"

fun record_pre_balances ::
  "indexer_lib \<Rightarrow> token_balance list \<Rightarrow> transaction_context \<Rightarrow> rust_error + transaction_context" where
  "record_pre_balances L [] c = Inr c"
| "record_pre_balances L (b # bs) c =
     bindE (index_checked (tx_accounts c) (tb_account_index b)) (\<lambda>address.
     case parse_u64 (tb_amount b) of None \<Rightarrow> Inl Panicked | Some n \<Rightarrow>
     bindE (pubkey_of_text L (tb_mint b)) (\<lambda>mint.
     bindE (pubkey_of_text L (tb_owner b)) (\<lambda>owner.
       record_pre_balances L bs (c\<lparr>tx_token_accounts := AList.update address
         \<lparr>ta_address = address, ta_mint = mint, ta_owner = owner, ta_pre = Some n, ta_post = Some n\<rparr>
         (tx_token_accounts c)\<rparr>))))"

text \<open>
  \<open>TokenInstruction::unpack\<close>, with one value for all instructions that neither handler below
  looks at: the first initialisation reads the owner from the accounts, the others from the data;
  amounts are the first eight bytes, and the checked instructions need one more for the decimals.
\<close>

datatype token_instruction = InitializeAccount | InitializeAccountWithOwner buffer
  | Transfer "64 word" | TransferChecked "64 word" | MintTo "64 word" | MintToChecked "64 word"
  | Burn "64 word" | BurnChecked "64 word" | SyncNative | CloseAccount | OtherInstruction

definition unpack_amount :: "nat \<Rightarrow> (64 word \<Rightarrow> token_instruction) \<Rightarrow> buffer \<Rightarrow> token_instruction" where
  "unpack_amount n C rest = (if n \<le> length rest then C (word_of_nat (le_nat (take 8 rest))) else OtherInstruction)"

definition unpack_token :: "buffer \<Rightarrow> token_instruction" where
  "unpack_token bs = (case bs of [] \<Rightarrow> OtherInstruction
     | tag # rest \<Rightarrow>
         if tag = 1 then InitializeAccount
         else if tag = 3 then unpack_amount 8 Transfer rest
         else if tag = 7 then unpack_amount 8 MintTo rest
         else if tag = 8 then unpack_amount 8 Burn rest
         else if tag = 9 then CloseAccount
         else if tag = 12 then unpack_amount 9 TransferChecked rest
         else if tag = 14 then unpack_amount 9 MintToChecked rest
         else if tag = 15 then unpack_amount 9 BurnChecked rest
         else if (tag = 16 \<or> tag = 18) \<and> 32 \<le> length rest then InitializeAccountWithOwner (take 32 rest)
         else if tag = 17 then SyncNative
         else OtherInstruction)"

definition index_account :: "transaction_context \<Rightarrow> wrapped_instruction \<Rightarrow> nat \<Rightarrow> rust_error + buffer" where
  "index_account c w i = bindE (index_checked (wi_accounts w) i) (index_checked (tx_accounts c))"

definition unwrap_pubkey :: "buffer \<Rightarrow> rust_error + buffer" where
  "unwrap_pubkey bs = (case to_pubkey bs of Some k \<Rightarrow> Inr k | None \<Rightarrow> Inl Panicked)"

definition parse_token_account_from_initialize_account_instruction ::
  "indexer_lib \<Rightarrow> wrapped_instruction \<Rightarrow> transaction_context \<Rightarrow> buffer option \<Rightarrow> rust_error + TokenAccount" where
  "parse_token_account_from_initialize_account_instruction L w c given =
     bindE (index_account c w 0) (\<lambda>address.
     bindE (bindE (index_account c w 1) unwrap_pubkey) (\<lambda>mint.
     bindE (case given of Some k \<Rightarrow> Inr k | None \<Rightarrow> bindE (index_account c w 2) unwrap_pubkey) (\<lambda>owner.
       let balance = (if mint \<noteq> WRAPPED_SOL_MINT L then Some 0 else None)
       in Inr \<lparr>ta_address = address, ta_mint = mint, ta_owner = owner, ta_pre = balance, ta_post = balance\<rparr>)))"

definition insert_account ::
  "indexer_lib \<Rightarrow> wrapped_instruction \<Rightarrow> buffer option \<Rightarrow> transaction_context \<Rightarrow> rust_error + transaction_context" where
  "insert_account L w given c =
     bindE (parse_token_account_from_initialize_account_instruction L w c given) (\<lambda>a.
       Inr (c\<lparr>tx_token_accounts := AList.update (ta_address a) a (tx_token_accounts c)\<rparr>))"

definition update_accounts ::
  "indexer_lib \<Rightarrow> wrapped_instruction \<Rightarrow> transaction_context \<Rightarrow> rust_error + transaction_context" where
  "update_accounts L w c =
     bindE (index_checked (tx_accounts c) (wi_program_index w)) (\<lambda>program.
       if program \<noteq> TOKEN_PROGRAM_KEY L then Inr c
       else (case unpack_token (wi_data w) of
           InitializeAccount \<Rightarrow> insert_account L w None c
         | InitializeAccountWithOwner k \<Rightarrow> insert_account L w (Some k) c
         | _ \<Rightarrow> Inr c))"

fun update_all ::
  "indexer_lib \<Rightarrow> wrapped_instruction list \<Rightarrow> transaction_context \<Rightarrow> rust_error + transaction_context" where
  "update_all L [] c = Inr c"
| "update_all L (w # ws) c = bindE (update_accounts L w c) (update_all L ws)"

definition build_context :: "indexer_lib \<Rightarrow> confirmed_transaction \<Rightarrow> rust_error + transaction_context" where
  "build_context L t =
     bindE (new_context L t) (\<lambda>c.
     bindE (record_pre_balances L (ct_pre t) c) (\<lambda>c1.
       update_all L (get_flattened_instructions t)
         (c1\<lparr>tx_lamports := zip (ct_pre_lamports t) (ct_post_lamports t)\<rparr>)))"

definition get_context :: "indexer_lib \<Rightarrow> confirmed_transaction \<Rightarrow> rust_error + transaction_context" where
  "get_context L t =
     (if ct_failed t then Inl (Failed ''Cannot get context of failed instruction.'') else build_context L t)"

section \<open>Following the balances\<close>

text \<open>
  \<open>update_balance\<close> applies one instruction to the context; the release build checks for overflow,
  so an amount that does not fit panics.  An unknown balance stays unknown.
\<close>

definition change_post ::
  "(64 word \<Rightarrow> rust_error + 64 word) \<Rightarrow> buffer \<Rightarrow> transaction_context \<Rightarrow> rust_error + transaction_context" where
  "change_post f address c =
     (case map_of (tx_token_accounts c) address of
        None \<Rightarrow> Inl Panicked
      | Some a \<Rightarrow>
          (case ta_post a of
             None \<Rightarrow> Inr c
           | Some n \<Rightarrow> bindE (f n) (\<lambda>m. Inr (c\<lparr>tx_token_accounts :=
               AList.map_entry address (\<lambda>a. a\<lparr>ta_post := Some m\<rparr>) (tx_token_accounts c)\<rparr>))))"

definition set_post :: "64 word option \<Rightarrow> buffer \<Rightarrow> transaction_context \<Rightarrow> rust_error + transaction_context" where
  "set_post x address c =
     (case map_of (tx_token_accounts c) address of
        None \<Rightarrow> Inl Panicked
      | Some a \<Rightarrow> Inr (c\<lparr>tx_token_accounts :=
          AList.map_entry address (\<lambda>a. a\<lparr>ta_post := x\<rparr>) (tx_token_accounts c)\<rparr>))"

definition sub_checked :: "64 word \<Rightarrow> 64 word \<Rightarrow> rust_error + 64 word" where
  "sub_checked amount n = (if amount \<le> n then Inr (n - amount) else Inl Panicked)"

definition add_checked :: "64 word \<Rightarrow> 64 word \<Rightarrow> rust_error + 64 word" where
  "add_checked amount n = (if unat n + unat amount < 2 ^ 64 then Inr (n + amount) else Inl Panicked)"

definition move_tokens ::
  "wrapped_instruction \<Rightarrow> nat \<Rightarrow> 64 word \<Rightarrow> transaction_context \<Rightarrow> rust_error + transaction_context" where
  "move_tokens w dest amount c =
     bindE (index_account c w 0) (\<lambda>source_address.
     bindE (index_account c w dest) (\<lambda>destination_address.
     bindE (change_post (sub_checked amount) source_address c)
       (change_post (add_checked amount) destination_address)))"

definition update_balance ::
  "indexer_lib \<Rightarrow> wrapped_instruction \<Rightarrow> transaction_context \<Rightarrow> rust_error + transaction_context" where
  "update_balance L w c0 =
     (let c = c0\<lparr>tx_token_accounts := map (\<lambda>(k, a). (k, a\<lparr>ta_pre := ta_post a\<rparr>)) (tx_token_accounts c0)\<rparr>
      in bindE (index_checked (tx_accounts c) (wi_program_index w)) (\<lambda>program.
        if program \<noteq> TOKEN_PROGRAM_KEY L then Inr c
        else (case unpack_token (wi_data w) of
            InitializeAccount \<Rightarrow> insert_account L w None c
          | InitializeAccountWithOwner k \<Rightarrow> insert_account L w (Some k) c
          | Transfer n \<Rightarrow> move_tokens w 1 n c
          | TransferChecked n \<Rightarrow> move_tokens w 2 n c
          | MintTo n \<Rightarrow> bindE (index_account c w 1) (\<lambda>k. change_post (add_checked n) k c)
          | MintToChecked n \<Rightarrow> bindE (index_account c w 1) (\<lambda>k. change_post (add_checked n) k c)
          | Burn n \<Rightarrow> bindE (index_account c w 0) (\<lambda>k. change_post (sub_checked n) k c)
          | BurnChecked n \<Rightarrow> bindE (index_account c w 0) (\<lambda>k. change_post (sub_checked n) k c)
          | SyncNative \<Rightarrow> bindE (index_account c w 0) (\<lambda>k. set_post None k c)
          | CloseAccount \<Rightarrow> bindE (index_account c w 0) (\<lambda>k. set_post (Some 0) k c)
          | OtherInstruction \<Rightarrow> Inr c)))"

section \<open>Token accounts\<close>

definition balance_of :: "token_balance \<Rightarrow> 64 word" where
  "balance_of b = (case parse_u64 (tb_amount b) of Some n \<Rightarrow> n | None \<Rightarrow> 0)"

fun post_accounts ::
  "indexer_lib \<Rightarrow> buffer list \<Rightarrow> token_balance list \<Rightarrow> (buffer \<times> TokenAccount) list \<Rightarrow>
     rust_error + (buffer \<times> TokenAccount) list" where
  "post_accounts L accounts [] m = Inr m"
| "post_accounts L accounts (b # bs) m =
     bindE (index_checked accounts (tb_account_index b)) (\<lambda>address.
     bindE (pubkey_of_text L (tb_mint b)) (\<lambda>mint.
     bindE (pubkey_of_text L (tb_owner b)) (\<lambda>owner.
       post_accounts L accounts bs (AList.update address
         \<lparr>ta_address = address, ta_mint = mint, ta_owner = owner, ta_pre = Some 0, ta_post = Some (balance_of b)\<rparr> m))))"

fun pre_accounts ::
  "buffer list \<Rightarrow> token_balance list \<Rightarrow> (buffer \<times> TokenAccount) list \<Rightarrow> rust_error + (buffer \<times> TokenAccount) list" where
  "pre_accounts accounts [] m = Inr m"
| "pre_accounts accounts (b # bs) m =
     bindE (index_checked accounts (tb_account_index b)) (\<lambda>address.
       pre_accounts accounts bs (AList.map_entry address (\<lambda>a. a\<lparr>ta_pre := Some (balance_of b)\<rparr>) m))"

definition token_accounts :: "indexer_lib \<Rightarrow> confirmed_transaction \<Rightarrow> rust_error + TokenAccount list" where
  "token_accounts L t =
     bindE (post_accounts L (ct_accounts t) (ct_post t) []) (\<lambda>m.
     bindE (pre_accounts (ct_accounts t) (ct_pre t) m) (\<lambda>m'. Inr (map snd m')))"

end
