(* ===== verification/IndexerRows.thy ===== *)
theory IndexerRows
  imports Indexer
begin

text \<open>
  Events in the logs of an instruction and the rows written for a block,
  \<open>substreams/graph/src/utils.rs\<close>, \<open>events.rs\<close> and \<open>lib.rs\<close>.
\<close>

section \<open>Events\<close>

datatype update =
    IndexUpdateU "64 word" "64 word" "64 word" "64 word"
  | IndexUpdateV2U "64 word" "64 word" "64 word" "64 word" "64 word"
  | BridgeEventU "64 word" "64 word" buffer buffer string
  | ClaimU string string "64 word" "64 word" "64 word"

definition DISCRIMINATOR_SIZE :: nat where
  "DISCRIMINATOR_SIZE = 8"

text \<open>The number in eight bytes; a floating point number is its bits, and one that is no number is refused.\<close>

definition u64_at :: "nat \<Rightarrow> buffer \<Rightarrow> 64 word" where
  "u64_at i bs = word_of_nat (le_nat (take 8 (drop i bs)))"

definition is_nan :: "64 word \<Rightarrow> bool" where
  "is_nan w \<longleftrightarrow> unat w mod 2 ^ 63 > 0x7FF0000000000000"

definition index_update_from_slice :: "buffer \<Rightarrow> update option" where
  "index_update_from_slice bs =
     (if length bs = 32 then Some (IndexUpdateU (u64_at 0 bs) (u64_at 8 bs) (u64_at 16 bs) (u64_at 24 bs)) else None)"

definition index_update_v2_from_slice :: "buffer \<Rightarrow> update option" where
  "index_update_v2_from_slice bs =
     (if length bs = 40 \<and> \<not> is_nan (u64_at 24 bs) \<and> \<not> is_nan (u64_at 32 bs)
      then Some (IndexUpdateV2U (u64_at 0 bs) (u64_at 8 bs) (u64_at 16 bs) (u64_at 24 bs) (u64_at 32 bs)) else None)"

definition wormhole_id_to_chain :: "nat \<Rightarrow> string" where
  "wormhole_id_to_chain n =
     (if n = 1 then ''Solana'' else if n = 2 then ''Ethereum'' else if n = 10002 then ''Sepolia''
      else if n = 23 then ''Arbitrum'' else if n = 10003 then ''Arbitrum Sepolia'' else if n = 21 then ''Sui''
      else if n = 24 then ''Optimism'' else if n = 10005 then ''Optimism Sepolia'' else if n = 30 then ''Base''
      else if n = 10004 then ''Base Sepolia'' else ''Unknown('' @ decimal n @ '')'')"

definition bridge_event_from_slice :: "buffer \<Rightarrow> update option" where
  "bridge_event_from_slice bs =
     (if length bs = 82
      then Some (BridgeEventU (u64_at 0 bs) (u64_at 8 bs) (take 32 (drop 16 bs)) (take 32 (drop 48 bs))
        (wormhole_id_to_chain (le_nat (drop 80 bs)))) else None)"

definition parse_log_for_events :: "indexer_lib \<Rightarrow> string \<Rightarrow> update option" where
  "parse_log_for_events L s = (case data_of_log s of None \<Rightarrow> None | Some bs \<Rightarrow>
     if length bs < DISCRIMINATOR_SIZE then None
     else (let d = take DISCRIMINATOR_SIZE bs; rest = drop DISCRIMINATOR_SIZE bs
       in if il_disc L ''IndexUpdate'' = d then index_update_from_slice rest
          else if il_disc L ''IndexUpdateV2'' = d then index_update_v2_from_slice rest
          else if il_disc L ''BridgeEvent'' = d then bridge_event_from_slice rest
          else None))"

fun log_update :: "indexer_lib \<Rightarrow> log \<Rightarrow> update option" where
  "log_update L (DataLog s) = parse_log_for_events L s"
| "log_update L _ = None"

fun first_some :: "('a \<Rightarrow> 'b option) \<Rightarrow> 'a list \<Rightarrow> 'b option" where
  "first_some f [] = None"
| "first_some f (x # xs) = (case f x of Some y \<Rightarrow> Some y | None \<Rightarrow> first_some f xs)"

definition parse_logs_for_events :: "indexer_lib \<Rightarrow> log list option \<Rightarrow> update option" where
  "parse_logs_for_events L logs = (case logs of None \<Rightarrow> None | Some ls \<Rightarrow> first_some (log_update L) ls)"

definition parse_logs_for_instruction_name :: "log list option \<Rightarrow> string option" where
  "parse_logs_for_instruction_name logs = (case logs of None \<Rightarrow> None
     | Some ls \<Rightarrow> first_some (\<lambda>l. capture ''Program log: Instruction: '' (log_text l)) ls)"

section \<open>Rows\<close>

datatype row_operation = OpUnspecified | OpCreate | OpUpdate | OpDelete

record row_field =
  fd_name :: string
  fd_old :: string
  fd_new :: string

record table_change =
  tc_table :: string
  tc_pk :: string
  tc_ordinal :: nat
  tc_operation :: row_operation
  tc_fields :: "row_field list"

definition new_field :: "string \<Rightarrow> string \<Rightarrow> row_field" where
  "new_field name v = \<lparr>fd_name = name, fd_old = [], fd_new = v\<rparr>"

definition u64_text :: "64 word \<Rightarrow> string" where
  "u64_text w = decimal (unat w)"

definition i64_text :: "64 word \<Rightarrow> string" where
  "i64_text w = decimal_int (sint w)"

record block =
  bk_blockhash :: string
  bk_slot :: "64 word"
  bk_time :: "64 word option"
  bk_height :: "64 word option"
  bk_transactions :: "confirmed_transaction list"

definition block_time_text :: "block \<Rightarrow> string" where
  "block_time_text B = i64_text (case bk_time B of Some n \<Rightarrow> n | None \<Rightarrow> 0)"

definition transaction_row :: "block \<Rightarrow> nat \<Rightarrow> string \<Rightarrow> table_change" where
  "transaction_row B i sig =
     \<lparr>tc_table = ''transactions'', tc_pk = sig, tc_ordinal = i, tc_operation = OpCreate,
      tc_fields =
        [new_field ''blockhash'' (bk_blockhash B), new_field ''slot'' (u64_text (bk_slot B)),
         new_field ''signature'' sig, new_field ''block_time'' (block_time_text B)] @
        (case bk_height B of Some h \<Rightarrow> [new_field ''block_height'' (u64_text h)] | None \<Rightarrow> [])\<rparr>"

definition unwrap_or_zero :: "64 word option \<Rightarrow> 64 word" where
  "unwrap_or_zero x = (case x of Some n \<Rightarrow> n | None \<Rightarrow> 0)"

definition balance_row :: "indexer_lib \<Rightarrow> block \<Rightarrow> nat \<Rightarrow> string \<Rightarrow> TokenAccount \<Rightarrow> table_change" where
  "balance_row L B i sig a =
     \<lparr>tc_table = ''balance_updates'',
      tc_pk = ''pubkey::'' @ il_b58 L (ta_address a) @ ''-signature::'' @ sig,
      tc_ordinal = i, tc_operation = OpCreate,
      tc_fields =
        [new_field ''pubkey'' (il_b58 L (ta_address a)), new_field ''mint'' (il_b58 L (ta_mint a)),
         new_field ''owner'' (il_b58 L (ta_owner a)), new_field ''pre_balance'' (u64_text (unwrap_or_zero (ta_pre a))),
         new_field ''post_balance'' (u64_text (unwrap_or_zero (ta_post a))), new_field ''signature'' sig,
         new_field ''ts'' (block_time_text B)]\<rparr>"

text \<open>What an event adds to the key and to the fields.\<close>

fun event_suffix :: "update \<Rightarrow> string" where
  "event_suffix (BridgeEventU a t f g c) = ''-bridge''"
| "event_suffix (IndexUpdateU i t s m) = ''-index_update''"
| "event_suffix (IndexUpdateV2U i t s c n) = ''-index_update_v2''"
| "event_suffix (ClaimU a r n f i) = ''-claim''"

fun event_fields :: "indexer_lib \<Rightarrow> update \<Rightarrow> row_field list" where
  "event_fields L (BridgeEventU a t f g c) =
     [new_field ''event'' ''bridge'', new_field ''amount'' (i64_text a), new_field ''token_supply'' (u64_text t),
      new_field ''from'' (b64_encode f), new_field ''to'' (b64_encode g), new_field ''chain'' c]"
| "event_fields L (IndexUpdateU i t s m) =
     [new_field ''event'' ''index_update'', new_field ''index'' (u64_text i), new_field ''ts'' (u64_text t),
      new_field ''token_supply'' (u64_text s), new_field ''max_yield'' (u64_text m)]"
| "event_fields L (IndexUpdateV2U i t s c n) =
     [new_field ''event'' ''index_update_v2'', new_field ''index'' (u64_text i), new_field ''ts'' (u64_text t),
      new_field ''token_supply'' (u64_text s), new_field ''current_multiplier'' (il_f64 L c),
      new_field ''new_multiplier'' (il_f64 L n)]"
| "event_fields L (ClaimU a r n f i) =
     [new_field ''event'' ''claim'', new_field ''token_account'' a, new_field ''recipient_token_account'' r,
      new_field ''amount'' (u64_text n), new_field ''manager_fee'' (u64_text f), new_field ''index'' (u64_text i)]"

definition program_key :: "resolved_instruction \<Rightarrow> buffer" where
  "program_key ri = (case to_pubkey (ri_program ri) of Some k \<Rightarrow> k | None \<Rightarrow> default_pubkey)"

definition event_row ::
  "indexer_lib \<Rightarrow> block \<Rightarrow> string \<Rightarrow> nat \<Rightarrow> buffer \<Rightarrow> log list option \<Rightarrow> table_change option" where
  "event_row L B sig j pid logs =
     (if pid \<in> set (SYSTEM_PROGRAMS L) then None
      else (case parse_logs_for_events L logs of None \<Rightarrow> None | Some u \<Rightarrow>
        Some \<lparr>tc_table = ''events'',
          tc_pk = ''instruction::'' @ decimal j @ ''-signature::'' @ sig @ event_suffix u,
          tc_ordinal = j, tc_operation = OpCreate,
          tc_fields =
            [new_field ''program_id'' (il_b58 L pid),
             new_field ''instruction'' (case parse_logs_for_instruction_name logs of Some n \<Rightarrow> n | None \<Rightarrow> []),
             new_field ''signature'' sig, new_field ''ts'' (block_time_text B)] @ event_fields L u\<rparr>))"

fun event_rows ::
  "indexer_lib \<Rightarrow> block \<Rightarrow> string \<Rightarrow> nat \<Rightarrow> structured_instruction list \<Rightarrow> table_change list" where
  "event_rows L B sig j [] = []"
| "event_rows L B sig j (x # xs) =
     (case event_row L B sig j (program_key (si_instruction x)) (si_logs x) of Some r \<Rightarrow> [r] | None \<Rightarrow> []) @
     event_rows L B sig (Suc j) xs"

definition transaction_changes ::
  "indexer_lib \<Rightarrow> block \<Rightarrow> nat \<Rightarrow> confirmed_transaction \<Rightarrow> rust_error + table_change list" where
  "transaction_changes L B i t =
     (case get_context L t of
        Inl (Failed e) \<Rightarrow> Inr []
      | Inl Panicked \<Rightarrow> Inl Panicked
      | Inr c \<Rightarrow>
          bindE (token_accounts L t) (\<lambda>accounts.
            let balances = map (balance_row L B i (tx_signature c)) (filter (\<lambda>a. ta_pre a \<noteq> ta_post a) accounts)
            in case get_structured_instructions (PROGRAMS_WITHOUT_LOGGING L) t of
                 Inl (Failed e) \<Rightarrow> Inr balances
               | Inl Panicked \<Rightarrow> Inl Panicked
               | Inr ixs \<Rightarrow>
                   Inr (balances @ event_rows L B (tx_signature c) 0 (flattened ixs) @
                     [transaction_row B i (tx_signature c)])))"

fun changes_from ::
  "indexer_lib \<Rightarrow> block \<Rightarrow> nat \<Rightarrow> confirmed_transaction list \<Rightarrow> rust_error + table_change list" where
  "changes_from L B i [] = Inr []"
| "changes_from L B i (t # rest) =
     bindE (transaction_changes L B i t) (\<lambda>rows. bindE (changes_from L B (Suc i) rest) (\<lambda>more. Inr (rows @ more)))"

definition map_transfer_events_to_db :: "indexer_lib \<Rightarrow> block \<Rightarrow> rust_error + table_change list" where
  "map_transfer_events_to_db L B = changes_from L B 0 (bk_transactions B)"

section \<open>Transfer events\<close>

record balance_update =
  bu_pubkey :: string
  bu_mint :: string
  bu_owner :: string
  bu_pre :: "64 word"
  bu_post :: "64 word"

record named_instruction =
  ni_program :: string
  ni_name :: "string option"
  ni_update :: "update option"

record token_transaction =
  tt_signature :: string
  tt_balances :: "balance_update list"
  tt_instructions :: "named_instruction list"

record token_transactions =
  to_blockhash :: string
  to_slot :: "64 word"
  to_time :: "64 word"
  to_height :: "64 word"
  to_transactions :: "token_transaction list"

definition balance_update_of :: "indexer_lib \<Rightarrow> TokenAccount \<Rightarrow> balance_update" where
  "balance_update_of L a =
     \<lparr>bu_pubkey = il_b58 L (ta_address a), bu_mint = il_b58 L (ta_mint a), bu_owner = il_b58 L (ta_owner a),
      bu_pre = unwrap_or_zero (ta_pre a), bu_post = unwrap_or_zero (ta_post a)\<rparr>"

definition named_instructions :: "indexer_lib \<Rightarrow> structured_instruction list \<Rightarrow> named_instruction list" where
  "named_instructions L xs = map (\<lambda>x.
     \<lparr>ni_program = il_b58 L (program_key (si_instruction x)),
      ni_name = parse_logs_for_instruction_name (si_logs x),
      ni_update = parse_logs_for_events L (si_logs x)\<rparr>)
     (filter (\<lambda>x. program_key (si_instruction x) \<notin> set (SYSTEM_PROGRAMS L)) xs)"

fun token_transactions_of :: "indexer_lib \<Rightarrow> confirmed_transaction list \<Rightarrow> rust_error + token_transaction list" where
  "token_transactions_of L [] = Inr []"
| "token_transactions_of L (t # rest) =
     (case get_context L t of
        Inl (Failed e) \<Rightarrow> token_transactions_of L rest
      | Inl Panicked \<Rightarrow> Inl Panicked
      | Inr c \<Rightarrow>
          bindE (token_accounts L t) (\<lambda>accounts.
          case get_structured_instructions (PROGRAMS_WITHOUT_LOGGING L) t of
            Inl (Failed e) \<Rightarrow> token_transactions_of L rest
          | Inl Panicked \<Rightarrow> Inl Panicked
          | Inr ixs \<Rightarrow>
              bindE (token_transactions_of L rest) (\<lambda>more.
                Inr (\<lparr>tt_signature = tx_signature c,
                  tt_balances = map (balance_update_of L) (filter (\<lambda>a. ta_pre a \<noteq> ta_post a) accounts),
                  tt_instructions = named_instructions L (flattened ixs)\<rparr> # more))))"

definition map_transfer_events :: "indexer_lib \<Rightarrow> block \<Rightarrow> rust_error + token_transactions" where
  "map_transfer_events L B =
     bindE (token_transactions_of L (bk_transactions B)) (\<lambda>txs.
       Inr \<lparr>to_blockhash = bk_blockhash B, to_slot = bk_slot B, to_time = unwrap_or_zero (bk_time B),
         to_height = unwrap_or_zero (bk_height B), to_transactions = txs\<rparr>)"

end
