(* ===== verification/SubstreamTrees.thy ===== *)
theory SubstreamTrees
  imports SubstreamLogs
begin

text \<open>
  What the structuring of instructions is for: a transaction runs a forest of calls, each printing
  its invocation, its own messages and the lines of its inner calls in the order they happen, and
  its success.  From the flat list of instructions and the flat list of lines the indexer recovers
  the forest, and gives every instruction exactly the lines of its own frame.
\<close>

section \<open>Calls\<close>

datatype call = Call resolved_instruction log "item list" log
  and item = Message log | Inner call

definition plain :: "log \<Rightarrow> bool" where
  "plain l \<longleftrightarrow> \<not> is_invoke l \<and> \<not> is_success l \<and> \<not> is_truncated l"

definition wrapped :: "resolved_instruction \<Rightarrow> wrapped_instruction" where
  "wrapped ri = wrapped_instruction.truncate ri"

fun messages_of :: "item list \<Rightarrow> log list" where
  "messages_of [] = []"
| "messages_of (Message l # items) = l # messages_of items"
| "messages_of (Inner c # items) = messages_of items"

definition own_lines :: "buffer list \<Rightarrow> call \<Rightarrow> log list" where
  "own_lines silent c = (case c of Call ri opn items suc \<Rightarrow>
     if ri_program ri \<in> set silent then [] else opn # messages_of items @ [suc])"

fun print_call :: "buffer list \<Rightarrow> call \<Rightarrow> log list"
  and print_items :: "buffer list \<Rightarrow> item list \<Rightarrow> log list" where
  "print_call silent (Call ri opn items suc) =
     (if ri_program ri \<in> set silent then [] else opn # print_items silent items @ [suc])"
| "print_items silent [] = []"
| "print_items silent (Message l # items) = l # print_items silent items"
| "print_items silent (Inner c # items) = print_call silent c @ print_items silent items"

fun flat_call :: "call \<Rightarrow> wrapped_instruction list" and flat_items :: "item list \<Rightarrow> wrapped_instruction list" where
  "flat_call (Call ri opn items suc) = wrapped ri # flat_items items"
| "flat_items [] = []"
| "flat_items (Message l # items) = flat_items items"
| "flat_items (Inner c # items) = flat_call c @ flat_items items"

fun structured_call :: "buffer list \<Rightarrow> call \<Rightarrow> structured_instruction"
  and structured_items :: "buffer list \<Rightarrow> item list \<Rightarrow> structured_instruction list" where
  "structured_call silent (Call ri opn items suc) =
     Structured ri (structured_items silent items) (Some (own_lines silent (Call ri opn items suc)))"
| "structured_items silent [] = []"
| "structured_items silent (Message l # items) = structured_items silent items"
| "structured_items silent (Inner c # items) = structured_call silent c # structured_items silent items"

text \<open>
  Heights grow by one with the depth; the precompiled programs that print nothing are called from
  the top and call nothing.
\<close>

fun wf_call :: "buffer list \<Rightarrow> buffer list \<Rightarrow> nat \<Rightarrow> call \<Rightarrow> bool"
  and wf_items :: "buffer list \<Rightarrow> buffer list \<Rightarrow> nat \<Rightarrow> item list \<Rightarrow> bool" where
  "wf_call silent accounts h (Call ri opn items suc) \<longleftrightarrow>
     new_structured accounts (wrapped ri) = Inr ri \<and> wi_height ri = Some h \<and> is_invoke opn \<and> is_success suc \<and>
     (if ri_program ri \<in> set silent then h = 1 \<and> items = [] else wf_items silent accounts (Suc h) items)"
| "wf_items silent accounts h [] \<longleftrightarrow> True"
| "wf_items silent accounts h (Message l # items) \<longleftrightarrow> plain l \<and> wf_items silent accounts h items"
| "wf_items silent accounts h (Inner c # items) \<longleftrightarrow> wf_call silent accounts h c \<and> wf_items silent accounts h items"

section \<open>Consuming lines\<close>

definition push_lines :: "log list \<Rightarrow> log list list \<Rightarrow> log list list" where
  "push_lines ms st = (case st of [] \<Rightarrow> [] | f # rest \<Rightarrow> (f @ ms) # rest)"

lemma push_lines_simps [simp]: "push_lines ms (f # rest) = (f @ ms) # rest" "push_lines [] st = st"
  by (simp_all add: push_lines_def split: list.splits)

lemma invoke_not: "is_invoke l \<Longrightarrow> \<not> is_truncated l \<and> \<not> is_success l"
  by (cases l) auto

lemma success_not: "is_success l \<Longrightarrow> \<not> is_truncated l \<and> \<not> is_invoke l"
  by (cases l) auto

lemma open_messages:
  "list_all plain ms \<Longrightarrow> is_invoke opn \<Longrightarrow> ms = [] \<or> st \<noteq> [] \<Longrightarrow>
    open_loop st (ms @ opn # ls) = Inr (\<lparr>ls_stack = [opn] # push_lines ms st, ls_truncated = False\<rparr>, ls)"
proof (induction ms arbitrary: st)
  case Nil
  then show ?case by (simp add: invoke_not)
next
  case (Cons m ms)
  then show ?case by (cases st) (simp_all add: plain_def)
qed

lemma close_messages:
  "list_all plain ms \<Longrightarrow> is_success suc \<Longrightarrow>
    close_loop (f # rest) (ms @ suc # ls) =
      Inr (Some (f @ ms @ [suc]), \<lparr>ls_stack = rest, ls_truncated = False\<rparr>, ls)"
  by (induction ms arbitrary: f) (simp_all add: plain_def success_not)

section \<open>Settling\<close>

definition below :: "nat option \<Rightarrow> structuring \<Rightarrow> bool" where
  "below h s \<longleftrightarrow> (case st_open s of [] \<Rightarrow> True | p # rest \<Rightarrow> wi_height (fst p) < h)"

lemma settle_below: "below h s \<Longrightarrow> settle silent h s = Inr s"
  by (subst settle.simps) (auto simp: below_def split: list.splits)

lemma settle_settle:
  "k \<le> h \<Longrightarrow> bindE (settle silent h s) (settle silent k) = settle silent k s"
proof (induction silent h s rule: settle.induct)
  case (1 silent h s)
  show ?case
  proof (cases "st_open s")
    case Nil
    then show ?thesis by (simp add: settle.simps [of silent h s])
  next
    case (Cons p rest)
    obtain ix inner where p: "p = (ix, inner)" by (cases p)
    show ?thesis
    proof (cases "h \<le> wi_height ix")
      case False
      then show ?thesis using Cons p by (simp add: settle.simps [of silent h s])
    next
      case True
      then have k: "k \<le> wi_height ix" using 1(2) by (rule order_trans [rotated])
      show ?thesis
        using 1(1) [OF Cons p [symmetric] True _ _ refl refl] 1(2) True k
        by (subst settle.simps, subst (2) settle.simps) (auto simp: Cons p bindE_def Let_def split: sum.splits)
    qed
  qed
qed

lemma settle_below_after: "settle silent h s = Inr s' \<Longrightarrow> settle silent h s' = Inr s'"
  using settle_settle [of h h silent s] by simp

lemma loop_append:
  "structure_loop silent accounts (xs @ ys) s =
    bindE (structure_loop silent accounts xs s) (structure_loop silent accounts ys)"
  by (induction xs arbitrary: s) (auto simp: bindE_def split: sum.splits)

lemma new_structured_height: "new_structured accounts w = Inr ri \<Longrightarrow> wi_height ri = wi_height w"
  by (auto simp: new_structured_def wrapped_instruction.defs resolved_instruction.defs bindE_eq_Inr_iff)

text \<open>The next instruction of the same height settles what is open first.\<close>

lemma loop_settled:
  assumes "settle silent k s1 = Inr s2" "ws = [] \<or> wi_height (hd ws) = k"
  shows "bindE (structure_loop silent accounts ws s1) (settle silent k) =
    bindE (structure_loop silent accounts ws s2) (settle silent k)"
proof (cases ws)
  case Nil
  then show ?thesis using assms(1) settle_below_after [OF assms(1)] by simp
next
  case (Cons w ws')
  then have "structure_step silent accounts w s1 = structure_step silent accounts w s2"
    using assms settle_below_after [OF assms(1)]
    by (cases "new_structured accounts w") (simp_all add: structure_step_def new_structured_height)
  then show ?thesis using Cons by simp
qed

definition run_settled ::
  "buffer list \<Rightarrow> buffer list \<Rightarrow> nat option \<Rightarrow> wrapped_instruction list \<Rightarrow> structuring \<Rightarrow> rust_error + structuring" where
  "run_settled silent accounts h ws s = bindE (structure_loop silent accounts ws s) (settle silent h)"

lemma run_settled_append:
  assumes "run_settled silent accounts k xs s = Inr s'" "ys = [] \<or> wi_height (hd ys) = k"
  shows "run_settled silent accounts k (xs @ ys) s = run_settled silent accounts k ys s'"
proof -
  obtain s1 where s1: "structure_loop silent accounts xs s = Inr s1" "settle silent k s1 = Inr s'"
    using assms(1) by (auto simp: run_settled_def bindE_eq_Inr_iff)
  then show ?thesis using loop_settled [OF s1(2) assms(2)] by (simp add: run_settled_def loop_append)
qed

lemma run_settled_lower:
  assumes "k \<le> h" "run_settled silent accounts h ws s = Inr s'"
  shows "run_settled silent accounts k ws s = settle silent k s'"
proof -
  obtain s1 where s1: "structure_loop silent accounts ws s = Inr s1" "settle silent h s1 = Inr s'"
    using assms(2) by (auto simp: run_settled_def bindE_eq_Inr_iff)
  then show ?thesis
    using settle_settle [OF assms(1), of silent s1] by (simp add: run_settled_def)
qed

section \<open>A call\<close>

text \<open>What a call with lines of its caller before it leaves: the call attached, the lines pushed.\<close>

definition after_call :: "buffer list \<Rightarrow> call \<Rightarrow> log list \<Rightarrow> log list \<Rightarrow> structuring \<Rightarrow> structuring" where
  "after_call silent c pend ls s =
     (let a = attach (structured_call silent c) (st_done s) (st_open s)
      in \<lparr>st_done = fst a, st_open = snd a,
          st_logs = \<lparr>ls_stack = push_lines pend (ls_stack (st_logs s)), ls_truncated = False\<rparr>,
          st_rest = ls\<rparr>)"

definition program_of :: "call \<Rightarrow> buffer" where
  "program_of c = (case c of Call ri opn items suc \<Rightarrow> ri_program ri)"

lemma program_of_Call [simp]: "program_of (Call ri opn items suc) = ri_program ri"
  by (simp add: program_of_def)

lemma height_wrapped [simp]: "wi_height (wrapped ri) = wi_height ri"
  by (simp add: wrapped_def wrapped_instruction.defs)

lemma flat_call_not_Nil [simp]: "flat_call c \<noteq> []"
  by (cases c) simp

lemma hd_flat_call: "wf_call silent accounts h c \<Longrightarrow> wi_height (hd (flat_call c)) = Some h"
  by (cases c) simp

lemma hd_flat_items:
  "wf_items silent accounts h items \<Longrightarrow> flat_items items = [] \<or> wi_height (hd (flat_items items)) = Some h"
proof (induction items)
  case (Cons x items)
  then show ?case by (cases x) (auto dest: hd_flat_call)
qed simp

lemma below_after:
  "below h s \<Longrightarrow> below h (after_call silent c pend ls s)"
  by (cases "(structured_call silent c, st_done s, st_open s)" rule: attach.cases)
    (auto simp: below_def after_call_def Let_def)

lemma run_silent:
  assumes "wf_call silent accounts h c" "program_of c \<in> set silent" "below (Some h) s"
    "\<not> ls_truncated (st_logs s)"
  shows "run_settled silent accounts (Some h) (flat_call c) s =
    Inr (after_call silent c [] (st_rest s) s)"
proof -
  obtain ri opn items suc where c: "c = Call ri opn items suc" by (cases c)
  have i: "items = []" "wi_height ri = Some h" "new_structured accounts (wrapped ri) = Inr ri" "ri_program ri \<in> set silent"
    using assms c by auto
  have b: "below (Some h) (after_call silent c [] (st_rest s) s)"
    using assms(3) by (rule below_after)
  have e: "\<lparr>ls_stack = ls_stack (st_logs s), ls_truncated = False\<rparr> = st_logs s"
    using assms(4) by (cases "st_logs s") simp
  show ?thesis
    using settle_below [OF b, of silent]
    by (simp add: run_settled_def c i structure_step_def settle_below assms(3) open_log_def
      settle.simps [of silent "Some h" "s\<lparr>st_open := (ri, []) # st_open s\<rparr>"] close_log_def
      after_call_def own_lines_def e Let_def)
qed

definition call_ok :: "buffer list \<Rightarrow> buffer list \<Rightarrow> call \<Rightarrow> bool" where
  "call_ok silent accounts c \<longleftrightarrow> (\<forall>h s pend ls.
     1 \<le> h \<longrightarrow> wf_call silent accounts h c \<longrightarrow> program_of c \<notin> set silent \<longrightarrow> below (Some h) s \<longrightarrow>
     \<not> ls_truncated (st_logs s) \<longrightarrow> list_all plain pend \<longrightarrow> (pend = [] \<or> ls_stack (st_logs s) \<noteq> []) \<longrightarrow>
     st_rest s = pend @ print_call silent c @ ls \<longrightarrow>
     run_settled silent accounts (Some h) (flat_call c) s = Inr (after_call silent c pend ls s))"

definition inside ::
  "structured_instruction list \<Rightarrow> resolved_instruction \<Rightarrow> structured_instruction list \<Rightarrow>
    (resolved_instruction \<times> structured_instruction list) list \<Rightarrow> log list \<Rightarrow> log list list \<Rightarrow> log list \<Rightarrow> structuring" where
  "inside fin ri inner opened f st ls =
     \<lparr>st_done = fin, st_open = (ri, inner) # opened, st_logs = \<lparr>ls_stack = f # st, ls_truncated = False\<rparr>, st_rest = ls\<rparr>"

definition items_ok :: "buffer list \<Rightarrow> buffer list \<Rightarrow> item list \<Rightarrow> bool" where
  "items_ok silent accounts items \<longleftrightarrow> (\<forall>h fin ri inner opened f st pend ls.
     1 \<le> h \<longrightarrow> wf_items silent accounts (Suc h) items \<longrightarrow> wi_height ri = Some h \<longrightarrow> list_all plain pend \<longrightarrow>
     (\<exists>g pend'. g @ pend' = pend @ messages_of items \<and> list_all plain pend' \<and>
        run_settled silent accounts (Some (Suc h)) (flat_items items)
          (inside fin ri inner opened f st (pend @ print_items silent items @ ls)) =
        Inr (inside fin ri (inner @ structured_items silent items) opened (f @ g) st (pend' @ ls))))"

lemma below_inside: "wi_height ri = Some h \<Longrightarrow> below (Some (Suc h)) (inside fin ri inner opened f st ls)"
  by (simp add: below_def inside_def)

lemma call_from_items:
  assumes "items_ok silent accounts items"
  shows "call_ok silent accounts (Call ri opn items suc)"
proof (unfold call_ok_def, intro allI impI)
  fix h s pend ls
  assume h: "1 \<le> h" and wf: "wf_call silent accounts h (Call ri opn items suc)"
    and loud: "program_of (Call ri opn items suc) \<notin> set silent" and b: "below (Some h) s"
    and t: "\<not> ls_truncated (st_logs s)" and m: "list_all plain pend" "pend = [] \<or> ls_stack (st_logs s) \<noteq> []"
    and r: "st_rest s = pend @ print_call silent (Call ri opn items suc) @ ls"
  have w: "new_structured accounts (wrapped ri) = Inr ri" "wi_height ri = Some h" "is_invoke opn" "is_success suc"
    "wf_items silent accounts (Suc h) items" "ri_program ri \<notin> set silent"
    using wf loud by auto
  let ?st = "push_lines pend (ls_stack (st_logs s))"
  let ?s1 = "inside (st_done s) ri [] (st_open s) [opn] ?st (print_items silent items @ suc # ls)"
  have step: "structure_step silent accounts (wrapped ri) s = Inr ?s1"
    using w r t
    by (simp add: structure_step_def settle_below [OF b] open_log_def open_messages [OF m(1) w(3) m(2)] inside_def)
  obtain g pend' where g: "g @ pend' = messages_of items" "list_all plain pend'"
    "run_settled silent accounts (Some (Suc h)) (flat_items items) ?s1 =
      Inr (inside (st_done s) ri (structured_items silent items) (st_open s) ([opn] @ g) ?st (pend' @ suc # ls))"
    using assms [unfolded items_ok_def, rule_format, OF h w(5,2), of "[]" "st_done s" "[]" "st_open s" "[opn]" ?st "suc # ls"]
    by auto
  let ?s2 = "inside (st_done s) ri (structured_items silent items) (st_open s) ([opn] @ g) ?st (pend' @ suc # ls)"
  have "run_settled silent accounts (Some h) (flat_call (Call ri opn items suc)) s = settle silent (Some h) ?s2"
    using run_settled_lower [OF _ g(3), of "Some h"] step by (simp add: run_settled_def)
  also have "\<dots> = settle silent (Some h) (after_call silent (Call ri opn items suc) pend ls s)"
    using w g(1) [symmetric]
    by (subst settle.simps)
      (simp add: inside_def close_log_def close_messages [OF g(2) w(4), of "opn # g"] after_call_def own_lines_def Let_def)
  also have "\<dots> = Inr (after_call silent (Call ri opn items suc) pend ls s)"
    by (rule settle_below) (rule below_after [OF b])
  finally show "run_settled silent accounts (Some h) (flat_call (Call ri opn items suc)) s =
    Inr (after_call silent (Call ri opn items suc) pend ls s)" .
qed

lemma items_Message:
  assumes "items_ok silent accounts items"
  shows "items_ok silent accounts (Message l # items)"
proof (unfold items_ok_def, intro allI impI)
  fix h fin inner opened f st pend ls and ri :: resolved_instruction
  assume a: "1 \<le> h" "wf_items silent accounts (Suc h) (Message l # items)" "wi_height ri = Some h" "list_all plain pend"
  then have "list_all plain (pend @ [l])" "wf_items silent accounts (Suc h) items" by simp_all
  then show "\<exists>g pend'. g @ pend' = pend @ messages_of (Message l # items) \<and> list_all plain pend' \<and>
      run_settled silent accounts (Some (Suc h)) (flat_items (Message l # items))
        (inside fin ri inner opened f st (pend @ print_items silent (Message l # items) @ ls)) =
      Inr (inside fin ri (inner @ structured_items silent (Message l # items)) opened (f @ g) st (pend' @ ls))"
    using assms [unfolded items_ok_def, rule_format, OF a(1) _ a(3), of "pend @ [l]" fin inner opened f st ls]
    by auto
qed

lemma items_Inner:
  assumes "call_ok silent accounts c" "items_ok silent accounts items"
  shows "items_ok silent accounts (Inner c # items)"
proof (unfold items_ok_def, intro allI impI)
  fix h fin inner opened f st pend ls and ri :: resolved_instruction
  assume a: "1 \<le> h" "wf_items silent accounts (Suc h) (Inner c # items)" "wi_height ri = Some h" "list_all plain pend"
  then have w: "wf_call silent accounts (Suc h) c" "wf_items silent accounts (Suc h) items" by simp_all
  have loud: "program_of c \<notin> set silent" using w(1) a(1) by (cases c) (auto split: if_splits)
  let ?s = "inside fin ri inner opened f st (pend @ print_items silent (Inner c # items) @ ls)"
  let ?s' = "inside fin ri (inner @ [structured_call silent c]) opened (f @ pend) st (print_items silent items @ ls)"
  have "run_settled silent accounts (Some (Suc h)) (flat_call c) ?s = Inr (after_call silent c pend (print_items silent items @ ls) ?s)"
    using assms(1) [unfolded call_ok_def, rule_format, OF _ w(1) loud below_inside [OF a(3)]] a(4)
    by (simp add: inside_def)
  also have "after_call silent c pend (print_items silent items @ ls) ?s = ?s'"
    by (simp add: after_call_def inside_def Let_def)
  finally have c: "run_settled silent accounts (Some (Suc h)) (flat_items (Inner c # items)) ?s =
      run_settled silent accounts (Some (Suc h)) (flat_items items) ?s'"
    using run_settled_append hd_flat_items [OF w(2)] by simp
  obtain g pend' where "g @ pend' = messages_of items" "list_all plain pend'"
    "run_settled silent accounts (Some (Suc h)) (flat_items items) ?s' =
      Inr (inside fin ri ((inner @ [structured_call silent c]) @ structured_items silent items) opened ((f @ pend) @ g) st (pend' @ ls))"
    using assms(2) [unfolded items_ok_def, rule_format, OF a(1) w(2) a(3), of "[]" fin "inner @ [structured_call silent c]"
      opened "f @ pend" st ls] by auto
  then show "\<exists>g pend'. g @ pend' = pend @ messages_of (Inner c # items) \<and> list_all plain pend' \<and>
      run_settled silent accounts (Some (Suc h)) (flat_items (Inner c # items)) ?s =
      Inr (inside fin ri (inner @ structured_items silent (Inner c # items)) opened (f @ g) st (pend' @ ls))"
    unfolding c by (intro exI [of _ "pend @ g"] exI [of _ pend']) simp
qed

lemma calls_ok: "call_ok silent accounts c" "items_ok silent accounts items"
proof (induction silent c and silent items rule: print_call_print_items.induct)
  case (1 silent ri opn items suc)
  show ?case
  proof (cases "ri_program ri \<in> set silent")
    case True
    then show ?thesis by (simp add: call_ok_def)
  next
    case False
    then show ?thesis by (rule call_from_items [OF 1])
  qed
next
  case (2 silent)
  show ?case
    unfolding items_ok_def
  proof (intro allI impI)
    fix h fin inner opened f st pend ls and ri :: resolved_instruction
    assume "wi_height ri = Some h" "list_all plain pend"
    then show "\<exists>g pend'. g @ pend' = pend @ messages_of [] \<and> list_all plain pend' \<and>
        run_settled silent accounts (Some (Suc h)) (flat_items [])
          (inside fin ri inner opened f st (pend @ print_items silent [] @ ls)) =
        Inr (inside fin ri (inner @ structured_items silent []) opened (f @ g) st (pend' @ ls))"
      by (intro exI [of _ "[]"] exI [of _ pend]) (simp add: run_settled_def settle_below below_inside)
  qed
next
  case (3 silent l items)
  then show ?case by (rule items_Message)
next
  case (4 silent c items)
  then show ?case by (rule items_Inner)
qed

section \<open>A transaction\<close>

text \<open>The calls of a transaction, one for each of its instructions.\<close>

definition print_calls :: "buffer list \<Rightarrow> call list \<Rightarrow> log list" where
  "print_calls silent cs = concat (map (print_call silent) cs)"

definition flat_calls :: "call list \<Rightarrow> wrapped_instruction list" where
  "flat_calls cs = concat (map flat_call cs)"

lemma hd_flat_calls: "list_all (wf_call silent accounts 1) cs \<Longrightarrow> flat_calls cs = [] \<or> wi_height (hd (flat_calls cs)) = Some 1"
  by (cases cs) (auto simp: flat_calls_def dest: hd_flat_call)

lemma run_calls:
  assumes "list_all (wf_call silent accounts 1) cs"
  shows "run_settled silent accounts (Some 1) (flat_calls cs)
      \<lparr>st_done = fin, st_open = [], st_logs = \<lparr>ls_stack = [], ls_truncated = False\<rparr>, st_rest = print_calls silent cs @ ls\<rparr> =
    Inr \<lparr>st_done = fin @ map (structured_call silent) cs, st_open = [],
      st_logs = \<lparr>ls_stack = [], ls_truncated = False\<rparr>, st_rest = ls\<rparr>"
  using assms
proof (induction cs arbitrary: fin)
  case Nil
  show ?case by (simp add: run_settled_def flat_calls_def print_calls_def settle_below below_def)
next
  case (Cons c cs)
  let ?s = "\<lparr>st_done = fin, st_open = [], st_logs = \<lparr>ls_stack = [], ls_truncated = False\<rparr>, st_rest = print_calls silent (c # cs) @ ls\<rparr>"
  have b: "below (Some 1) ?s" by (simp add: below_def)
  have w: "wf_call silent accounts 1 c" using Cons.prems by simp
  have "run_settled silent accounts (Some 1) (flat_call c) ?s =
      Inr (after_call silent c [] (print_calls silent cs @ ls) ?s)"
  proof (cases "program_of c \<in> set silent")
    case True
    then have "print_calls silent (c # cs) = print_calls silent cs" by (cases c) (simp add: print_calls_def)
    then show ?thesis using run_silent [OF w True b] by simp
  next
    case False
    then show ?thesis
      using calls_ok(1) [of silent accounts c, unfolded call_ok_def, rule_format, OF _ w False b, of "[]"]
      by (simp add: print_calls_def)
  qed
  also have "after_call silent c [] (print_calls silent cs @ ls) ?s =
      ?s\<lparr>st_done := fin @ [structured_call silent c], st_rest := print_calls silent cs @ ls\<rparr>"
    by (simp add: after_call_def)
  finally have "run_settled silent accounts (Some 1) (flat_calls (c # cs)) ?s =
      run_settled silent accounts (Some 1) (flat_calls cs)
        (?s\<lparr>st_done := fin @ [structured_call silent c], st_rest := print_calls silent cs @ ls\<rparr>)"
    using run_settled_append hd_flat_calls [of silent accounts cs] Cons.prems by (simp add: flat_calls_def)
  then show ?case using Cons.IH [of "fin @ [structured_call silent c]"] Cons.prems by simp
qed

theorem structured_calls:
  assumes "list_all (wf_call silent accounts 1) cs"
  shows "structure_flattened_instructions_with_logs silent (flat_calls cs) (print_calls silent cs @ ls) accounts =
    Inr (map (structured_call silent) cs)"
proof -
  let ?s = "\<lparr>st_done = [], st_open = [], st_logs = \<lparr>ls_stack = [], ls_truncated = False\<rparr>, st_rest = print_calls silent cs @ ls\<rparr>"
  have "run_settled silent accounts None (flat_calls cs) ?s =
      Inr (?s\<lparr>st_done := map (structured_call silent) cs, st_rest := ls\<rparr>)"
    using run_settled_lower [OF _ run_calls [OF assms, of "[]" ls], of None]
    by (simp add: settle_below below_def)
  then show ?thesis
    by (auto simp: structure_flattened_instructions_with_logs_def run_settled_def bindE_eq_Inr_iff)
qed

text \<open>How the block stream lists them: the top instructions, and a group for each that called something.\<close>

definition top_of :: "call \<Rightarrow> wrapped_instruction" where
  "top_of c = hd (flat_call c)"

fun inner_groups :: "nat \<Rightarrow> call list \<Rightarrow> inner_instructions list" where
  "inner_groups i [] = []"
| "inner_groups i (c # cs) =
     (if tl (flat_call c) = [] then [] else [\<lparr>in_index = i, in_instructions = tl (flat_call c)\<rparr>]) @ inner_groups (Suc i) cs"

lemma inner_groups_index: "x \<in> set (inner_groups i cs) \<Longrightarrow> i \<le> in_index x"
  by (induction cs arbitrary: i) (force split: if_splits)+

lemma flatten_calls:
  assumes "list_all (wf_call silent accounts 1) cs"
  shows "flatten_from i (map top_of cs) (inner_groups i cs) = flat_calls cs"
  using assms
proof (induction cs arbitrary: i)
  case Nil
  show ?case by (simp add: flat_calls_def)
next
  case (Cons c cs)
  have h: "(top_of c)\<lparr>wi_height := Some 1\<rparr> = top_of c"
    using hd_flat_call [of silent accounts 1 c] Cons.prems by (simp add: top_of_def)
  have f: "flat_call c = top_of c # tl (flat_call c)" by (simp add: top_of_def)
  have later: "x \<in> set (inner_groups (Suc i) cs) \<Longrightarrow> in_index x \<noteq> i" for x
    using inner_groups_index [of x "Suc i" cs] by auto
  have ih: "flatten_from (Suc i) (map top_of cs) (inner_groups (Suc i) cs) = flat_calls cs"
    using Cons by simp
  show ?case
  proof (cases "tl (flat_call c) = []")
    case True
    then show ?thesis using h ih later f
      by (cases "inner_groups (Suc i) cs") (simp_all add: flat_calls_def)
  next
    case False
    then show ?thesis using h ih f by (simp add: flat_calls_def)
  qed
qed

end
