(* ===== verification/IndexerFacts.thy ===== *)
theory IndexerFacts
  imports IndexerRows SubstreamTrees
begin

text \<open>
  Facts about the indexer: which instruction an event is attributed to, the keys of the rows, and
  the token accounts of a transaction.
\<close>

section \<open>Calls in the order of the instructions\<close>

fun calls_of :: "call \<Rightarrow> call list" and calls_in :: "item list \<Rightarrow> call list" where
  "calls_of (Call ri opn items suc) = Call ri opn items suc # calls_in items"
| "calls_in [] = []"
| "calls_in (Message l # items) = calls_in items"
| "calls_in (Inner c # items) = calls_of c @ calls_in items"

definition all_calls :: "call list \<Rightarrow> call list" where
  "all_calls cs = concat (map calls_of cs)"

lemma flattened_append: "flattened (xs @ ys) = flattened xs @ flattened ys"
  by (induction xs rule: flattened.induct) auto

lemma flattened_calls:
  "flattened [structured_call silent c] = map (structured_call silent) (calls_of c)"
  "flattened (structured_items silent items) = map (structured_call silent) (calls_in items)"
proof (induction c and items rule: calls_of_calls_in.induct)
  case (4 c items)
  then show ?case using flattened_append [of "[structured_call silent c]" "structured_items silent items"] by simp
qed simp_all

lemma flattened_all: "flattened (map (structured_call silent) cs) = map (structured_call silent) (all_calls cs)"
proof (induction cs)
  case (Cons c cs)
  then show ?case
    using flattened_append [of "[structured_call silent c]" "map (structured_call silent) cs"]
      flattened_calls(1) [of silent c] by (simp add: all_calls_def)
qed (simp add: all_calls_def)

text \<open>The transaction runs these calls: its instructions and its lines are theirs.\<close>

definition runs :: "buffer list \<Rightarrow> confirmed_transaction \<Rightarrow> call list \<Rightarrow> bool" where
  "runs silent t cs \<longleftrightarrow> \<not> ct_failed t \<and> list_all (wf_call silent (ct_accounts t) 1) cs \<and>
     ct_instructions t = map top_of cs \<and> ct_inner t = inner_groups 0 cs \<and>
     take (length (print_calls silent cs)) (map new_log (ct_logs t)) = print_calls silent cs"

lemma structured_run:
  assumes "runs silent t cs"
  shows "get_structured_instructions silent t = Inr (map (structured_call silent) cs)"
proof -
  have w: "list_all (wf_call silent (ct_accounts t) 1) cs" using assms by (simp add: runs_def)
  have l: "map new_log (ct_logs t) =
      print_calls silent cs @ drop (length (print_calls silent cs)) (map new_log (ct_logs t))"
    using assms append_take_drop_id [of "length (print_calls silent cs)" "map new_log (ct_logs t)"]
    by (simp add: runs_def)
  have "get_flattened_instructions t = flat_calls cs"
    using assms flatten_calls [OF w] by (simp add: runs_def get_flattened_instructions_def)
  then show ?thesis
    using assms structured_calls [OF w] by (subst get_structured_instructions_def, subst l) (simp add: runs_def)
qed

section \<open>Rows\<close>

definition call_row :: "indexer_lib \<Rightarrow> block \<Rightarrow> string \<Rightarrow> nat \<Rightarrow> call \<Rightarrow> table_change option" where
  "call_row L B sig j c = (case c of Call ri opn items suc \<Rightarrow>
     event_row L B sig j (program_key ri) (Some (own_lines (PROGRAMS_WITHOUT_LOGGING L) c)))"

lemma si_structured:
  "si_instruction (structured_call silent (Call ri opn items suc)) = ri"
  "si_logs (structured_call silent (Call ri opn items suc)) = Some (own_lines silent (Call ri opn items suc))"
  by simp_all

lemma event_rows_nth:
  "k < length xs \<Longrightarrow>
    event_row L B sig (j + k) (program_key (si_instruction (xs ! k))) (si_logs (xs ! k)) = Some r \<Longrightarrow>
    r \<in> set (event_rows L B sig j xs)"
proof (induction xs arbitrary: j k)
  case (Cons x xs)
  show ?case
  proof (cases k)
    case 0
    then show ?thesis using Cons.prems by simp
  next
    case (Suc k')
    then show ?thesis using Cons.prems Cons.IH [of k' "Suc j"] by simp
  qed
qed simp

lemma transaction_changes_run:
  assumes "runs (PROGRAMS_WITHOUT_LOGGING L) t cs" "get_context L t = Inr c" "token_accounts L t = Inr accounts"
  shows "transaction_changes L B i t = Inr
    (map (balance_row L B i (tx_signature c)) (filter (\<lambda>a. ta_pre a \<noteq> ta_post a) accounts) @
     event_rows L B (tx_signature c) 0 (map (structured_call (PROGRAMS_WITHOUT_LOGGING L)) (all_calls cs)) @
     [transaction_row B i (tx_signature c)])"
  using assms(2,3) structured_run [OF assms(1)]
  by (simp add: transaction_changes_def flattened_all)

section \<open>Events\<close>

lemma first_some_append:
  "\<forall>x \<in> set xs. f x = None \<Longrightarrow> first_some f (xs @ ys) = first_some f ys"
  by (induction xs) auto

definition index_update_v2_bytes ::
  "64 word \<Rightarrow> 64 word \<Rightarrow> 64 word \<Rightarrow> 64 word \<Rightarrow> 64 word \<Rightarrow> buffer" where
  "index_update_v2_bytes idx time supply current new =
     u64_le idx @ u64_le time @ u64_le supply @ u64_le current @ u64_le new"

lemma index_update_v2_read:
  "\<not> is_nan current \<Longrightarrow> \<not> is_nan new \<Longrightarrow>
    index_update_v2_from_slice (index_update_v2_bytes idx time supply current new) =
      Some (IndexUpdateV2U idx time supply current new)"
  by (simp add: index_update_v2_from_slice_def index_update_v2_bytes_def u64_at_def)

lemma b64_char_line: "n < 64 \<Longrightarrow> b64_char n \<noteq> CHR 0x0A"
proof
  assume n: "n < 64" and "b64_char n = CHR 0x0A"
  then have "b64_value (CHR 0x0A) = Some n" using b64_value_char [OF n] by simp
  then show False by (simp add: b64_value_def)
qed

lemma b64_encode_line: "CHR 0x0A \<notin> set (b64_encode bs)"
proof -
  have "unat w < 256" for w :: byte using unsigned_less [of w] by simp
  then have "\<forall>n \<in> set (map unat bs). n < 256" by simp
  then have "\<forall>m \<in> set (b64_split (map unat bs)). m < 64" by (rule b64_split_bound)
  then show ?thesis by (auto simp: b64_encode_def dest: b64_char_line [THEN not_sym])
qed

lemma log_update_v2:
  assumes "length (il_disc L ''IndexUpdateV2'') = 8" "il_disc L ''IndexUpdate'' \<noteq> il_disc L ''IndexUpdateV2''"
    "\<not> is_nan current" "\<not> is_nan new"
  shows "log_update L (DataLog (''Program data: '' @
      b64_encode (il_disc L ''IndexUpdateV2'' @ index_update_v2_bytes idx time supply current new))) =
    Some (IndexUpdateV2U idx time supply current new)"
proof -
  have "data_of_log (''Program data: '' @
      b64_encode (il_disc L ''IndexUpdateV2'' @ index_update_v2_bytes idx time supply current new)) =
    Some (il_disc L ''IndexUpdateV2'' @ index_update_v2_bytes idx time supply current new)"
    by (rule data_of_log_encode [OF _ b64_encode_line]) (use assms(1) in auto)
  then show ?thesis
    using assms index_update_v2_read [OF assms(3,4)] by (simp add: parse_log_for_events_def DISCRIMINATOR_SIZE_def Let_def)
qed

lemma no_update: "is_invoke l \<Longrightarrow> log_update L l = None" "is_success l \<Longrightarrow> log_update L l = None"
  by (cases l; simp)+

section \<open>Token accounts\<close>

definition addresses :: "buffer list \<Rightarrow> token_balance list \<Rightarrow> buffer set" where
  "addresses accounts bs = (\<lambda>b. accounts ! tb_account_index b) ` set bs"

definition keyed :: "(buffer \<times> TokenAccount) list \<Rightarrow> bool" where
  "keyed m \<longleftrightarrow> distinct (map fst m) \<and> (\<forall>k a. map_of m k = Some a \<longrightarrow> ta_address a = k)"

lemma keyed_update: "keyed m \<Longrightarrow> ta_address a = k \<Longrightarrow> keyed (AList.update k a m)"
  by (auto simp: keyed_def distinct_update update_conv')

lemma keyed_entry: "keyed m \<Longrightarrow> (\<And>a. ta_address (f a) = ta_address a) \<Longrightarrow> keyed (AList.map_entry k f m)"
  by (auto simp: keyed_def distinct_map_entry map_of_map_entry split: option.splits if_splits)

lemma post_accounts_keyed:
  "post_accounts L accounts bs m = Inr m' \<Longrightarrow> keyed m \<Longrightarrow>
    keyed m' \<and> fst ` set m' = fst ` set m \<union> addresses accounts bs"
proof (induction bs arbitrary: m)
  case Nil
  then show ?case by (simp add: addresses_def)
next
  case (Cons b bs)
  let ?k = "accounts ! tb_account_index b"
  let ?a = "\<lambda>mint owner. \<lparr>ta_address = ?k, ta_mint = mint, ta_owner = owner, ta_pre = Some 0, ta_post = Some (balance_of b)\<rparr>"
  obtain mint owner where "post_accounts L accounts bs (AList.update ?k (?a mint owner) m) = Inr m'"
    using Cons.prems(1) by (auto simp: bindE_eq_Inr_iff index_checked_def split: if_splits)
  then obtain a where a: "ta_address a = ?k" "post_accounts L accounts bs (AList.update ?k a m) = Inr m'"
    using that [of "?a mint owner"] by simp
  have "keyed m' \<and> fst ` set m' = fst ` set (AList.update ?k a m) \<union> addresses accounts bs"
    using Cons.IH [OF a(2)] keyed_update [OF Cons.prems(2) a(1)] by simp
  then show ?case by (simp add: dom_update addresses_def)
qed

lemma pre_accounts_keyed:
  "pre_accounts accounts bs m = Inr m' \<Longrightarrow> keyed m \<Longrightarrow> keyed m' \<and> fst ` set m' = fst ` set m"
proof (induction bs arbitrary: m)
  case (Cons b bs)
  obtain k where "pre_accounts accounts bs (AList.map_entry k (\<lambda>a. a\<lparr>ta_pre := Some (balance_of b)\<rparr>) m) = Inr m'"
    using Cons.prems(1) by (auto simp: bindE_eq_Inr_iff)
  from Cons.IH [OF this] show ?case using Cons.prems(2) by (simp add: keyed_entry dom_map_entry)
qed simp

lemma keyed_addresses: "keyed m \<Longrightarrow> map ta_address (map snd m) = map fst m"
  by (auto simp: keyed_def map_of_eq_Some_iff)

lemma token_accounts_addresses:
  assumes "token_accounts L t = Inr accounts"
  shows "distinct (map ta_address accounts)" "set (map ta_address accounts) = addresses (ct_accounts t) (ct_post t)"
proof -
  obtain m m' where m: "post_accounts L (ct_accounts t) (ct_post t) [] = Inr m"
    "pre_accounts (ct_accounts t) (ct_pre t) m = Inr m'" "accounts = map snd m'"
    using assms by (auto simp: token_accounts_def bindE_eq_Inr_iff)
  have k: "keyed m" "fst ` set m = addresses (ct_accounts t) (ct_post t)"
    using post_accounts_keyed [OF m(1)] by (simp_all add: keyed_def)
  have k': "keyed m'" "fst ` set m' = fst ` set m" using pre_accounts_keyed [OF m(2) k(1)] by simp_all
  have a: "map ta_address accounts = map fst m'" using keyed_addresses [OF k'(1)] m(3) by simp
  show "distinct (map ta_address accounts)" unfolding a using k'(1) by (simp add: keyed_def)
  show "set (map ta_address accounts) = addresses (ct_accounts t) (ct_post t)"
    unfolding a using k' k(2) by simp
qed

section \<open>Balances of a context\<close>

text \<open>A transfer between accounts whose balances are known keeps the sum of the balances.\<close>

definition total_post :: "(buffer \<times> TokenAccount) list \<Rightarrow> nat" where
  "total_post m = sum_list (map (\<lambda>(k, a). case ta_post a of Some n \<Rightarrow> unat n | None \<Rightarrow> 0) m)"

lemma total_post_entry:
  "map_of m k = Some a \<Longrightarrow> ta_post a = Some n \<Longrightarrow>
    total_post (AList.map_entry k (\<lambda>a. a\<lparr>ta_post := Some n'\<rparr>) m) + unat n = total_post m + unat n'"
  by (induction m) (auto simp: total_post_def)

lemma change_post_total:
  assumes "change_post f k c = Inr c'" "\<forall>(k, a) \<in> set (tx_token_accounts c). ta_post a \<noteq> None"
  obtains n n' where "f n = Inr n'"
    "total_post (tx_token_accounts c') + unat n = total_post (tx_token_accounts c) + unat n'"
    "\<forall>(k, a) \<in> set (tx_token_accounts c'). ta_post a \<noteq> None"
proof -
  obtain a where a: "map_of (tx_token_accounts c) k = Some a" using assms(1) by (auto simp: change_post_def split: option.splits)
  then obtain n where n: "ta_post a = Some n" using assms(2) by (fastforce dest: map_of_SomeD)
  obtain n' where n': "f n = Inr n'"
    "tx_token_accounts c' = AList.map_entry k (\<lambda>a. a\<lparr>ta_post := Some n'\<rparr>) (tx_token_accounts c)"
    using assms(1) a n by (auto simp: change_post_def bindE_eq_Inr_iff)
  have "\<forall>(k, a) \<in> set m. ta_post a \<noteq> None \<Longrightarrow>
      \<forall>(k, a) \<in> set (AList.map_entry k (\<lambda>a. a\<lparr>ta_post := Some n'\<rparr>) m). ta_post a \<noteq> None" for m
    by (induction m) auto
  from this [OF assms(2)] have "\<forall>(k, a) \<in> set (tx_token_accounts c'). ta_post a \<noteq> None" by (simp only: n'(2))
  then show thesis using that [OF n'(1)] total_post_entry [OF a n] n'(2) by simp
qed

lemma move_tokens_total:
  assumes "move_tokens w d amount c = Inr c'" "\<forall>(k, a) \<in> set (tx_token_accounts c). ta_post a \<noteq> None"
  shows "total_post (tx_token_accounts c') = total_post (tx_token_accounts c)"
proof -
  obtain src dst c1 where c1: "change_post (sub_checked amount) src c = Inr c1" "change_post (add_checked amount) dst c1 = Inr c'"
    using assms(1) by (auto simp: move_tokens_def bindE_eq_Inr_iff)
  obtain n n' where n: "sub_checked amount n = Inr n'"
    "total_post (tx_token_accounts c1) + unat n = total_post (tx_token_accounts c) + unat n'"
    "\<forall>(k, a) \<in> set (tx_token_accounts c1). ta_post a \<noteq> None"
    by (rule change_post_total [OF c1(1) assms(2)])
  obtain m m' where m: "add_checked amount m = Inr m'"
    "total_post (tx_token_accounts c') + unat m = total_post (tx_token_accounts c1) + unat m'"
    by (rule change_post_total [OF c1(2) n(3)])
  have "unat n = unat n' + unat amount"
    using n(1) unat_sub [of amount n] by (auto simp: sub_checked_def word_le_nat_alt split: if_splits)
  moreover have "unat m' = unat m + unat amount"
    using m(1) by (auto simp: add_checked_def unat_word_ariths split: if_splits)
  ultimately show ?thesis using n(2) m(2) by simp
qed

section \<open>Which rows\<close>

lemma event_rows_key:
  "r \<in> set (event_rows L B sig j xs) \<Longrightarrow>
    tc_table r = ''events'' \<and> (\<exists>k u. j \<le> k \<and> tc_pk r = ''instruction::'' @ decimal k @ ''-signature::'' @ sig @ event_suffix u)"
proof (induction xs arbitrary: j)
  case (Cons x xs)
  show ?case
  proof (cases "r \<in> set (event_rows L B sig (Suc j) xs)")
    case True
    then show ?thesis using Cons.IH [of "Suc j"] by (meson Suc_leD)
  next
    case False
    then show ?thesis using Cons.prems by (auto simp: event_row_def split: option.splits if_splits)
  qed
qed simp

text \<open>Every row of a transaction: a changed balance, an event, or the transaction itself.\<close>

lemma transaction_changes_cases:
  assumes "transaction_changes L B i t = Inr rows"
  shows "rows = [] \<or> (\<exists>c accounts ixs last. get_context L t = Inr c \<and> token_accounts L t = Inr accounts \<and>
    (last = [] \<or> last = event_rows L B (tx_signature c) 0 ixs @ [transaction_row B i (tx_signature c)]) \<and>
    rows = map (balance_row L B i (tx_signature c)) (filter (\<lambda>a. ta_pre a \<noteq> ta_post a) accounts) @ last)"
proof (cases "get_context L t")
  case (Inl e)
  then show ?thesis using assms by (cases e) (simp_all add: transaction_changes_def)
next
  case (Inr c)
  then obtain accounts where a: "token_accounts L t = Inr accounts"
    using assms by (auto simp: transaction_changes_def bindE_eq_Inr_iff)
  show ?thesis
  proof (cases "get_structured_instructions (PROGRAMS_WITHOUT_LOGGING L) t")
    case (Inl e)
    then show ?thesis using assms Inr a by (cases e) (auto simp: transaction_changes_def)
  next
    case (Inr ixs)
    then show ?thesis using assms \<open>get_context L t = Inr c\<close> a by (auto simp: transaction_changes_def)
  qed
qed

section \<open>The keys of the rows\<close>

lemma hex_digit_dash: "n < 10 \<Longrightarrow> hex_digit n \<noteq> CHR ''-''"
proof
  assume n: "n < 10" and "hex_digit n = CHR ''-''"
  then have "hex_value (CHR ''-'') = Some n" using hex_value_digit [of n] by simp
  then show False by (simp add: hex_value_def)
qed

lemma decimal_dash: "CHR ''-'' \<notin> set (decimal n)"
proof (induction n rule: decimal.induct)
  case (1 n)
  show ?case
  proof (cases "n < 10")
    case True
    then show ?thesis using hex_digit_dash [OF True] by (simp add: decimal.simps [of n])
  next
    case False
    then show ?thesis using 1 [OF False] hex_digit_dash [of "n mod 10"] by (simp add: decimal.simps [of n])
  qed
qed

lemma decimal_digits: "digits_value 10 acc (decimal n @ cs) = digits_value 10 (acc * 10 ^ length (decimal n) + n) cs"
proof (induction n arbitrary: acc cs rule: decimal.induct)
  case (1 n)
  show ?case
  proof (cases "n < 10")
    case True
    then show ?thesis by (simp add: decimal.simps [of n] hex_value_digit mult.commute)
  next
    case False
    have "n = 10 * (n div 10) + n mod 10" by simp
    then show ?thesis using False 1 [OF False, of acc "[hex_digit (n mod 10)] @ cs"]
      by (simp add: decimal.simps [of n] hex_value_digit algebra_simps)
  qed
qed

lemma decimal_inject: "decimal m = decimal n \<longleftrightarrow> m = n"
proof
  assume "decimal m = decimal n"
  then have "digits_value 10 0 (decimal m @ []) = digits_value 10 0 (decimal n @ [])" by simp
  then show "m = n" unfolding decimal_digits by simp
qed simp

lemma split_dash:
  "CHR ''-'' \<notin> set a \<Longrightarrow> CHR ''-'' \<notin> set b \<Longrightarrow>
    a @ CHR ''-'' # x = b @ CHR ''-'' # y \<longleftrightarrow> a = b \<and> x = y"
proof (induction a arbitrary: b)
  case Nil
  then show ?case by (cases b) auto
next
  case (Cons c a)
  then show ?case by (cases b) auto
qed

text \<open>What follows a signature in the key of an event begins with a dash, so it ends the signature.\<close>

lemma suffix_dash: "\<exists>s. event_suffix u = CHR ''-'' # s"
  by (cases u) simp_all

lemma split_suffix:
  assumes "CHR ''-'' \<notin> set a" "CHR ''-'' \<notin> set b" "a @ event_suffix u = b @ event_suffix v"
  shows "a = b"
proof -
  obtain s s' where "event_suffix u = CHR ''-'' # s" "event_suffix v = CHR ''-'' # s'"
    using suffix_dash by metis
  then show ?thesis using assms split_dash by simp
qed

definition row_key :: "table_change \<Rightarrow> string \<times> string" where
  "row_key r = (tc_table r, tc_pk r)"

definition keys_of :: "indexer_lib \<Rightarrow> string \<Rightarrow> (string \<times> string) set" where
  "keys_of L sig =
     {(''transactions'', sig)} \<union>
     range (\<lambda>a. (''balance_updates'', ''pubkey::'' @ il_b58 L a @ ''-signature::'' @ sig)) \<union>
     (\<Union>k. range (\<lambda>u. (''events'', ''instruction::'' @ decimal k @ ''-signature::'' @ sig @ event_suffix u)))"

lemma keys_of_disjoint:
  assumes b58: "\<And>a. CHR ''-'' \<notin> set (il_b58 L a)"
    and sigs: "CHR ''-'' \<notin> set sig" "CHR ''-'' \<notin> set sig'"
    and k: "k \<in> keys_of L sig" "k \<in> keys_of L sig'"
  shows "sig = sig'"
proof -
  have addr: "il_b58 L a @ CHR ''-'' # x = il_b58 L b @ CHR ''-'' # y \<Longrightarrow> x = y" for a b x y
    using split_dash [OF b58 b58] by simp
  have num: "decimal m @ CHR ''-'' # x = decimal n @ CHR ''-'' # y \<Longrightarrow> x = y" for m n x y
    using split_dash [OF decimal_dash decimal_dash] by simp
  show ?thesis
    using k unfolding keys_of_def
    by (auto dest!: addr num intro: split_suffix [OF sigs])
qed

lemma keys_of_changes:
  assumes "transaction_changes L B i t = Inr rows" "r \<in> set rows"
  obtains c where "get_context L t = Inr c" "row_key r \<in> keys_of L (tx_signature c)"
proof -
  obtain c accounts ixs last where c: "get_context L t = Inr c"
    and last: "last = [] \<or> last = event_rows L B (tx_signature c) 0 ixs @ [transaction_row B i (tx_signature c)]"
    and rows: "rows = map (balance_row L B i (tx_signature c)) (filter (\<lambda>a. ta_pre a \<noteq> ta_post a) accounts) @ last"
    using transaction_changes_cases [OF assms(1)] assms(2) by auto
  consider "r \<in> range (balance_row L B i (tx_signature c))" | "r \<in> set (event_rows L B (tx_signature c) 0 ixs)"
    | "r = transaction_row B i (tx_signature c)"
    using assms(2) last rows by auto
  then have "row_key r \<in> keys_of L (tx_signature c)"
  proof cases
    case 1
    then show ?thesis by (auto simp: row_key_def keys_of_def balance_row_def)
  next
    case 2
    then show ?thesis using event_rows_key [OF 2] by (auto simp: row_key_def keys_of_def)
  next
    case 3
    then show ?thesis by (simp add: row_key_def keys_of_def transaction_row_def)
  qed
  then show thesis using c that by blast
qed

lemma event_rows_distinct:
  assumes "CHR ''-'' \<notin> set sig"
  shows "distinct (map row_key (event_rows L B sig j xs))"
proof (induction xs arbitrary: j)
  case (Cons x xs)
  have "row_key r \<notin> row_key ` set (event_rows L B sig (Suc j) xs)"
    if r: "event_row L B sig j (program_key (si_instruction x)) (si_logs x) = Some r" for r
  proof
    assume "row_key r \<in> row_key ` set (event_rows L B sig (Suc j) xs)"
    then obtain r' where r': "r' \<in> set (event_rows L B sig (Suc j) xs)" "row_key r = row_key r'" by auto
    obtain u where u: "tc_pk r = ''instruction::'' @ decimal j @ ''-signature::'' @ sig @ event_suffix u"
      using r by (auto simp: event_row_def split: option.splits if_splits)
    obtain k v where v: "Suc j \<le> k" "tc_pk r' = ''instruction::'' @ decimal k @ ''-signature::'' @ sig @ event_suffix v"
      using event_rows_key [OF r'(1)] by auto
    have "decimal j = decimal k"
      using r'(2) u v(2) split_dash [OF decimal_dash decimal_dash] by (simp add: row_key_def)
    then show False using v(1) by (simp add: decimal_inject)
  qed
  then show ?case using Cons.IH [of "Suc j"] by (auto split: option.splits)
qed simp

lemma balance_rows_distinct:
  assumes "inj (il_b58 L)" "\<And>a. CHR ''-'' \<notin> set (il_b58 L a)" "distinct (map ta_address accounts)"
  shows "distinct (map row_key (map (balance_row L B i sig) accounts))"
proof -
  have "ta_address a = ta_address b" if "row_key (balance_row L B i sig a) = row_key (balance_row L B i sig b)" for a b
  proof -
    have "il_b58 L (ta_address a) = il_b58 L (ta_address b)"
      using that split_dash [OF assms(2) assms(2)] by (simp add: row_key_def balance_row_def)
    then show ?thesis by (rule injD [OF assms(1)])
  qed
  then show ?thesis using assms(3) unfolding map_map distinct_map inj_on_def comp_apply by blast
qed

lemma transaction_changes_distinct:
  assumes "inj (il_b58 L)" "\<And>a. CHR ''-'' \<notin> set (il_b58 L a)" "transaction_changes L B i t = Inr rows"
    and sig: "\<And>c. get_context L t = Inr c \<Longrightarrow> CHR ''-'' \<notin> set (tx_signature c)"
  shows "distinct (map row_key rows)"
proof (cases "rows = []")
  case False
  obtain c accounts ixs last where c: "get_context L t = Inr c" and a: "token_accounts L t = Inr accounts"
    and last: "last = [] \<or> last = event_rows L B (tx_signature c) 0 ixs @ [transaction_row B i (tx_signature c)]"
    and rows: "rows = map (balance_row L B i (tx_signature c)) (filter (\<lambda>a. ta_pre a \<noteq> ta_post a) accounts) @ last"
    using transaction_changes_cases [OF assms(3)] False by blast
  have b: "distinct (map row_key (map (balance_row L B i (tx_signature c)) (filter (\<lambda>a. ta_pre a \<noteq> ta_post a) accounts)))"
    using token_accounts_addresses(1) [OF a] by (intro balance_rows_distinct assms(1,2)) (rule distinct_map_filter)
  have e: "distinct (map row_key last)"
  proof -
    have "row_key (transaction_row B i (tx_signature c)) \<notin> row_key ` set (event_rows L B (tx_signature c) 0 ixs)"
    proof
      assume "row_key (transaction_row B i (tx_signature c)) \<in> row_key ` set (event_rows L B (tx_signature c) 0 ixs)"
      then obtain r where r: "r \<in> set (event_rows L B (tx_signature c) 0 ixs)"
        "row_key (transaction_row B i (tx_signature c)) = row_key r" by auto
      then show False using event_rows_key [OF r(1)] by (simp add: row_key_def transaction_row_def)
    qed
    then show ?thesis using last event_rows_distinct [OF sig [OF c], of L B 0 ixs] by auto
  qed
  have o: "fst (row_key r) \<noteq> ''balance_updates''" if "r \<in> set last" for r
  proof -
    have "r \<in> set (event_rows L B (tx_signature c) 0 ixs) \<or> r = transaction_row B i (tx_signature c)"
      using that last by auto
    then show ?thesis
      using event_rows_key [of r L B "tx_signature c" 0 ixs] by (auto simp: row_key_def transaction_row_def)
  qed
  have "fst (row_key (balance_row L B i (tx_signature c) a)) = ''balance_updates''" for a
    by (simp add: row_key_def balance_row_def)
  then have "row_key r \<noteq> row_key (balance_row L B i (tx_signature c) a)" if "r \<in> set last" for r a
    using o [OF that] by metis
  then show ?thesis using b e unfolding rows map_append distinct_append
    by (auto simp del: map_map)
qed simp

text \<open>A whole block: the keys of different transactions differ in the signature.\<close>

lemma record_pre_balances_signature:
  "record_pre_balances L bs x = Inr y \<Longrightarrow> tx_signature y = tx_signature x"
proof (induction bs arbitrary: x)
  case (Cons b bs)
  then obtain accounts where "record_pre_balances L bs (x\<lparr>tx_token_accounts := accounts\<rparr>) = Inr y"
    by (auto simp: bindE_eq_Inr_iff split: option.splits)
  from Cons.IH [OF this] show ?case by simp
qed simp

lemma update_accounts_signature: "update_accounts L w x = Inr y \<Longrightarrow> tx_signature y = tx_signature x"
  by (auto simp: update_accounts_def insert_account_def bindE_eq_Inr_iff split: if_splits token_instruction.splits)

lemma update_all_signature: "update_all L ws x = Inr y \<Longrightarrow> tx_signature y = tx_signature x"
proof (induction ws arbitrary: x)
  case (Cons w ws)
  then obtain z where z: "update_accounts L w x = Inr z" "update_all L ws z = Inr y"
    by (auto simp: bindE_eq_Inr_iff)
  show ?case using Cons.IH [OF z(2)] update_accounts_signature [OF z(1)] by simp
qed simp

lemma context_signature:
  assumes "get_context L t = Inr c"
  shows "tx_signature c = il_b58 L (hd (ct_signatures t))"
proof -
  obtain c0 c1 where n: "new_context L t = Inr c0" and p: "record_pre_balances L (ct_pre t) c0 = Inr c1"
    and u: "update_all L (get_flattened_instructions t)
      (c1\<lparr>tx_lamports := zip (ct_pre_lamports t) (ct_post_lamports t)\<rparr>) = Inr c"
    using assms by (auto simp: get_context_def build_context_def bindE_eq_Inr_iff split: if_splits)
  have "tx_signature c0 = il_b58 L (hd (ct_signatures t))"
    using n by (auto simp: new_context_def bindE_eq_Inr_iff index_checked_def hd_conv_nth split: if_splits)
  then show ?thesis
    using update_all_signature [OF u] record_pre_balances_signature [OF p] by simp
qed

text \<open>Only a failed transaction fails; everything else that goes wrong is a panic.\<close>

definition no_failure :: "rust_error + 'a \<Rightarrow> bool" where
  "no_failure r \<longleftrightarrow> (\<forall>e. r \<noteq> Inl (Failed e))"

lemma no_failure_basic [simp]: "no_failure (Inr x)" "no_failure (Inl Panicked)"
  by (simp_all add: no_failure_def)

lemma no_failure_bindE: "no_failure m \<Longrightarrow> (\<And>x. no_failure (f x)) \<Longrightarrow> no_failure (bindE m f)"
  by (auto simp: no_failure_def bindE_def split: sum.splits)

lemma no_failure_reads [simp]:
  "no_failure (index_checked xs i)" "no_failure (pubkey_of_text L s)" "no_failure (unwrap_pubkey b)"
  by (simp_all add: index_checked_def pubkey_of_text_def unwrap_pubkey_def split: option.split)

lemma no_failure_index_account [simp]: "no_failure (index_account c w i)"
  by (simp add: index_account_def no_failure_bindE)

lemma no_failure_insert [simp]: "no_failure (insert_account L w given c)"
  by (auto simp: insert_account_def parse_token_account_from_initialize_account_instruction_def Let_def
    intro!: no_failure_bindE split: option.split)

lemma no_failure_record: "no_failure (record_pre_balances L bs c)"
  by (induction bs arbitrary: c) (auto intro!: no_failure_bindE split: option.split)

lemma no_failure_update: "no_failure (update_accounts L w c)"
  by (auto simp: update_accounts_def intro!: no_failure_bindE split: token_instruction.split)

lemma no_failure_update_all: "no_failure (update_all L ws c)"
  by (induction ws arbitrary: c) (auto intro!: no_failure_bindE no_failure_update)

lemma no_failure_build: "no_failure (build_context L t)"
  by (auto simp: build_context_def new_context_def intro!: no_failure_bindE no_failure_record no_failure_update_all)

lemma indexed_transaction:
  assumes "transaction_changes L B i t = Inr rows" "\<not> ct_failed t"
  obtains c accounts where "get_context L t = Inr c" "token_accounts L t = Inr accounts"
proof -
  have "get_context L t \<noteq> Inl (Failed e)" for e
    using no_failure_build [of L t] assms(2) by (simp add: get_context_def no_failure_def)
  then obtain c where c: "get_context L t = Inr c"
    using assms(1) by (auto simp: transaction_changes_def split: sum.splits rust_error.splits)
  then show thesis using assms(1) that by (auto simp: transaction_changes_def bindE_eq_Inr_iff)
qed

lemma changes_from_row:
  "changes_from L B i txs = Inr rows \<Longrightarrow> r \<in> set rows \<Longrightarrow>
    \<exists>t j rs. t \<in> set txs \<and> transaction_changes L B j t = Inr rs \<and> r \<in> set rs"
proof (induction txs arbitrary: i rows)
  case (Cons t txs)
  obtain rs more where r: "transaction_changes L B i t = Inr rs" "changes_from L B (Suc i) txs = Inr more" "rows = rs @ more"
    using Cons.prems(1) by (auto simp: bindE_eq_Inr_iff)
  show ?case
  proof (cases "r \<in> set rs")
    case True
    then show ?thesis using r(1) by (intro exI [of _ t] exI [of _ i] exI [of _ rs]) simp
  next
    case False
    then have "r \<in> set more" using Cons.prems(2) r(3) by simp
    from Cons.IH [OF r(2) this] show ?thesis by (metis list.set_intros(2))
  qed
qed simp

lemma changes_distinct:
  assumes "inj (il_b58 L)" "\<And>a. CHR ''-'' \<notin> set (il_b58 L a)"
    "changes_from L B i txs = Inr rows" "distinct (map (hd \<circ> ct_signatures) txs)"
  shows "distinct (map row_key rows)"
  using assms(3,4)
proof (induction txs arbitrary: i rows)
  case (Cons t txs)
  obtain rs more where r: "transaction_changes L B i t = Inr rs" "changes_from L B (Suc i) txs = Inr more" "rows = rs @ more"
    using Cons.prems(1) by (auto simp: bindE_eq_Inr_iff)
  have sig: "CHR ''-'' \<notin> set (tx_signature c)" if "get_context L u = Inr c" for u c
    using context_signature [OF that] assms(2) by simp
  have False if x: "x \<in> set rs" and y: "y \<in> set more" and eq: "row_key x = row_key y" for x y
  proof -
    obtain u j us where u: "u \<in> set txs" "transaction_changes L B j u = Inr us" "y \<in> set us"
      using changes_from_row [OF r(2) y] by blast
    obtain c where c: "get_context L t = Inr c" "row_key x \<in> keys_of L (tx_signature c)"
      by (rule keys_of_changes [OF r(1) x])
    obtain d where d: "get_context L u = Inr d" "row_key y \<in> keys_of L (tx_signature d)"
      by (rule keys_of_changes [OF u(2,3)])
    have "tx_signature c = tx_signature d"
      using keys_of_disjoint [OF assms(2) sig [OF c(1)] sig [OF d(1)] c(2)] d(2) eq by simp
    then have "hd (ct_signatures t) = hd (ct_signatures u)"
      using context_signature [OF c(1)] context_signature [OF d(1)] assms(1) by (simp add: inj_eq)
    then show False using Cons.prems(2) u(1) by auto
  qed
  then have "row_key ` set rs \<inter> row_key ` set more = {}" unfolding disjoint_iff by (metis imageE)
  moreover have "distinct (map row_key rs)"
    by (rule transaction_changes_distinct [OF assms(1,2) r(1) sig])
  moreover have "distinct (map row_key more)" using Cons.IH [OF r(2)] Cons.prems(2) by simp
  ultimately show ?case by (simp add: r(3))
qed simp

section \<open>The row of an index update\<close>

lemma index_update_v2_row:
  assumes "runs (PROGRAMS_WITHOUT_LOGGING L) t cs" "get_context L t = Inr c" "token_accounts L t = Inr accounts"
    and "j < length (all_calls cs)" "all_calls cs ! j = Call ri opn items suc"
    and "program_key ri \<notin> set (SYSTEM_PROGRAMS L)" "ri_program ri \<notin> set (PROGRAMS_WITHOUT_LOGGING L)"
    and "messages_of items = earlier @ DataLog (''Program data: '' @ b64_encode (il_disc L ''IndexUpdateV2'' @
      index_update_v2_bytes idx time tokens current new)) # later"
    and "\<forall>l \<in> set (opn # earlier). log_update L l = None"
    and "length (il_disc L ''IndexUpdateV2'') = 8" "il_disc L ''IndexUpdate'' \<noteq> il_disc L ''IndexUpdateV2''"
    and "\<not> is_nan current" "\<not> is_nan new"
  shows "\<exists>rows. transaction_changes L B i t = Inr rows \<and>
    \<lparr>tc_table = ''events'',
     tc_pk = ''instruction::'' @ decimal j @ ''-signature::'' @ tx_signature c @ ''-index_update_v2'',
     tc_ordinal = j, tc_operation = OpCreate,
     tc_fields =
       [new_field ''program_id'' (il_b58 L (program_key ri)),
        new_field ''instruction'' (case parse_logs_for_instruction_name (Some (opn # messages_of items @ [suc])) of
          Some n \<Rightarrow> n | None \<Rightarrow> []),
        new_field ''signature'' (tx_signature c), new_field ''ts'' (block_time_text B),
        new_field ''event'' ''index_update_v2'', new_field ''index'' (decimal (unat idx)),
        new_field ''ts'' (decimal (unat time)), new_field ''token_supply'' (decimal (unat tokens)),
        new_field ''current_multiplier'' (il_f64 L current), new_field ''new_multiplier'' (il_f64 L new)]\<rparr> \<in> set rows"
proof -
  let ?silent = "PROGRAMS_WITHOUT_LOGGING L"
  let ?lines = "opn # messages_of items @ [suc]"
  have own: "own_lines ?silent (Call ri opn items suc) = ?lines" using assms(7) by (simp add: own_lines_def)
  have "first_some (log_update L) ?lines = Some (IndexUpdateV2U idx time tokens current new)"
    using assms(9) first_some_append [of earlier "log_update L"] log_update_v2 [OF assms(10-13)] by (simp add: assms(8))
  then have "parse_logs_for_events L (Some ?lines) = Some (IndexUpdateV2U idx time tokens current new)"
    by (simp add: parse_logs_for_events_def)
  then obtain r where r: "event_row L B (tx_signature c) j (program_key ri) (Some ?lines) = Some r"
    "r = \<lparr>tc_table = ''events'',
     tc_pk = ''instruction::'' @ decimal j @ ''-signature::'' @ tx_signature c @ ''-index_update_v2'',
     tc_ordinal = j, tc_operation = OpCreate,
     tc_fields =
       [new_field ''program_id'' (il_b58 L (program_key ri)),
        new_field ''instruction'' (case parse_logs_for_instruction_name (Some ?lines) of Some n \<Rightarrow> n | None \<Rightarrow> []),
        new_field ''signature'' (tx_signature c), new_field ''ts'' (block_time_text B),
        new_field ''event'' ''index_update_v2'', new_field ''index'' (decimal (unat idx)),
        new_field ''ts'' (decimal (unat time)), new_field ''token_supply'' (decimal (unat tokens)),
        new_field ''current_multiplier'' (il_f64 L current), new_field ''new_multiplier'' (il_f64 L new)]\<rparr>"
    using assms(6) by (simp add: event_row_def u64_text_def)
  have "r \<in> set (event_rows L B (tx_signature c) 0 (map (structured_call ?silent) (all_calls cs)))"
    using event_rows_nth [of j "map (structured_call ?silent) (all_calls cs)" L B "tx_signature c" 0 r]
      assms(4,5) r(1) by (simp add: own del: structured_call.simps add: si_structured)
  then show ?thesis using transaction_changes_run [OF assms(1-3)] r(2) by auto
qed

end
