(* ===== verification/IndexerDatabase.thy ===== *)
theory IndexerDatabase
  imports IndexerFacts DbProperties
begin

text \<open>
  From the chain to the client: the rows of the indexer, stored by the sink under the schema of
  \<open>substreams/db/schema.json\<close>, are the documents \<open>sdk/src/db.ts\<close> queries.
\<close>

section \<open>The sink\<close>

definition SCHEMA :: "(string \<times> (string \<times> string) list) list" where
  "SCHEMA =
     [(''transactions'', [(''slot'', ''double''), (''block_height'', ''double''), (''block_time'', ''timestamp'')]),
      (''events'', [(''amount'', ''double''), (''token_supply'', ''double''), (''manager_fee'', ''double''),
         (''index'', ''double''), (''ts'', ''timestamp'')]),
      (''balance_updates'', [(''pre_balance'', ''double''), (''post_balance'', ''double''), (''amount'', ''double''),
         (''ts'', ''timestamp'')])]"

definition schema_type :: "string \<Rightarrow> string \<Rightarrow> string option" where
  "schema_type tbl name = (case map_of SCHEMA tbl of None \<Rightarrow> None | Some fs \<Rightarrow> map_of fs name)"

definition int_of_text :: "string \<Rightarrow> int option" where
  "int_of_text s =
     (if take 1 s = ''-'' then map_option (\<lambda>n. - int n) (digits_value 10 0 (drop 1 s))
      else map_option int (digits_value 10 0 s))"

text \<open>
  What the sink stores for a text: the text, a double, or the time of that many seconds.  A double
  holds an integer below \<open>2 ^ 53\<close> exactly; for other texts nothing is said.
\<close>

definition stored_value :: "string option \<Rightarrow> string \<Rightarrow> bson option" where
  "stored_value ty v =
     (if ty = None then Some (BString v)
      else if ty = Some ''double'' then
        (case digits_value 10 0 v of Some n \<Rightarrow> if n < 2 ^ 53 then Some (BNumber (int n)) else None | None \<Rightarrow> None)
      else if ty = Some ''timestamp'' then map_option (\<lambda>n. BDate (n * 1000)) (int_of_text v)
      else None)"

definition field_values :: "table_change \<Rightarrow> string \<Rightarrow> string list" where
  "field_values r name = map fd_new (filter (\<lambda>f. fd_name f = name) (tc_fields r))"

text \<open>A field that occurs once in a row is stored under its name with its type.\<close>

locale document_sink =
  fixes document :: "table_change \<Rightarrow> bson"
  assumes document_doc: "is_doc (document r)"
    and document_field: "field_values r name = [v] \<Longrightarrow> stored_value (schema_type (tc_table r) name) v = Some x \<Longrightarrow>
      doc_get name (document r) = Some x"

definition ref_document :: "table_change \<Rightarrow> bson" where
  "ref_document r = BDoc (map (\<lambda>f. (fd_name f,
     case stored_value (schema_type (tc_table r) (fd_name f)) (fd_new f) of Some x \<Rightarrow> x | None \<Rightarrow> BString (fd_new f)))
     (tc_fields r))"

lemma map_of_named:
  "map fd_new (filter (\<lambda>f. fd_name f = name) fs) = [v] \<Longrightarrow>
    map_of (map (\<lambda>f. (fd_name f, g (fd_name f) (fd_new f))) fs) name = Some (g name v)"
  by (induction fs) (auto split: if_splits)

interpretation ref_sink: document_sink ref_document
proof
  fix r name v x
  assume "field_values r name = [v]" "stored_value (schema_type (tc_table r) name) v = Some x"
  then show "doc_get name (ref_document r) = Some x"
    using map_of_named [of name "tc_fields r" v
      "\<lambda>n v. case stored_value (schema_type (tc_table r) n) v of Some x \<Rightarrow> x | None \<Rightarrow> BString v"]
    by (simp add: ref_document_def field_values_def)
qed (simp add: ref_document_def)

definition stored :: "(table_change \<Rightarrow> bson) \<Rightarrow> table_change list \<Rightarrow> string \<Rightarrow> bson list" where
  "stored document rows coll = map document (filter (\<lambda>r. tc_table r = coll) rows)"

section \<open>Numbers in documents\<close>

lemma digits_decimal: "digits_value 10 0 (decimal n) = Some n"
  using decimal_digits [of 0 n "[]"] by simp

lemma int_of_decimal: "int_of_text (decimal_int z) = Some z"
proof (cases "z < 0")
  case True
  then show ?thesis by (simp add: int_of_text_def decimal_int_def digits_decimal)
next
  case False
  have "take 1 (decimal (nat z)) \<noteq> ''-''"
    using decimal_dash [of "nat z"] by (cases "decimal (nat z)") auto
  then show ?thesis using False by (simp add: int_of_text_def decimal_int_def digits_decimal)
qed

text \<open>The row of an index update.\<close>

definition index_row ::
  "indexer_lib \<Rightarrow> block \<Rightarrow> string \<Rightarrow> nat \<Rightarrow> buffer \<Rightarrow> string \<Rightarrow>
     64 word \<Rightarrow> 64 word \<Rightarrow> 64 word \<Rightarrow> 64 word \<Rightarrow> 64 word \<Rightarrow> table_change" where
  "index_row L B sig j pid name idx time minted current new =
     \<lparr>tc_table = ''events'',
      tc_pk = ''instruction::'' @ decimal j @ ''-signature::'' @ sig @ ''-index_update_v2'',
      tc_ordinal = j, tc_operation = OpCreate,
      tc_fields =
        [new_field ''program_id'' (il_b58 L pid), new_field ''instruction'' name,
         new_field ''signature'' sig, new_field ''ts'' (block_time_text B),
         new_field ''event'' ''index_update_v2'', new_field ''index'' (decimal (unat idx)),
         new_field ''ts'' (decimal (unat time)), new_field ''token_supply'' (decimal (unat minted)),
         new_field ''current_multiplier'' (il_f64 L current), new_field ''new_multiplier'' (il_f64 L new)]\<rparr>"

context document_sink
begin

lemma stored_docs: "all_docs (stored document rows)"
  by (simp add: all_docs_def stored_def list_all_iff document_doc)

lemma document_text:
  "field_values r name = [v] \<Longrightarrow> schema_type (tc_table r) name = None \<Longrightarrow> doc_get name (document r) = Some (BString v)"
  by (rule document_field [where v = v]) (simp_all add: stored_value_def)

lemma document_number:
  "field_values r name = [decimal n] \<Longrightarrow> schema_type (tc_table r) name = Some ''double'' \<Longrightarrow> n < 2 ^ 53 \<Longrightarrow>
    doc_get name (document r) = Some (BNumber (int n))"
  by (rule document_field [where v = "decimal n"]) (simp_all add: stored_value_def digits_decimal)

lemma document_time:
  "field_values r name = [decimal_int z] \<Longrightarrow> schema_type (tc_table r) name = Some ''timestamp'' \<Longrightarrow>
    doc_get name (document r) = Some (BDate (z * 1000))"
  by (rule document_field [where v = "decimal_int z"]) (simp_all add: stored_value_def int_of_decimal)

lemma index_row_fields:
  assumes "unat idx < 2 ^ 53" "unat minted < 2 ^ 53"
    "d = document (index_row L B sig j pid name idx time minted current new)"
  shows "doc_get ''event'' d = Some (BString ''index_update_v2'')" "doc_get ''signature'' d = Some (BString sig)"
    "doc_get ''program_id'' d = Some (BString (il_b58 L pid))"
    "doc_get ''index'' d = Some (BNumber (int (unat idx)))" "doc_get ''token_supply'' d = Some (BNumber (int (unat minted)))"
  unfolding assms(3)
  by (rule document_text document_number [OF _ _ assms(1)] document_number [OF _ _ assms(2)];
      simp add: field_values_def index_row_def new_field_def schema_type_def SCHEMA_def)+

lemma transaction_row_fields:
  assumes "bk_time B = Some t"
  shows "doc_get ''signature'' (document (transaction_row B i sig)) = Some (BString sig)"
    "doc_get ''block_time'' (document (transaction_row B i sig)) = Some (BDate (sint t * 1000))"
  by (rule document_text document_time; simp add: field_values_def transaction_row_def new_field_def schema_type_def
    SCHEMA_def block_time_text_def i64_text_def assms split: option.splits)+

lemma index_update_joined:
  assumes "index_row L B sig j pid name idx time minted current new \<in> set rows" "transaction_row B i sig \<in> set rows"
    and "unat idx < 2 ^ 53" "unat minted < 2 ^ 53" "bk_time B = Some t"
  shows "\<exists>d \<in> set (index_events (stored document rows)).
    number_field ''index'' d = Some (int (unat idx)) \<and> number_field ''token_supply'' d = Some (int (unat minted)) \<and>
    field ''program_id'' d = Some (BString (il_b58 L pid)) \<and> field ''signature'' d = Some (BString sig) \<and>
    date_field ''transaction.block_time'' d = Some (sint t * 1000)"
proof -
  define d where d: "d = document (index_row L B sig j pid name idx time minted current new)"
  define e where e: "e = document (transaction_row B i sig)"
  note df = index_row_fields [OF assms(3,4) d]
  note ef = transaction_row_fields [OF assms(5), of i sig, folded e]
  have "d \<in> set (stored document rows ''events'')" "e \<in> set (stored document rows ''transactions'')"
    using assms(1,2) by (force simp: stored_def d e index_row_def transaction_row_def)+
  then have "doc_set ''transaction'' e d \<in> set (index_events (stored document rows))"
    using df ef by (auto simp: index_events_def joined_def joins_def match_eq_def field_def intro!: bexI [of _ d])
  moreover have "is_doc d" unfolding d by (rule document_doc)
  ultimately show ?thesis
    using df ef
    by (intro bexI [of _ "doc_set ''transaction'' e d"])
      (simp_all add: number_field_def date_field_def field_def doc_get_set doc_get_set_other)
qed

end

section \<open>What the client reads\<close>

lemma changes_from_nth:
  "changes_from L B i txs = Inr rows \<Longrightarrow> k < length txs \<Longrightarrow>
    \<exists>rs. transaction_changes L B (i + k) (txs ! k) = Inr rs \<and> set rs \<subseteq> set rows"
proof (induction txs arbitrary: i k rows)
  case (Cons t txs)
  obtain rs more where r: "transaction_changes L B i t = Inr rs" "changes_from L B (Suc i) txs = Inr more" "rows = rs @ more"
    using Cons.prems(1) by (auto simp: bindE_eq_Inr_iff)
  show ?case
  proof (cases k)
    case 0
    then show ?thesis using r by auto
  next
    case (Suc k')
    then show ?thesis using Cons.IH [OF r(2), of k'] Cons.prems(2) r(3) by auto
  qed
qed simp

lemma list_all2_image: "list_all2 P xs ys \<Longrightarrow> x \<in> set xs \<Longrightarrow> \<exists>y \<in> set ys. P x y"
  by (induction rule: list_all2_induct) auto

lemma index_update_row_values:
  "index_update_row d = Inr r \<Longrightarrow> number_field ''index'' d = Some i \<Longrightarrow> number_field ''token_supply'' d = Some n \<Longrightarrow>
    field ''program_id'' d = Some (BString p) \<Longrightarrow> field ''signature'' d = Some (BString q) \<Longrightarrow>
    date_field ''transaction.block_time'' d = Some t \<Longrightarrow>
    r = \<lparr>IndexUpdate.index = i, program_id = p, signature = q, tokenSupply = n, ts = t\<rparr>"
  by (simp add: index_update_row_def get_number_def get_string_def get_date_def)

lemma joined_read:
  assumes "mongo_service (mongo_aggregate M) db" "all_docs db" "indexUpdates M fromTime toTime s = (Inr out, s')"
    and "d \<in> set (index_events db)" "date_field ''transaction.block_time'' d = Some t" "fromTime * 1000 \<le> t"
    and "\<forall>u. toTime = Some u \<longrightarrow> u = 0 \<or> t < u * 1000"
  shows "\<exists>r \<in> set out. index_update_row d = Inr r"
proof -
  obtain docs where docs: "mset docs = mset (filter (in_window fromTime toTime) (index_events db))"
    "list_all2 (\<lambda>d r. index_update_row d = Inr r) docs out"
    by (rule indexUpdates_docs [OF assms(1-3)])
  have "in_window fromTime toTime d" using assms(5-7)
    by (auto simp: in_window_def match_gte_def match_lt_def split: option.split)
  then have "d \<in># mset (filter (in_window fromTime toTime) (index_events db))" using assms(4) by simp
  then have "d \<in> set docs" unfolding docs(1) [symmetric] by simp
  from list_all2_image [OF docs(2) this] show ?thesis .
qed

lemma mapE_total: "\<forall>x \<in> set xs. \<exists>y. f x = Inr y \<Longrightarrow> \<exists>ys. mapE f xs = Inr ys"
  by (induction xs) auto

text \<open>On the reference service the query returns when every event has its values.\<close>

lemma indexUpdates_returns:
  assumes "mongo_aggregate M = ref_aggregate db" "all_docs db" "database s"
    and "\<forall>d \<in> set (index_events db). \<exists>r. index_update_row d = Inr r"
  shows "\<exists>out. indexUpdates M fromTime None s = (Inr out, s)"
proof -
  have m: "mongo_service (mongo_aggregate M) db" by (simp add: assms(1) ref_mongo.mongo_service_axioms)
  obtain docs where docs: "mongo_aggregate M ''events'' (index_updates_stages fromTime None) = Inr docs"
    by (simp add: assms(1) ref_aggregate_def)
  have "mset docs = mset (filter (in_window fromTime None) (index_events db))"
    by (rule index_updates_pipeline(1) [OF assms(2) mongo_service.aggregate_ok [OF m docs]])
  then have "set docs \<subseteq> set (index_events db)" by (metis filter_is_subset set_mset_mset)
  then obtain out where "mapE index_update_row docs = Inr out" using mapE_total [of docs index_update_row] assms(4) by auto
  then show ?thesis using docs assms(3)
    by (simp add: indexUpdates_def connect_def bindA_def returnA_def liftA_def)
qed

lemma tables [simp]:
  "tc_table (index_row L B sig j pid name idx time minted current new) = ''events''"
  "tc_table (transaction_row B i sig) = ''transactions''" "tc_table (balance_row L B i sig a) = ''balance_updates''"
  by (simp_all add: index_row_def transaction_row_def balance_row_def)

end
