(* ===== verification/IndexerProperties.thy ===== *)
theory IndexerProperties
  imports IndexerDatabase
begin

text \<open>
  The properties of the indexer, and the transaction their witnesses use: a program that calls
  another, which updates the index and prints the event, with one token account emptied and
  closed and another one credited.
\<close>

section \<open>A transaction\<close>

definition toy_lib :: indexer_lib where
  "toy_lib =
     \<lparr>il_b58 = hex_encode, il_unb58 = (\<lambda>s. Some (replicate 32 (of_char (hd s)))),
      il_disc = (\<lambda>n. if n = ''IndexUpdate'' then [8, 115, 122, 188, 54, 206, 122, 87]
        else if n = ''IndexUpdateV2'' then [101, 65, 57, 8, 193, 254, 16, 193] else [108, 69, 20, 26, 36, 126, 180, 89]),
      il_f64 = (\<lambda>w. decimal (unat w))\<rparr>"

definition toy_keys :: "buffer list" where
  "toy_keys = [replicate 32 3, replicate 32 4, replicate 32 7, replicate 32 9]"

definition toy_instruction :: "nat \<Rightarrow> nat \<Rightarrow> resolved_instruction" where
  "toy_instruction p h = \<lparr>wi_program_index = p, wi_accounts = [0], wi_data = [1], wi_height = Some h,
     ri_program = toy_keys ! p, ri_accounts = [replicate 32 3]\<rparr>"

definition toy_index_event :: log where
  "toy_index_event = DataLog (''Program data: '' @ b64_encode (il_disc toy_lib ''IndexUpdateV2'' @
     index_update_v2_bytes 1004505392840 1743014303 1799999 0 1))"

definition toy_inner :: call where
  "toy_inner = Call (toy_instruction 3 2) (InvokeLog ''Program 9 invoke [2]'')
     [Message (ProgramLog ''Program log: Instruction: PropagateIndex''), Message toy_index_event]
     (SuccessLog ''Program 9 success'')"

definition toy_outer :: call where
  "toy_outer = Call (toy_instruction 2 1) (InvokeLog ''Program 7 invoke [1]'')
     [Message (ProgramLog ''Program log: Instruction: ReceiveMessage''), Inner toy_inner,
      Message (UnknownLog ''Program 7 consumed 9 of 10 compute units'')]
     (SuccessLog ''Program 7 success'')"

definition toy_indexed :: "buffer \<Rightarrow> confirmed_transaction" where
  "toy_indexed sig =
     \<lparr>ct_signatures = [sig], ct_required = 1, ct_instructions = [top_of toy_outer], ct_failed = False,
      ct_inner = inner_groups 0 [toy_outer],
      ct_logs = map log_text (print_calls (PROGRAMS_WITHOUT_LOGGING toy_lib) [toy_outer]),
      ct_accounts = toy_keys,
      ct_pre = [\<lparr>tb_account_index = 0, tb_mint = ''mint'', tb_owner = ''owner'', tb_amount = ''5''\<rparr>],
      ct_post = [\<lparr>tb_account_index = 1, tb_mint = ''mint'', tb_owner = ''owner'', tb_amount = ''7''\<rparr>],
      ct_pre_lamports = [], ct_post_lamports = []\<rparr>"

lemmas toy_defs = toy_inner_def toy_outer_def toy_index_event_def toy_instruction_def toy_keys_def

lemma toy_const: "const_key toy_lib s = replicate 32 (of_char (hd s))"
  by (simp add: const_key_def toy_lib_def)

lemma toy_programs:
  "PROGRAMS_WITHOUT_LOGGING toy_lib = [replicate 32 69, replicate 32 75]"
  "SYSTEM_PROGRAMS toy_lib = [replicate 32 49, replicate 32 67, replicate 32 77]"
  "TOKEN_PROGRAM_KEY toy_lib = replicate 32 84"
  by (simp_all add: PROGRAMS_WITHOUT_LOGGING_def SYSTEM_PROGRAMS_def TOKEN_PROGRAM_KEY_def toy_const)

lemma toy_text: "il_b58 toy_lib = hex_encode"
  by (simp add: toy_lib_def)

lemma toy_text_injective: "inj (il_b58 toy_lib)"
  unfolding toy_text by (metis injI hex_decode_encode)

lemma toy_text_dash: "CHR ''-'' \<notin> set (il_b58 toy_lib a)"
proof
  assume "CHR ''-'' \<in> set (il_b58 toy_lib a)"
  then obtain b :: byte where "CHR ''-'' = hex_digit (unat b div 16) \<or> CHR ''-'' = hex_digit (unat b mod 16)"
    by (auto simp: toy_text hex_encode_def)
  moreover have "unat b < 256" using unsigned_less [of b] by simp
  then have "unat b div 16 < 16" "unat b mod 16 < 16" by auto
  ultimately show False using hex_value_digit by (auto simp: hex_value_def dest!: arg_cong [where f = hex_value])
qed

lemma toy_runs: "runs (PROGRAMS_WITHOUT_LOGGING toy_lib) (toy_indexed sig) [toy_outer]"
  by (simp add: runs_def toy_indexed_def toy_programs toy_defs print_calls_def new_log_def starts_with_def
    split_whitespace_def is_whitespace_def ends_with_def plain_def new_structured_def wrapped_def
    index_checked_def wrapped_instruction.defs resolved_instruction.defs)

definition toy_context :: "buffer \<Rightarrow> transaction_context" where
  "toy_context sig =
     \<lparr>tx_accounts = toy_keys, tx_lamports = [],
      tx_token_accounts = [(replicate 32 3, \<lparr>ta_address = replicate 32 3, ta_mint = replicate 32 109,
        ta_owner = replicate 32 111, ta_pre = Some 5, ta_post = Some 5\<rparr>)],
      tx_signers = [replicate 32 3], tx_signature = hex_encode sig\<rparr>"

lemma toy_balance: "parse_u64 ''5'' = Some 5" "parse_u64 ''7'' = Some 7"
  by (simp_all add: parse_u64_def hex_value_def)

lemma toy_pubkey: "pubkey_of_text toy_lib s = Inr (replicate 32 (of_char (hd s)))"
  by (simp add: pubkey_of_text_def toy_lib_def)

lemma toy_get_context: "get_context toy_lib (toy_indexed sig) = Inr (toy_context sig)"
  by (simp add: get_context_def build_context_def new_context_def toy_indexed_def index_checked_def toy_balance
    toy_pubkey get_flattened_instructions_def top_of_def update_accounts_def toy_programs toy_defs toy_context_def toy_text
    wrapped_def wrapped_instruction.defs)

definition toy_account :: TokenAccount where
  "toy_account = \<lparr>ta_address = replicate 32 4, ta_mint = replicate 32 109, ta_owner = replicate 32 111,
     ta_pre = Some 0, ta_post = Some 7\<rparr>"

lemma toy_token_accounts: "token_accounts toy_lib (toy_indexed sig) = Inr [toy_account]"
  by (simp add: token_accounts_def toy_indexed_def toy_keys_def index_checked_def toy_pubkey balance_of_def
    toy_balance toy_account_def)

definition toy_block :: block where
  "toy_block = \<lparr>bk_blockhash = ''hash'', bk_slot = 9, bk_time = Some 1743014303, bk_height = Some 8,
     bk_transactions = [toy_indexed [1], toy_indexed [2]]\<rparr>"

section \<open>Attribution\<close>

text \<open>
  C12. The indexer recovers the calls of a transaction from its flat instructions and log lines:
  when the lines begin with what a forest of calls prints (invocation, own messages and inner
  calls in any order, success; nothing for the silent precompiles), structuring returns exactly
  that forest, and every instruction, in the order of the flattened list, gets the lines of its own
  frame and no other.
\<close>

theorem logs_attributed:
  assumes "runs silent t cs"
  shows "\<exists>ixs. get_structured_instructions silent t = Inr ixs \<and> ixs = map (structured_call silent) cs \<and>
    map si_logs (flattened ixs) = map (\<lambda>c. Some (own_lines silent c)) (all_calls cs)"
proof -
  have "si_logs (structured_call silent c) = Some (own_lines silent c)" for c by (cases c) simp
  then show ?thesis using structured_run [OF assms] by (simp add: flattened_all)
qed

theorem logs_attributed_witness:
  "\<exists>ixs. get_structured_instructions (PROGRAMS_WITHOUT_LOGGING toy_lib) (toy_indexed [1]) = Inr ixs \<and>
    map si_logs (flattened ixs) =
      [Some [InvokeLog ''Program 7 invoke [1]'', ProgramLog ''Program log: Instruction: ReceiveMessage'',
         UnknownLog ''Program 7 consumed 9 of 10 compute units'', SuccessLog ''Program 7 success''],
       Some [InvokeLog ''Program 9 invoke [2]'', ProgramLog ''Program log: Instruction: PropagateIndex'', toy_index_event,
         SuccessLog ''Program 9 success'']]"
proof -
  have "map (\<lambda>c. Some (own_lines (PROGRAMS_WITHOUT_LOGGING toy_lib) c)) (all_calls [toy_outer]) =
      [Some [InvokeLog ''Program 7 invoke [1]'', ProgramLog ''Program log: Instruction: ReceiveMessage'',
         UnknownLog ''Program 7 consumed 9 of 10 compute units'', SuccessLog ''Program 7 success''],
       Some [InvokeLog ''Program 9 invoke [2]'', ProgramLog ''Program log: Instruction: PropagateIndex'', toy_index_event,
         SuccessLog ''Program 9 success'']]"
    by (simp add: all_calls_def toy_outer_def toy_inner_def toy_instruction_def toy_keys_def own_lines_def toy_programs)
  then show ?thesis using logs_attributed [OF toy_runs [of "[1]"]] by auto
qed

lemma toy_name:
  "parse_logs_for_instruction_name (Some (InvokeLog ''Program 9 invoke [2]'' # ProgramLog ''Program log: Instruction: PropagateIndex'' # ls)) =
    Some ''PropagateIndex''"
  by (simp add: parse_logs_for_instruction_name_def capture.simps starts_with_def)

section \<open>From the chain to the client\<close>

text \<open>
  C11. From the chain to the client.  An index update on chain, the event \<open>IndexUpdateV2\<close>, is read by
  the SDK when its transaction is in an indexed block of known time, with complete log lines (those
  of a forest of calls, none truncated); the event is the first one its instruction prints; its
  program is neither a system nor a silent program; the index and the supply are below \<open>2 ^ 53\<close> and the
  multipliers are numbers; the rows of the block are stored by the sink under the schema; and the
  service aggregates as documented.  Then the result of \<open>indexUpdates\<close> over any window that contains
  the time of the block (half open, as in the query; no upper bound or zero is none) holds the index,
  the token supply, the program, the signature and the time of the block.
\<close>

theorem index_update_reaches_client:
  assumes "document_sink document" "mongo_service (mongo_aggregate M) (stored document rows)"
    and "map_transfer_events_to_db L B = Inr block_rows" "set block_rows \<subseteq> set rows"
    and "k < length (bk_transactions B)" "bk_transactions B ! k = t"
    and run: "runs (PROGRAMS_WITHOUT_LOGGING L) t cs"
    and call: "j < length (all_calls cs)" "all_calls cs ! j = Call ri opn items suc"
    and "program_key ri \<notin> set (SYSTEM_PROGRAMS L)" "ri_program ri \<notin> set (PROGRAMS_WITHOUT_LOGGING L)"
    and "messages_of items = earlier @ DataLog (''Program data: '' @ b64_encode (il_disc L ''IndexUpdateV2'' @
      index_update_v2_bytes idx time minted current new)) # later"
    and "\<forall>l \<in> set (opn # earlier). log_update L l = None"
    and "length (il_disc L ''IndexUpdateV2'') = 8" "il_disc L ''IndexUpdate'' \<noteq> il_disc L ''IndexUpdateV2''"
    and "\<not> is_nan current" "\<not> is_nan new" and small: "unat idx < 2 ^ 53" "unat minted < 2 ^ 53"
    and block_time: "bk_time B = Some bt" "fromTime \<le> sint bt"
    and upper: "\<forall>u. toTime = Some u \<longrightarrow> u = 0 \<or> sint bt < u"
    and result: "indexUpdates M fromTime toTime s = (Inr out, s')"
  shows "\<lparr>IndexUpdate.index = int (unat idx), program_id = il_b58 L (program_key ri), signature = il_b58 L (hd (ct_signatures t)),
    tokenSupply = int (unat minted), ts = sint bt * 1000\<rparr> \<in> set out"
proof -
  define name where "name = (case parse_logs_for_instruction_name (Some (opn # messages_of items @ [suc])) of
    Some n \<Rightarrow> n | None \<Rightarrow> [])"
  obtain rs where rs: "transaction_changes L B k t = Inr rs" "set rs \<subseteq> set rows"
    using changes_from_nth [of L B 0 "bk_transactions B" block_rows k] assms(3-6)
    by (auto simp: map_transfer_events_to_db_def)
  obtain c accounts where c: "get_context L t = Inr c" "token_accounts L t = Inr accounts"
    using indexed_transaction [OF rs(1)] run by (auto simp: runs_def)
  note sig = context_signature [OF c(1)]
  have "index_row L B (tx_signature c) j (program_key ri) name idx time minted current new \<in> set rs"
    using index_update_v2_row [OF run c assms(8-17), of B k] rs(1) by (simp add: index_row_def name_def)
  moreover have "transaction_row B k (tx_signature c) \<in> set rs"
    using transaction_changes_run [OF run c, of B k] rs(1) by auto
  ultimately obtain d where d: "d \<in> set (index_events (stored document rows))"
    "number_field ''index'' d = Some (int (unat idx))" "number_field ''token_supply'' d = Some (int (unat minted))"
    "field ''program_id'' d = Some (BString (il_b58 L (program_key ri)))"
    "field ''signature'' d = Some (BString (tx_signature c))"
    "date_field ''transaction.block_time'' d = Some (sint bt * 1000)"
    using document_sink.index_update_joined [OF assms(1) _ _ small block_time(1)] rs(2) by blast
  obtain r where "r \<in> set out" "index_update_row d = Inr r"
    using joined_read [OF assms(2) document_sink.stored_docs [OF assms(1)] result d(1,6)] block_time(2) upper by auto
  then show ?thesis using index_update_row_values [OF _ d(2-6)] sig by auto
qed

definition toy_single :: block where
  "toy_single = toy_block\<lparr>bk_transactions := [toy_indexed [1]]\<rparr>"

definition toy_rows :: "table_change list" where
  "toy_rows =
     [balance_row toy_lib toy_single 0 ''01'' toy_account,
      index_row toy_lib toy_single ''01'' 1 (replicate 32 9) ''PropagateIndex'' 1004505392840 1743014303 1799999 0 1,
      transaction_row toy_single 0 ''01'']"

lemma toy_event_row:
  "event_row toy_lib B sig j (replicate 32 7) (Some (own_lines (PROGRAMS_WITHOUT_LOGGING toy_lib) toy_outer)) = None"
  "event_row toy_lib B sig j (replicate 32 9) (Some (own_lines (PROGRAMS_WITHOUT_LOGGING toy_lib) toy_inner)) =
    Some (index_row toy_lib B sig j (replicate 32 9) ''PropagateIndex'' 1004505392840 1743014303 1799999 0 1)"
proof -
  show "event_row toy_lib B sig j (replicate 32 7) (Some (own_lines (PROGRAMS_WITHOUT_LOGGING toy_lib) toy_outer)) = None"
    by (simp add: event_row_def toy_programs own_lines_def toy_outer_def toy_instruction_def toy_keys_def parse_logs_for_events_def)
  have "log_update toy_lib toy_index_event = Some (IndexUpdateV2U 1004505392840 1743014303 1799999 0 1)"
    unfolding toy_index_event_def by (rule log_update_v2) (simp_all add: toy_lib_def is_nan_def)
  then show "event_row toy_lib B sig j (replicate 32 9) (Some (own_lines (PROGRAMS_WITHOUT_LOGGING toy_lib) toy_inner)) =
    Some (index_row toy_lib B sig j (replicate 32 9) ''PropagateIndex'' 1004505392840 1743014303 1799999 0 1)"
    by (simp add: event_row_def toy_programs own_lines_def toy_inner_def toy_instruction_def toy_keys_def
      parse_logs_for_events_def toy_name index_row_def u64_text_def)
qed

lemma toy_single_rows: "map_transfer_events_to_db toy_lib toy_single = Inr toy_rows"
proof -
  have b: "bk_transactions toy_single = [toy_indexed [1]]" by (simp add: toy_single_def)
  have h: "hex_encode [1] = ''01''" by code_simp
  have c: "all_calls [toy_outer] = [toy_outer, toy_inner]" by (simp add: all_calls_def toy_outer_def toy_inner_def)
  have i: "program_key (si_instruction (structured_call silent toy_outer)) = replicate 32 7"
    "program_key (si_instruction (structured_call silent toy_inner)) = replicate 32 9"
    "si_logs (structured_call silent toy_outer) = Some (own_lines silent toy_outer)"
    "si_logs (structured_call silent toy_inner) = Some (own_lines silent toy_inner)" for silent
    by (simp_all add: program_key_def to_pubkey_def toy_outer_def toy_inner_def toy_instruction_def toy_keys_def)
  show ?thesis
    by (simp add: map_transfer_events_to_db_def b transaction_changes_run [OF toy_runs toy_get_context toy_token_accounts]
      c i toy_event_row toy_rows_def toy_context_def h toy_account_def)
qed

theorem index_update_reaches_client_witness:
  "\<exists>M out. mongo_service (mongo_aggregate M) (stored ref_document toy_rows) \<and>
    indexUpdates M 1743014303 None \<lparr>database = True\<rparr> = (Inr out, \<lparr>database = True\<rparr>) \<and>
    \<lparr>IndexUpdate.index = 1004505392840, program_id = hex_encode (replicate 32 9), signature = ''01'',
      tokenSupply = 1799999, ts = 1743014303000\<rparr> \<in> set out"
proof -
  let ?db = "stored ref_document toy_rows"
  let ?r = "index_row toy_lib toy_single ''01'' 1 (replicate 32 9) ''PropagateIndex'' 1004505392840 1743014303 1799999 0 1"
  let ?e = "transaction_row toy_single 0 ''01''"
  define M where "M = \<lparr>connection_string = ''uri'', mongo_connect = (\<lambda>_. Inr ()), mongo_aggregate = ref_aggregate ?db\<rparr>"
  have agg: "mongo_aggregate M = ref_aggregate ?db" by (simp add: M_def)
  have m: "mongo_service (mongo_aggregate M) ?db" by (simp add: M_def ref_mongo.mongo_service_axioms)
  have t: "bk_time toy_single = Some 1743014303" by (simp add: toy_single_def toy_block_def)
  have n: "unat (1004505392840 :: 64 word) < 2 ^ 53" "unat (1799999 :: 64 word) < 2 ^ 53" by simp_all
  have "index_events ?db = [doc_set ''transaction'' (ref_document ?e) (ref_document ?r)]"
    using ref_sink.index_row_fields [OF n refl] ref_sink.transaction_row_fields [OF t]
    by (simp add: index_events_def joined_def joins_def stored_def toy_rows_def match_eq_def field_def)
  moreover obtain d where "d \<in> set (index_events ?db)" "number_field ''index'' d = Some 1004505392840"
    "number_field ''token_supply'' d = Some 1799999"
    "field ''program_id'' d = Some (BString (il_b58 toy_lib (replicate 32 9)))" "field ''signature'' d = Some (BString ''01'')"
    "date_field ''transaction.block_time'' d = Some (sint (1743014303 :: 64 word) * 1000)"
    using ref_sink.index_update_joined [of toy_lib toy_single "''01''" 1 "replicate 32 9" "''PropagateIndex''" 1004505392840
      1743014303 1799999 0 1 toy_rows 0, OF _ _ n t] by (auto simp: toy_rows_def)
  ultimately have "\<forall>d \<in> set (index_events ?db). \<exists>r. index_update_row d = Inr r"
    by (auto simp: index_update_row_def get_number_def get_string_def get_date_def)
  then obtain out where out: "indexUpdates M 1743014303 None \<lparr>database = True\<rparr> = (Inr out, \<lparr>database = True\<rparr>)"
    using indexUpdates_returns [OF agg ref_sink.stored_docs, of "\<lparr>database = True\<rparr>" 1743014303] by auto
  have calls: "all_calls [toy_outer] = [toy_outer, toy_inner]"
    by (simp add: all_calls_def toy_outer_def toy_inner_def)
  have key: "program_key (toy_instruction 3 2) = replicate 32 9" "ri_program (toy_instruction 3 2) = replicate 32 9"
    by (simp_all add: program_key_def to_pubkey_def toy_instruction_def toy_keys_def)
  have h: "hex_encode (hd (ct_signatures (toy_indexed [1]))) = ''01''"
    unfolding toy_indexed_def by (simp, code_simp)
  have "\<lparr>IndexUpdate.index = 1004505392840, program_id = hex_encode (replicate 32 9), signature = ''01'',
      tokenSupply = 1799999, ts = 1743014303000\<rparr> \<in> set out"
    using index_update_reaches_client [OF ref_sink.document_sink_axioms m toy_single_rows subset_refl _ _
        toy_runs [of "[1]"],
      where k = 0 and j = 1 and ri = "toy_instruction 3 2" and opn = "InvokeLog ''Program 9 invoke [2]''"
        and items = "[Message (ProgramLog ''Program log: Instruction: PropagateIndex''), Message toy_index_event]"
        and suc = "SuccessLog ''Program 9 success''"
        and earlier = "[ProgramLog ''Program log: Instruction: PropagateIndex'']" and later = "[]"
        and idx = 1004505392840 and time = 1743014303 and minted = 1799999 and current = 0 and new = 1
        and bt = 1743014303 and fromTime = 1743014303 and toTime = None and s = "\<lparr>database = True\<rparr>" and out = out and s' = "\<lparr>database = True\<rparr>"]
    by (simp add: calls key toy_programs toy_text toy_context_def is_nan_def toy_inner_def t out h toy_single_def)
      (simp add: toy_index_event_def toy_lib_def toy_block_def)
  then show ?thesis using m out by blast
qed

section \<open>Keys\<close>

text \<open>
  C25. No two rows of a block have the same table and key, so the sink can insert each: balance
  updates differ in the address, events in the position of their instruction, and rows of
  different transactions in the signature, which no address, number or suffix can imitate because
  base 58 has no dash.
\<close>

theorem rows_distinct:
  assumes "map_transfer_events_to_db L B = Inr rows"
    and "inj (il_b58 L)" "\<And>a. CHR ''-'' \<notin> set (il_b58 L a)"
    and "distinct (map (hd \<circ> ct_signatures) (bk_transactions B))"
  shows "distinct (map (\<lambda>r. (tc_table r, tc_pk r)) rows)"
  using changes_distinct [OF assms(2,3) _ assms(4)] assms(1)
  by (auto simp: map_transfer_events_to_db_def row_key_def [abs_def])

lemma toy_rows: "\<exists>rows. map_transfer_events_to_db toy_lib toy_block = Inr rows \<and> transaction_row toy_block 1 ''02'' \<in> set rows"
proof -
  have "bk_transactions toy_block = [toy_indexed [1], toy_indexed [2]]" by (simp add: toy_block_def)
  moreover have "hex_encode [2] = ''02''" by code_simp
  ultimately show ?thesis
    by (simp add: map_transfer_events_to_db_def transaction_changes_run [OF toy_runs toy_get_context toy_token_accounts]
      toy_context_def)
qed

theorem rows_distinct_witness:
  "\<exists>rows. map_transfer_events_to_db toy_lib toy_block = Inr rows \<and> rows \<noteq> [] \<and>
    distinct (map (\<lambda>r. (tc_table r, tc_pk r)) rows)"
proof -
  obtain rows where r: "map_transfer_events_to_db toy_lib toy_block = Inr rows" "rows \<noteq> []"
    using toy_rows by (metis empty_iff empty_set)
  have "distinct (map (\<lambda>r. (tc_table r, tc_pk r)) rows)"
    by (rule rows_distinct [OF r(1) toy_text_injective toy_text_dash]) (simp add: toy_block_def toy_indexed_def)
  then show ?thesis using r by blast
qed

section \<open>Balances\<close>

text \<open>
  C40. An account that holds no token after the transaction because it was closed has no balance
  update: whatever its balance before, no row of the transaction is about an address that is not
  among the balances after it, so the last balance recorded for it stays.
\<close>

theorem closed_account_balance_kept:
  assumes "transaction_changes L B i t = Inr rows" "inj (il_b58 L)"
    and "\<forall>b \<in> set (ct_post t). ct_accounts t ! tb_account_index b \<noteq> closed"
  shows "\<forall>r \<in> set rows. tc_table r = ''balance_updates'' \<longrightarrow> new_field ''pubkey'' (il_b58 L closed) \<notin> set (tc_fields r)"
proof (intro ballI impI)
  fix r assume r: "r \<in> set rows" "tc_table r = ''balance_updates''"
  have "rows \<noteq> []" using r(1) by auto
  then obtain c accounts ixs last where "get_context L t = Inr c" and a: "token_accounts L t = Inr accounts"
    and last: "last = [] \<or> last = event_rows L B (tx_signature c) 0 ixs @ [transaction_row B i (tx_signature c)]"
    and rows: "rows = map (balance_row L B i (tx_signature c)) (filter (\<lambda>a. ta_pre a \<noteq> ta_post a) accounts) @ last"
    using transaction_changes_cases [OF assms(1)] by blast
  have "r \<notin> set last" using last r(2) event_rows_key by (auto simp: transaction_row_def)
  then obtain x where x: "x \<in> set accounts" "r = balance_row L B i (tx_signature c) x" using rows r(1) by auto
  have "ta_address x \<in> addresses (ct_accounts t) (ct_post t)"
    using token_accounts_addresses(2) [OF a] x(1) by (metis image_eqI list.set_map)
  then have "ta_address x \<noteq> closed" using assms(3) by (auto simp: addresses_def)
  then show "new_field ''pubkey'' (il_b58 L closed) \<notin> set (tc_fields r)"
    using assms(2) by (auto simp: x(2) balance_row_def new_field_def inj_eq)
qed

theorem closed_account_balance_kept_witness:
  "\<exists>rows. transaction_changes toy_lib toy_block 0 (toy_indexed [1]) = Inr rows \<and> rows \<noteq> [] \<and>
    balance_of (hd (ct_pre (toy_indexed [1]))) = 5 \<and>
    (\<forall>r \<in> set rows. tc_table r = ''balance_updates'' \<longrightarrow>
      new_field ''pubkey'' (il_b58 toy_lib (ct_accounts (toy_indexed [1]) ! 0)) \<notin> set (tc_fields r))"
proof -
  obtain rows where r: "transaction_changes toy_lib toy_block 0 (toy_indexed [1]) = Inr rows" "rows \<noteq> []"
    using transaction_changes_run [OF toy_runs toy_get_context toy_token_accounts] by auto
  have "\<forall>b \<in> set (ct_post (toy_indexed [1])). ct_accounts (toy_indexed [1]) ! tb_account_index b \<noteq>
      ct_accounts (toy_indexed [1]) ! 0"
    by (simp add: toy_indexed_def toy_keys_def)
  from closed_account_balance_kept [OF r(1) toy_text_injective this]
  show ?thesis using r by (simp add: toy_indexed_def balance_of_def toy_balance)
qed

end
