(* ===== verification/CursorTool.thy ===== *)
theory CursorTool
  imports Services
begin

text \<open>
  The operator's tool that repairs the cursor of the database sink, \<open>substreams/tooling\<close>
  (\<open>main.go\<close>, \<open>mongo/mongo.go\<close>, \<open>solana/rpc.go\<close>).  Arguments are the hash of the output module, the
  answers of the database and of the node, and the sink's own reading and writing of a cursor.  A
  Go error is its text; \<open>Fatal\<close> ends the command with it.  Member names of JSON are matched exactly.
\<close>

section \<open>Cursors\<close>

record block_ref =
  br_id :: string
  br_num :: "64 word"

record sink_cursor =
  cu_block :: block_ref
  cu_head :: block_ref
  cu_lib :: block_ref

record 'db cursor_services =
  output_module_hash :: "string + string"
  cursor_get :: "'db \<Rightarrow> string \<Rightarrow> string + sink_cursor"
  cursor_put :: "'db \<Rightarrow> string \<Rightarrow> sink_cursor \<Rightarrow> string + 'db"
  newest_transaction :: "'db \<Rightarrow> string + (nat option \<times> nat option)"
  newest_cursor :: "'db \<Rightarrow> string + string option"
  rpc_block :: "64 word \<Rightarrow> string + json"

definition LoadCursor :: "('db, 'x) cursor_services_scheme \<Rightarrow> 'db \<Rightarrow> string + (string \<times> sink_cursor)" where
  "LoadCursor S db =
     bindE (output_module_hash S) (\<lambda>hash. bindE (cursor_get S db hash) (\<lambda>c. Inr (hash, c)))"

definition moved_cursor :: "64 word \<Rightarrow> string \<Rightarrow> sink_cursor \<Rightarrow> sink_cursor" where
  "moved_cursor num block_hash c =
     (let latest = \<lparr>br_id = block_hash, br_num = num\<rparr>
      in c\<lparr>cu_block := latest, cu_head := latest, cu_lib := \<lparr>br_id = br_id (cu_lib c), br_num = num - 32\<rparr>\<rparr>)"

definition WriteCursor ::
  "('db, 'x) cursor_services_scheme \<Rightarrow> 'db \<Rightarrow> 64 word \<Rightarrow> string \<Rightarrow> string \<Rightarrow> string + ((string \<times> sink_cursor) \<times> 'db)" where
  "WriteCursor S db num block_hash target =
     bindE (output_module_hash S) (\<lambda>hash.
     bindE (cursor_get S db (if target = [] then hash else target)) (\<lambda>c.
     let c' = moved_cursor num block_hash c
     in bindE (cursor_put S db hash c') (\<lambda>db'. Inr ((hash, c'), db'))))"

text \<open>
  A number the database holds is a double and is read as an unsigned integer, a missing one is
  zero; the height is read and dropped.
\<close>

definition decoded_number :: "nat option \<Rightarrow> 64 word" where
  "decoded_number x = (case x of Some n \<Rightarrow> word_of_nat n | None \<Rightarrow> 0)"

definition GetHighestBlockHeight :: "('db, 'x) cursor_services_scheme \<Rightarrow> 'db \<Rightarrow> string + (64 word \<times> 64 word)" where
  "GetHighestBlockHeight S db =
     bindE (newest_transaction S db) (\<lambda>(height, slot). Inr (decoded_number height, decoded_number slot))"

definition GetLatestCursor :: "('db, 'x) cursor_services_scheme \<Rightarrow> 'db \<Rightarrow> string + string" where
  "GetLatestCursor S db =
     bindE (newest_cursor S db) (\<lambda>x. Inr (case x of Some i \<Rightarrow> i | None \<Rightarrow> []))"

text \<open>Decoding into a struct: \<open>null\<close> and missing members leave the zero value, another type is an error.\<close>

definition member_error :: "json option \<Rightarrow> string option" where
  "member_error x = (case x of None \<Rightarrow> None | Some JNull \<Rightarrow> None
     | Some (JObject fs) \<Rightarrow> Some ''RPC error'' | Some _ \<Rightarrow> Some ''unmarshaling response'')"

definition member_text :: "json option \<Rightarrow> string + string" where
  "member_text x = (case x of None \<Rightarrow> Inr [] | Some JNull \<Rightarrow> Inr []
     | Some (JString s) \<Rightarrow> Inr s | Some _ \<Rightarrow> Inl ''unmarshaling block result'')"

definition block_result :: "json option \<Rightarrow> string + string" where
  "block_result x = (case x of
     Some (JObject gs) \<Rightarrow> bindE (member_text (map_of gs ''blockhash'')) (\<lambda>h.
       if h = [] then Inl ''empty blockhash in response'' else Inr h)
   | Some JNull \<Rightarrow> Inl ''empty blockhash in response''
   | _ \<Rightarrow> Inl ''unmarshaling block result'')"

lemma block_result_text: "block_result x = Inr h \<Longrightarrow> h \<noteq> []"
  by (auto simp: block_result_def bindE_eq_Inr_iff split: option.splits json.splits if_splits)

definition read_block :: "json \<Rightarrow> string + string" where
  "read_block answer = (case answer of
     JObject fs \<Rightarrow> (case member_error (map_of fs ''error'') of Some e \<Rightarrow> Inl e | None \<Rightarrow> block_result (map_of fs ''result''))
   | JNull \<Rightarrow> block_result None
   | _ \<Rightarrow> Inl ''unmarshaling response'')"

lemma read_block_text: "read_block j = Inr h \<Longrightarrow> h \<noteq> []"
  by (cases j) (auto simp: read_block_def dest: block_result_text split: option.splits)

definition GetBlockHash :: "('db, 'x) cursor_services_scheme \<Rightarrow> 64 word \<Rightarrow> string + string" where
  "GetBlockHash S slot = bindE (rpc_block S slot) read_block"

definition write_cursor_auto ::
  "('db, 'x) cursor_services_scheme \<Rightarrow> 'db \<Rightarrow> string + ((string \<times> sink_cursor) \<times> 'db)" where
  "write_cursor_auto S db =
     bindE (GetHighestBlockHeight S db) (\<lambda>(_, slot).
     let latestSlot = slot + 1 in
     bindE (GetBlockHash S latestSlot) (\<lambda>blockHash.
     bindE (GetLatestCursor S db) (\<lambda>cursorHash.
       WriteCursor S db latestSlot blockHash cursorHash)))"

section \<open>Where the cursor ends\<close>

text \<open>
  A cursor written automatically stands under the hash of the current module, whatever the hash of
  the one it was made from, at the slot after the newest transaction: it names a block the node
  knows, so a skipped slot stops the command instead of moving the cursor.
\<close>

lemma write_cursor_auto_position:
  assumes "write_cursor_auto S db = Inr ((hash, c), db')"
  shows "output_module_hash S = Inr hash \<and> cursor_put S db hash c = Inr db' \<and>
    (\<exists>height slot. newest_transaction S db = Inr (height, slot) \<and>
      br_num (cu_block c) = decoded_number slot + 1 \<and> cu_head c = cu_block c \<and>
      br_num (cu_lib c) = decoded_number slot - 31 \<and>
      GetBlockHash S (decoded_number slot + 1) = Inr (br_id (cu_block c)) \<and> br_id (cu_block c) \<noteq> [])"
proof -
  obtain height slot h k where a: "newest_transaction S db = Inr (height, slot)"
    "GetBlockHash S (decoded_number slot + 1) = Inr h"
    "WriteCursor S db (decoded_number slot + 1) h k = Inr ((hash, c), db')"
    using assms by (auto simp: write_cursor_auto_def GetHighestBlockHeight_def bindE_eq_Inr_iff Let_def split: prod.splits)
  have "h \<noteq> []" using a(2)
    by (auto simp: GetBlockHash_def bindE_eq_Inr_iff dest: read_block_text)
  then show ?thesis using a
    by (auto simp: WriteCursor_def moved_cursor_def bindE_eq_Inr_iff Let_def)
qed

end
