(* ===== verification/Spec2Isabelle.thy ===== *)
theory Spec2Isabelle
  imports MerkleProperties SdkProperties YieldProperties ServiceProperties EarnProgramProperties
    CliProperties Fireblocks Switchboard Logger IndexerProperties CursorTool
begin

text \<open>
  A verification library for \<open>solana-m\<close>, the $M token on Solana.

  \<^bold>\<open>The system.\<close>  The earn program (\<open>programs/earn\<close>) owns the mint of $M, a token of the 2022 token
  program whose accounts start frozen.  The portal propagates an index and a Merkle root of the
  earners listed on Ethereum; the index becomes the multiplier of the mint, and an account is thawed
  when its owner proves to be a leaf of the root and frozen again when its owner proves not to be.
  The SDK (\<open>sdk/src\<close>) builds the trees and proofs, reads the accounts of the extension programs
  and computes claims from the history of the index.  That history is written by a substream
  (\<open>substreams/graph\<close>), which turns the log lines of transactions into rows of a database the SDK
  queries.  The services (\<open>services\<close>) use the SDK: the yield bot distributes yield to earners, the
  command line tools set up mints and register earners, a feed publishes the rate.

  \<^bold>\<open>Conventions.\<close>  Theory \<open>Prelude\<close> holds the buffers, the error sums with \<open>bindE\<close> and \<open>mapE\<close>, array
  reads with their out-of-range behaviour and the list lemmas; \<open>JsRuntime\<close> and \<open>Base64\<close> what the
  code uses of its language on bytes and texts; \<open>Action\<close> asynchronous methods as functions from a
  state to a result and a state that an exception does not roll back.  A thrown exception, a Rust
  error and a panic are values.  Code outside the repository is an argument: web3.js and Anchor
  (\<open>Web3\<close>), bn.js (locale \<open>bignum\<close>), the accounts coder (\<open>borsh_coder\<close>, \<open>exact_coder\<close>), MongoDB
  (\<open>mongo_service\<close>), the sink (\<open>document_sink\<close>), the token program (\<open>token_2022\<close>, \<open>mint_program\<close>), Keccak
  (a function on bytes; soundness asks that it does not collide on the inputs at hand).  Each of
  these locales states documented behaviour and is interpreted on a reference definition;
  \<open>level_builder\<close> and \<open>batching\<close> are contracts between components of the repository, interpreted on the
  code's own definitions.
\<close>

text \<open>
  \<^bold>\<open>Merkle trees.\<close>  \<open>HashTree\<close> is the interface of a tree of levels; \<open>Merkle\<close> is \<open>sdk/src/merkle.ts\<close>
  method by method; \<open>MerkleState\<close>, \<open>MerkleInclusion\<close>, \<open>MerkleSound\<close>, \<open>MerkleExclusion\<close> prove the state
  invariant, completeness and soundness of the proofs, with the cases where the code's
  comparison of buffers or the stale duplicate of \<open>addLeaf\<close> breaks them; \<open>EarnMerkle\<close> is the
  on-chain verifier \<open>programs/earn/src/utils/merkle_proof.rs\<close> with its \<open>u64\<close> arithmetic, which agrees
  with the SDK for proofs of at most 64 elements.  Properties: \<open>MerkleProperties\<close>, over the trees
  built by the constructor, removals and the safe additions (\<open>client_tree\<close>): additions to an emptied
  tree and to an odd number of at least three leaves are left out, because their results keep hashes
  of leaves that are not there.

  \<^bold>\<open>The earn program.\<close>  \<open>Float64\<close> has the doubles of the multiplier as multiples of \<open>2 ^ -92\<close> (fine
  enough for every quotient of a \<open>u64\<close> by \<open>1e12\<close>, whose last bit is at least that); \<open>TokenProgram\<close> the ledger;
  \<open>EarnProgram\<close> the six handlers with the account constraints of their \<open>Accounts\<close> structs;
  \<open>EarnMigrate\<close> the build of \<open>initialize\<close> with the feature \<open>migrate\<close>; \<open>Conversion\<close> the conversions of
  \<open>utils/conversion.rs\<close>; \<open>EarnRun\<close> the runs, in which any instruction and any step of others may
  follow (\<open>earn_run\<close>), with the invariants by rule induction.  Properties: \<open>EarnProgramProperties\<close>.

  \<^bold>\<open>The SDK.\<close>  \<open>Idl\<close> has the interface descriptions as data and their Borsh encoding, whose nesting
  is bounded by 5 (the types of the programs nest at most four deep); \<open>MExtIdl\<close> is
  \<open>idl/m_ext.ts\<close> entry by entry; \<open>Accounts\<close>, \<open>Managers\<close>, \<open>Transactions\<close>, \<open>EvmCaller\<close>, \<open>EarnAuth\<close> are the
  files \<open>accounts.ts\<close>, \<open>earn_manager.ts\<close> with \<open>earner.ts\<close>, \<open>transaction.ts\<close>, \<open>evm_caller.ts\<close>, \<open>earn_auth.ts\<close>; \<open>Mongo\<close>
  and \<open>Db\<close> are the queries of \<open>db.ts\<close>; \<open>Logger\<close> is \<open>logger.ts\<close>.  \<open>IdlTypes\<close> proves that decoded values
  have their declared types and that the layout of the global account is chosen by its own variant;
  \<open>EarnClaims\<close> and \<open>EarnRewards\<close> bound the claims and read back the reward
  logs.  Bounds: integers of a \<open>number\<close> are exact below \<open>2 ^ 53\<close>, the product by 1.1 below \<open>2 ^ 46\<close>
  units, \<open>multiplier_to_index\<close> below \<open>2 ^ 52\<close>.  Properties: \<open>SdkProperties\<close>, \<open>EarnProperties\<close>, \<open>DbProperties\<close>.

  \<^bold>\<open>The services.\<close>  \<open>Services\<close> is \<open>services/shared\<close>; \<open>YieldBot\<close>, \<open>YieldRun\<close> are \<open>yield-bot/main.ts\<close>, with
  batches of ten and three attempts to send, as in the code, and a state that records what the network
  accepted, on which a read of the multisig depends; \<open>YieldSending\<close> has the lemmas on batches,
  signatures and reports; \<open>Cli\<close> and \<open>Fireblocks\<close> are \<open>cli/main.ts\<close> and \<open>cli/fb.ts\<close>; \<open>Switchboard\<close> is
  \<open>switchboard/index.ts\<close>.  Properties: \<open>ServiceProperties\<close>, \<open>YieldProperties\<close>, \<open>CliProperties\<close>; the last
  one composes the tool with the earn program: which mints and proofs it sends are accepted.

  \<^bold>\<open>The indexer.\<close>  \<open>SubstreamLogs\<close> is the structuring of instructions and log lines
  (\<open>substream-utils/src/log.rs\<close>, \<open>instruction.rs\<close>), a stack machine over the two flat lists;
  \<open>SubstreamTrees\<close> states what it is for: calls that print nested lines are recovered from them;
  \<open>Indexer\<close> is the context of a transaction and its token accounts (\<open>transaction.rs\<close>, \<open>utils.rs\<close>);
  \<open>IndexerRows\<close> the events and the rows (\<open>utils.rs\<close>, \<open>events.rs\<close>, \<open>lib.rs\<close>); \<open>IndexerFacts\<close> their keys and
  attribution; \<open>IndexerDatabase\<close> the documents under \<open>db/schema.json\<close> and what the SDK reads of
  them; \<open>CursorTool\<close> the repair tool of the sink's cursor.  Properties: \<open>IndexerProperties\<close>, of which
  one goes from the program's log line to the result of the SDK's query.
\<close>

text \<open>
  \<^bold>\<open>Recursion.\<close>  Every loop of the code but one is a total function: structural recursion over the
  list it walks or the number of rounds it has (the levels of a tree), or a measure (the length of
  the rest when a text is split, the number of open instructions in the structuring, the length of a
  level in the building of a tree).  The batches of the yield bot never end for a size of zero, so
  \<open>batches\<close> is a partial function, proved to return for every positive size.  No definition has fuel except the nesting bound of the Borsh encoding, where exhaustion is a
  failed encoding and the round trips show that 5 is enough.

  \<^bold>\<open>Not modelled.\<close>  The migration script only sets Anchor's provider.  The tests exercise the system.
  Of the substream the generated protobuf code, the instructions of the system program and the
  accessors of log texts that the indexer never calls.  Of the earn program rent, lamports and
  the order in which Anchor reports several violated constraints.  Of the services the layout
  of log lines.  The text of a double (\<open>Display\<close>) is an argument of the indexer.  Hash maps that the
  code walks are lists in the order of insertion, and the properties do not depend on the
  order.  The order of documents of the same block height is left open, as MongoDB leaves it.
\<close>

end
